(* ===== verification/Prelude.thy ===== *)
theory Prelude
  imports Main "HOL-Library.Word" "HOL-Library.Sublist"
begin

text \<open>
  Shared vocabulary of the development: the machine types of the Go code, the outcome of a Go
  function (a value, a returned \<open>error\<close>, or a panic / \<open>log.Fatal\<close>), the string routines of the
  Go standard library the code uses (\<open>strings.Split\<close>, \<open>strings.SplitN\<close>, \<open>strings.Contains\<close>,
  \<open>fmt.Sprintf\<close> of integers) and generic lemmas about them.  A Go \<open>string\<close> is a sequence of
  bytes, so it is a HOL \<open>string\<close> (a list of 8-bit characters).
\<close>

unbundle bit_operations_syntax

named_theorems outcome_simps \<open>inversion of outcomes of composed operations\<close>

section \<open>Machine types\<close>

type_synonym byte = "8 word"
type_synonym u16 = "16 word"
type_synonym u32 = "32 word"
type_synonym u64 = "64 word"

lemma unat_of_nat_u64: "n < 2 ^ 64 \<Longrightarrow> unat (of_nat n :: u64) = n"
  by (simp add: unsigned_of_nat take_bit_nat_eq_self)

lemma of_nat_u64_neq: "n < 2 ^ 64 \<Longrightarrow> n \<noteq> unat w \<Longrightarrow> of_nat n \<noteq> (w :: u64)"
  using unat_of_nat_u64 by auto

lemma ucast_of_nat_byte: "(ucast (of_nat n :: u64) :: byte) = of_nat n"
  by (simp add: word_unat_eq_iff unsigned_ucast_eq unsigned_of_nat)

section \<open>Outcomes\<close>

text \<open>\<open>Err\<close> is a non-nil \<open>error\<close> with its text, \<open>Panic\<close> a panic or a fatal exit.\<close>

datatype 'a res = Ok 'a | Err string | Panic string

fun res_bind :: "'a res \<Rightarrow> ('a \<Rightarrow> 'b res) \<Rightarrow> 'b res" where
  "res_bind (Ok x) f = f x"
| "res_bind (Err e) f = Err e"
| "res_bind (Panic m) f = Panic m"

text \<open>\<open>fmt.Errorf("prefix: %v", err)\<close>: the text of an error is prefixed, nothing else changes.\<close>

fun res_context :: "string \<Rightarrow> 'a res \<Rightarrow> 'a res" where
  "res_context p (Ok x) = Ok x"
| "res_context p (Err e) = Err (p @ e)"
| "res_context p (Panic m) = Panic m"

fun is_ok :: "'a res \<Rightarrow> bool" where
  "is_ok (Ok x) = True"
| "is_ok (Err e) = False"
| "is_ok (Panic m) = False"

lemma res_bind_eq_Ok [outcome_simps]:
  "res_bind m f = Ok y \<longleftrightarrow> (\<exists>x. m = Ok x \<and> f x = Ok y)"
  by (cases m) auto

lemma res_bind_eq_Err:
  "res_bind m f = Err e \<longleftrightarrow> m = Err e \<or> (\<exists>x. m = Ok x \<and> f x = Err e)"
  by (cases m) auto

lemma res_bind_eq_Panic:
  "res_bind m f = Panic e \<longleftrightarrow> m = Panic e \<or> (\<exists>x. m = Ok x \<and> f x = Panic e)"
  by (cases m) auto

lemma res_bind_Ok_right [simp]: "res_bind m Ok = m"
  by (cases m) auto

lemma res_bind_assoc: "res_bind (res_bind m f) g = res_bind m (\<lambda>x. res_bind (f x) g)"
  by (cases m) auto

lemma res_context_eq_Ok [outcome_simps]: "res_context p m = Ok y \<longleftrightarrow> m = Ok y"
  by (cases m) auto

lemma is_ok_iff: "is_ok m \<longleftrightarrow> (\<exists>x. m = Ok x)"
  by (cases m) auto

text \<open>A loop that builds a slice and stops at the first failure.\<close>

fun res_map :: "('a \<Rightarrow> 'b res) \<Rightarrow> 'a list \<Rightarrow> 'b list res" where
  "res_map f [] = Ok []"
| "res_map f (x # xs) = res_bind (f x) (\<lambda>y. res_bind (res_map f xs) (\<lambda>ys. Ok (y # ys)))"

lemma res_map_length: "res_map f xs = Ok ys \<Longrightarrow> length ys = length xs"
  by (induction xs arbitrary: ys) (auto simp: outcome_simps)

lemma res_map_all: "(\<And>x. x \<in> set xs \<Longrightarrow> f x = Ok (g x)) \<Longrightarrow> res_map f xs = Ok (map g xs)"
  by (induction xs) auto

section \<open>Strings\<close>

text \<open>\<open>strings.Split(s, sep)\<close> for a separator of one byte: never the empty list.\<close>

fun Split :: "char \<Rightarrow> string \<Rightarrow> string list" where
  "Split c [] = [[]]"
| "Split c (x # xs) =
     (if x = c then [] # Split c xs
      else (case Split c xs of [] \<Rightarrow> [[x]] | p # ps \<Rightarrow> (x # p) # ps))"

text \<open>\<open>strings.SplitN(s, sep, 2)\<close>.\<close>

fun SplitN2 :: "char \<Rightarrow> string \<Rightarrow> string list" where
  "SplitN2 c [] = [[]]"
| "SplitN2 c (x # xs) =
     (if x = c then [[], xs]
      else (case SplitN2 c xs of [] \<Rightarrow> [[x]] | p # ps \<Rightarrow> (x # p) # ps))"

text \<open>The inverse, \<open>strings.Join\<close>.\<close>

fun Join :: "string \<Rightarrow> string list \<Rightarrow> string" where
  "Join sep [] = []"
| "Join sep [p] = p"
| "Join sep (p # q # ps) = p @ sep @ Join sep (q # ps)"

definition Contains :: "string \<Rightarrow> string \<Rightarrow> bool" where
  "Contains s sub = sublist sub s"

lemma Split_not_Nil [simp]: "Split c s \<noteq> []"
  by (cases s) (auto split: list.splits)

lemma Split_no_sep [simp]: "c \<notin> set s \<Longrightarrow> Split c s = [s]"
  by (induction s) auto

lemma Split_append_sep: "c \<notin> set p \<Longrightarrow> Split c (p @ c # s) = p # Split c s"
  by (induction p) auto

lemma Split_Join:
  "ps \<noteq> [] \<Longrightarrow> (\<And>p. p \<in> set ps \<Longrightarrow> c \<notin> set p) \<Longrightarrow> Split c (Join [c] ps) = ps"
proof (induction "[c]" ps rule: Join.induct)
  case (3 p q ps)
  then show ?case by (simp add: Split_append_sep)
qed auto

lemma Join_Split: "Join [c] (Split c s) = s"
proof (induction s)
  case Nil
  then show ?case by simp
next
  case (Cons x xs)
  obtain p ps where "Split c xs = p # ps"
    by (cases "Split c xs") auto
  with Cons show ?case by (cases ps) auto
qed

lemma Split_parts_free: "p \<in> set (Split c s) \<Longrightarrow> c \<notin> set p"
  by (induction s arbitrary: p) (auto split: list.splits if_splits)

lemma Split_parts_chars: "p \<in> set (Split c s) \<Longrightarrow> set p \<subseteq> set s"
  by (induction s arbitrary: p) (fastforce split: list.splits if_splits)+

lemma SplitN2_no_sep [simp]: "c \<notin> set s \<Longrightarrow> SplitN2 c s = [s]"
  by (induction s) auto

lemma SplitN2_append_sep [simp]: "c \<notin> set p \<Longrightarrow> SplitN2 c (p @ c # s) = [p, s]"
  by (induction p) auto

section \<open>Numbers as text\<close>

definition digit_char :: "nat \<Rightarrow> char" where
  "digit_char n = ''0123456789abcdef'' ! n"

text \<open>The digits of \<open>n\<close> in base \<open>b\<close>, most significant first; a base below 2 is read as 2.\<close>

function base_digits :: "nat \<Rightarrow> nat \<Rightarrow> nat list" where
  "base_digits b n = (if n < max 2 b then [n] else base_digits b (n div max 2 b) @ [n mod max 2 b])"
  by pat_completeness auto
termination
  by (relation "measure snd") auto

declare base_digits.simps [simp del]

definition nat_text :: "nat \<Rightarrow> nat \<Rightarrow> string" where
  "nat_text b n = map digit_char (base_digits b n)"

text \<open>\<open>%x\<close> and \<open>%0kx\<close> of an unsigned number, \<open>%v\<close> of an unsigned number.\<close>

definition hex_text :: "nat \<Rightarrow> string" where
  "hex_text n = nat_text 16 n"

definition hex_text_padded :: "nat \<Rightarrow> nat \<Rightarrow> string" where
  "hex_text_padded k n = (let t = hex_text n in replicate (k - length t) CHR ''0'' @ t)"

definition dec_text :: "nat \<Rightarrow> string" where
  "dec_text n = nat_text 10 n"

lemma base_digits_not_Nil [simp]: "base_digits b n \<noteq> []"
  by (subst base_digits.simps) simp

lemma base_digits_bound: "2 \<le> b \<Longrightarrow> d \<in> set (base_digits b n) \<Longrightarrow> d < b"
proof (induction b n rule: base_digits.induct)
  case (1 b n)
  show ?case
  proof (cases "n < max 2 b")
    case True
    with 1 show ?thesis by (simp add: base_digits.simps [of b n])
  next
    case False
    with 1 show ?thesis by (auto simp add: base_digits.simps [of b n] max_def split: if_splits)
  qed
qed

definition digits_value :: "nat \<Rightarrow> nat list \<Rightarrow> nat" where
  "digits_value b ds = foldl (\<lambda>acc d. acc * b + d) 0 ds"

lemma digits_value_append_single [simp]:
  "digits_value b (ds @ [d]) = digits_value b ds * b + d"
  by (simp add: digits_value_def)

lemma digits_value_base_digits: "2 \<le> b \<Longrightarrow> digits_value b (base_digits b n) = n"
proof (induction b n rule: base_digits.induct)
  case (1 b n)
  show ?case
  proof (cases "n < max 2 b")
    case True
    then show ?thesis by (simp add: base_digits.simps [of b n] digits_value_def)
  next
    case False
    with 1 show ?thesis by (simp add: base_digits.simps [of b n] max_def)
  qed
qed

lemma digits_value_leading_zeros [simp]:
  "digits_value b (replicate k 0 @ ds) = digits_value b ds"
  by (induction k) (simp_all add: digits_value_def)

lemma digits_value_bound:
  "\<forall>d \<in> set ds. d < b \<Longrightarrow> digits_value b ds < b ^ length ds"
proof (induction ds rule: rev_induct)
  case Nil
  then show ?case by (simp add: digits_value_def)
next
  case (snoc d ds)
  then have "digits_value b ds + 1 \<le> b ^ length ds" and "d < b" by auto
  then have "(digits_value b ds + 1) * b \<le> b ^ length ds * b"
    by (intro mult_right_mono) auto
  with \<open>d < b\<close> show ?case by (simp add: algebra_simps)
qed

lemma length_base_digits:
  assumes "2 \<le> b" and "n < b ^ k" and "0 < k"
  shows "length (base_digits b n) \<le> k"
  using assms
proof (induction b n arbitrary: k rule: base_digits.induct)
  case (1 b n)
  show ?case
  proof (cases "n < max 2 b")
    case True
    with "1.prems" show ?thesis by (simp add: base_digits.simps [of b n])
  next
    case False
    with "1.prems"(1) have nb: "\<not> n < b" by (simp add: max_def)
    obtain j where k: "k = Suc j" using "1.prems"(3) by (cases k) auto
    from nb "1.prems"(2) k have j: "0 < j" by (cases j) auto
    from "1.prems"(2) k have "n div b < b ^ j"
      by (simp add: less_mult_imp_div_less mult.commute)
    with "1.IH" [of j] False "1.prems"(1) j have "length (base_digits b (n div b)) \<le> j"
      by (simp add: max_def)
    with False "1.prems"(1) k show ?thesis by (simp add: base_digits.simps [of b n] max_def)
  qed
qed

lemma length_hex_text_padded:
  assumes "n < 16 ^ k" and "0 < k"
  shows "length (hex_text_padded k n) = k"
  using length_base_digits [of 16 n k] assms
  by (simp add: hex_text_padded_def hex_text_def nat_text_def Let_def)

text \<open>A number has one numeral of a given length.\<close>

lemma digits_value_unique:
  "length ds = length es \<Longrightarrow> (\<And>d. d \<in> set ds \<union> set es \<Longrightarrow> d < b) \<Longrightarrow>
   digits_value b ds = digits_value b es \<Longrightarrow> ds = es"
proof (induction ds arbitrary: es rule: rev_induct)
  case Nil
  then show ?case by simp
next
  case (snoc d ds)
  then obtain e es' where es: "es = es' @ [e]" by (cases es rule: rev_cases) auto
  have "(digits_value b ds * b + d) mod b = (digits_value b es' * b + e) mod b"
    and "(digits_value b ds * b + d) div b = (digits_value b es' * b + e) div b"
    using snoc.prems(3) es by simp_all
  moreover have "d < b" "e < b" using snoc.prems(2) es by auto
  ultimately have "d = e" and "digits_value b ds = digits_value b es'" by auto
  moreover have "ds = es'"
    using snoc.IH [of es'] snoc.prems es calculation by auto
  ultimately show ?case using es by simp
qed

lemma hex_text_padded_unique:
  assumes "0 < length ds" and "\<And>d. d \<in> set ds \<Longrightarrow> d < 16"
  shows "hex_text_padded (length ds) (digits_value 16 ds) = map digit_char ds"
proof -
  let ?n = "digits_value 16 ds"
  have bound: "?n < 16 ^ length ds" using assms(2) by (intro digits_value_bound) auto
  have len: "length (base_digits 16 ?n) \<le> length ds"
    using bound assms(1) by (intro length_base_digits) auto
  have "replicate (length ds - length (base_digits 16 ?n)) 0 @ base_digits 16 ?n = ds"
    using len assms(2) base_digits_bound [of 16 _ ?n]
    by (intro digits_value_unique [where b = 16]) (auto simp: digits_value_base_digits)
  then have "map digit_char (replicate (length ds - length (base_digits 16 ?n)) 0 @ base_digits 16 ?n)
      = map digit_char ds" by (rule arg_cong)
  moreover have "digit_char 0 = CHR ''0''" by (simp add: digit_char_def)
  ultimately show ?thesis by (simp add: hex_text_padded_def hex_text_def nat_text_def Let_def)
qed

end
