(* ===== verification/Float64.thy ===== *)
theory Float64
  imports Prelude Complex_Main "HOL-Library.Log_Nat"
begin

text \<open>
  Floating point, as Go's \<open>float64\<close>, \<open>float32\<close> and \<open>math/big.Float\<close> compute it: IEEE 754 binary
  arithmetic, rounding to nearest with ties to even, signed zeros, infinities and a NaN.  A finite
  value is a sign and a magnitude (a non-negative rational); every operation computes the exact
  rational result and rounds its magnitude.  The payload of a NaN is not observable in Go.
\<close>

section \<open>Values\<close>

datatype fl = NaN | Inf bool | Fin bool rat

abbreviation fzero :: fl where "fzero \<equiv> Fin False 0"

fun fval :: "fl \<Rightarrow> rat" where
  "fval (Fin s m) = (if s then - m else m)"
| "fval NaN = 0"
| "fval (Inf s) = 0"

fun is_fin :: "fl \<Rightarrow> bool" where
  "is_fin (Fin s m) = True"
| "is_fin NaN = False"
| "is_fin (Inf s) = False"

section \<open>Rounding\<close>

text \<open>The binary exponent of a positive rational: \<open>2 ^ flog2 x \<le> x < 2 ^ (flog2 x + 1)\<close>.\<close>

definition flog2 :: "rat \<Rightarrow> int" where
  "flog2 x = (case quotient_of x of (p, q) \<Rightarrow>
     let e = bitlen p - bitlen q in if 2 powi e \<le> x then e else e - 1)"

text \<open>Round half to even, to an integer and to a multiple of \<open>q\<close>.\<close>

definition rhe :: "rat \<Rightarrow> int" where
  "rhe x = (let f = \<lfloor>x\<rfloor>; d = x - of_int f in
     if d < 1 / 2 then f else if 1 / 2 < d then f + 1 else if even f then f else f + 1)"

definition round_to :: "rat \<Rightarrow> rat \<Rightarrow> rat" where
  "round_to q x = of_int (rhe (x / q)) * q"

text \<open>A format: precision in bits, the least exponent of a unit in the last place, and the
  exponent of the overflow threshold.\<close>

record fformat =
  fprec :: int
  femin :: int
  femax :: int

definition double :: fformat where "double = \<lparr>fprec = 53, femin = -1074, femax = 1024\<rparr>"
definition single :: fformat where "single = \<lparr>fprec = 24, femin = -149, femax = 128\<rparr>"

definition fulp :: "fformat \<Rightarrow> rat \<Rightarrow> rat" where
  "fulp F m = 2 powi (max (flog2 m - fprec F + 1) (femin F))"

definition fpack :: "fformat \<Rightarrow> bool \<Rightarrow> rat \<Rightarrow> fl" where
  "fpack F s m =
     (if m = 0 then Fin s 0
      else let r = round_to (fulp F m) m in
           if 2 powi (femax F) \<le> r then Inf s else Fin s r)"

text \<open>\<open>big.Float\<close> rounds to a precision with an unbounded exponent (for the magnitudes here).\<close>

definition big_round :: "int \<Rightarrow> rat \<Rightarrow> rat" where
  "big_round p m = (if m = 0 then 0 else round_to (2 powi (flog2 m - p + 1)) m)"

section \<open>Arithmetic\<close>

fun fneg :: "fl \<Rightarrow> fl" where
  "fneg NaN = NaN"
| "fneg (Inf s) = Inf (\<not> s)"
| "fneg (Fin s m) = Fin (\<not> s) m"

fun fadd :: "fformat \<Rightarrow> fl \<Rightarrow> fl \<Rightarrow> fl" where
  "fadd F NaN y = NaN"
| "fadd F x NaN = NaN"
| "fadd F (Inf s) (Inf t) = (if s = t then Inf s else NaN)"
| "fadd F (Inf s) (Fin t n) = Inf s"
| "fadd F (Fin s m) (Inf t) = Inf t"
| "fadd F (Fin s m) (Fin t n) =
     (let v = fval (Fin s m) + fval (Fin t n) in
      if v = 0 then Fin (s \<and> t) 0 else fpack F (v < 0) \<bar>v\<bar>)"

definition fsub :: "fformat \<Rightarrow> fl \<Rightarrow> fl \<Rightarrow> fl" where
  "fsub F x y = fadd F x (fneg y)"

fun fmul :: "fformat \<Rightarrow> fl \<Rightarrow> fl \<Rightarrow> fl" where
  "fmul F NaN y = NaN"
| "fmul F x NaN = NaN"
| "fmul F (Inf s) (Inf t) = Inf (s \<noteq> t)"
| "fmul F (Inf s) (Fin t n) = (if n = 0 then NaN else Inf (s \<noteq> t))"
| "fmul F (Fin s m) (Inf t) = (if m = 0 then NaN else Inf (s \<noteq> t))"
| "fmul F (Fin s m) (Fin t n) = fpack F (s \<noteq> t) (m * n)"

fun fdiv :: "fformat \<Rightarrow> fl \<Rightarrow> fl \<Rightarrow> fl" where
  "fdiv F NaN y = NaN"
| "fdiv F x NaN = NaN"
| "fdiv F (Inf s) (Inf t) = NaN"
| "fdiv F (Inf s) (Fin t n) = Inf (s \<noteq> t)"
| "fdiv F (Fin s m) (Inf t) = Fin (s \<noteq> t) 0"
| "fdiv F (Fin s m) (Fin t n) =
     (if n = 0 then (if m = 0 then NaN else Inf (s \<noteq> t)) else fpack F (s \<noteq> t) (m / n))"

text \<open>Comparisons: every one is false when an operand is a NaN.\<close>

fun flt :: "fl \<Rightarrow> fl \<Rightarrow> bool" where
  "flt NaN y = False"
| "flt x NaN = False"
| "flt (Inf s) (Inf t) = (s \<and> \<not> t)"
| "flt (Inf s) (Fin t n) = s"
| "flt (Fin s m) (Inf t) = (\<not> t)"
| "flt (Fin s m) (Fin t n) = (fval (Fin s m) < fval (Fin t n))"

fun feq :: "fl \<Rightarrow> fl \<Rightarrow> bool" where
  "feq NaN y = False"
| "feq x NaN = False"
| "feq (Inf s) (Inf t) = (s = t)"
| "feq (Inf s) (Fin t n) = False"
| "feq (Fin s m) (Inf t) = False"
| "feq (Fin s m) (Fin t n) = (fval (Fin s m) = fval (Fin t n))"

definition fle :: "fl \<Rightarrow> fl \<Rightarrow> bool" where
  "fle x y = (flt x y \<or> feq x y)"

abbreviation add64 :: "fl \<Rightarrow> fl \<Rightarrow> fl" where "add64 \<equiv> fadd double"
abbreviation sub64 :: "fl \<Rightarrow> fl \<Rightarrow> fl" where "sub64 \<equiv> fsub double"
abbreviation mul64 :: "fl \<Rightarrow> fl \<Rightarrow> fl" where "mul64 \<equiv> fmul double"
abbreviation div64 :: "fl \<Rightarrow> fl \<Rightarrow> fl" where "div64 \<equiv> fdiv double"

section \<open>Conversions and \<open>math\<close> functions\<close>

definition float_of_int :: "fformat \<Rightarrow> int \<Rightarrow> fl" where
  "float_of_int F i = fpack F (i < 0) (of_int \<bar>i\<bar>)"

fun float_convert :: "fformat \<Rightarrow> fl \<Rightarrow> fl" where
  "float_convert F NaN = NaN"
| "float_convert F (Inf s) = Inf s"
| "float_convert F (Fin s m) = fpack F s m"

text \<open>Conversion to an integer truncates towards zero; outside the target's range (and for a NaN or
  an infinity) Go leaves the result to the implementation, which is \<open>None\<close> here.\<close>

fun float_trunc :: "fl \<Rightarrow> int option" where
  "float_trunc NaN = None"
| "float_trunc (Inf s) = None"
| "float_trunc (Fin s m) = Some (if s then - \<lfloor>m\<rfloor> else \<lfloor>m\<rfloor>)"

definition float_to_int :: "int \<Rightarrow> int \<Rightarrow> fl \<Rightarrow> int option" where
  "float_to_int lo hi x =
     (case float_trunc x of None \<Rightarrow> None | Some i \<Rightarrow> if lo \<le> i \<and> i < hi then Some i else None)"

text \<open>\<open>math.Floor\<close>, and \<open>math.Round\<close> (half away from zero): exact, no rounding to the format.\<close>

fun math_Floor :: "fl \<Rightarrow> fl" where
  "math_Floor (Fin s m) = (if s then Fin True (of_int \<lceil>m\<rceil>) else Fin False (of_int \<lfloor>m\<rfloor>))"
| "math_Floor NaN = NaN"
| "math_Floor (Inf s) = Inf s"

fun math_Round :: "fl \<Rightarrow> fl" where
  "math_Round (Fin s m) = Fin s (of_int \<lfloor>m + 1 / 2\<rfloor>)"
| "math_Round NaN = NaN"
| "math_Round (Inf s) = Inf s"

section \<open>Rounding lemmas\<close>

lemma flog2_bounds:
  assumes "0 < x"
  shows "2 powi flog2 x \<le> x" and "x < 2 powi (flog2 x + 1)"
proof -
  obtain p q where pq: "quotient_of x = (p, q)" by fastforce
  have q: "0 < q" using pq by (rule quotient_of_denom_pos)
  have x: "x = of_int p / of_int q" using pq by (rule quotient_of_div)
  with assms q have p: "0 < p" by (simp add: zero_less_divide_iff)
  define a where "a = bitlen p"
  define b where "b = bitlen q"
  have a1: "1 \<le> a" and b1: "1 \<le> b"
    using p q by (simp_all add: a_def b_def bitlen_alt_def)
  have powi: "2 powi k = (of_int (2 ^ nat k) :: rat)" if "0 \<le> k" for k :: int
    using that by (simp add: power_int_def)
  have pl: "2 powi (a - 1) \<le> (of_int p :: rat)" and pu: "(of_int p :: rat) < 2 powi a"
    using bitlen_bounds [OF p] a1 by (simp_all only: powi of_int_le_iff of_int_less_iff a_def)
  have ql: "2 powi (b - 1) \<le> (of_int q :: rat)" and qu: "(of_int q :: rat) < 2 powi b"
    using bitlen_bounds [OF q] b1 by (simp_all only: powi of_int_le_iff of_int_less_iff b_def)
  have q0: "(0 :: rat) < of_int q" using q by simp
  have half: "2 powi (a - 1) = (2 powi a / 2 :: rat)" "2 powi (b - 1) = (2 powi b / 2 :: rat)"
    by (simp_all add: power_int_diff)
  have lo: "2 powi (a - b - 1) \<le> x"
  proof -
    have "2 powi (a - b - 1) * of_int q \<le> 2 powi (a - b - 1) * (2 powi b :: rat)"
      using qu by (intro mult_left_mono) auto
    also have "\<dots> = 2 powi (a - 1)" by (simp flip: power_int_add)
    finally show ?thesis using pl q0 by (simp add: x pos_le_divide_eq)
  qed
  have hi: "x < 2 powi (a - b + 1)"
  proof -
    have "(2 :: rat) powi a = 2 powi (a - b + 1) * 2 powi (b - 1)" by (simp flip: power_int_add)
    also have "\<dots> \<le> 2 powi (a - b + 1) * of_int q"
      using ql by (intro mult_left_mono) auto
    finally show ?thesis using pu q0 by (simp add: x pos_divide_less_eq)
  qed
  have "flog2 x = (if 2 powi (a - b) \<le> x then a - b else a - b - 1)"
    by (simp add: flog2_def pq a_def b_def Let_def)
  then show "2 powi flog2 x \<le> x" and "x < 2 powi (flog2 x + 1)"
    using lo hi by (auto split: if_splits)
qed

lemma powi_less_iff: "(2 :: rat) powi i < 2 powi j \<longleftrightarrow> i < j"
  using power_int_strict_increasing [of i j "2 :: rat"] power_int_increasing [of j i "2 :: rat"]
  by (meson linorder_not_less one_less_numeral_iff order_less_imp_le semiring_norm(76))

lemma flog2_unique:
  assumes "2 powi k \<le> x" and "x < 2 powi (k + 1)"
  shows "flog2 x = k"
proof -
  have "(0 :: rat) < 2 powi k" by simp
  with assms(1) have x: "0 < x" by linarith
  from flog2_bounds [OF x] assms have "(2 :: rat) powi k < 2 powi (flog2 x + 1)"
    and "(2 :: rat) powi flog2 x < 2 powi (k + 1)" by auto
  then show ?thesis by (simp add: powi_less_iff)
qed

lemma flog2_mono: "0 < x \<Longrightarrow> x \<le> y \<Longrightarrow> flog2 x \<le> flog2 y"
proof -
  assume x: "0 < x" and xy: "x \<le> y"
  from flog2_bounds(1) [OF x] flog2_bounds(2) [of y] x xy
  have "(2 :: rat) powi flog2 x < 2 powi (flog2 y + 1)" by linarith
  then show ?thesis by (simp add: powi_less_iff)
qed

lemma rhe_of_int [simp]: "rhe (of_int i) = i"
  by (simp add: rhe_def)

lemma rhe_bounds: "x - 1 / 2 \<le> of_int (rhe x)" "of_int (rhe x) \<le> x + 1 / 2"
proof -
  have fl: "of_int \<lfloor>x\<rfloor> \<le> x" "x < of_int \<lfloor>x\<rfloor> + 1" by linarith+
  consider "rhe x = \<lfloor>x\<rfloor>" "x - of_int \<lfloor>x\<rfloor> \<le> 1 / 2"
    | "rhe x = \<lfloor>x\<rfloor> + 1" "1 / 2 \<le> x - of_int \<lfloor>x\<rfloor>"
    unfolding rhe_def Let_def by (metis linorder_not_less order_less_imp_le)
  then have "x - 1 / 2 \<le> of_int (rhe x) \<and> of_int (rhe x) \<le> x + 1 / 2"
  proof cases
    case 1
    then show ?thesis using fl by (simp only:) linarith
  next
    case 2
    then show ?thesis using fl by (simp only: of_int_add of_int_1) linarith
  qed
  then show "x - 1 / 2 \<le> of_int (rhe x)" "of_int (rhe x) \<le> x + 1 / 2" by simp_all
qed

lemma rhe_mono: "x \<le> y \<Longrightarrow> rhe x \<le> rhe y"
proof (cases "\<lfloor>x\<rfloor> = \<lfloor>y\<rfloor>")
  case True
  assume "x \<le> y"
  with True show ?thesis by (auto simp: rhe_def Let_def)
next
  case False
  assume xy: "x \<le> y"
  then have "\<lfloor>x\<rfloor> + 1 \<le> \<lfloor>y\<rfloor>" using False floor_mono [OF xy] by linarith
  moreover have "rhe x \<le> \<lfloor>x\<rfloor> + 1" "\<lfloor>y\<rfloor> \<le> rhe y" by (auto simp: rhe_def Let_def)
  ultimately show ?thesis by linarith
qed

lemma round_to_mono: "0 < q \<Longrightarrow> x \<le> y \<Longrightarrow> round_to q x \<le> round_to q y"
  by (simp add: round_to_def rhe_mono divide_right_mono mult_right_mono)

lemma round_to_multiple: "0 < q \<Longrightarrow> round_to q (of_int i * q) = of_int i * q"
  by (simp add: round_to_def)

lemma round_to_nonneg: "0 < q \<Longrightarrow> 0 \<le> x \<Longrightarrow> 0 \<le> round_to q x"
  using round_to_mono [of q 0 x] by (simp add: round_to_def rhe_def)

lemma round_to_error: "0 < q \<Longrightarrow> \<bar>round_to q x - x\<bar> \<le> q / 2"
proof -
  assume q: "0 < q"
  have "\<bar>of_int (rhe (x / q)) - x / q\<bar> \<le> 1 / 2" using rhe_bounds [of "x / q"] by linarith
  then have "\<bar>of_int (rhe (x / q)) - x / q\<bar> * q \<le> 1 / 2 * q"
    using q by (intro mult_right_mono) auto
  moreover have "\<bar>of_int (rhe (x / q)) - x / q\<bar> * q = \<bar>round_to q x - x\<bar>"
    using q abs_mult [of "of_int (rhe (x / q)) - x / q" q]
    by (simp add: round_to_def left_diff_distrib)
  ultimately show ?thesis by simp
qed

text \<open>A power of two not below the unit is a multiple of it.\<close>

lemma powi_multiple: "k \<le> j \<Longrightarrow> (2 :: rat) powi j = of_int (2 ^ nat (j - k)) * 2 powi k"
proof -
  assume "k \<le> j"
  then have "(2 :: rat) powi j = 2 powi (j - k) * 2 powi k" by (simp flip: power_int_add)
  with \<open>k \<le> j\<close> show ?thesis by (simp add: power_int_def)
qed

lemma round_to_powi: "k \<le> j \<Longrightarrow> round_to (2 powi k) (2 powi j) = 2 powi j"
  using round_to_multiple [of "2 powi k" "2 ^ nat (j - k)"] powi_multiple [of k j] by simp

text \<open>
  Rounding to \<open>p\<close> significant bits (with least exponent \<open>e\<close>) is monotone across binades: the
  power of two between two binades is a multiple of both units.
\<close>

lemma round_binade_mono:
  assumes x: "0 < x" and xy: "x \<le> y" and p: "1 \<le> p"
  shows "round_to (2 powi max (flog2 x - p + 1) e) x \<le> round_to (2 powi max (flog2 y - p + 1) e) y"
proof (cases "max (flog2 x - p + 1) e = max (flog2 y - p + 1) e")
  case True
  then show ?thesis using xy by (simp add: round_to_mono)
next
  case False
  define k where "k = flog2 y"
  have le: "flog2 x \<le> flog2 y" using x xy by (rule flog2_mono)
  with False have less: "flog2 x < flog2 y" and ek: "e \<le> k - p + 1" by (auto simp: k_def)
  have "x < 2 powi (flog2 x + 1)" using x by (rule flog2_bounds)
  also have "\<dots> \<le> 2 powi k" using less by (simp add: k_def power_int_increasing)
  finally have xk: "x \<le> 2 powi k" by simp
  have ky: "2 powi k \<le> y" using x xy by (simp add: k_def flog2_bounds)
  have "round_to (2 powi max (flog2 x - p + 1) e) x \<le> round_to (2 powi max (flog2 x - p + 1) e) (2 powi k)"
    using xk by (intro round_to_mono) auto
  also have "\<dots> = 2 powi k" using p less ek by (intro round_to_powi) (auto simp: k_def)
  also have "\<dots> = round_to (2 powi max (flog2 y - p + 1) e) (2 powi k)"
    using p ek by (intro round_to_powi [symmetric]) (auto simp: k_def)
  also have "\<dots> \<le> round_to (2 powi max (flog2 y - p + 1) e) y"
    using ky by (intro round_to_mono) auto
  finally show ?thesis .
qed

lemma big_round_nonneg: "0 \<le> x \<Longrightarrow> 0 \<le> big_round p x"
  by (simp add: big_round_def round_to_nonneg)

lemma big_round_mono: "0 \<le> x \<Longrightarrow> x \<le> y \<Longrightarrow> 1 \<le> p \<Longrightarrow> big_round p x \<le> big_round p y"
proof -
  assume x: "0 \<le> x" and xy: "x \<le> y" and p: "1 \<le> p"
  show ?thesis
  proof (cases "x = 0")
    case True
    then have "big_round p x = 0" by (simp add: big_round_def)
    then show ?thesis using xy x big_round_nonneg [of y p] by simp
  next
    case False
    define e where "e = min (flog2 x - p + 1) (flog2 y - p + 1)"
    from False x have "0 < x" by simp
    from round_binade_mono [OF this xy p, of e] False x xy show ?thesis
      by (simp add: big_round_def e_def max_def min_def split: if_splits)
  qed
qed

text \<open>A magnitude of at most \<open>fprec\<close> significant bits is not rounded.\<close>

lemma fpack_exact:
  assumes m: "m = of_int i * 2 powi k" and i: "0 \<le> i" "i < 2 ^ nat (fprec F)" and p: "0 \<le> fprec F"
    and k: "femin F \<le> k" and top: "m < 2 powi femax F"
  shows "fpack F s m = Fin s m"
proof (cases "i = 0")
  case False
  with i m have pos: "0 < m" by simp
  define u where "u = max (flog2 m - fprec F + 1) (femin F)"
  have "m < 2 powi (k + fprec F)"
  proof -
    have "(of_int i :: rat) < 2 powi fprec F"
      using i p by (metis of_int_less_iff of_int_numeral of_int_power power_int_def)
    then have "of_int i * 2 powi k < 2 powi fprec F * (2 :: rat) powi k" by (intro mult_strict_right_mono) auto
    then show ?thesis by (simp add: m power_int_add mult.commute)
  qed
  with flog2_bounds(1) [OF pos] have "(2 :: rat) powi flog2 m < 2 powi (k + fprec F)" by (rule le_less_trans)
  then have uk: "u \<le> k" using k by (simp add: powi_less_iff u_def)
  have "m = of_int (i * 2 ^ nat (k - u)) * 2 powi u" using powi_multiple [OF uk] by (simp add: m)
  with round_to_multiple [of "2 powi u" "i * 2 ^ nat (k - u)"] have "round_to (2 powi u) m = m" by simp
  then show ?thesis using pos top by (simp add: fpack_def fulp_def u_def [symmetric] Let_def)
qed (simp add: m fpack_def)

lemma fpack_double:
  "m = of_int i * 2 powi k \<Longrightarrow> 0 \<le> i \<Longrightarrow> i < 2 ^ 53 \<Longrightarrow> - 1074 \<le> k \<Longrightarrow> m < 2 powi 1024 \<Longrightarrow>
   fpack double s m = Fin s m"
  by (rule fpack_exact [of m i k]) (simp_all add: double_def)

text \<open>Packing is monotone.\<close>

lemma fpack_mono:
  assumes x: "0 \<le> x" "x \<le> y" and p: "1 \<le> fprec F" and y: "fpack F s y = Fin s y'"
  obtains x' where "fpack F s x = Fin s x'" and "0 \<le> x'" and "x' \<le> y'"
proof (cases "x = 0")
  case True
  have "0 \<le> y'"
  proof (cases "y = 0")
    case False
    with x have "0 \<le> round_to (fulp F y) y" by (intro round_to_nonneg) (auto simp: fulp_def)
    with y False show ?thesis by (auto simp: fpack_def Let_def split: if_splits)
  qed (use y in \<open>simp add: fpack_def\<close>)
  with True show ?thesis by (intro that [of 0]) (simp_all add: fpack_def)
next
  case False
  with x have pos: "0 < x" "0 < y" by auto
  have y': "y' = round_to (fulp F y) y" "\<not> 2 powi femax F \<le> round_to (fulp F y) y"
    using y pos(2) by (auto simp: fpack_def Let_def split: if_splits)
  have le: "round_to (fulp F x) x \<le> round_to (fulp F y) y"
    unfolding fulp_def by (rule round_binade_mono [OF pos(1) x(2) p])
  have "0 \<le> round_to (fulp F x) x" using x by (intro round_to_nonneg) (auto simp: fulp_def)
  with le y' pos show ?thesis by (intro that [of "round_to (fulp F x) x"]) (auto simp: fpack_def Let_def)
qed

lemma fpack_pow2: "k \<le> 1000 \<Longrightarrow> fpack double s (2 ^ k) = Fin s (2 ^ k)"
proof -
  assume k: "k \<le> 1000"
  have pow: "(2 :: rat) ^ k = 2 powi int k" by simp
  have log: "flog2 ((2 :: rat) ^ k) = int k"
    by (rule flog2_unique) (simp_all add: power_int_add)
  have round: "round_to (fulp double (2 ^ k)) (2 ^ k) = (2 :: rat) ^ k"
    unfolding fulp_def log pow by (rule round_to_powi) (simp add: double_def log)
  have "\<not> (2 :: rat) powi 1024 \<le> 2 ^ k"
    using k powi_less_iff [of "int k" 1024] by (simp add: not_le)
  then show ?thesis unfolding fpack_def round by (simp add: double_def Let_def)
qed

lemma float_int_exact: "0 \<le> i \<Longrightarrow> i < 2 ^ 53 \<Longrightarrow> float_of_int double i = Fin False (of_int i)"
proof -
  assume i: "0 \<le> i" "i < 2 ^ 53"
  have "(of_int i :: rat) < 2 ^ 53" using i(2) by (metis of_int_less_iff of_int_numeral of_int_power)
  also have "(2 :: rat) ^ 53 \<le> 2 powi 1024" by (simp add: power_int_def)
  finally show ?thesis using i fpack_double [of "of_int i" i 0 False] by (simp add: float_of_int_def)
qed

text \<open>Values of bounded magnitude: the results of arithmetic on them are finite.\<close>

definition fsmall :: "nat \<Rightarrow> fl \<Rightarrow> bool" where
  "fsmall k x \<longleftrightarrow> (\<exists>s m. x = Fin s m \<and> 0 \<le> m \<and> m \<le> 2 ^ k)"

lemma fsmall_Fin [simp]: "fsmall k (Fin s m) \<longleftrightarrow> 0 \<le> m \<and> m \<le> 2 ^ k"
  by (simp add: fsmall_def)

lemma fsmall_mono: "fsmall j x \<Longrightarrow> j \<le> k \<Longrightarrow> fsmall k x"
proof -
  assume "fsmall j x" and "j \<le> k"
  then obtain s m where x: "x = Fin s m" "0 \<le> m" "m \<le> 2 ^ j" by (auto simp: fsmall_def)
  have "(2 :: rat) ^ j \<le> 2 ^ k" using \<open>j \<le> k\<close> by simp
  with x(3) have "m \<le> 2 ^ k" by (rule order_trans)
  with x show ?thesis by simp
qed

lemma fpack_small:
  assumes "0 \<le> m" and "m \<le> 2 ^ k" and "k \<le> 1000"
  obtains m' where "fpack double s m = Fin s m'" and "0 \<le> m'" and "m' \<le> 2 ^ k"
  using fpack_mono [OF assms(1,2) _ fpack_pow2 [OF assms(3)], of s] that by (auto simp: double_def)

lemma fsmall_fpack: "0 \<le> m \<Longrightarrow> m \<le> 2 ^ k \<Longrightarrow> k \<le> 1000 \<Longrightarrow> fsmall k (fpack double s m)"
  by (rule fpack_small [of m k s]) auto

lemma fsmall_int: "\<bar>i\<bar> \<le> 2 ^ k \<Longrightarrow> k \<le> 1000 \<Longrightarrow> fsmall k (float_of_int double i)"
proof -
  assume "\<bar>i\<bar> \<le> 2 ^ k" "k \<le> 1000"
  moreover from this(1) have "(of_int \<bar>i\<bar> :: rat) \<le> 2 ^ k" by (metis of_int_le_iff of_int_numeral of_int_power)
  ultimately show ?thesis by (simp add: float_of_int_def fsmall_fpack del: of_int_abs)
qed

lemma fsmall_add:
  assumes "fsmall k x" and "fsmall k y" and "k < 1000"
  shows "fsmall (Suc k) (add64 x y)"
proof -
  obtain s m t n where x: "x = Fin s m" "0 \<le> m" "m \<le> 2 ^ k" and y: "y = Fin t n" "0 \<le> n" "n \<le> 2 ^ k"
    using assms(1,2) by (auto simp: fsmall_def)
  let ?v = "(if s then - m else m) + (if t then - n else n)"
  have "\<bar>?v\<bar> \<le> 2 ^ Suc k" using x(2,3) y(2,3) by auto
  then show ?thesis using assms(3) by (auto simp: x(1) y(1) Let_def intro!: fsmall_fpack)
qed

lemma fsmall_neg: "fsmall k x \<Longrightarrow> fsmall k (fneg x)"
  by (auto simp: fsmall_def)

lemma fsmall_sub: "fsmall k x \<Longrightarrow> fsmall k y \<Longrightarrow> k < 1000 \<Longrightarrow> fsmall (Suc k) (sub64 x y)"
  unfolding fsub_def by (intro fsmall_add fsmall_neg)

lemma fsmall_mul:
  assumes "fsmall j x" and "fsmall k y" and "j + k \<le> 1000"
  shows "fsmall (j + k) (mul64 x y)"
proof -
  obtain s m t n where x: "x = Fin s m" "0 \<le> m" "m \<le> 2 ^ j" and y: "y = Fin t n" "0 \<le> n" "n \<le> 2 ^ k"
    using assms(1,2) by (auto simp: fsmall_def)
  have "m * n \<le> 2 ^ (j + k)" unfolding power_add using x(2,3) y(2,3) by (intro mult_mono) auto
  then show ?thesis using x(2) y(2) assms(3) by (simp add: x(1) y(1) fsmall_fpack)
qed

lemma fsmall_div:
  assumes "fsmall k x" and "1 \<le> n" and "k \<le> 1000"
  shows "fsmall k (div64 x (Fin t n))"
proof -
  obtain s m where x: "x = Fin s m" "0 \<le> m" "m \<le> 2 ^ k" using assms(1) by (auto simp: fsmall_def)
  have "m / n \<le> m" using x(2) assms(2) mult_left_mono [of 1 n m] by (simp add: divide_le_eq)
  with x(3) have "m / n \<le> 2 ^ k" by linarith
  then show ?thesis using x(2) assms(2,3) by (simp add: x(1) fsmall_fpack)
qed

end
