(* ===== verification/Encoding.thy ===== *)
theory Encoding
  imports Float64
begin

text \<open>
  Byte strings and their hexadecimal text: \<open>encoding/hex\<close> of the Go library, and the helpers of
  \<open>bitcoin/encoding.go\<close>, \<open>pool/encoding.go\<close> and \<open>payouts/encoding.go\<close> with their correctness
  lemmas (little-endian digits, CompactSize integers, reversal of bytes and of 4-byte groups).
  The locale \<open>wire_format\<close> is the contract of a self-delimiting serialisation; the transaction
  serialisers of the later theories are instances.
\<close>

section \<open>encoding/hex\<close>

definition hex_of_byte :: "byte \<Rightarrow> string" where
  "hex_of_byte b = [digit_char (unat b div 16), digit_char (unat b mod 16)]"

definition EncodeToString :: "byte list \<Rightarrow> string" where
  "EncodeToString bs = concat (map hex_of_byte bs)"

definition hex_val :: "char \<Rightarrow> nat option" where
  "hex_val c = (let n = of_char c :: nat in
     if 48 \<le> n \<and> n \<le> 57 then Some (n - 48)
     else if 97 \<le> n \<and> n \<le> 102 then Some (n - 87)
     else if 65 \<le> n \<and> n \<le> 70 then Some (n - 55)
     else None)"

text \<open>The text of \<open>hex.InvalidByteError\<close>: \<open>"encoding/hex: invalid byte: %#U"\<close>.\<close>

definition rune_utf8 :: "nat \<Rightarrow> string" where
  "rune_utf8 n = (if n < 128 then [char_of n] else [char_of (192 + n div 64), char_of (128 + n mod 64)])"

definition invalid_byte_text :: "char \<Rightarrow> string" where
  "invalid_byte_text c = (let n = of_char c :: nat; up = ''0123456789ABCDEF'' in
     ''encoding/hex: invalid byte: U+00'' @ [up ! (n div 16), up ! (n mod 16)] @
     (if (32 \<le> n \<and> n < 127) \<or> (161 \<le> n \<and> n \<noteq> 173) then [CHR 0x20, CHR 0x27] @ rune_utf8 n @ [CHR 0x27] else []))"

fun DecodeString :: "string \<Rightarrow> byte list res" where
  "DecodeString [] = Ok []"
| "DecodeString [c] =
     (case hex_val c of None \<Rightarrow> Err (invalid_byte_text c)
      | Some h \<Rightarrow> Err ''encoding/hex: odd length hex string'')"
| "DecodeString (c # d # s) =
     (case hex_val c of None \<Rightarrow> Err (invalid_byte_text c)
      | Some h \<Rightarrow> (case hex_val d of None \<Rightarrow> Err (invalid_byte_text d)
          | Some l \<Rightarrow> res_bind (DecodeString s) (\<lambda>bs. Ok (of_nat (16 * h + l) # bs))))"

lemma hex_val_digit_char [simp]: "n < 16 \<Longrightarrow> hex_val (digit_char n) = Some n"
proof -
  have "\<forall>n \<in> {0..<16}. hex_val (digit_char n) = Some n" by code_simp
  then show "n < 16 \<Longrightarrow> hex_val (digit_char n) = Some n" by auto
qed

lemma hex_val_bound: "hex_val c = Some n \<Longrightarrow> n < 16"
  by (auto simp: hex_val_def Let_def split: if_splits)

lemma unat_byte_less [simp]: "unat (b :: byte) < 256"
  using unsigned_less [of b] by simp

lemma byte_split: "of_nat (16 * (unat b div 16) + unat b mod 16) = (b :: byte)"
  by (simp only: mult_div_mod_eq of_nat_unat ucast_id)

lemma EncodeToString_simps [simp]:
  "EncodeToString [] = []"
  "EncodeToString (b # bs) = digit_char (unat b div 16) # digit_char (unat b mod 16) # EncodeToString bs"
  by (simp_all add: EncodeToString_def hex_of_byte_def)

lemma EncodeToString_append [simp]: "EncodeToString (a @ b) = EncodeToString a @ EncodeToString b"
  by (simp add: EncodeToString_def)

lemma length_EncodeToString [simp]: "length (EncodeToString bs) = 2 * length bs"
  by (induction bs) auto

lemma EncodeToString_concat: "EncodeToString (concat bss) = concat (map EncodeToString bss)"
  by (induction bss) auto

lemma DecodeString_EncodeToString [simp]: "DecodeString (EncodeToString bs) = Ok bs"
  by (induction bs) (simp_all add: byte_split less_mult_imp_div_less)

lemma DecodeString_append:
  "DecodeString a = Ok x \<Longrightarrow> DecodeString (a @ b) = res_bind (DecodeString b) (\<lambda>y. Ok (x @ y))"
proof (induction a arbitrary: x rule: DecodeString.induct)
  case 1
  then show ?case by simp
next
  case (2 c)
  then show ?case by (simp split: option.splits)
next
  case (3 c d s)
  then show ?case by (fastforce simp: outcome_simps res_bind_assoc split: option.splits)
qed

lemma DecodeString_EncodeToString_append [simp]:
  "DecodeString (EncodeToString a @ b) = res_bind (DecodeString b) (\<lambda>y. Ok (a @ y))"
  by (rule DecodeString_append) simp

lemma DecodeString_length: "DecodeString s = Ok bs \<Longrightarrow> length s = 2 * length bs"
proof (induction s arbitrary: bs rule: DecodeString.induct)
  case (2 c)
  then show ?case by (simp split: option.splits)
next
  case (3 c d s)
  then show ?case by (auto simp: outcome_simps split: option.splits)
qed simp

lemma DecodeString_no_Panic [simp]: "DecodeString s \<noteq> Panic m"
  by (induction s rule: DecodeString.induct) (auto simp: res_bind_eq_Panic split: option.splits)

section \<open>Reversals\<close>

text \<open>\<open>reverse\<close>: a fresh slice filled by index.\<close>

definition reverse :: "byte list \<Rightarrow> byte list" where
  "reverse b = (let len = length b in
     foldl (\<lambda>r index. r[len - 1 - index := b ! index]) (replicate len 0) [0..<len])"

text \<open>The loop of \<open>reverseHexBytes\<close>: \<open>for i := l; i > 0; i = i - 2 { o = o + hex[i-2:i] }\<close>.\<close>

fun revhex_loop :: "string \<Rightarrow> nat \<Rightarrow> string \<Rightarrow> string" where
  "revhex_loop h i acc =
     (if 0 < i then revhex_loop h (i - 2) (acc @ take 2 (drop (i - 2) h)) else acc)"

declare revhex_loop.simps [simp del]

definition reverseHexBytes :: "string \<Rightarrow> string res" where
  "reverseHexBytes h =
     (if length h mod 2 \<noteq> 0 then Err ''string must be divisible by 2 to be a byte string''
      else Ok (revhex_loop h (length h) []))"

text \<open>The copy in package \<open>payouts\<close> is the same code; the copy in package \<open>pool\<close> panics.\<close>

definition payouts_reverseHexBytes :: "string \<Rightarrow> string res" where
  "payouts_reverseHexBytes h =
     (if length h mod 2 \<noteq> 0 then Err ''string must be divisible by 2 to be a byte string''
      else Ok (revhex_loop h (length h) []))"

definition pool_reverseHexBytes :: "string \<Rightarrow> string res" where
  "pool_reverseHexBytes h =
     (if length h mod 2 \<noteq> 0 then Panic ''String must be divisible by 2 to be a byte string''
      else Ok (revhex_loop h (length h) []))"

text \<open>The loop of \<open>reverseHex4Bytes\<close>: \<open>for i := 0; i < l/8; i++ { o = o + hex[l-8*(i+1):l-8*i] }\<close>.\<close>

function revhex4_loop :: "string \<Rightarrow> nat \<Rightarrow> nat \<Rightarrow> string \<Rightarrow> string" where
  "revhex4_loop h l i acc =
     (if i < l div 8 then revhex4_loop h l (i + 1) (acc @ take 8 (drop (l - 8 * (i + 1)) h)) else acc)"
  by pat_completeness auto
termination
  by (relation "measure (\<lambda>(h, l, i, acc). l div 8 - i)") auto

declare revhex4_loop.simps [simp del]

definition reverseHex4Bytes :: "string \<Rightarrow> string res" where
  "reverseHex4Bytes h =
     (if length h mod 8 \<noteq> 0
      then Err ''string must be divisible by 8 to represent 4 byte array''
      else Ok (revhex4_loop h (length h) 0 []))"

text \<open>\<open>hexStringToByteString\<close> (package \<open>pool\<close>): panics on bad text.\<close>

fun bytes_string :: "byte list \<Rightarrow> string" where
  "bytes_string bs = map (\<lambda>b. char_of (unat b)) bs"

definition string_bytes :: "string \<Rightarrow> byte list" where
  "string_bytes s = map of_char s"

definition hexStringToByteString :: "string \<Rightarrow> string res" where
  "hexStringToByteString h =
     (case DecodeString h of Ok bs \<Rightarrow> Ok (bytes_string bs) | Err e \<Rightarrow> Panic e | Panic m \<Rightarrow> Panic m)"

lemma length_string_bytes [simp]: "length (string_bytes s) = length s"
  by (simp add: string_bytes_def)

text \<open>Both string loops reverse the list of \<open>k\<close>-character groups.\<close>

fun chunks :: "nat \<Rightarrow> nat \<Rightarrow> 'a list \<Rightarrow> 'a list list" where
  "chunks k 0 xs = []"
| "chunks k (Suc n) xs = take k xs # chunks k n (drop k xs)"

lemma chunks_snoc: "chunks k (Suc n) xs = chunks k n xs @ [take k (drop (k * n) xs)]"
proof (induction n arbitrary: xs)
  case 0
  then show ?case by simp
next
  case (Suc n)
  have "chunks k (Suc (Suc n)) xs = take k xs # chunks k (Suc n) (drop k xs)" by simp
  also have "\<dots> = take k xs # chunks k n (drop k xs) @ [take k (drop (k * n) (drop k xs))]"
    by (simp only: Suc.IH)
  finally show ?case by (simp add: add.commute)
qed

lemma concat_chunks: "length xs = k * n \<Longrightarrow> concat (chunks k n xs) = xs"
  by (induction n arbitrary: xs) simp_all

lemma chunks_concat: "(\<And>c. c \<in> set cs \<Longrightarrow> length c = k) \<Longrightarrow> chunks k (length cs) (concat cs) = cs"
  by (induction cs) auto

lemma length_chunks [simp]: "length (chunks k n xs) = n"
  by (induction n arbitrary: xs) auto

lemma chunks_length: "length xs = k * n \<Longrightarrow> c \<in> set (chunks k n xs) \<Longrightarrow> length c = k"
proof (induction n arbitrary: xs)
  case (Suc n)
  then show ?case using Suc.IH [of "drop k xs"] by auto
qed simp

definition rev_chunks :: "nat \<Rightarrow> nat \<Rightarrow> 'a list \<Rightarrow> 'a list" where
  "rev_chunks k n xs = concat (rev (chunks k n xs))"

lemma concat_lengths: "(\<And>c. c \<in> set cs \<Longrightarrow> length c = k) \<Longrightarrow> length (concat cs) = k * length cs"
  by (induction cs) auto

lemma length_rev_chunks: "length xs = k * n \<Longrightarrow> length (rev_chunks k n xs) = k * n"
  using concat_lengths [of "rev (chunks k n xs)" k] chunks_length [of xs k n]
  by (simp add: rev_chunks_def)

lemma rev_chunks_involution: "length xs = k * n \<Longrightarrow> rev_chunks k n (rev_chunks k n xs) = xs"
  using chunks_concat [of "rev (chunks k n xs)" k] chunks_length [of xs k n] concat_chunks [of xs k n]
  by (simp add: rev_chunks_def)

lemma revhex_loop_eq: "revhex_loop h (2 * n) acc = acc @ rev_chunks 2 n h"
proof (induction n arbitrary: acc)
  case 0
  then show ?case by (simp add: revhex_loop.simps rev_chunks_def)
next
  case (Suc n)
  then show ?case
    by (subst revhex_loop.simps) (simp add: rev_chunks_def chunks_snoc del: chunks.simps)
qed

lemma revhex4_loop_eq:
  "i + n = l div 8 \<Longrightarrow> 8 dvd l \<Longrightarrow> revhex4_loop h l i acc = acc @ rev_chunks 8 n h"
proof (induction n arbitrary: i acc)
  case 0
  then show ?case by (simp add: revhex4_loop.simps rev_chunks_def)
next
  case (Suc n)
  then have "i < l div 8" and "l - 8 * (i + 1) = 8 * n" by (auto elim!: dvdE)
  then show ?case using Suc
    by (subst revhex4_loop.simps) (simp add: rev_chunks_def chunks_snoc del: chunks.simps)
qed

lemma reverseHexBytes_eq:
  "reverseHexBytes h = (if even (length h) then Ok (rev_chunks 2 (length h div 2) h)
     else Err ''string must be divisible by 2 to be a byte string'')"
  using revhex_loop_eq [of h "length h div 2" "[]"]
  by (auto simp: reverseHexBytes_def even_iff_mod_2_eq_zero)

lemma reverseHex4Bytes_eq:
  "reverseHex4Bytes h = (if 8 dvd length h then Ok (rev_chunks 8 (length h div 8) h)
     else Err ''string must be divisible by 8 to represent 4 byte array'')"
  using revhex4_loop_eq [of 0 "length h div 8" "length h" h "[]"]
  by (auto simp: reverseHex4Bytes_def dvd_eq_mod_eq_0)

lemma reverse_eq_rev: "reverse b = rev b"
proof -
  have *: "foldl (\<lambda>r i. r[length b - 1 - i := b ! i]) (replicate (length b) 0) [0..<n]
      = replicate (length b - n) 0 @ rev (take n b)" if "n \<le> length b" for n
    using that
  proof (induction n)
    case 0
    then show ?case by simp
  next
    case (Suc n)
    then have "replicate (length b - n) (0 :: byte) = replicate (length b - Suc n) 0 @ [0]"
      by (metis Suc_diff_Suc Suc_le_lessD replicate_Suc replicate_append_same)
    with Suc show ?case
      by (simp add: list_update_append take_Suc_conv_app_nth)
  qed
  show ?thesis using * [of "length b"] by (simp add: reverse_def Let_def)
qed

text \<open>Reversing the text reverses the bytes it stands for.\<close>

lemma rev_chunks_two [simp]: "length h = 2 * n \<Longrightarrow> rev_chunks 2 (Suc n) (c # d # h) = rev_chunks 2 n h @ [c, d]"
  by (simp add: rev_chunks_def)

lemma DecodeString_rev_chunks:
  "DecodeString h = Ok bs \<Longrightarrow> DecodeString (rev_chunks 2 (length h div 2) h) = Ok (rev bs)"
proof (induction h arbitrary: bs rule: DecodeString.induct)
  case 1
  then show ?case by (simp add: rev_chunks_def)
next
  case (2 c)
  then show ?case by (simp split: option.splits)
next
  case (3 c d s)
  then obtain m n ys where c: "hex_val c = Some m" and d: "hex_val d = Some n"
    and s: "DecodeString s = Ok ys" and bs: "bs = of_nat (16 * m + n) # ys"
    by (auto simp: outcome_simps split: option.splits)
  from DecodeString_length [OF s] have len: "length s = 2 * length ys" .
  with s have "DecodeString (rev_chunks 2 (length ys) s) = Ok (rev ys)"
    using "3.IH" [OF c d s] by simp
  from DecodeString_append [OF this, of "[c, d]"] len c d bs show ?case by simp
qed

lemma reverseHexBytes_Decode:
  assumes "DecodeString h = Ok bs"
  obtains h' where "reverseHexBytes h = Ok h'" and "DecodeString h' = Ok (rev bs)"
  using assms DecodeString_rev_chunks [OF assms] DecodeString_length [OF assms]
  by (simp add: reverseHexBytes_eq)

lemma reverseHexBytes_EncodeToString:
  "reverseHexBytes (EncodeToString bs) = Ok (EncodeToString (rev bs))"
proof -
  have "rev_chunks 2 (length bs) (EncodeToString bs) = EncodeToString (rev bs)"
    by (induction bs) (simp_all add: rev_chunks_def)
  then show ?thesis by (simp add: reverseHexBytes_eq)
qed

section \<open>Little-endian integers\<close>

text \<open>\<open>binary.LittleEndian.PutUint16/32/64\<close> into a buffer of \<open>k\<close> bytes.\<close>

definition le_bytes :: "nat \<Rightarrow> 'a::len word \<Rightarrow> byte list" where
  "le_bytes k v = map (\<lambda>i. ucast (drop_bit (8 * i) v)) [0..<k]"

definition le_value :: "byte list \<Rightarrow> nat" where
  "le_value bs = foldr (\<lambda>b acc. unat b + 256 * acc) bs 0"

lemma le_value_simps [simp]:
  "le_value [] = 0" "le_value (b # bs) = unat b + 256 * le_value bs"
  by (simp_all add: le_value_def)

lemma le_value_append: "le_value (xs @ ys) = le_value xs + 256 ^ length xs * le_value ys"
  by (induction xs) (simp_all add: algebra_simps)

lemma le_value_bound: "le_value bs < 256 ^ length bs"
proof (induction bs)
  case (Cons b bs)
  then have "le_value bs + 1 \<le> 256 ^ length bs" and "unat b + 1 \<le> 256"
    using unat_byte_less [of b] by linarith+
  then have "256 * (le_value bs + 1) \<le> 256 * 256 ^ length bs" by (intro mult_left_mono) auto
  with \<open>unat b + 1 \<le> 256\<close> show ?case by simp
qed simp

lemma le_value_inj: "length xs = length ys \<Longrightarrow> le_value xs = le_value ys \<Longrightarrow> xs = ys"
proof (induction xs ys rule: list_induct2)
  case (Cons x xs y ys)
  have "(unat x + 256 * le_value xs) mod 256 = (unat y + 256 * le_value ys) mod 256"
    using Cons.prems by (simp only: le_value_simps)
  then have "unat x = unat y" by (simp only: mod_mult_self2 mod_less unat_byte_less)
  with Cons show ?case by (simp add: word_unat_eq_iff)
qed simp

lemma length_le_bytes [simp]: "length (le_bytes k v) = k"
  by (simp add: le_bytes_def)

lemma unat_le_byte: "unat (ucast (drop_bit (8 * i) v) :: byte) = unat v div 256 ^ i mod 256"
proof -
  have "(2 :: nat) ^ (8 * i) = 256 ^ i" by (simp add: power_mult)
  then show ?thesis by (simp add: unsigned_ucast_eq unat_drop_bit_eq take_bit_eq_mod) (simp add: drop_bit_eq_div)
qed

lemma le_value_le_bytes: "le_value (le_bytes k v) = unat v mod 256 ^ k"
proof (induction k)
  case 0
  then show ?case by (simp add: le_bytes_def)
next
  case (Suc k)
  have "le_bytes (Suc k) v = le_bytes k v @ [ucast (drop_bit (8 * k) v)]"
    by (simp add: le_bytes_def)
  with Suc have "le_value (le_bytes (Suc k) v) = unat v mod 256 ^ k + 256 ^ k * (unat v div 256 ^ k mod 256)"
    by (simp add: le_value_append unat_le_byte)
  also have "\<dots> = unat v mod 256 ^ Suc k"
    using mod_mult2_eq [of "unat v" "256 ^ k" 256] by (simp add: mult.commute add.commute)
  finally show ?case .
qed

text \<open>Values of dynamic type, the arguments of the two \<open>interface{}\<close> encoders; the default case
  asserts that the value is a string.\<close>

datatype go_value = VInt u64 | VInt16 u16 | VInt32 u32 | VInt64 u64
  | VUint u64 | VUint16 u16 | VUint32 u32 | VUint64 u64 | VFloat32 fl | VFloat64 fl | VString string
  | VOther

text \<open>Conversion of a float to \<open>uint32\<close> / \<open>uint64\<close>: Go defines it only where the truncated value
  fits; elsewhere the model has no value.\<close>

definition float_to_word :: "fl \<Rightarrow> 'a::len word res" where
  "float_to_word x = (case float_to_int 0 (2 ^ LENGTH('a)) x of
     None \<Rightarrow> Panic ''implementation-specific conversion'' | Some i \<Rightarrow> Ok (word_of_int i))"

fun fourLittleEndianBytes :: "go_value \<Rightarrow> byte list res" where
  "fourLittleEndianBytes (VInt v) = Ok (le_bytes 4 (ucast v :: u32))"
| "fourLittleEndianBytes (VInt16 v) = Ok (le_bytes 4 (scast v :: u32))"
| "fourLittleEndianBytes (VInt32 v) = Ok (le_bytes 4 v)"
| "fourLittleEndianBytes (VUint v) = Ok (le_bytes 4 (ucast v :: u32))"
| "fourLittleEndianBytes (VUint16 v) = Ok (le_bytes 4 (ucast v :: u32))"
| "fourLittleEndianBytes (VFloat32 x) =
     res_bind (float_to_word x) (\<lambda>v. Ok (le_bytes 4 (v :: u32)))"
| "fourLittleEndianBytes (VUint32 v) = Ok (le_bytes 4 v)"
| "fourLittleEndianBytes (VString s) = Panic (''Unable to write 4 byte stream: '' @ s)"
| "fourLittleEndianBytes v = Panic ''interface conversion: interface {} is not string''"

fun eightLittleEndianBytes :: "go_value \<Rightarrow> byte list res" where
  "eightLittleEndianBytes (VInt v) = Ok (le_bytes 8 v)"
| "eightLittleEndianBytes (VInt16 v) = Ok (le_bytes 8 (scast v :: u64))"
| "eightLittleEndianBytes (VInt32 v) = Ok (le_bytes 8 (scast v :: u64))"
| "eightLittleEndianBytes (VInt64 v) = Ok (le_bytes 8 v)"
| "eightLittleEndianBytes (VUint v) = Ok (le_bytes 8 v)"
| "eightLittleEndianBytes (VUint16 v) = Ok (le_bytes 8 (ucast v :: u64))"
| "eightLittleEndianBytes (VUint32 v) = Ok (le_bytes 8 (ucast v :: u64))"
| "eightLittleEndianBytes (VUint64 v) = Ok (le_bytes 8 v)"
| "eightLittleEndianBytes (VFloat32 x) =
     res_bind (float_to_word x) (\<lambda>v. Ok (le_bytes 8 (v :: u64)))"
| "eightLittleEndianBytes (VFloat64 x) =
     res_bind (float_to_word x) (\<lambda>v. Ok (le_bytes 8 (v :: u64)))"
| "eightLittleEndianBytes (VString s) = Panic (''Unable to write 8 byte stream: '' @ s)"
| "eightLittleEndianBytes VOther = Panic ''interface conversion: interface {} is not string''"

definition bytesWithLengthHeader :: "byte list \<Rightarrow> byte list" where
  "bytesWithLengthHeader bs = of_nat (length bs) # bs"

text \<open>The loop of \<open>removeInsignificantBytesLittleEndian\<close>; the flag is
  \<open>weReachedASignificantByte\<close>, the accumulator \<open>cleaned\<close>.\<close>

fun insignificant_loop :: "bool \<Rightarrow> byte list \<Rightarrow> byte list \<Rightarrow> byte list" where
  "insignificant_loop reached [] cleaned = cleaned"
| "insignificant_loop reached (b # bs) cleaned =
     (if reached \<and> b = 0 then insignificant_loop reached bs cleaned
      else insignificant_loop (if b \<noteq> 0 then True else reached) bs (cleaned @ [b]))"

definition removeInsignificantBytesLittleEndian :: "byte list \<Rightarrow> byte list" where
  "removeInsignificantBytesLittleEndian bs = insignificant_loop False bs []"

lemma insignificant_loop_True: "insignificant_loop True bs acc = acc @ filter (\<lambda>b. b \<noteq> 0) bs"
  by (induction bs arbitrary: acc) auto

lemma insignificant_loop_False:
  "insignificant_loop False bs acc = acc @ takeWhile (\<lambda>b. b = 0) bs @ filter (\<lambda>b. b \<noteq> 0) (dropWhile (\<lambda>b. b = 0) bs)"
  by (induction bs arbitrary: acc) (auto simp: insignificant_loop_True)

text \<open>What the loop keeps: the low zero bytes, then every non-zero byte.\<close>

lemma removeInsignificant_eq:
  "removeInsignificantBytesLittleEndian bs =
     takeWhile (\<lambda>b. b = 0) bs @ filter (\<lambda>b. b \<noteq> 0) (dropWhile (\<lambda>b. b = 0) bs)"
  by (simp add: removeInsignificantBytesLittleEndian_def insignificant_loop_False)

lemma removeInsignificant_length: "length (removeInsignificantBytesLittleEndian bs) \<le> length bs"
proof -
  have "length (filter (\<lambda>b. b \<noteq> 0) (dropWhile (\<lambda>b. b = 0) bs)) \<le> length (dropWhile (\<lambda>b. b = 0) bs)"
    by (rule length_filter_le)
  also have "length (takeWhile (\<lambda>b. b = 0) bs) + length (dropWhile (\<lambda>b. b = 0) bs) = length bs"
    by (metis length_append takeWhile_dropWhile_id)
  finally show ?thesis by (simp add: removeInsignificant_eq)
qed

definition varUint64 :: "u64 \<Rightarrow> string" where
  "varUint64 v = EncodeToString (removeInsignificantBytesLittleEndian (le_bytes 8 v))"

section \<open>CompactSize integers\<close>

definition varUint :: "u64 \<Rightarrow> string res" where
  "varUint value =
     (if value \<le> 252 then Ok (EncodeToString [ucast value])
      else if 0xfd < value \<and> value \<le> 0xffff
      then Ok (EncodeToString (0xfd # le_bytes 2 (ucast value :: u16)))
      else if 0xffff < value \<and> value \<le> 0xffffffff
      then Ok (EncodeToString (0xfe # le_bytes 4 (ucast value :: u32)))
      else if 0xffffffff < value \<and> value \<le> 0xffffffffffffffff
      then Ok (EncodeToString (0xff # le_bytes 8 value))
      else Panic ''Too large to stream'')"

text \<open>The reader every node of the network has: the reference for \<open>varUint\<close>.\<close>

fun parse_compact :: "byte list \<Rightarrow> (u64 \<times> byte list) option" where
  "parse_compact [] = None"
| "parse_compact (b # bs) =
     (let k = (if b = 0xfd then 2 else if b = 0xfe then 4 else 8) in
      if b \<le> 252 then Some (ucast b, bs)
      else if k \<le> length bs then Some (of_nat (le_value (take k bs)), drop k bs)
      else None)"

text \<open>
  The contract of a serialiser that writes hexadecimal text and of a reader of the bytes: on
  admissible values the writer does not fail, and the reader gets the value back and leaves what
  follows.  Injectivity and the reading of sequences follow once for all instances.
\<close>

fun parse_many :: "(byte list \<Rightarrow> ('a \<times> byte list) option) \<Rightarrow> nat \<Rightarrow> byte list \<Rightarrow> ('a list \<times> byte list) option" where
  "parse_many p 0 bs = Some ([], bs)"
| "parse_many p (Suc n) bs =
     (case p bs of None \<Rightarrow> None
      | Some (x, rest) \<Rightarrow> (case parse_many p n rest of None \<Rightarrow> None
          | Some (xs, rest') \<Rightarrow> Some (x # xs, rest')))"

locale wire_format =
  fixes enc :: "'a \<Rightarrow> string res"
    and dec :: "byte list \<Rightarrow> ('a \<times> byte list) option"
    and valid :: "'a \<Rightarrow> bool"
  assumes enc_text: "valid x \<Longrightarrow> \<exists>s bs. enc x = Ok s \<and> DecodeString s = Ok bs"
    and dec_enc: "valid x \<Longrightarrow> enc x = Ok s \<Longrightarrow> DecodeString s = Ok bs \<Longrightarrow> dec (bs @ rest) = Some (x, rest)"
begin

lemma enc_inj: "valid x \<Longrightarrow> valid y \<Longrightarrow> enc x = enc y \<Longrightarrow> x = y"
proof -
  assume x: "valid x" and y: "valid y" and eq: "enc x = enc y"
  from enc_text [OF x] obtain s bs where s: "enc x = Ok s" and bs: "DecodeString s = Ok bs" by auto
  with dec_enc [OF x s bs, of "[]"] dec_enc [OF y _ bs, of "[]"] eq show "x = y" by simp
qed

lemma dec_append:
  assumes "valid x" and "enc x = Ok s" and "DecodeString (s @ t) = Ok bs"
  obtains rest where "dec bs = Some (x, rest)" and "DecodeString t = Ok rest"
proof -
  from enc_text [OF assms(1)] assms(2) obtain xs where xs: "DecodeString s = Ok xs" by auto
  from assms(3) DecodeString_append [OF xs, of t] obtain rest
    where "DecodeString t = Ok rest" "bs = xs @ rest" by (auto simp: outcome_simps)
  with dec_enc [OF assms(1,2) xs] that show ?thesis by auto
qed

lemma parse_many_enc:
  assumes "\<And>x. x \<in> set xs \<Longrightarrow> valid x" and "res_map enc xs = Ok ss"
    and "DecodeString (concat ss @ t) = Ok bs"
  shows "\<exists>rest. parse_many dec (length xs) bs = Some (xs, rest) \<and> DecodeString t = Ok rest"
  using assms
proof (induction xs arbitrary: ss bs)
  case Nil
  then show ?case by simp
next
  case (Cons x xs)
  then obtain s ss' where s: "enc x = Ok s" and ss': "res_map enc xs = Ok ss'" and ss: "ss = s # ss'"
    by (auto simp: outcome_simps)
  have "valid x" using Cons.prems(1) by simp
  moreover have "DecodeString (s @ (concat ss' @ t)) = Ok bs" using Cons.prems(3) ss by simp
  ultimately obtain rest where "dec bs = Some (x, rest)" "DecodeString (concat ss' @ t) = Ok rest"
    using s by (metis dec_append)
  with Cons.IH [OF _ ss', of rest] Cons.prems(1) show ?case by auto
qed

end

lemma word_le_bounds:
  fixes v :: u64
  shows "v \<le> 0xffff \<longleftrightarrow> unat v < 2 ^ 16" "v \<le> 0xffffffff \<longleftrightarrow> unat v < 2 ^ 32"
  "v \<le> 252 \<longleftrightarrow> unat v \<le> 252"
  by (simp_all add: word_le_nat_alt less_Suc_eq_le [symmetric])

lemma unat_u64_less [simp]: "unat (v :: u64) < 18446744073709551616"
proof -
  have "unat v < 2 ^ LENGTH(64)" by (rule unsigned_less)
  then show ?thesis by simp
qed

lemma unat_u64_le [simp]: "unat (v :: u64) \<le> 18446744073709551615"
  using unat_u64_less [of v] by linarith

lemma word64_max [simp]: "(v :: u64) \<le> 0xffffffffffffffff"
  by (simp add: word_le_nat_alt)

lemma le_value_ucast:
  fixes v :: u64
  shows "v \<le> 0xffff \<Longrightarrow> of_nat (le_value (le_bytes 2 (ucast v :: u16))) = v"
    and "v \<le> 0xffffffff \<Longrightarrow> of_nat (le_value (le_bytes 4 (ucast v :: u32))) = v"
    and "of_nat (le_value (le_bytes 8 v)) = v"
  by (simp_all add: le_value_le_bytes unsigned_ucast_eq take_bit_eq_mod word_le_bounds
      flip: unsigned_of_nat)

lemma varUint_cases:
  fixes v :: u64
  obtains (byte) "v \<le> 252" "varUint v = Ok (EncodeToString [ucast v])"
  | (gap) "v = 253" "varUint v = Panic ''Too large to stream''"
  | (two) "v \<le> 0xffff" "varUint v = Ok (EncodeToString (0xfd # le_bytes 2 (ucast v :: u16)))"
  | (four) "v \<le> 0xffffffff" "varUint v = Ok (EncodeToString (0xfe # le_bytes 4 (ucast v :: u32)))"
  | (eight) "varUint v = Ok (EncodeToString (0xff # le_bytes 8 v))"
proof -
  consider "v \<le> 252" | "v = 253" | "253 < v" "v \<le> 0xffff" | "0xffff < v" "v \<le> 0xffffffff"
    | "0xffffffff < v"
    by (simp add: word_le_nat_alt word_less_nat_alt word_unat_eq_iff) linarith
  then show ?thesis
  proof cases
    case 1 then show ?thesis by (intro byte) (simp_all add: varUint_def del: EncodeToString_simps)
  next
    case 2 then show ?thesis by (intro gap) (simp_all add: varUint_def)
  next
    case 3 then show ?thesis
      by (intro two) (auto simp add: varUint_def word_le_nat_alt word_less_nat_alt simp del: EncodeToString_simps)
  next
    case 4 then show ?thesis
      by (intro four) (auto simp add: varUint_def word_le_nat_alt word_less_nat_alt simp del: EncodeToString_simps)
  next
    case 5 then show ?thesis
      by (intro eight) (auto simp add: varUint_def word_le_nat_alt word_less_nat_alt simp del: EncodeToString_simps)
  qed
qed

lemma ucast_byte: "(v :: u64) \<le> 252 \<Longrightarrow> (ucast v :: byte) \<le> 252 \<and> (ucast (ucast v :: byte) :: u64) = v"
proof -
  assume "v \<le> 252"
  then have "unat v \<le> 252" by (simp add: word_le_nat_alt)
  then have "unat (ucast v :: byte) = unat v" by (simp add: unsigned_ucast_eq take_bit_eq_mod)
  with \<open>unat v \<le> 252\<close> show ?thesis
    by (simp add: word_le_nat_alt word_unat_eq_iff unsigned_ucast_eq take_bit_eq_mod unat_mod_distrib)
qed

interpretation varUint: wire_format varUint parse_compact "\<lambda>v. v \<noteq> 253"
proof unfold_locales
  fix v :: u64
  assume "v \<noteq> 253"
  then show "\<exists>s bs. varUint v = Ok s \<and> DecodeString s = Ok bs"
    by (cases v rule: varUint_cases) (auto simp del: EncodeToString_simps)
next
  fix v s bs rest
  assume v: "v \<noteq> (253 :: u64)" and s: "varUint v = Ok s" and bs: "DecodeString s = Ok bs"
  from v show "parse_compact (bs @ rest) = Some (v, rest)"
  proof (cases v rule: varUint_cases)
    case byte
    have "(ucast v :: byte) \<le> 252 \<and> (ucast (ucast v :: byte) :: u64) = v"
      using byte(1) by (rule ucast_byte)
    with byte(2) s bs show ?thesis by (auto simp del: EncodeToString_simps)
  next
    case two
    with s bs show ?thesis by (auto simp: Let_def le_value_ucast simp del: EncodeToString_simps)
  next
    case four
    with s bs show ?thesis by (auto simp: Let_def le_value_ucast simp del: EncodeToString_simps)
  next
    case eight
    with s bs show ?thesis by (auto simp: Let_def le_value_ucast simp del: EncodeToString_simps)
  qed simp
qed

text \<open>A zero-padded hexadecimal numeral is the text of the big-endian bytes.\<close>

lemma EncodeToString_nibbles:
  "EncodeToString bs = map digit_char (concat (map (\<lambda>b. [unat b div 16, unat b mod 16]) bs))"
  by (induction bs) auto

lemma digits_value_nibbles:
  "digits_value 16 (concat (map (\<lambda>b. [unat b div 16, unat b mod 16]) (rev bs))) = le_value bs"
proof (induction bs)
  case Nil
  then show ?case by (simp add: digits_value_def)
next
  case (Cons b bs)
  have "unat b div 16 * 16 + unat b mod 16 = unat b" by (rule div_mult_mod_eq)
  then have "(n * 16 + unat b div 16) * 16 + unat b mod 16 = unat b + 256 * n" for n
    unfolding add_mult_distrib by linarith
  with Cons digits_value_append_single
    [of 16 "concat (map (\<lambda>b. [unat b div 16, unat b mod 16]) (rev bs)) @ [unat b div 16]" "unat b mod 16"]
  show ?case by simp
qed

lemma hex_text_padded_bytes:
  assumes "bs \<noteq> []"
  shows "hex_text_padded (2 * length bs) (le_value bs) = EncodeToString (rev bs)"
proof -
  let ?ds = "concat (map (\<lambda>b. [unat b div 16, unat b mod 16]) (rev bs))"
  have len: "length ?ds = 2 * length bs" by (induction bs) auto
  have digit: "d < 16" if "d \<in> set ?ds" for d
    using that by (auto simp: less_mult_imp_div_less)
  have "hex_text_padded (length ?ds) (digits_value 16 ?ds) = map digit_char ?ds"
    by (rule hex_text_padded_unique) (simp_all only: len digit, simp add: assms)
  then have "hex_text_padded (2 * length bs) (digits_value 16 ?ds) = map digit_char ?ds"
    by (simp only: len)
  then show ?thesis by (simp only: digits_value_nibbles EncodeToString_nibbles)
qed

lemma varUint_bytes:
  assumes "v \<noteq> 253"
  obtains vb where "varUint v = Ok (EncodeToString vb)" and "\<And>rest. parse_compact (vb @ rest) = Some (v, rest)"
proof -
  obtain vb where vb: "varUint v = Ok (EncodeToString vb)"
    using assms by (cases v rule: varUint_cases) (auto simp del: EncodeToString_simps)
  with varUint.dec_enc [OF assms vb] that show ?thesis by simp
qed

lemma varUint_small: "v \<le> 252 \<Longrightarrow> varUint v = Ok (EncodeToString [ucast v])"
  by (simp add: varUint_def del: EncodeToString_simps)

section \<open>Properties\<close>

text \<open>C31. \<open>varUint\<close> is the CompactSize encoding of the protocol for every 64-bit value except 253:
  a reader of the network gets the value back and leaves what follows.  For 253, and only there,
  the code panics (the second branch tests \<open>value > 0xfd\<close>).\<close>

theorem varUint_compact_size:
  "(case varUint v of
      Ok s \<Rightarrow> v \<noteq> 253 \<and> (\<exists>bs. DecodeString s = Ok bs \<and> (\<forall>rest. parse_compact (bs @ rest) = Some (v, rest)))
    | Err e \<Rightarrow> False
    | Panic m \<Rightarrow> v = 253)"
proof (cases "v = 253")
  case True
  then show ?thesis by (simp add: varUint_def)
next
  case False
  then obtain vb where "varUint v = Ok (EncodeToString vb)"
    and "\<And>rest. parse_compact (vb @ rest) = Some (v, rest)"
    using varUint_bytes [of v] by blast
  with False show ?thesis by simp
qed

text \<open>\<open>reverseHexBytes\<close> reverses the bytes its argument stands for, and undoes itself.\<close>

theorem reverseHexBytes_reverses:
  assumes "DecodeString h = Ok bs"
  shows "\<exists>h'. reverseHexBytes h = Ok h' \<and> DecodeString h' = Ok (rev bs) \<and> reverseHexBytes h' = Ok h"
proof -
  have len: "length h = 2 * (length h div 2)" using DecodeString_length [OF assms] by simp
  from assms obtain h' where h': "reverseHexBytes h = Ok h'" "DecodeString h' = Ok (rev bs)"
    by (rule reverseHexBytes_Decode)
  moreover have "reverseHexBytes h' = Ok h"
    using h'(1) len length_rev_chunks [OF len] rev_chunks_involution [OF len]
    by (auto simp: reverseHexBytes_eq split: if_splits)
  ultimately show ?thesis by blast
qed

lemma reverseHexBytes_reverses_witness:
  "\<exists>h'. reverseHexBytes ''0aFF10'' = Ok h' \<and> DecodeString h' = Ok (rev [10, 255, 16]) \<and>
     reverseHexBytes h' = Ok ''0aFF10''"
  by (rule reverseHexBytes_reverses) (simp add: hex_val_def)

text \<open>\<open>reverseHex4Bytes\<close> reverses the order of the 4-byte groups and undoes itself; on a text
  whose length is no multiple of 8 it returns an error and never anything else.\<close>

theorem reverseHex4Bytes_groups:
  "(case reverseHex4Bytes h of
      Ok h' \<Rightarrow> 8 dvd length h \<and> chunks 8 (length h div 8) h' = rev (chunks 8 (length h div 8) h) \<and>
        reverseHex4Bytes h' = Ok h
    | Err e \<Rightarrow> \<not> 8 dvd length h
    | Panic m \<Rightarrow> False)"
proof (cases "8 dvd length h")
  case True
  then have len: "length h = 8 * (length h div 8)" by simp
  let ?gs = "rev (chunks 8 (length h div 8) h)"
  have "length c = 8" if "c \<in> set ?gs" for c
    using that by (auto intro: chunks_length [OF len])
  then have "chunks 8 (length ?gs) (concat ?gs) = ?gs" by (rule chunks_concat)
  then have "chunks 8 (length h div 8) (rev_chunks 8 (length h div 8) h) = rev (chunks 8 (length h div 8) h)"
    by (simp add: rev_chunks_def)
  then show ?thesis
    using True length_rev_chunks [OF len] rev_chunks_involution [OF len] by (simp add: reverseHex4Bytes_eq)
next
  case False
  then show ?thesis by (simp add: reverseHex4Bytes_eq)
qed

text \<open>The minimal little-endian form: no zero bytes on top.\<close>

fun trim_high :: "byte list \<Rightarrow> byte list" where
  "trim_high [] = []"
| "trim_high (b # bs) = (if b = 0 \<and> trim_high bs = [] then [] else b # trim_high bs)"

lemma trim_high_Nil: "trim_high bs = [] \<longleftrightarrow> le_value bs = 0"
  by (induction bs) (auto simp: unat_eq_0)

lemma le_value_trim_high: "le_value (trim_high bs) = le_value bs"
  by (induction bs) (auto simp: trim_high_Nil)

lemma le_value_filter:
  "le_value (filter (\<lambda>b. b \<noteq> 0) bs) \<le> le_value bs \<and>
   (le_value (filter (\<lambda>b. b \<noteq> 0) bs) = le_value bs \<longleftrightarrow> 0 \<notin> set (trim_high bs))"
proof (induction bs)
  case Nil
  then show ?case by simp
next
  case (Cons b bs)
  let ?f = "filter (\<lambda>b. b \<noteq> 0) bs"
  show ?case
  proof (cases "b = 0")
    case True
    have "le_value ?f = 256 * le_value bs \<longleftrightarrow> le_value bs = 0" using Cons by linarith
    with Cons True show ?thesis by (simp add: trim_high_Nil)
  next
    case False
    with Cons show ?thesis by simp
  qed
qed

lemma le_value_zeros: "set zs \<subseteq> {0} \<Longrightarrow> le_value (zs @ bs) = 256 ^ length zs * le_value bs"
  by (induction zs) auto

lemma removeInsignificant_value:
  fixes bs :: "byte list"
  shows "le_value (removeInsignificantBytesLittleEndian bs) \<le> le_value bs"
    and "le_value (removeInsignificantBytesLittleEndian bs) = le_value bs \<longleftrightarrow>
      0 \<notin> set (trim_high (dropWhile (\<lambda>b. b = 0) bs))"
proof -
  let ?z = "takeWhile (\<lambda>b. b = 0) bs" and ?r = "dropWhile (\<lambda>b. b = 0) bs"
  have zero: "set ?z \<subseteq> {0}" by (auto dest: set_takeWhileD)
  have "le_value bs = le_value (?z @ ?r)" by simp
  also have "\<dots> = 256 ^ length ?z * le_value ?r" by (rule le_value_zeros) (rule zero)
  finally have full: "le_value bs = 256 ^ length ?z * le_value ?r" .
  have kept: "le_value (removeInsignificantBytesLittleEndian bs)
      = 256 ^ length ?z * le_value (filter (\<lambda>b. b \<noteq> 0) ?r)"
    unfolding removeInsignificant_eq by (rule le_value_zeros) (rule zero)
  show "le_value (removeInsignificantBytesLittleEndian bs) \<le> le_value bs"
    using le_value_filter [of ?r] by (simp add: kept full)
  show "le_value (removeInsignificantBytesLittleEndian bs) = le_value bs \<longleftrightarrow> 0 \<notin> set (trim_high ?r)"
    using le_value_filter [of ?r] by (simp add: kept full)
qed

text \<open>The bytes \<open>removeInsignificantBytesLittleEndian\<close> keeps of a 64-bit number never stand for
  a larger number, and stand for the number itself exactly when no zero byte lies between its lowest
  and its highest non-zero byte: interior zero bytes are dropped too, so the number is then lost.\<close>

theorem cleaned_bytes_exact:
  "le_value (removeInsignificantBytesLittleEndian (le_bytes 8 (v :: u64))) \<le> unat v \<and>
   (le_value (removeInsignificantBytesLittleEndian (le_bytes 8 v)) = unat v \<longleftrightarrow>
     0 \<notin> set (trim_high (dropWhile (\<lambda>b. b = 0) (le_bytes 8 v))))"
  using removeInsignificant_value [of "le_bytes 8 v"] by (simp add: le_value_le_bytes)

text \<open>The numeral in the coinbase is ambiguous: the blocks 257 and 65537 get the same height bytes.\<close>

theorem height_collision:
  "varUint64 65537 = varUint64 257 \<and> varUint64 257 = ''0101''"
  by (simp add: varUint64_def removeInsignificant_eq le_bytes_def upt_rec digit_char_def drop_bit_eq_div
      word_unat_eq_iff unsigned_ucast_eq take_bit_eq_mod unat_div)

end
