(* ===== verification/Chains.thy ===== *)
theory Chains
  imports Sha256
begin

text \<open>
  The chains the pool mines: \<open>bitcoin/crypto.go\<close> (digests), \<open>bitcoin/chain.go\<close> (the interface
  \<open>Blockchain\<close> and its registry \<open>GetChain\<close>) and the five coins that implement it.  A Go interface
  value is a record of its methods.  \<open>scrypt.Key\<close> is not part of the repository: it is the
  parameter \<open>scrypt\<close> (with \<open>None\<close> for its error result).  The locale \<open>chain_contract\<close> states what
  the block generator relies on; every coin is an instance.
\<close>

section \<open>Digests\<close>

type_synonym scrypt_fn = "byte list \<Rightarrow> byte list option"

definition doubleSha256Bytes :: "byte list \<Rightarrow> byte list" where
  "doubleSha256Bytes bs = Sum256 (Sum256 bs)"

definition DoubleSha256 :: "string \<Rightarrow> string res" where
  "DoubleSha256 s = res_bind (DecodeString s) (\<lambda>bs. Ok (EncodeToString (Sum256 (Sum256 bs))))"

text \<open>The error of \<open>scrypt.Key\<close> is dropped: the digest is then the text of a nil slice.\<close>

definition ScryptDigest :: "scrypt_fn \<Rightarrow> string \<Rightarrow> string res" where
  "ScryptDigest scrypt s = res_bind (DecodeString s) (\<lambda>bs.
     Ok (EncodeToString (case scrypt bs of Some k \<Rightarrow> k | None \<Rightarrow> [])))"

lemma length_doubleSha256Bytes [simp]: "length (doubleSha256Bytes bs) = 32"
  by (simp add: doubleSha256Bytes_def)

section \<open>Regular expressions\<close>

text \<open>The fragment of \<open>regexp\<close> the validators use: classes, alternatives, sequences and counted
  repetition of a class.  \<open>rx_match\<close> lists what may remain of the input.\<close>

type_synonym char_class = "(char \<times> char) list"

datatype rx = Cls char_class | Rep char_class nat nat | Seq rx rx | Alt rx rx

definition in_class :: "char_class \<Rightarrow> char \<Rightarrow> bool" where
  "in_class rs c = list_ex (\<lambda>(lo, hi). (of_char lo :: nat) \<le> of_char c \<and> (of_char c :: nat) \<le> of_char hi) rs"

fun rx_match :: "rx \<Rightarrow> string \<Rightarrow> string list" where
  "rx_match (Cls rs) s = (case s of [] \<Rightarrow> [] | c # t \<Rightarrow> if in_class rs c then [t] else [])"
| "rx_match (Rep rs m n) s =
     map (\<lambda>k. drop k s) (filter (\<lambda>k. k \<le> length s \<and> list_all (in_class rs) (take k s)) [m..<Suc n])"
| "rx_match (Seq a b) s = concat (map (rx_match b) (rx_match a s))"
| "rx_match (Alt a b) s = rx_match a s @ rx_match b s"

fun rx_lit :: "string \<Rightarrow> rx" where
  "rx_lit [] = Rep [] 0 0"
| "rx_lit [c] = Cls [(c, c)]"
| "rx_lit (c # cs) = Seq (Cls [(c, c)]) (rx_lit cs)"

text \<open>\<open>MatchString\<close> with \<open>^\<dots>$\<close>, and without anchors.\<close>

definition match_full :: "rx \<Rightarrow> string \<Rightarrow> bool" where
  "match_full r s = ([] \<in> set (rx_match r s))"

definition match_search :: "rx \<Rightarrow> string \<Rightarrow> bool" where
  "match_search r s = list_ex (\<lambda>t. rx_match r t \<noteq> []) (suffixes s)"

definition base58_class :: char_class where
  "base58_class = [(CHR ''a'', CHR ''k''), (CHR ''m'', CHR ''z''), (CHR ''A'', CHR ''H''),
     (CHR ''J'', CHR ''N''), (CHR ''P'', CHR ''Z''), (CHR ''1'', CHR ''9'')]"

definition alnum_class :: char_class where
  "alnum_class = [(CHR ''A'', CHR ''Z''), (CHR ''a'', CHR ''z''), (CHR ''0'', CHR ''9'')]"

definition lower_class :: char_class where
  "lower_class = [(CHR ''a'', CHR ''z''), (CHR ''0'', CHR ''9'')]"

definition one_of :: "string \<Rightarrow> rx" where
  "one_of cs = Cls (map (\<lambda>c. (c, c)) cs)"

section \<open>The interface and its implementations\<close>

record blockchain =
  ChainName :: string
  CoinbaseDigest :: "string \<Rightarrow> string res"
  HeaderDigest :: "string \<Rightarrow> string res"
  ShareMultiplier :: fl
  MinimumConfirmations :: nat
  ValidMainnetAddress :: "string \<Rightarrow> bool"
  ValidTestnetAddress :: "string \<Rightarrow> bool"

definition BitcoinMinConfirmations :: nat where "BitcoinMinConfirmations = 102"

definition Dogecoin :: "scrypt_fn \<Rightarrow> blockchain" where
  "Dogecoin scrypt = \<lparr>
     ChainName = ''dogecoin'',
     CoinbaseDigest = DoubleSha256,
     HeaderDigest = ScryptDigest scrypt,
     ShareMultiplier = Fin False 65536,
     MinimumConfirmations = 251,
     ValidMainnetAddress = match_full (Seq (one_of ''DA9'') (Rep base58_class 33 34)),
     ValidTestnetAddress = match_full (Seq (one_of ''n2'') (Rep base58_class 33 33))\<rparr>"

definition Litecoin :: "scrypt_fn \<Rightarrow> blockchain" where
  "Litecoin scrypt = \<lparr>
     ChainName = ''litecoin'',
     CoinbaseDigest = DoubleSha256,
     HeaderDigest = ScryptDigest scrypt,
     ShareMultiplier = Fin False 65536,
     MinimumConfirmations = BitcoinMinConfirmations,
     ValidMainnetAddress = match_full (Alt (Seq (one_of ''LM'') (Rep alnum_class 33 33))
                                           (Seq (rx_lit ''ltc1'') (Rep alnum_class 39 39))),
     ValidTestnetAddress = match_search (Rep lower_class 44 44)\<rparr>"

definition Bellscoin :: "scrypt_fn \<Rightarrow> blockchain" where
  "Bellscoin scrypt = \<lparr>
     ChainName = ''bellscoin'',
     CoinbaseDigest = DoubleSha256,
     HeaderDigest = ScryptDigest scrypt,
     ShareMultiplier = Fin False 65536,
     MinimumConfirmations = 102,
     ValidMainnetAddress = match_full (Alt (Seq (one_of ''B'') (Rep base58_class 33 34))
                                           (Seq (rx_lit ''bel1'') (Rep lower_class 39 59))),
     ValidTestnetAddress = match_full (Seq (one_of ''n2'') (Rep base58_class 33 33))\<rparr>"

definition Luckycoin :: "scrypt_fn \<Rightarrow> blockchain" where
  "Luckycoin scrypt = \<lparr>
     ChainName = ''luckycoin'',
     CoinbaseDigest = DoubleSha256,
     HeaderDigest = ScryptDigest scrypt,
     ShareMultiplier = Fin False 65536,
     MinimumConfirmations = 102,
     ValidMainnetAddress = match_full (Seq (one_of ''L'') (Rep base58_class 33 34)),
     ValidTestnetAddress = match_full (Seq (one_of ''n2'') (Rep base58_class 33 33))\<rparr>"

definition Pepecoin :: "scrypt_fn \<Rightarrow> blockchain" where
  "Pepecoin scrypt = \<lparr>
     ChainName = ''pepecoin'',
     CoinbaseDigest = DoubleSha256,
     HeaderDigest = ScryptDigest scrypt,
     ShareMultiplier = Fin False 65536,
     MinimumConfirmations = 102,
     ValidMainnetAddress = match_full (Seq (one_of ''P'') (Rep base58_class 33 34)),
     ValidTestnetAddress = match_full (Seq (one_of ''n2'') (Rep base58_class 33 33))\<rparr>"

definition GetChain :: "scrypt_fn \<Rightarrow> string \<Rightarrow> blockchain res" where
  "GetChain scrypt chainName =
     (if chainName = ''dogecoin'' then Ok (Dogecoin scrypt)
      else if chainName = ''litecoin'' then Ok (Litecoin scrypt)
      else if chainName = ''bellscoin'' then Ok (Bellscoin scrypt)
      else if chainName = ''luckycoin'' then Ok (Luckycoin scrypt)
      else if chainName = ''pepecoin'' then Ok (Pepecoin scrypt)
      else Panic (''Unknown blockchain: '' @ chainName))"

lemmas coin_defs = Dogecoin_def Litecoin_def Bellscoin_def Luckycoin_def Pepecoin_def
  BitcoinMinConfirmations_def

section \<open>The contract of a chain\<close>

locale chain_contract =
  fixes c :: blockchain
  assumes coinbase_digest: "DecodeString s = Ok bs \<Longrightarrow>
      \<exists>d. CoinbaseDigest c s = Ok (EncodeToString d) \<and> length d = 32"
    and coinbase_digest_err: "DecodeString s = Err e \<Longrightarrow> CoinbaseDigest c s = Err e"
    and header_digest: "DecodeString s = Ok bs \<Longrightarrow> \<exists>d. HeaderDigest c s = Ok (EncodeToString d)"
    and header_digest_err: "DecodeString s = Err e \<Longrightarrow> HeaderDigest c s = Err e"
    and multiplier: "\<exists>m > 0. ShareMultiplier c = Fin False m"
    and confirmations: "0 < MinimumConfirmations c"
begin

lemma coinbase_digest_no_Panic: "CoinbaseDigest c s \<noteq> Panic m"
  using coinbase_digest coinbase_digest_err
  by (cases "DecodeString s") (fastforce simp del: DecodeString_no_Panic dest: DecodeString_no_Panic [THEN notE])+

lemma header_digest_no_Panic: "HeaderDigest c s \<noteq> Panic m"
  using header_digest header_digest_err
  by (cases "DecodeString s") (fastforce simp del: DecodeString_no_Panic dest: DecodeString_no_Panic [THEN notE])+

lemma digest_decodes:
  "HeaderDigest c s = Ok t \<Longrightarrow> \<exists>d. DecodeString t = Ok d"
  using header_digest header_digest_err
  by (cases "DecodeString s") (fastforce simp del: DecodeString_no_Panic dest: DecodeString_no_Panic [THEN notE])+

end

text \<open>The digests shared by the five coins satisfy the digest laws.\<close>

lemma DoubleSha256_laws:
  "DecodeString s = Ok bs \<Longrightarrow> \<exists>d. DoubleSha256 s = Ok (EncodeToString d) \<and> length d = 32"
  "DecodeString s = Err e \<Longrightarrow> DoubleSha256 s = Err e"
  by (auto simp: DoubleSha256_def intro!: exI [of _ "Sum256 (Sum256 bs)"])

lemma ScryptDigest_laws:
  "DecodeString s = Ok bs \<Longrightarrow> \<exists>d. ScryptDigest scrypt s = Ok (EncodeToString d)"
  "DecodeString s = Err e \<Longrightarrow> ScryptDigest scrypt s = Err e"
  by (auto simp: ScryptDigest_def)

interpretation dogecoin: chain_contract "Dogecoin scrypt" for scrypt
  by unfold_locales (auto simp: Dogecoin_def DoubleSha256_laws ScryptDigest_laws)

interpretation litecoin: chain_contract "Litecoin scrypt" for scrypt
  by unfold_locales (auto simp: Litecoin_def BitcoinMinConfirmations_def DoubleSha256_laws ScryptDigest_laws)

interpretation bellscoin: chain_contract "Bellscoin scrypt" for scrypt
  by unfold_locales (auto simp: Bellscoin_def DoubleSha256_laws ScryptDigest_laws)

interpretation luckycoin: chain_contract "Luckycoin scrypt" for scrypt
  by unfold_locales (auto simp: Luckycoin_def DoubleSha256_laws ScryptDigest_laws)

interpretation pepecoin: chain_contract "Pepecoin scrypt" for scrypt
  by unfold_locales (auto simp: Pepecoin_def DoubleSha256_laws ScryptDigest_laws)

lemma GetChain_cases:
  assumes "GetChain scrypt n = Ok c"
  obtains "n = ''dogecoin''" "c = Dogecoin scrypt" | "n = ''litecoin''" "c = Litecoin scrypt"
  | "n = ''bellscoin''" "c = Bellscoin scrypt" | "n = ''luckycoin''" "c = Luckycoin scrypt"
  | "n = ''pepecoin''" "c = Pepecoin scrypt"
  using assms unfolding GetChain_def by (auto split: if_splits)

lemma GetChain_contract: "GetChain scrypt n = Ok c \<Longrightarrow> chain_contract c"
  by (elim GetChain_cases) (auto intro: dogecoin.chain_contract_axioms litecoin.chain_contract_axioms
      bellscoin.chain_contract_axioms luckycoin.chain_contract_axioms pepecoin.chain_contract_axioms)

section \<open>Addresses\<close>

text \<open>What a pattern consumes: characters of its classes, and how many.\<close>

fun rx_chars :: "rx \<Rightarrow> char_class" where
  "rx_chars (Cls rs) = rs"
| "rx_chars (Rep rs m n) = rs"
| "rx_chars (Seq a b) = rx_chars a @ rx_chars b"
| "rx_chars (Alt a b) = rx_chars a @ rx_chars b"

fun rx_min :: "rx \<Rightarrow> nat" where
  "rx_min (Cls rs) = 1"
| "rx_min (Rep rs m n) = m"
| "rx_min (Seq a b) = rx_min a + rx_min b"
| "rx_min (Alt a b) = min (rx_min a) (rx_min b)"

fun rx_max :: "rx \<Rightarrow> nat" where
  "rx_max (Cls rs) = 1"
| "rx_max (Rep rs m n) = n"
| "rx_max (Seq a b) = rx_max a + rx_max b"
| "rx_max (Alt a b) = max (rx_max a) (rx_max b)"

lemma in_class_append [simp]: "in_class (a @ b) = (\<lambda>c. in_class a c \<or> in_class b c)"
  by (auto simp: in_class_def)

lemma rx_match_consumes:
  "t \<in> set (rx_match r s) \<Longrightarrow>
   \<exists>p. s = p @ t \<and> list_all (in_class (rx_chars r)) p \<and> rx_min r \<le> length p \<and> length p \<le> rx_max r"
proof (induction r arbitrary: s t)
  case (Cls rs)
  then show ?case by (auto split: list.splits if_splits intro: exI [of _ "[_]"])
next
  case (Rep rs m n)
  then obtain k where "m \<le> k" "k \<le> n" "k \<le> length s" "list_all (in_class rs) (take k s)" "t = drop k s"
    by (auto simp del: upt_Suc)
  then show ?case by (intro exI [of _ "take k s"]) simp
next
  case (Seq a b)
  then obtain u where "u \<in> set (rx_match a s)" "t \<in> set (rx_match b u)" by auto
  with Seq.IH(1) [of u s] Seq.IH(2) [of t u] obtain p q where
    p: "s = p @ u" "list_all (in_class (rx_chars a)) p" "rx_min a \<le> length p" "length p \<le> rx_max a" and
    q: "u = q @ t" "list_all (in_class (rx_chars b)) q" "rx_min b \<le> length q" "length q \<le> rx_max b"
    by auto
  then show ?case by (intro exI [of _ "p @ q"]) (auto simp: list_all_iff)
next
  case (Alt a b)
  then show ?case by (fastforce simp: list_all_iff)
qed

lemma match_full_consumes:
  "match_full r s \<Longrightarrow> list_all (in_class (rx_chars r)) s \<and> rx_min r \<le> length s \<and> length s \<le> rx_max r"
  using rx_match_consumes [of "[]" r s] by (auto simp: match_full_def)

text \<open>Inclusion of classes, decided range by range; the shape every mainnet pattern has.\<close>

definition class_within :: "char_class \<Rightarrow> char_class \<Rightarrow> bool" where
  "class_within rs ss = list_all (\<lambda>(lo, hi). list_ex (\<lambda>(l, h).
     (of_char l :: nat) \<le> of_char lo \<and> (of_char hi :: nat) \<le> of_char h) ss) rs"

lemma class_within_D: "class_within rs ss \<Longrightarrow> in_class rs c \<Longrightarrow> in_class ss c"
proof -
  assume within: "class_within rs ss" and "in_class rs c"
  then obtain lo hi where r: "(lo, hi) \<in> set rs" and c: "(of_char lo :: nat) \<le> of_char c" "(of_char c :: nat) \<le> of_char hi"
    by (auto simp: in_class_def list_ex_iff)
  with within obtain l h where "(l, h) \<in> set ss" "(of_char l :: nat) \<le> of_char lo" "(of_char hi :: nat) \<le> of_char h"
    by (auto simp: class_within_def list_all_iff list_ex_iff)
  with c show ?thesis unfolding in_class_def list_ex_iff by (intro bexI [of _ "(l, h)"]) auto
qed

definition mainnet_rx :: "rx \<Rightarrow> bool" where
  "mainnet_rx r = (34 \<le> rx_min r \<and> rx_max r \<le> 63 \<and> class_within (rx_chars r) alnum_class)"

lemmas rx_eval = mainnet_rx_def class_within_def one_of_def base58_class_def alnum_class_def
  lower_class_def

lemma mainnet_patterns:
  "GetChain scrypt n = Ok c \<Longrightarrow> \<exists>r. ValidMainnetAddress c = match_full r \<and> mainnet_rx r"
  by (elim GetChain_cases; simp only: coin_defs blockchain.simps; intro exI conjI; (rule refl)?;
      simp add: rx_eval)

lemma mainnet_address_shape:
  assumes "GetChain scrypt n = Ok c" and "ValidMainnetAddress c a"
  shows "list_all (in_class alnum_class) a \<and> 34 \<le> length a \<and> length a \<le> 63"
proof -
  from mainnet_patterns [OF assms(1)] assms(2) obtain r where r: "match_full r a" "mainnet_rx r"
    by auto
  then have "in_class alnum_class x" if "in_class (rx_chars r) x" for x
    using that class_within_D [of "rx_chars r" alnum_class x] by (simp add: mainnet_rx_def)
  with r match_full_consumes [of r a] show ?thesis by (auto simp: list_all_iff mainnet_rx_def)
qed

lemma alnum_no_separator: "in_class alnum_class x \<Longrightarrow> x \<noteq> CHR ''-'' \<and> x \<noteq> CHR ''.'' \<and> x \<noteq> CHR '':''"
  by (auto simp: in_class_def alnum_class_def)

text \<open>A mainnet address accepted by any registered chain is 34 to 63 characters long and never
  contains the characters \<open>-\<close>, \<open>.\<close> and \<open>:\<close> that the pool uses to glue addresses, rigs and
  chain names together.\<close>

theorem mainnet_address_separator_free:
  assumes "GetChain scrypt n = Ok c" and "ValidMainnetAddress c a"
  shows "34 \<le> length a \<and> length a \<le> 63 \<and>
    CHR ''-'' \<notin> set a \<and> CHR ''.'' \<notin> set a \<and> CHR '':'' \<notin> set a"
  using mainnet_address_shape [OF assms] alnum_no_separator by (auto simp: list_all_iff)

lemma mainnet_address_separator_free_witness:
  "34 \<le> length ''D8vFz4p1L37jdg47HXKtSHA5uYLYxbGgPD'' \<and> length ''D8vFz4p1L37jdg47HXKtSHA5uYLYxbGgPD'' \<le> 63 \<and>
    CHR ''-'' \<notin> set ''D8vFz4p1L37jdg47HXKtSHA5uYLYxbGgPD'' \<and> CHR ''.'' \<notin> set ''D8vFz4p1L37jdg47HXKtSHA5uYLYxbGgPD''
    \<and> CHR '':'' \<notin> set ''D8vFz4p1L37jdg47HXKtSHA5uYLYxbGgPD''"
proof -
  have chain: "GetChain (\<lambda>b. None) ''dogecoin'' = Ok (Dogecoin (\<lambda>b. None))" by (simp add: GetChain_def)
  have "ValidMainnetAddress (Dogecoin (\<lambda>b. None)) ''D8vFz4p1L37jdg47HXKtSHA5uYLYxbGgPD''"
    by (simp add: Dogecoin_def match_full_def one_of_def in_class_def base58_class_def upt_rec)
  then show ?thesis using mainnet_address_separator_free [OF chain] by blast
qed

text \<open>The registry is exact: \<open>GetChain\<close> returns a chain that answers to the name asked for,
  with a positive confirmation depth, and panics for every other name.\<close>

theorem GetChain_registry:
  "(case GetChain scrypt n of
      Ok c \<Rightarrow> ChainName c = n \<and> 0 < MinimumConfirmations c
    | Err e \<Rightarrow> False
    | Panic m \<Rightarrow> n \<notin> {''dogecoin'', ''litecoin'', ''bellscoin'', ''luckycoin'', ''pepecoin''})"
  by (auto simp: GetChain_def coin_defs split: res.splits)

end
