(* ===== verification/Merkle.thy ===== *)
theory Merkle
  imports Chains
begin

text \<open>
  \<open>bitcoin/merkle.go\<close>: the branch of the coinbase in the transaction tree, and the root a miner
  computes from it.  The specification is the Merkle tree of the Bitcoin protocol (pair up, a
  lone last node is paired with itself); the branch of the code folds to its root.
\<close>

section \<open>The code\<close>

lemma res_bind_cong [fundef_cong]:
  "m = m' \<Longrightarrow> (\<And>x. m' = Ok x \<Longrightarrow> f x = f' x) \<Longrightarrow> res_bind m f = res_bind m' f'"
  by (cases m') auto

definition join :: "string \<Rightarrow> string \<Rightarrow> string res" where
  "join one two = res_bind (DecodeString one) (\<lambda>oneBytes.
     res_bind (DecodeString two) (\<lambda>twoBytes.
       Ok (EncodeToString (doubleSha256Bytes (oneBytes @ twoBytes)))))"

text \<open>\<open>for i := startJoinAt; i < levelLength; i += 2\<close>\<close>

function join_loop :: "string list \<Rightarrow> nat \<Rightarrow> nat \<Rightarrow> string list res" where
  "join_loop level levelLength i =
     (if i < levelLength
      then res_bind (join (level ! i) (level ! (i + 1))) (\<lambda>joined.
           res_bind (join_loop level levelLength (i + 2)) (\<lambda>rest. Ok (joined # rest)))
      else Ok [])"
  by pat_completeness auto
termination
  by (relation "measure (\<lambda>(level, levelLength, i). levelLength - i)") auto

declare join_loop.simps [simp del]

lemma join_loop_length: "join_loop level n i = Ok js \<Longrightarrow> length js = (n - i + 1) div 2"
proof (induction level n i arbitrary: js rule: join_loop.induct)
  case (1 level n i)
  show ?case
  proof (cases "i < n")
    case True
    with "1.prems" obtain j rest where "join (level ! i) (level ! (i + 1)) = Ok j"
      and rest: "join_loop level n (i + 2) = Ok rest" and js: "js = j # rest"
      by (auto simp: join_loop.simps [of level n i] outcome_simps)
    with "1.IH" [OF True] have "length rest = (n - (i + 2) + 1) div 2" by blast
    moreover obtain k where "n = i + 1 + k" using True less_iff_Suc_add [of i n] by auto
    ultimately show ?thesis using js by (cases k) auto
  next
    case False
    with "1.prems" show ?thesis by (simp add: join_loop.simps)
  qed
qed

lemma join_loop_shrinks: "join_loop level n 2 = Ok js \<Longrightarrow> n \<noteq> 0 \<Longrightarrow> n \<noteq> Suc 0 \<Longrightarrow> Suc (length js) < n"
proof -
  assume "join_loop level n 2 = Ok js" and "n \<noteq> 0" and "n \<noteq> Suc 0"
  then have "length js = (n - 2 + 1) div 2" and "2 \<le> n" by (auto simp: join_loop_length)
  then show ?thesis by auto
qed

text \<open>The outer loop: \<open>levelLength\<close> is the length of \<open>level\<close> whenever the loop is entered.\<close>

function merkle_loop :: "string list \<Rightarrow> string list \<Rightarrow> string list res" where
  "merkle_loop level steps =
     (let levelLength = length level in
      if levelLength = 1 then Ok steps
      else if levelLength = 0 then Panic ''index out of range''
      else let steps' = steps @ [level ! 1];
               level' = (if levelLength mod 2 = 1 then level @ [level ! (length level - 1)] else level)
           in res_bind (join_loop level' levelLength 2) (\<lambda>levelJoins. merkle_loop ('''' # levelJoins) steps'))"
  by pat_completeness auto
termination
  by (relation "measure (\<lambda>(level, steps). length level)") (auto dest: join_loop_shrinks)

declare merkle_loop.simps [simp del]

definition templateMerkleBranchSteps :: "string list \<Rightarrow> string list res" where
  "templateMerkleBranchSteps transactionIDs =
     (if length transactionIDs = 0 then Ok [] else merkle_loop ('''' # transactionIDs) [])"

fun root_loop :: "byte list \<Rightarrow> string list \<Rightarrow> string res" where
  "root_loop block [] = Ok (EncodeToString block)"
| "root_loop block (branch # steps) =
     res_bind (DecodeString branch) (\<lambda>branchBytes. root_loop (doubleSha256Bytes (block @ branchBytes)) steps)"

definition makeHeaderMerkleRoot :: "string \<Rightarrow> string list \<Rightarrow> string res" where
  "makeHeaderMerkleRoot coinbase merkleBranchSteps =
     res_bind (DecodeString coinbase) (\<lambda>block. root_loop block merkleBranchSteps)"

section \<open>The Merkle tree\<close>

fun pair_up :: "(byte list \<Rightarrow> byte list) \<Rightarrow> byte list list \<Rightarrow> byte list list" where
  "pair_up H [] = []"
| "pair_up H [x] = [H (x @ x)]"
| "pair_up H (x # y # zs) = H (x @ y) # pair_up H zs"

lemma length_pair_up: "length (pair_up H xs) = (length xs + 1) div 2"
  by (induction H xs rule: pair_up.induct) auto

function merkle_root :: "(byte list \<Rightarrow> byte list) \<Rightarrow> byte list list \<Rightarrow> byte list" where
  "merkle_root H [] = []"
| "merkle_root H [x] = x"
| "merkle_root H (x # y # zs) = merkle_root H (H (x @ y) # pair_up H zs)"
  by pat_completeness auto
termination
  by (relation "measure (\<lambda>(H, xs). length xs)") (auto simp: length_pair_up)

text \<open>The siblings on the path of the first leaf, from the other leaves.\<close>

function merkle_branch :: "(byte list \<Rightarrow> byte list) \<Rightarrow> byte list list \<Rightarrow> byte list list" where
  "merkle_branch H [] = []"
| "merkle_branch H (x # xs) = x # merkle_branch H (pair_up H xs)"
  by pat_completeness auto
termination
  by (relation "measure (\<lambda>(H, xs). length xs)") (auto simp: length_pair_up)

definition fold_branch :: "(byte list \<Rightarrow> byte list) \<Rightarrow> byte list \<Rightarrow> byte list list \<Rightarrow> byte list" where
  "fold_branch H c bs = foldl (\<lambda>acc b. H (acc @ b)) c bs"

lemma fold_branch_simps [simp]:
  "fold_branch H c [] = c" "fold_branch H c (b # bs) = fold_branch H (H (c @ b)) bs"
  by (simp_all add: fold_branch_def)

lemma fold_merkle_branch: "fold_branch H c (merkle_branch H xs) = merkle_root H (c # xs)"
  by (induction H xs arbitrary: c rule: merkle_branch.induct) simp_all

text \<open>What the pool assumes of the tree's hash: digests of fixed size.\<close>

locale tree_hash =
  fixes H :: "byte list \<Rightarrow> byte list"
  assumes digest_length: "length (H m) = 32"
begin

lemma pair_up_length: "b \<in> set (pair_up H xs) \<Longrightarrow> length b = 32"
  by (induction xs rule: induct_list012) (auto simp: digest_length)

lemma branch_length: "(\<And>x. x \<in> set xs \<Longrightarrow> length x = 32) \<Longrightarrow> b \<in> set (merkle_branch H xs) \<Longrightarrow> length b = 32"
proof (induction xs rule: measure_induct_rule [where f = length])
  case (less xs)
  show ?case
  proof (cases xs)
    case (Cons x ys)
    have "length (pair_up H ys) < length xs" by (simp add: Cons length_pair_up)
    from less.IH [OF this pair_up_length] less.prems Cons show ?thesis by auto
  qed (use less.prems in simp)
qed

lemma fold_branch_length: "length c = 32 \<Longrightarrow> length (fold_branch H c bs) = 32"
  by (induction bs arbitrary: c) (auto simp: digest_length)

lemma root_length: "length c = 32 \<Longrightarrow> length (merkle_root H (c # xs)) = 32"
  using fold_branch_length [of c "merkle_branch H xs"] by (simp add: fold_merkle_branch)

lemma branch_depth: "length (merkle_branch H xs) = floorlog 2 (length xs)"
proof (induction H xs rule: merkle_branch.induct)
  case (1 H)
  then show ?case by (simp add: floorlog_def)
next
  case (2 H x xs)
  then show ?case
    by (subst compute_floorlog) (simp add: length_pair_up)
qed

end

interpretation dsha: tree_hash doubleSha256Bytes
  by unfold_locales simp

section \<open>Refinement\<close>

text \<open>A level of the code stands for a level of byte strings.\<close>

abbreviation decodes :: "string list \<Rightarrow> byte list list \<Rightarrow> bool" where
  "decodes ss bs \<equiv> res_map DecodeString ss = Ok bs"

lemma decodes_Encode [simp]: "decodes (map EncodeToString bs) bs"
  by (induction bs) auto

lemma decodes_append: "decodes xs as \<Longrightarrow> decodes ys bs \<Longrightarrow> decodes (xs @ ys) (as @ bs)"
  by (induction xs arbitrary: as) (auto simp: outcome_simps)

lemma decodes_last: "decodes ss bs \<Longrightarrow> ss \<noteq> [] \<Longrightarrow> DecodeString (last ss) = Ok (last bs)"
  by (induction ss arbitrary: bs) (fastforce simp: outcome_simps dest: res_map_length)+

lemma decodes_member: "decodes ss bs \<Longrightarrow> s \<in> set ss \<Longrightarrow> \<exists>b \<in> set bs. DecodeString s = Ok b"
  by (induction ss arbitrary: bs) (auto simp: outcome_simps)

lemma join_loop_refines:
  assumes "decodes ys bs" and "length pre = i"
  shows "join_loop (pre @ ys @ (if odd (length ys) then [last ys] else [])) (i + length ys) i =
    Ok (map EncodeToString (pair_up doubleSha256Bytes bs))"
  using assms
proof (induction ys arbitrary: pre i bs rule: induct_list012)
  case 1
  then show ?case by (simp add: join_loop.simps)
next
  case (2 y)
  then show ?case
    by (auto simp: join_loop.simps outcome_simps join_def nth_append)
next
  case (3 y z ys)
  from "3.prems"(1) obtain a b cs where a: "DecodeString y = Ok a" and b: "DecodeString z = Ok b"
    and cs: "decodes ys cs" and bs: "bs = a # b # cs" by (auto simp: outcome_simps)
  have "join_loop ((pre @ [y, z]) @ ys @ (if odd (length ys) then [last ys] else [])) (i + 2 + length ys) (i + 2)
      = Ok (map EncodeToString (pair_up doubleSha256Bytes cs))"
    using "3.IH"(1) [OF cs, of "pre @ [y, z]" "i + 2"] "3.prems"(2) by simp
  moreover have "last (y # z # ys) = last ys" if "odd (length ys)" using that by (cases ys) auto
  ultimately show ?case using "3.prems"(2) a b bs
    by (subst join_loop.simps) (auto simp: join_def nth_append)
qed

lemma merkle_loop_refines:
  "decodes ls bs \<Longrightarrow> \<exists>ss. merkle_loop (e # ls) steps = Ok (steps @ ss) \<and>
     decodes ss (merkle_branch doubleSha256Bytes bs)"
proof (induction ls arbitrary: e bs steps rule: measure_induct_rule [where f = length])
  case (less ls)
  show ?case
  proof (cases ls)
    case Nil
    then show ?thesis using less.prems by (simp add: merkle_loop.simps)
  next
    case (Cons y ys)
    then obtain b cs where b: "DecodeString y = Ok b" and cs: "decodes ys cs" and bs: "bs = b # cs"
      using less.prems by (auto simp: outcome_simps)
    define js where "js = map EncodeToString (pair_up doubleSha256Bytes cs)"
    have len: "length js < length ls"
      using res_map_length [OF cs] by (simp add: js_def Cons length_pair_up)
    have joins: "join_loop (e # y # ys @ (if odd (length ys) then [last ys] else [])) (2 + length ys) 2 = Ok js"
      using join_loop_refines [OF cs, of "[e, y]" 2] by (simp add: js_def)
    obtain ss where ss: "merkle_loop ('''' # js) (steps @ [y]) = Ok ((steps @ [y]) @ ss)"
      "decodes ss (merkle_branch doubleSha256Bytes (pair_up doubleSha256Bytes cs))"
      using less.IH [OF len, of "pair_up doubleSha256Bytes cs" "''''" "steps @ [y]"] by (auto simp: js_def)
    have "(if length (e # ls) mod 2 = 1 then (e # ls) @ [(e # ls) ! (length (e # ls) - 1)] else e # ls)
        = e # y # ys @ (if odd (length ys) then [last ys] else [])"
      by (cases ys) (auto simp: Cons last_conv_nth nth_Cons' odd_iff_mod_2_eq_one)
    then have "merkle_loop (e # ls) steps = merkle_loop ('''' # js) (steps @ [y])"
      using joins by (subst merkle_loop.simps) (simp add: Cons Let_def)
    with ss b bs show ?thesis by (intro exI [of _ "y # ss"]) simp
  qed
qed

lemma steps_refine:
  assumes "decodes ids bs"
  shows "\<exists>ss. templateMerkleBranchSteps ids = Ok ss \<and> decodes ss (merkle_branch doubleSha256Bytes bs)"
proof (cases "ids = []")
  case True
  with assms show ?thesis by (simp add: templateMerkleBranchSteps_def)
next
  case False
  then show ?thesis
    using merkle_loop_refines [OF assms, of "''''" "[]"] by (simp add: templateMerkleBranchSteps_def)
qed

lemma root_loop_refines:
  "decodes ss bs \<Longrightarrow> root_loop c ss = Ok (EncodeToString (fold_branch doubleSha256Bytes c bs))"
  by (induction ss arbitrary: c bs) (auto simp: outcome_simps)

text \<open>C7. The root a miner folds from the branch of the template is the Merkle root of the block:
  for every list of transaction ids and every coinbase hash, the branch is produced without an
  error, and folding it over the coinbase hash gives the root of the full transaction tree
  (coinbase first, a lone last node paired with itself).\<close>

theorem merkle_root_correct:
  assumes "decodes ids bs" and "DecodeString coinbase = Ok c"
  shows "\<exists>steps. templateMerkleBranchSteps ids = Ok steps \<and>
    makeHeaderMerkleRoot coinbase steps = Ok (EncodeToString (merkle_root doubleSha256Bytes (c # bs)))"
proof -
  obtain ss where "templateMerkleBranchSteps ids = Ok ss"
    and "decodes ss (merkle_branch doubleSha256Bytes bs)"
    using steps_refine [OF assms(1)] by auto
  with assms(2) show ?thesis
    by (simp add: makeHeaderMerkleRoot_def root_loop_refines fold_merkle_branch)
qed

lemma merkle_root_correct_witness:
  "\<exists>steps. templateMerkleBranchSteps [''ab01'', ''cd02'', ''ef03''] = Ok steps \<and>
    makeHeaderMerkleRoot ''00ff'' steps =
      Ok (EncodeToString (merkle_root doubleSha256Bytes [[0, 255], [0xab, 1], [0xcd, 2], [0xef, 3]]))"
proof (rule merkle_root_correct)
  show "decodes [''ab01'', ''cd02'', ''ef03''] [[0xab, 1], [0xcd, 2], [0xef, 3]]"
    by (simp add: hex_val_def)
  show "DecodeString ''00ff'' = Ok [0, 255]" by (simp add: hex_val_def)
qed

text \<open>The branch sent to the miners has one 32-byte entry per level of the tree: for \<open>n\<close>
  transactions with 32-byte ids its length is the number of binary digits of \<open>n\<close>.\<close>

theorem merkle_branch_shape:
  assumes "decodes ids bs" and "\<And>b. b \<in> set bs \<Longrightarrow> length b = 32"
  shows "\<exists>steps. templateMerkleBranchSteps ids = Ok steps \<and> length steps = floorlog 2 (length ids) \<and>
    (\<forall>s \<in> set steps. length s = 64)"
proof -
  obtain ss where ss: "templateMerkleBranchSteps ids = Ok ss"
    and dec: "decodes ss (merkle_branch doubleSha256Bytes bs)"
    using steps_refine [OF assms(1)] by auto
  have "length s = 64" if "s \<in> set ss" for s
  proof -
    from decodes_member [OF dec that] obtain b
      where "b \<in> set (merkle_branch doubleSha256Bytes bs)" "DecodeString s = Ok b" by auto
    with dsha.branch_length [OF assms(2)] DecodeString_length [of s b] show ?thesis by auto
  qed
  with ss res_map_length [OF dec] res_map_length [OF assms(1)] dsha.branch_depth [of bs]
  show ?thesis by simp
qed

lemma merkle_branch_shape_witness:
  "let ids = [EncodeToString (replicate 32 7), EncodeToString (replicate 32 9)] in
   \<exists>steps. templateMerkleBranchSteps ids = Ok steps \<and> length steps = floorlog 2 (length ids) \<and> list_all (\<lambda>s. length s = 64) steps"
  unfolding list_all_iff Let_def by (rule merkle_branch_shape [of _ "[replicate 32 7, replicate 32 9]"]) auto

end
