(* ===== verification/Coinbase.thy ===== *)
theory Coinbase
  imports Merkle
begin

text \<open>
  \<open>bitcoin/template.go\<close>, \<open>bitcoin/transaction.go\<close> and \<open>bitcoin/coinbase.go\<close>: the block template and
  the coinbase transaction the pool assembles from it, in three pieces of hexadecimal text
  (initial, arbitrary, final).  The specification is a reader of serialised transactions.
\<close>

section \<open>Templates\<close>

record transaction =
  TxData :: string
  TxID :: string
  TxFee :: u64

record template =
  tVersion :: u64
  PrevBlockHash :: string
  Height :: u64
  CoinBaseValue :: u64
  DefaultWitnessCommitment :: string
  Bits :: string
  TargetHex :: string
  Transactions :: "transaction list"
  CurrentTime :: u64
  MimbleWimble :: string

text \<open>\<open>Template.MerkleSteps\<close>: the error of the reversal is dropped, an id of odd length becomes empty.\<close>

definition MerkleSteps :: "template \<Rightarrow> string list res" where
  "MerkleSteps t = templateMerkleBranchSteps
     (map (\<lambda>tx. case reverseHexBytes (TxID tx) of Ok r \<Rightarrow> r | Err e \<Rightarrow> [] | Panic m \<Rightarrow> []) (Transactions t))"

definition TransactionOut :: "string \<Rightarrow> string \<Rightarrow> string res" where
  "TransactionOut amount pubScriptKey =
     (let lengthBytes = of_nat (length pubScriptKey div 2) in
      res_bind (varUint lengthBytes) (\<lambda>l. Ok (amount @ l @ pubScriptKey)))"

section \<open>The coinbase\<close>

record CoinbaseInital =
  ciVersion :: string
  NumberOfInputs :: string
  PreviousOutputTransactionID :: string
  PreviousOutputIndex :: string
  BytesInArbitrary :: u64
  BytesInHeight :: u64
  HeightHex :: string

definition CoinbaseInitial :: "template \<Rightarrow> u64 \<Rightarrow> CoinbaseInital res" where
  "CoinbaseInitial t arbitraryByteLength =
     res_bind (eightLittleEndianBytes (VUint (Height t))) (\<lambda>heightBytes0.
       let heightBytes = removeInsignificantBytesLittleEndian heightBytes0;
           heightHex = EncodeToString heightBytes;
           heightByteLen = of_nat (length heightBytes);
           arbitraryByteLength' = arbitraryByteLength + heightByteLen + 1
       in Ok \<lparr>ciVersion = ''01000000'', NumberOfInputs = ''01'',
              PreviousOutputTransactionID = replicate 64 CHR ''0'',
              PreviousOutputIndex = ''ffffffff'',
              BytesInArbitrary = arbitraryByteLength', BytesInHeight = heightByteLen,
              HeightHex = heightHex\<rparr>)"

definition CoinbaseInital_Serialize :: "CoinbaseInital \<Rightarrow> string res" where
  "CoinbaseInital_Serialize i =
     res_bind (varUint (BytesInArbitrary i)) (\<lambda>a. res_bind (varUint (BytesInHeight i)) (\<lambda>h.
       Ok (ciVersion i @ NumberOfInputs i @ PreviousOutputTransactionID i @ PreviousOutputIndex i
           @ a @ h @ HeightHex i)))"

record CoinbaseFinal =
  TransactionInSequence :: string
  OutputCount :: u64
  TxOuts :: string
  TransactionLockTime :: string

text \<open>The reward amount: \<open>%016x\<close>, then the bytes reversed (the error of the reversal is dropped).\<close>

definition reward_amount :: "u64 \<Rightarrow> string" where
  "reward_amount v = (case reverseHexBytes (hex_text_padded 16 (unat v)) of
     Ok r \<Rightarrow> r | Err e \<Rightarrow> [] | Panic m \<Rightarrow> [])"

definition coinbaseTransactionOutputs :: "template \<Rightarrow> string \<Rightarrow> (u64 \<times> string) res" where
  "coinbaseTransactionOutputs t poolPubScriptKey =
     res_bind (if DefaultWitnessCommitment t \<noteq> []
               then res_bind (TransactionOut (replicate 16 CHR ''0'') (DefaultWitnessCommitment t))
                             (\<lambda>out. Ok (1, out))
               else Ok (0, []))
       (\<lambda>(outputsCount, outputs).
         res_bind (TransactionOut (reward_amount (CoinBaseValue t)) poolPubScriptKey)
           (\<lambda>out. Ok (outputsCount + 1, outputs @ out)))"

definition CoinbaseFinal :: "template \<Rightarrow> string \<Rightarrow> CoinbaseFinal res" where
  "CoinbaseFinal t poolPayoutPubScriptKey =
     res_bind (coinbaseTransactionOutputs t poolPayoutPubScriptKey) (\<lambda>(txOutputLen, txOutput).
       Ok \<lparr>TransactionInSequence = ''00000000'', OutputCount = txOutputLen, TxOuts = txOutput,
           TransactionLockTime = ''00000000''\<rparr>)"

definition CoinbaseFinal_Serialize :: "CoinbaseFinal \<Rightarrow> string res" where
  "CoinbaseFinal_Serialize f =
     res_bind (varUint (OutputCount f)) (\<lambda>n.
       Ok (TransactionInSequence f @ n @ TxOuts f @ TransactionLockTime f))"

record Coinbase =
  CoinbaseInitalText :: string
  Arbitrary :: string
  CoinbaseFinalText :: string

definition Coinbase_Serialize :: "Coinbase \<Rightarrow> string" where
  "Coinbase_Serialize cb = CoinbaseInitalText cb @ Arbitrary cb @ CoinbaseFinalText cb"

section \<open>Reading a transaction\<close>

fun parse_bytes :: "nat \<Rightarrow> byte list \<Rightarrow> (byte list \<times> byte list) option" where
  "parse_bytes n bs = (if n \<le> length bs then Some (take n bs, drop n bs) else None)"

definition parse_var_bytes :: "byte list \<Rightarrow> (byte list \<times> byte list) option" where
  "parse_var_bytes bs = Option.bind (parse_compact bs) (\<lambda>(n, rest). parse_bytes (unat n) rest)"

type_synonym tx_out = "u64 \<times> byte list"

definition parse_tx_out :: "byte list \<Rightarrow> (tx_out \<times> byte list) option" where
  "parse_tx_out bs = Option.bind (parse_bytes 8 bs) (\<lambda>(amount, rest).
     Option.bind (parse_var_bytes rest) (\<lambda>(script, rest'). Some ((of_nat (le_value amount), script), rest')))"

record coinbase_tx =
  cb_version :: nat
  cb_prevout :: "byte list"
  cb_script :: "byte list"
  cb_sequence :: nat
  cb_outputs :: "tx_out list"
  cb_locktime :: nat

text \<open>A transaction with exactly one input, as the protocol serialises it.\<close>

definition parse_coinbase :: "byte list \<Rightarrow> (coinbase_tx \<times> byte list) option" where
  "parse_coinbase bs =
     Option.bind (parse_bytes 4 bs) (\<lambda>(version, r1).
     Option.bind (parse_compact r1) (\<lambda>(inputs, r2).
     Option.bind (parse_bytes 36 r2) (\<lambda>(prevout, r3).
     Option.bind (parse_var_bytes r3) (\<lambda>(script, r4).
     Option.bind (parse_bytes 4 r4) (\<lambda>(seqno, r5).
     Option.bind (parse_compact r5) (\<lambda>(outs, r6).
     Option.bind (parse_many parse_tx_out (unat outs) r6) (\<lambda>(outputs, r7).
     Option.bind (parse_bytes 4 r7) (\<lambda>(locktime, rest).
       if inputs = 1
       then Some (\<lparr>cb_version = le_value version, cb_prevout = prevout, cb_script = script,
                   cb_sequence = le_value seqno, cb_outputs = outputs, cb_locktime = le_value locktime\<rparr>, rest)
       else None))))))))"

section \<open>The pieces parse\<close>

lemma hex_constants:
  "''01000000'' = EncodeToString [1, 0, 0, 0]" "''00000000'' = EncodeToString [0, 0, 0, 0]"
  "''01'' = EncodeToString [1]" "''ffffffff'' = EncodeToString [255, 255, 255, 255]"
  by (simp_all add: digit_char_def)

lemma hex_zeros: "replicate (2 * n) CHR ''0'' = EncodeToString (replicate n 0)"
  by (induction n) (simp_all add: digit_char_def)

lemma hex_zeros_64: "replicate 64 CHR ''0'' = EncodeToString (replicate 32 0)"
  using hex_zeros [of 32] by simp

lemma hex_zeros_16: "replicate 16 CHR ''0'' = EncodeToString (le_bytes 8 (0 :: u64))"
proof -
  have "le_bytes 8 (0 :: u64) = replicate 8 0" by (simp add: le_bytes_def map_replicate_const)
  then show ?thesis using hex_zeros [of 8] by simp
qed

lemma ff_replicate: "[255, 255, 255, 255] = replicate 4 (255 :: byte)"
  by (simp add: numeral_eq_Suc)

lemma reward_amount_eq: "reward_amount v = EncodeToString (le_bytes 8 v)"
proof -
  have "le_bytes 8 v \<noteq> []" using length_le_bytes [of 8 v] by force
  then have "hex_text_padded (2 * 8) (le_value (le_bytes 8 v)) = EncodeToString (rev (le_bytes 8 v))"
    using hex_text_padded_bytes [of "le_bytes 8 v"] by simp
  moreover have "le_value (le_bytes 8 v) = unat v" by (simp add: le_value_le_bytes)
  ultimately show ?thesis by (simp add: reward_amount_def reverseHexBytes_EncodeToString)
qed

lemma of_nat_le_value_8: "of_nat (le_value (le_bytes 8 (v :: u64))) = v"
  by (rule le_value_ucast(3))

lemma parse_var_bytes_varUint:
  assumes "varUint (of_nat (length s)) = Ok l" and "length s \<noteq> 253" and "length s < 2 ^ 64"
    and "DecodeString l = Ok lb"
  shows "parse_var_bytes (lb @ s @ rest) = Some (s, rest)"
proof -
  have "of_nat (length s) \<noteq> (253 :: u64)" using assms(2,3) by (intro of_nat_u64_neq) auto
  with assms varUint.dec_enc [of "of_nat (length s)" l lb "s @ rest"]
  have "parse_compact (lb @ s @ rest) = Some (of_nat (length s), s @ rest)" by simp
  then show ?thesis using assms(3) by (simp add: parse_var_bytes_def unat_of_nat_u64)
qed

text \<open>The writer of an output, on typed values, and the contract of \<open>wire_format\<close> for it.\<close>

definition tx_out_text :: "tx_out \<Rightarrow> string res" where
  "tx_out_text out = TransactionOut (EncodeToString (le_bytes 8 (fst out))) (EncodeToString (snd out))"

definition small_script :: "tx_out \<Rightarrow> bool" where
  "small_script out = (length (snd out) \<noteq> 253 \<and> length (snd out) < 2 ^ 64)"

lemma tx_out_text_bytes:
  assumes "small_script out"
  obtains lb where "tx_out_text out = Ok (EncodeToString (le_bytes 8 (fst out) @ lb @ snd out))"
    and "\<And>rest. parse_tx_out (le_bytes 8 (fst out) @ lb @ snd out @ rest) = Some (out, rest)"
proof -
  obtain v s where out: "out = (v, s)" by fastforce
  with assms have s: "length s \<noteq> 253" "length s < 2 ^ 64" by (simp_all add: small_script_def)
  then have "of_nat (length s) \<noteq> (253 :: u64)" by (intro of_nat_u64_neq) auto
  then obtain lb where lb: "varUint (of_nat (length s)) = Ok (EncodeToString lb)"
    by (rule varUint_bytes)
  show ?thesis
  proof (rule that [of lb])
    show "tx_out_text out = Ok (EncodeToString (le_bytes 8 (fst out) @ lb @ snd out))"
      by (simp add: out tx_out_text_def TransactionOut_def lb)
    show "parse_tx_out (le_bytes 8 (fst out) @ lb @ snd out @ rest) = Some (out, rest)" for rest
      using parse_var_bytes_varUint [OF lb s, of lb rest]
      by (simp add: out parse_tx_out_def of_nat_le_value_8)
  qed
qed

interpretation tx_out: wire_format tx_out_text parse_tx_out small_script
proof unfold_locales
  fix out
  assume "small_script out"
  then show "\<exists>s bs. tx_out_text out = Ok s \<and> DecodeString s = Ok bs"
    by (rule tx_out_text_bytes) auto
next
  fix out s bs rest
  assume "small_script out" and s: "tx_out_text out = Ok s" and bs: "DecodeString s = Ok bs"
  from this(1) show "parse_tx_out (bs @ rest) = Some (out, rest)"
    by (rule tx_out_text_bytes) (use s bs in auto)
qed

section \<open>The assembled coinbase\<close>

definition height_bytes :: "template \<Rightarrow> byte list" where
  "height_bytes t = removeInsignificantBytesLittleEndian (le_bytes 8 (Height t))"

lemma height_bytes_length: "length (height_bytes t) \<le> 8"
  using removeInsignificant_length [of "le_bytes 8 (Height t)"] by (simp add: height_bytes_def)

lemma CoinbaseInitial_Serialize_eq:
  "res_bind (CoinbaseInitial t n) CoinbaseInital_Serialize =
     res_bind (varUint (n + of_nat (length (height_bytes t)) + 1)) (\<lambda>a.
       res_bind (varUint (of_nat (length (height_bytes t)))) (\<lambda>h.
         Ok (''01000000'' @ ''01'' @ replicate 64 CHR ''0'' @ ''ffffffff'' @ a @ h @ EncodeToString (height_bytes t))))"
  by (simp add: CoinbaseInitial_def CoinbaseInital_Serialize_def height_bytes_def Let_def)

lemma CoinbaseInitial_text:
  assumes "n + of_nat (length (height_bytes t)) + 1 \<noteq> 253"
  obtains lb where "res_bind (CoinbaseInitial t n) CoinbaseInital_Serialize =
      Ok (EncodeToString ([1, 0, 0, 0] @ [1] @ replicate 32 0 @ replicate 4 255 @ lb @
            of_nat (length (height_bytes t)) # height_bytes t))"
    and "\<And>rest. parse_compact (lb @ rest) = Some (n + of_nat (length (height_bytes t)) + 1, rest)"
proof -
  obtain lb where lb: "varUint (n + of_nat (length (height_bytes t)) + 1) = Ok (EncodeToString lb)"
    and parse: "\<And>rest. parse_compact (lb @ rest) = Some (n + of_nat (length (height_bytes t)) + 1, rest)"
    using varUint_bytes [OF assms] by blast
  have "unat (of_nat (length (height_bytes t)) :: u64) \<le> 8"
    using height_bytes_length [of t] by (simp add: unat_of_nat_u64)
  then have "of_nat (length (height_bytes t)) \<le> (252 :: u64)" by (simp add: word_le_nat_alt)
  from varUint_small [OF this]
  have hb: "varUint (of_nat (length (height_bytes t))) = Ok (EncodeToString [of_nat (length (height_bytes t))])"
    by (simp only: ucast_of_nat_byte)
  show ?thesis
    by (rule that [OF _ parse])
       (simp only: CoinbaseInitial_Serialize_eq lb hb res_bind.simps hex_constants hex_zeros_64 ff_replicate
          flip: EncodeToString_append, simp)
qed

text \<open>The outputs: the witness commitment when the template has one, then the pool's reward.\<close>

definition expected_outputs :: "template \<Rightarrow> byte list \<Rightarrow> byte list \<Rightarrow> tx_out list" where
  "expected_outputs t w pk = (if w = [] then [] else [(0, w)]) @ [(CoinBaseValue t, pk)]"

lemma expected_outputs_count: "length (expected_outputs t w pk) = (if w = [] then 1 else 2)"
  by (simp add: expected_outputs_def)

lemma coinbase_outputs_eq:
  assumes "DefaultWitnessCommitment t = EncodeToString w"
  shows "coinbaseTransactionOutputs t (EncodeToString pk) =
    res_bind (res_map tx_out_text (expected_outputs t w pk))
      (\<lambda>ss. Ok (of_nat (length (expected_outputs t w pk)), concat ss))"
proof (cases "w = []")
  case True
  with assms show ?thesis
    by (simp add: coinbaseTransactionOutputs_def expected_outputs_def tx_out_text_def reward_amount_eq
        res_bind_assoc)
next
  case False
  then have "EncodeToString w \<noteq> []" by (cases w) auto
  with False assms show ?thesis
    by (simp add: coinbaseTransactionOutputs_def expected_outputs_def tx_out_text_def reward_amount_eq
        res_bind_assoc hex_zeros_16)
qed

lemma tx_out_texts:
  "(\<And>out. out \<in> set outs \<Longrightarrow> small_script out) \<Longrightarrow>
   \<exists>ss ob. res_map tx_out_text outs = Ok ss \<and> concat ss = EncodeToString ob \<and>
     (\<forall>rest. parse_many parse_tx_out (length outs) (ob @ rest) = Some (outs, rest))"
proof (induction outs)
  case Nil
  then show ?case by (intro exI [of _ "[]"]) simp
next
  case (Cons out outs)
  then obtain ss ob where "res_map tx_out_text outs = Ok ss" "concat ss = EncodeToString ob"
    "\<And>rest. parse_many parse_tx_out (length outs) (ob @ rest) = Some (outs, rest)" by auto
  moreover have "small_script out" using Cons.prems by simp
  then obtain lb where "tx_out_text out = Ok (EncodeToString (le_bytes 8 (fst out) @ lb @ snd out))"
    "\<And>rest. parse_tx_out (le_bytes 8 (fst out) @ lb @ snd out @ rest) = Some (out, rest)"
    by (rule tx_out_text_bytes) blast
  ultimately show ?case
    by (intro exI [of _ "EncodeToString (le_bytes 8 (fst out) @ lb @ snd out) # ss"]
        exI [of _ "(le_bytes 8 (fst out) @ lb @ snd out) @ ob"]) simp
qed

lemma CoinbaseFinal_text:
  assumes "DefaultWitnessCommitment t = EncodeToString w"
    and "\<And>out. out \<in> set (expected_outputs t w pk) \<Longrightarrow> small_script out"
  obtains ob where "res_bind (CoinbaseFinal t (EncodeToString pk)) CoinbaseFinal_Serialize =
      Ok (EncodeToString ([0, 0, 0, 0] @ [of_nat (length (expected_outputs t w pk))] @ ob @ [0, 0, 0, 0]))"
    and "\<And>rest. parse_many parse_tx_out (length (expected_outputs t w pk)) (ob @ rest)
      = Some (expected_outputs t w pk, rest)"
proof -
  let ?k = "length (expected_outputs t w pk)"
  obtain ss ob where ss: "res_map tx_out_text (expected_outputs t w pk) = Ok ss"
    "concat ss = EncodeToString ob"
    and parse: "\<And>rest. parse_many parse_tx_out ?k (ob @ rest) = Some (expected_outputs t w pk, rest)"
    using tx_out_texts [OF assms(2)] by blast
  have "varUint (of_nat ?k) = Ok (EncodeToString [of_nat ?k])"
    using varUint_small [of "of_nat ?k"] by (simp add: expected_outputs_count del: EncodeToString_simps)
  then have "res_bind (CoinbaseFinal t (EncodeToString pk)) CoinbaseFinal_Serialize =
      Ok (''00000000'' @ EncodeToString [of_nat ?k] @ EncodeToString ob @ ''00000000'')"
    by (simp add: CoinbaseFinal_def CoinbaseFinal_Serialize_def coinbase_outputs_eq [OF assms(1)] ss
        del: EncodeToString_simps)
  then show ?thesis
    by (intro that [OF _ parse]) (simp only: hex_constants flip: EncodeToString_append)
qed

lemma parse_compact_single: "b \<le> 252 \<Longrightarrow> parse_compact (b # rest) = Some (ucast b, rest)"
  by simp

lemma coinbase_bytes_parse:
  assumes "\<And>rest. parse_compact (lb @ rest) = Some (of_nat (length script), rest)"
    and "length script < 2 ^ 64" and "k \<le> 252"
    and "\<And>rest. parse_many parse_tx_out k (ob @ rest) = Some (outs, rest)"
  shows "parse_coinbase ([1, 0, 0, 0] @ [1] @ replicate 32 0 @ replicate 4 255 @ lb @ script @
      [0, 0, 0, 0] @ [of_nat k] @ ob @ [0, 0, 0, 0] @ rest) =
    Some (\<lparr>cb_version = 1, cb_prevout = replicate 32 0 @ replicate 4 255, cb_script = script,
      cb_sequence = 0, cb_outputs = outs, cb_locktime = 0\<rparr>, rest)"
proof -
  have k: "(of_nat k :: byte) \<le> 252" "unat (ucast (of_nat k :: byte) :: u64) = k"
    using assms(3) by (simp_all add: word_le_nat_alt unsigned_of_nat take_bit_nat_eq_self unsigned_ucast_eq)
  have "parse_var_bytes (lb @ script @ r) = Some (script, r)" for r
    using assms(1,2) by (simp add: parse_var_bytes_def unat_of_nat_u64)
  with assms(4) k show ?thesis by (simp add: parse_coinbase_def)
qed

end
