(* ===== verification/Block.thy ===== *)
theory Block
  imports Coinbase
begin

text \<open>
  \<open>bitcoin/header.go\<close>, \<open>auxpow.go\<close>, \<open>submission.go\<close>, \<open>bitcoin.go\<close>, \<open>block.go\<close>, \<open>work.go\<close>,
  \<open>validators.go\<close> and \<open>generator.go\<close>: the block under construction, the work sent to miners, the
  header a share commits to, its proof-of-work value, the block submission and the auxiliary proof
  of work.  A method with a pointer receiver returns the changed block beside its result.
\<close>

section \<open>Header\<close>

definition blockHeader :: "u64 \<Rightarrow> string \<Rightarrow> string \<Rightarrow> string \<Rightarrow> string \<Rightarrow> string \<Rightarrow> string res" where
  "blockHeader version previousBlockHash merkleRootHex nTime bits nonce =
     res_bind (fourLittleEndianBytes (VUint version)) (\<lambda>versionBytes.
     res_bind (DecodeString previousBlockHash) (\<lambda>prevBlockHash.
     res_bind (DecodeString merkleRootHex) (\<lambda>merkleRoot.
     res_bind (DecodeString nTime) (\<lambda>nonceTime.
     res_bind (DecodeString bits) (\<lambda>bitsHex.
     res_bind (DecodeString nonce) (\<lambda>nonceHex.
       Ok (EncodeToString (versionBytes @ reverse prevBlockHash @ merkleRoot @ reverse nonceTime
             @ reverse bitsHex @ reverse nonceHex))))))))"

section \<open>Blocks and work\<close>

record AuxBlock =
  auxHash :: string
  auxChainID :: int
  auxPreviousBlockHash :: string
  auxCoinbaseHash :: string
  auxCoinbaseValue :: u64
  auxBits :: string
  auxHeight :: u64
  auxTarget :: string

record BitcoinBlock =
  Template :: "template option"
  reversePrevBlockHash :: string
  coinbaseInitial :: string
  coinbaseFinal :: string
  merkleSteps :: "string list"
  coinbase :: string
  header :: string
  hash :: string
  chain :: "blockchain option"

definition empty_block :: BitcoinBlock where
  "empty_block = \<lparr>Template = None, reversePrevBlockHash = [], coinbaseInitial = [], coinbaseFinal = [],
     merkleSteps = [], coinbase = [], header = [], hash = [], chain = None\<rparr>"

text \<open>\<open>init(chain)\<close>: the interface value comes from \<open>GetChain\<close>, never nil there.\<close>

definition block_init :: "BitcoinBlock \<Rightarrow> blockchain option \<Rightarrow> BitcoinBlock res" where
  "block_init b c = (case c of None \<Rightarrow> Panic ''Chain cannot be null'' | Some c' \<Rightarrow> Ok (b\<lparr>chain := Some c'\<rparr>))"

definition block_ChainName :: "BitcoinBlock \<Rightarrow> string res" where
  "block_ChainName b = (case chain b of None \<Rightarrow> Panic ''Chain needs to be set'' | Some c \<Rightarrow> Ok (ChainName c))"

definition nil_pointer :: "'a res" where
  "nil_pointer = Panic ''invalid memory address or nil pointer dereference''"

definition block_ShareMultiplier :: "BitcoinBlock \<Rightarrow> fl res" where
  "block_ShareMultiplier b = (case chain b of None \<Rightarrow> nil_pointer | Some c \<Rightarrow> Ok (ShareMultiplier c))"

text \<open>A work packet holds strings and one list of strings (\<open>[]any\<close>).\<close>

datatype work_item = WStr string | WStrs "string list"

type_synonym work = "work_item list"

text \<open>The auxiliary entries, in the order \<open>range\<close> visits the map (any order of its keys).\<close>

fun aux_work :: "(string \<times> AuxBlock option) list \<Rightarrow> work" where
  "aux_work [] = []"
| "aux_work ((name, None) # rest) = aux_work rest"
| "aux_work ((name, Some a) # rest) = WStr (name @ '':'' @ auxHash a) # aux_work rest"

definition GenerateWork ::
  "scrypt_fn \<Rightarrow> nat \<Rightarrow> template option \<Rightarrow> (string \<times> AuxBlock option) list \<Rightarrow> string \<Rightarrow> string \<Rightarrow>
   string \<Rightarrow> int \<Rightarrow> (BitcoinBlock \<times> work \<times> nat) res" where
  "GenerateWork scrypt jobCounter tmpl auxBlocks chainName arbitrary poolPayoutPubScriptKey reservedArbitraryByteLength =
     (case tmpl of None \<Rightarrow> Err ''template cannot be null''
      | Some t \<Rightarrow>
        res_bind (GetChain scrypt chainName) (\<lambda>c.
        res_bind (block_init empty_block (Some c)) (\<lambda>b0.
        res_bind (res_context ''invalid previous block hash hex: '' (reverseHex4Bytes (PrevBlockHash t))) (\<lambda>rp.
        let arbitraryBytes = bytesWithLengthHeader (string_bytes arbitrary);
            arbitraryByteLength = of_int (int (length arbitraryBytes) + reservedArbitraryByteLength);
            arbitraryHex = EncodeToString arbitraryBytes in
        res_bind (res_bind (CoinbaseInitial t arbitraryByteLength) CoinbaseInital_Serialize) (\<lambda>ci.
        res_bind (res_bind (CoinbaseFinal t poolPayoutPubScriptKey) CoinbaseFinal_Serialize) (\<lambda>cf.
        res_bind (res_context ''failed to generate merkle steps: '' (MerkleSteps t)) (\<lambda>steps.
        let block = b0\<lparr>Template := Some t, reversePrevBlockHash := rp, coinbaseInitial := ci,
                       coinbaseFinal := arbitraryHex @ cf, merkleSteps := steps\<rparr>;
            w = [WStr (hex_text_padded 8 jobCounter), WStr (reversePrevBlockHash block),
                 WStr (coinbaseInitial block), WStr (coinbaseFinal block), WStrs (merkleSteps block),
                 WStr (hex_text_padded 8 (unat (tVersion t))), WStr (Bits t),
                 WStr (hex_text (unat (CurrentTime t)))]
        in Ok (block, w @ aux_work auxBlocks, jobCounter + 1))))))))"

definition CoinbaseHashed :: "BitcoinBlock \<Rightarrow> string res" where
  "CoinbaseHashed b = (case chain b of None \<Rightarrow> nil_pointer | Some c \<Rightarrow> CoinbaseDigest c (coinbase b))"

text \<open>\<open>MakeHeader\<close>: a failed \<open>blockHeader\<close> leaves the empty string in \<open>header\<close>.\<close>

definition MakeHeader :: "BitcoinBlock \<Rightarrow> string \<Rightarrow> string \<Rightarrow> string \<Rightarrow> string res \<times> BitcoinBlock" where
  "MakeHeader b extranonce nonce nonceTime =
     (case Template b of None \<Rightarrow> (Err ''generate work first'', b)
      | Some t \<Rightarrow>
        let b1 = b\<lparr>coinbase := Coinbase_Serialize \<lparr>CoinbaseInitalText = coinbaseInitial b,
                     Arbitrary = extranonce, CoinbaseFinalText = coinbaseFinal b\<rparr>\<rparr> in
        (case res_bind (CoinbaseHashed b1) (\<lambda>coinbaseHashed. makeHeaderMerkleRoot coinbaseHashed (merkleSteps b1)) of
           Err e \<Rightarrow> (Err e, b1)
         | Panic m \<Rightarrow> (Panic m, b1)
         | Ok merkleRoot \<Rightarrow>
           (case blockHeader (tVersion t) (PrevBlockHash t) merkleRoot nonceTime (Bits t) nonce of
              Err e \<Rightarrow> (Err e, b1\<lparr>header := []\<rparr>)
            | Panic m \<Rightarrow> (Panic m, b1)
            | Ok h \<Rightarrow> (Ok h, b1\<lparr>header := h\<rparr>))))"

definition HeaderHashed :: "BitcoinBlock \<Rightarrow> string res" where
  "HeaderHashed b = (case chain b of None \<Rightarrow> nil_pointer
     | Some c \<Rightarrow> res_bind (CoinbaseDigest c (header b)) reverseHexBytes)"

text \<open>\<open>Sum\<close>: the value of the reversed digest as a big-endian number; it sets \<open>hash\<close>.\<close>

definition be_value :: "byte list \<Rightarrow> nat" where
  "be_value bs = le_value (rev bs)"

definition block_Sum :: "BitcoinBlock \<Rightarrow> nat res \<times> BitcoinBlock" where
  "block_Sum b =
     (case chain b of None \<Rightarrow> (Err ''calculateSum: Missing blockchain interface'', b)
      | Some c \<Rightarrow>
        if header b = [] then (Err ''generate header first'', b)
        else (case res_bind (HeaderDigest c (header b)) reverseHexBytes of
           Err e \<Rightarrow> (Err e, b)
         | Panic m \<Rightarrow> (Panic m, b)
         | Ok digest \<Rightarrow>
           let b1 = b\<lparr>hash := digest\<rparr> in
           (case DecodeString digest of Err e \<Rightarrow> (Err e, b1) | Panic m \<Rightarrow> (Panic m, b1)
            | Ok digestBytes \<Rightarrow> (Ok (be_value digestBytes), b1))))"

section \<open>Submission\<close>

record Submission =
  sHeader :: string
  TransactionCount :: string
  sCoinbase :: string
  TransactionBuffer :: string

definition Submission_Serialize :: "Submission \<Rightarrow> string" where
  "Submission_Serialize s = sHeader s @ TransactionCount s @ sCoinbase s @ TransactionBuffer s"

fun transaction_buffer_loop :: "string \<Rightarrow> transaction list \<Rightarrow> string" where
  "transaction_buffer_loop buffer [] = buffer"
| "transaction_buffer_loop buffer (tx # txs) = transaction_buffer_loop (buffer @ TxData tx) txs"

definition buildTransactionBuffer :: "BitcoinBlock \<Rightarrow> string res" where
  "buildTransactionBuffer b = (case Template b of None \<Rightarrow> nil_pointer
     | Some t \<Rightarrow> Ok (transaction_buffer_loop [] (Transactions t)))"

definition createSubmissionHex :: "BitcoinBlock \<Rightarrow> string res" where
  "createSubmissionHex b =
     (case Template b of None \<Rightarrow> nil_pointer
      | Some t \<Rightarrow>
        let transactionCount = of_nat (length (Transactions t) + 1) in
        res_bind (varUint transactionCount) (\<lambda>count.
        res_bind (buildTransactionBuffer b) (\<lambda>buffer.
          Ok (Submission_Serialize \<lparr>sHeader = header b, TransactionCount = count,
                sCoinbase = coinbase b, TransactionBuffer = buffer\<rparr>))))"

definition block_Submit :: "BitcoinBlock \<Rightarrow> string res" where
  "block_Submit b =
     (if header b = [] then Err ''generate header first''
      else (case Template b of None \<Rightarrow> nil_pointer
        | Some t \<Rightarrow> res_bind (createSubmissionHex b) (\<lambda>submission.
            Ok (if MimbleWimble t \<noteq> [] then submission @ ''01'' @ MimbleWimble t else submission))))"

section \<open>Auxiliary proof of work\<close>

definition mergedMiningHeader :: string where "mergedMiningHeader = ''fabe6d6d''"
definition mergedMiningTrailer :: string where "mergedMiningTrailer = ''010000000000000000002632''"

definition AuxBlock_GetWork :: "AuxBlock \<Rightarrow> string" where
  "AuxBlock_GetWork b = mergedMiningHeader @ auxHash b @ mergedMiningTrailer"

record ParentMerkleBranch =
  pmLength :: u64
  pmItems :: "string list"
  pmMask :: string

definition makeParentMerkleBranch :: "string list \<Rightarrow> ParentMerkleBranch" where
  "makeParentMerkleBranch items = \<lparr>pmLength = of_nat (length items), pmItems = items, pmMask = ''00000000''\<rparr>"

definition ParentMerkleBranch_Serialize :: "ParentMerkleBranch \<Rightarrow> string res" where
  "ParentMerkleBranch_Serialize pm =
     (let items = foldl (\<lambda>acc item. acc @ item) [] (pmItems pm) in
      res_bind (varUint (pmLength pm)) (\<lambda>l. Ok (l @ items @ pmMask pm)))"

record AuxMerkleBranch =
  numberOfBranches :: string
  amMask :: string

definition makeAuxChainMerkleBranch :: AuxMerkleBranch where
  "makeAuxChainMerkleBranch = \<lparr>numberOfBranches = ''00'', amMask = ''00000000''\<rparr>"

definition AuxMerkleBranch_Serialize :: "AuxMerkleBranch \<Rightarrow> string" where
  "AuxMerkleBranch_Serialize am = numberOfBranches am @ amMask am"

record AuxPow =
  ParentCoinbase :: string
  ParentHeaderHash :: string
  ParentBranch :: ParentMerkleBranch
  auxMerkleBranch :: AuxMerkleBranch
  ParentHeaderUnhashed :: string

definition MakeAuxPow :: "BitcoinBlock \<Rightarrow> AuxPow res" where
  "MakeAuxPow parentBlock =
     (if hash parentBlock = [] then Panic ''Set parent block hash first''
      else Ok \<lparr>ParentCoinbase = coinbase parentBlock, ParentHeaderHash = hash parentBlock,
               ParentBranch = makeParentMerkleBranch (merkleSteps parentBlock),
               auxMerkleBranch = makeAuxChainMerkleBranch,
               ParentHeaderUnhashed = header parentBlock\<rparr>)"

definition AuxPow_Serialize :: "AuxPow \<Rightarrow> string res" where
  "AuxPow_Serialize p =
     res_bind (ParentMerkleBranch_Serialize (ParentBranch p)) (\<lambda>branch.
       Ok (ParentCoinbase p @ ParentHeaderHash p @ branch
           @ AuxMerkleBranch_Serialize (auxMerkleBranch p) @ ParentHeaderUnhashed p))"

section \<open>Slots and validators\<close>

definition NonceSubmissionSlot :: "BitcoinBlock \<Rightarrow> nat" where "NonceSubmissionSlot b = 4"
definition NonceTimeSubmissionSlot :: "BitcoinBlock \<Rightarrow> nat" where "NonceTimeSubmissionSlot b = 3"
definition Extranonce2SubmissionSlot :: "BitcoinBlock \<Rightarrow> nat \<times> bool" where
  "Extranonce2SubmissionSlot b = (2, True)"

definition block_ValidMainnetAddress :: "BitcoinBlock \<Rightarrow> string \<Rightarrow> bool res" where
  "block_ValidMainnetAddress b address = (case chain b of None \<Rightarrow> nil_pointer
     | Some c \<Rightarrow> Ok (ValidMainnetAddress c address))"

definition block_ValidTestnetAddress :: "BitcoinBlock \<Rightarrow> string \<Rightarrow> bool res" where
  "block_ValidTestnetAddress b address = (case chain b of None \<Rightarrow> nil_pointer
     | Some c \<Rightarrow> Ok (ValidTestnetAddress c address))"

section \<open>What a work packet commits to\<close>

text \<open>A template as a node sends it: 32-byte hashes, 4 bytes of compact target.\<close>

definition template_ok :: "template \<Rightarrow> byte list \<Rightarrow> byte list \<Rightarrow> byte list list \<Rightarrow> byte list \<Rightarrow> bool" where
  "template_ok t prev bits ids w \<longleftrightarrow>
     DecodeString (PrevBlockHash t) = Ok prev \<and> length prev = 32 \<and>
     DecodeString (Bits t) = Ok bits \<and> length bits = 4 \<and>
     decodes (map TxID (Transactions t)) ids \<and> (\<forall>i \<in> set ids. length i = 32) \<and>
     DefaultWitnessCommitment t = EncodeToString w"

text \<open>The input script of the coinbase, and the lengths of all scripts in it.\<close>

definition input_script :: "template \<Rightarrow> string \<Rightarrow> byte list \<Rightarrow> byte list" where
  "input_script t arbitrary extranonce =
     of_nat (length (height_bytes t)) # height_bytes t @ extranonce @ bytesWithLengthHeader (string_bytes arbitrary)"

definition script_lengths :: "template \<Rightarrow> string \<Rightarrow> byte list \<Rightarrow> byte list \<Rightarrow> byte list \<Rightarrow> nat set" where
  "script_lengths t arbitrary extranonce w pk =
     insert (length (input_script t arbitrary extranonce)) ((length \<circ> snd) ` set (expected_outputs t w pk))"

definition coinbase_tx_of :: "template \<Rightarrow> string \<Rightarrow> byte list \<Rightarrow> byte list \<Rightarrow> byte list \<Rightarrow> coinbase_tx" where
  "coinbase_tx_of t arbitrary extranonce w pk =
     \<lparr>cb_version = 1, cb_prevout = replicate 32 0 @ replicate 4 255,
      cb_script = input_script t arbitrary extranonce, cb_sequence = 0,
      cb_outputs = expected_outputs t w pk, cb_locktime = 0\<rparr>"

definition reads_coinbase :: "byte list \<Rightarrow> coinbase_tx \<Rightarrow> bool" where
  "reads_coinbase cb tx \<longleftrightarrow> (\<forall>rest. parse_coinbase (cb @ rest) = Some (tx, rest))"

lemma MerkleSteps_refine:
  assumes "decodes (map TxID (Transactions t)) ids"
  obtains ss where "MerkleSteps t = Ok ss"
    and "decodes ss (merkle_branch doubleSha256Bytes (map rev ids))"
proof -
  let ?r = "\<lambda>tx. case reverseHexBytes (TxID tx) of Ok r \<Rightarrow> r | Err e \<Rightarrow> [] | Panic m \<Rightarrow> []"
  have "decodes (map TxID txs) is \<Longrightarrow> decodes (map ?r txs) (map rev is)" for txs "is"
  proof (induction txs arbitrary: "is")
    case Nil
    then show ?case by simp
  next
    case (Cons tx txs)
    then obtain i is' where i: "DecodeString (TxID tx) = Ok i" and "is": "is = i # is'"
      and "decodes (map TxID txs) is'" by (auto simp: outcome_simps)
    moreover obtain h where "reverseHexBytes (TxID tx) = Ok h" "DecodeString h = Ok (rev i)"
      using i by (rule reverseHexBytes_Decode)
    ultimately show ?case using Cons.IH by simp
  qed
  from steps_refine [OF this [OF assms]] that show ?thesis by (auto simp: MerkleSteps_def)
qed

lemma CoinbaseInitial_253:
  "n + of_nat (length (height_bytes t)) + 1 = 253 \<Longrightarrow>
   res_bind (CoinbaseInitial t n) CoinbaseInital_Serialize = Panic ''Too large to stream''"
  by (simp add: CoinbaseInitial_Serialize_eq varUint_def)

lemma res_map_Panic:
  "(\<And>x. x \<in> set xs \<Longrightarrow> is_ok (f x) \<or> f x = Panic m) \<Longrightarrow> \<exists>x \<in> set xs. f x = Panic m \<Longrightarrow>
   res_map f xs = Panic m"
proof (induction xs)
  case Nil
  then show ?case by simp
next
  case (Cons x xs)
  show ?case
  proof (cases "f x = Panic m")
    case False
    then obtain y where "f x = Ok y" using Cons.prems(1) [of x] by (auto simp: is_ok_iff)
    with Cons False show ?thesis by auto
  qed simp
qed

lemma tx_out_text_253: "length (snd out) = 253 \<Longrightarrow> tx_out_text out = Panic ''Too large to stream''"
  by (simp add: tx_out_text_def TransactionOut_def varUint_def)

lemma CoinbaseFinal_253:
  assumes "DefaultWitnessCommitment t = EncodeToString w"
    and "\<And>out. out \<in> set (expected_outputs t w pk) \<Longrightarrow> length (snd out) < 2 ^ 64"
    and "\<exists>out \<in> set (expected_outputs t w pk). length (snd out) = 253"
  shows "res_bind (CoinbaseFinal t (EncodeToString pk)) CoinbaseFinal_Serialize = Panic ''Too large to stream''"
proof -
  have "is_ok (tx_out_text out) \<or> tx_out_text out = Panic ''Too large to stream''"
    if "out \<in> set (expected_outputs t w pk)" for out
    using tx_out_text_253 [of out] tx_out_text_bytes [of out] assms(2) [OF that]
    by (cases "length (snd out) = 253") (auto simp: small_script_def is_ok_iff)
  then have "res_map tx_out_text (expected_outputs t w pk) = Panic ''Too large to stream''"
    using assms(3) tx_out_text_253 by (intro res_map_Panic) blast+
  then show ?thesis by (simp add: CoinbaseFinal_def coinbase_outputs_eq [OF assms(1)])
qed

lemma length_input_script:
  "length (input_script t arbitrary extranonce) =
     Suc (length (height_bytes t) + length extranonce + Suc (length arbitrary))"
  by (simp add: input_script_def bytesWithLengthHeader_def)

lemma GetChain_CoinbaseDigest: "GetChain scrypt n = Ok c \<Longrightarrow> CoinbaseDigest c = DoubleSha256"
  by (elim GetChain_cases) (auto simp: coin_defs)

lemma GetChain_HeaderDigest: "GetChain scrypt n = Ok c \<Longrightarrow> HeaderDigest c = ScryptDigest scrypt"
  by (elim GetChain_cases) (auto simp: coin_defs)

text \<open>The block \<open>GenerateWork\<close> leaves behind, its texts as bytes.\<close>

definition built_from ::
  "BitcoinBlock \<Rightarrow> blockchain \<Rightarrow> template \<Rightarrow> byte list list \<Rightarrow> byte list \<Rightarrow> byte list \<Rightarrow> bool" where
  "built_from b c t ids ib fb \<longleftrightarrow> Template b = Some t \<and> chain b = Some c \<and>
     coinbaseInitial b = EncodeToString ib \<and> coinbaseFinal b = EncodeToString fb \<and>
     decodes (merkleSteps b) (merkle_branch doubleSha256Bytes (map rev ids))"

lemma GenerateWork_cases:
  assumes chain: "GetChain scrypt name = Ok c" and tmpl: "template_ok t prev bits ids w"
    and small: "\<forall>n \<in> script_lengths t arbitrary extranonce w pk. n < 2 ^ 64"
  obtains (ok) b work ib fb
    where "GenerateWork scrypt jobs (Some t) aux name arbitrary (EncodeToString pk) (int (length extranonce))
        = Ok (b, work, jobs + 1)"
      and "253 \<notin> script_lengths t arbitrary extranonce w pk" and "built_from b c t ids ib fb"
      and "reads_coinbase (ib @ extranonce @ fb) (coinbase_tx_of t arbitrary extranonce w pk)"
  | (panic) "GenerateWork scrypt jobs (Some t) aux name arbitrary (EncodeToString pk) (int (length extranonce))
        = Panic ''Too large to stream''"
      and "253 \<in> script_lengths t arbitrary extranonce w pk"
proof -
  let ?n = "of_int (int (length (bytesWithLengthHeader (string_bytes arbitrary))) + int (length extranonce)) :: u64"
  let ?script = "input_script t arbitrary extranonce" and ?outs = "expected_outputs t w pk"
  let ?arb = "bytesWithLengthHeader (string_bytes arbitrary)"
  have n: "?n + of_nat (length (height_bytes t)) + 1 = of_nat (length ?script)"
    by (simp add: length_input_script bytesWithLengthHeader_def)
  have script: "length ?script < 2 ^ 64" using small by (simp add: script_lengths_def)
  have w: "DefaultWitnessCommitment t = EncodeToString w" using tmpl by (simp add: template_ok_def)
  have outs: "length (snd out) < 2 ^ 64" if "out \<in> set ?outs" for out
    using small that by (simp add: script_lengths_def)
  obtain rp where rp: "reverseHex4Bytes (PrevBlockHash t) = Ok rp"
    using tmpl DecodeString_length [of "PrevBlockHash t" prev] by (simp add: template_ok_def reverseHex4Bytes_eq)
  obtain ss where ss: "MerkleSteps t = Ok ss" "decodes ss (merkle_branch doubleSha256Bytes (map rev ids))"
    using tmpl MerkleSteps_refine [of t ids] by (auto simp: template_ok_def)
  note unfold = GenerateWork_def chain rp ss(1) block_init_def Let_def option.case res_bind.simps res_context.simps
  show ?thesis
  proof (cases "length ?script = 253")
    case True
    then have "res_bind (CoinbaseInitial t ?n) CoinbaseInital_Serialize = Panic ''Too large to stream''"
      by (intro CoinbaseInitial_253) (simp only: n of_nat_numeral)
    then show ?thesis
      using True by (intro panic) (simp_all add: unfold Let_def script_lengths_def)
  next
    case False
    then have "?n + of_nat (length (height_bytes t)) + 1 \<noteq> 253"
      using script of_nat_u64_neq [of "length ?script" 253] by (simp only: n) simp
    then obtain lb where ci: "res_bind (CoinbaseInitial t ?n) CoinbaseInital_Serialize =
        Ok (EncodeToString ([1, 0, 0, 0] @ [1] @ replicate 32 0 @ replicate 4 255 @ lb @
            of_nat (length (height_bytes t)) # height_bytes t))"
      and lb: "\<And>rest. parse_compact (lb @ rest) = Some (of_nat (length ?script), rest)"
      using CoinbaseInitial_text [of ?n t] unfolding n by blast
    note unfold = unfold ci
    show ?thesis
    proof (cases "\<exists>out \<in> set ?outs. length (snd out) = 253")
      case True
      then have cf: "res_bind (CoinbaseFinal t (EncodeToString pk)) CoinbaseFinal_Serialize = Panic ''Too large to stream''"
        using w outs by (intro CoinbaseFinal_253)
      from True have "253 \<in> script_lengths t arbitrary extranonce w pk"
        by (force simp: script_lengths_def)
      then show ?thesis
        by (intro panic) (simp_all only: unfold cf)
    next
      case no253: False
      then have "small_script out" if "out \<in> set ?outs" for out
        using outs that by (auto simp: small_script_def)
      then obtain ob where cf: "res_bind (CoinbaseFinal t (EncodeToString pk)) CoinbaseFinal_Serialize =
          Ok (EncodeToString ([0, 0, 0, 0] @ [of_nat (length ?outs)] @ ob @ [0, 0, 0, 0]))"
        and ob: "\<And>rest. parse_many parse_tx_out (length ?outs) (ob @ rest) = Some (?outs, rest)"
        using CoinbaseFinal_text [OF w] by blast
      have "length ?outs \<le> 252" by (simp add: expected_outputs_count)
      note parse = coinbase_bytes_parse [OF lb script this ob]
      let ?ib = "[1, 0, 0, 0] @ [1] @ replicate 32 0 @ replicate 4 255 @ lb @
          of_nat (length (height_bytes t)) # height_bytes t"
      let ?fb = "?arb @ [0, 0, 0, 0] @ [of_nat (length ?outs)] @ ob @ [0, 0, 0, 0]"
      have "parse_coinbase ((?ib @ extranonce @ ?fb) @ rest) = Some (coinbase_tx_of t arbitrary extranonce w pk, rest)" for rest
        using parse [of rest] by (simp add: coinbase_tx_of_def input_script_def)
      then have reads: "reads_coinbase (?ib @ extranonce @ ?fb) (coinbase_tx_of t arbitrary extranonce w pk)"
        by (simp only: reads_coinbase_def simp_thms)
      have "\<exists>b work. GenerateWork scrypt jobs (Some t) aux name arbitrary (EncodeToString pk) (int (length extranonce))
          = Ok (b, work, jobs + 1) \<and> built_from b c t ids ?ib ?fb"
        unfolding unfold cf by (intro exI conjI, rule refl) (simp add: built_from_def ss(2))
      moreover have "253 \<notin> script_lengths t arbitrary extranonce w pk"
        using no253 False by (auto simp: script_lengths_def)
      ultimately show ?thesis using ok reads by blast
    qed
  qed
qed

definition header_bytes :: "template \<Rightarrow> byte list \<Rightarrow> byte list \<Rightarrow> byte list list \<Rightarrow> byte list \<Rightarrow> byte list \<Rightarrow> byte list \<Rightarrow> byte list" where
  "header_bytes t prev bits ids cb nt nb =
     le_bytes 4 (ucast (tVersion t) :: u32) @ rev prev @
     merkle_root doubleSha256Bytes (doubleSha256Bytes cb # map rev ids) @ rev nt @ rev bits @ rev nb"

lemma length_header_bytes:
  "template_ok t prev bits ids w \<Longrightarrow> length nt = 4 \<Longrightarrow> length nb = 4 \<Longrightarrow>
   length (header_bytes t prev bits ids cb nt nb) = 80"
  by (simp add: header_bytes_def template_ok_def dsha.root_length)

lemma coinbase_MakeHeader:
  assumes "built_from b c t ids ib fb"
  shows "coinbase (snd (MakeHeader b (EncodeToString ex) nonce nonceTime)) = EncodeToString (ib @ ex @ fb)"
  using assms
  by (simp add: built_from_def MakeHeader_def Coinbase_Serialize_def Let_def split: res.splits
      del: EncodeToString_simps)

lemma MakeHeader_built:
  assumes "built_from b c t ids ib fb" and "CoinbaseDigest c = DoubleSha256"
    and "template_ok t prev bits ids w"
    and "DecodeString nonceTime = Ok nt" and "DecodeString nonce = Ok nb"
  shows "MakeHeader b (EncodeToString ex) nonce nonceTime =
    (Ok (EncodeToString (header_bytes t prev bits ids (ib @ ex @ fb) nt nb)),
     b\<lparr>coinbase := EncodeToString (ib @ ex @ fb),
       header := EncodeToString (header_bytes t prev bits ids (ib @ ex @ fb) nt nb)\<rparr>)"
proof -
  let ?cb = "ib @ ex @ fb"
  have "root_loop (doubleSha256Bytes ?cb) (merkleSteps b) =
      Ok (EncodeToString (merkle_root doubleSha256Bytes (doubleSha256Bytes ?cb # map rev ids)))"
    using assms(1) root_loop_refines by (simp add: built_from_def fold_merkle_branch)
  with assms show ?thesis
    by (simp add: built_from_def template_ok_def MakeHeader_def Coinbase_Serialize_def CoinbaseHashed_def
        DoubleSha256_def makeHeaderMerkleRoot_def blockHeader_def reverse_eq_rev header_bytes_def Let_def
        doubleSha256Bytes_def [symmetric] del: EncodeToString_simps EncodeToString_append
        flip: EncodeToString_append)
qed


text \<open>A template used by the witnesses.\<close>

definition sample_template :: template where
  "sample_template = \<lparr>tVersion = 0x20000000, PrevBlockHash = EncodeToString (replicate 32 7), Height = 300,
     CoinBaseValue = 5000000000, DefaultWitnessCommitment = EncodeToString (replicate 38 1),
     Bits = EncodeToString [30, 15, 255, 255], TargetHex = '''',
     Transactions = [\<lparr>TxData = ''abcd'', TxID = EncodeToString (replicate 32 9), TxFee = 10\<rparr>],
     CurrentTime = 1700000000, MimbleWimble = ''''\<rparr>"

lemma sample_template_ok:
  "template_ok sample_template (replicate 32 7) [30, 15, 255, 255] [replicate 32 9] (replicate 38 1)"
  by (simp add: sample_template_def template_ok_def del: EncodeToString_simps)

lemma sample_lengths:
  "\<forall>n \<in> script_lengths sample_template ''pool'' (replicate 8 3) (replicate 38 1) (replicate 25 2).
     n < 2 ^ 64 \<and> n \<noteq> 253"
proof -
  have "length (height_bytes sample_template) \<le> 8" by (rule height_bytes_length)
  then show ?thesis by (simp add: script_lengths_def length_input_script expected_outputs_def)
qed


text \<open>C6. The header a share of generated work commits to is 80 bytes: the version, the previous
  block hash, the Merkle root of the tree over the hash of exactly this coinbase and all
  transactions of the template, the time, the compact target and the nonce, each in wire order.\<close>

theorem header_commits_to_template:
  assumes "GetChain scrypt name = Ok c" and "template_ok t prev bits ids w"
    and "\<forall>n \<in> script_lengths t arbitrary extranonce w pk. n < 2 ^ 64 \<and> n \<noteq> 253"
    and "DecodeString nonceTime = Ok nt" and "length nt = 4"
    and "DecodeString nonce = Ok nb" and "length nb = 4"
  shows "\<exists>b work cb hdr b'.
    GenerateWork scrypt jobs (Some t) aux name arbitrary (EncodeToString pk) (int (length extranonce))
      = Ok (b, work, jobs + 1) \<and>
    MakeHeader b (EncodeToString extranonce) nonce nonceTime = (Ok (EncodeToString hdr), b') \<and>
    header b' = EncodeToString hdr \<and> coinbase b' = EncodeToString cb \<and> length hdr = 80 \<and>
    hdr = le_bytes 4 (ucast (tVersion t) :: u32) @ rev prev @
      merkle_root doubleSha256Bytes (doubleSha256Bytes cb # map rev ids) @ rev nt @ rev bits @ rev nb"
proof -
  have small: "\<forall>n \<in> script_lengths t arbitrary extranonce w pk. n < 2 ^ 64"
    and no: "253 \<notin> script_lengths t arbitrary extranonce w pk" using assms(3) by auto
  show ?thesis
  proof (cases rule: GenerateWork_cases [OF assms(1,2) small, of jobs aux, case_names ok panic])
    case (ok b work ib fb)
    from MakeHeader_built [OF ok(3) GetChain_CoinbaseDigest [OF assms(1)] assms(2,4,6)]
      length_header_bytes [OF assms(2,5,7)] ok(1)
    show ?thesis unfolding header_bytes_def by fastforce
  next
    case panic
    with no show ?thesis by simp
  qed
qed

lemma header_commits_to_template_witness:
  "\<exists>b work cb hdr b'.
    GenerateWork (\<lambda>b. None) 0 (Some sample_template) [] ''dogecoin'' ''pool'' (EncodeToString (replicate 25 2))
      (int (length (replicate 8 (3 :: byte)))) = Ok (b, work, 0 + 1) \<and>
    MakeHeader b (EncodeToString (replicate 8 3)) ''00000001'' ''65000000'' = (Ok (EncodeToString hdr), b') \<and>
    header b' = EncodeToString hdr \<and> coinbase b' = EncodeToString cb \<and> length hdr = 80 \<and>
    hdr = le_bytes 4 (ucast (tVersion sample_template) :: u32) @ rev (replicate 32 7) @
      merkle_root doubleSha256Bytes (doubleSha256Bytes cb # map rev [replicate 32 9]) @ rev [0x65, 0, 0, 0] @
      rev [30, 15, 255, 255] @ rev [0, 0, 0, 1]"
  by (rule header_commits_to_template [OF _ sample_template_ok sample_lengths])
     (simp_all add: GetChain_def hex_val_def)

section \<open>Proof of work value, submission and auxiliary proof\<close>

lemma block_Sum_scrypt:
  assumes "GetChain scrypt name = Ok c" and "chain b = Some c"
    and "header b \<noteq> []" and "DecodeString (header b) = Ok hb"
    and "scrypt hb = Some d" and "length d = 32"
  shows "block_Sum b = (Ok (le_value d), b\<lparr>hash := EncodeToString (rev d)\<rparr>)"
  using assms
  by (simp add: block_Sum_def GetChain_HeaderDigest [OF assms(1)] ScryptDigest_def reverseHexBytes_EncodeToString be_value_def)

text \<open>The number compared with the target is the little-endian value of the 32-byte scrypt
  digest of the header, below \<open>2 ^ 256\<close>; the block's hash becomes the digest in display order.\<close>

theorem block_Sum_value:
  assumes "GetChain scrypt name = Ok c" and "chain b = Some c"
    and "header b \<noteq> []" and "DecodeString (header b) = Ok hb"
    and "scrypt hb = Some d" and "length d = 32"
  shows "block_Sum b = (Ok (le_value d), b\<lparr>hash := EncodeToString (rev d)\<rparr>) \<and> le_value d < 2 ^ 256"
  using block_Sum_scrypt [OF assms] le_value_bound [of d] assms(6) by (simp add: power_mult [of 2 8, symmetric])

lemma block_Sum_value_witness:
  "block_Sum (empty_block\<lparr>chain := Some (Dogecoin (\<lambda>b. Some (replicate 32 255))), header := ''00''\<rparr>) =
     (Ok (le_value (replicate 32 255)),
      empty_block\<lparr>chain := Some (Dogecoin (\<lambda>b. Some (replicate 32 255))), header := ''00'',
        hash := EncodeToString (rev (replicate 32 255))\<rparr>) \<and>
   le_value (replicate 32 255) < 2 ^ 256"
  using block_Sum_value [of "\<lambda>b. Some (replicate 32 255)" "''dogecoin''" "Dogecoin (\<lambda>b. Some (replicate 32 255))"
      "empty_block\<lparr>chain := Some (Dogecoin (\<lambda>b. Some (replicate 32 255))), header := ''00''\<rparr>" "[0]" "replicate 32 255"]
  by (simp add: GetChain_def hex_val_def)

text \<open>The reader of a submitted block: header, number of transactions, coinbase, and the rest.\<close>

definition parse_block :: "byte list \<Rightarrow> (byte list \<times> u64 \<times> coinbase_tx \<times> byte list) option" where
  "parse_block bs =
     Option.bind (parse_bytes 80 bs) (\<lambda>(hdr, r1).
     Option.bind (parse_compact r1) (\<lambda>(n, r2).
     Option.bind (parse_coinbase r2) (\<lambda>(tx, rest). Some (hdr, n, tx, rest))))"

lemma transaction_buffer_loop_eq:
  "transaction_buffer_loop buffer txs = buffer @ concat (map TxData txs)"
  by (induction txs arbitrary: buffer) auto

lemma DecodeString_concat: "decodes ss bss \<Longrightarrow> DecodeString (concat ss) = Ok (concat bss)"
  by (induction ss arbitrary: bss) (auto simp: outcome_simps DecodeString_append)

lemma block_Submit_eq:
  "header b \<noteq> [] \<Longrightarrow> Template b = Some t \<Longrightarrow>
   block_Submit b = res_bind (varUint (of_nat (length (Transactions t) + 1))) (\<lambda>n.
     Ok (header b @ n @ coinbase b @ concat (map TxData (Transactions t)) @
         (if MimbleWimble t = [] then [] else ''01'' @ MimbleWimble t)))"
  by (cases "varUint (of_nat (length (Transactions t) + 1))")
     (simp_all add: block_Submit_def createSubmissionHex_def buildTransactionBuffer_def
       transaction_buffer_loop_eq Submission_Serialize_def)

text \<open>C13. The submission reads back: a node finds the 80-byte header, one more transaction than the
  template has, the coinbase, and then exactly the data of the template's transactions, followed by
  the MimbleWimble extension block when there is one.  It fails, by a panic, exactly for a template
  of 252 transactions.\<close>

theorem submission_reads_back:
  assumes "Template b = Some t" and "DecodeString (header b) = Ok hdr" and "length hdr = 80"
    and "DecodeString (coinbase b) = Ok cb" and "reads_coinbase cb tx"
    and "decodes (map TxData (Transactions t)) datas" and "DecodeString (MimbleWimble t) = Ok mw"
    and "length (Transactions t) + 1 < 2 ^ 64"
  shows "(case block_Submit b of
      Ok s \<Rightarrow> length (Transactions t) \<noteq> 252 \<and> (\<exists>bs. DecodeString s = Ok bs \<and>
        parse_block bs = Some (hdr, of_nat (length (Transactions t) + 1), tx,
          concat datas @ (if mw = [] then [] else 1 # mw)))
    | Err e \<Rightarrow> False
    | Panic m \<Rightarrow> length (Transactions t) = 252)"
proof -
  let ?n = "length (Transactions t) + 1"
  let ?mw = "if MimbleWimble t = [] then [] else ''01'' @ MimbleWimble t"
  let ?mb = "if mw = [] then [] else 1 # mw"
  have hdr: "header b \<noteq> []" using assms(2,3) by auto
  note submit = block_Submit_eq [OF hdr assms(1)]
  have mw: "DecodeString ?mw = Ok ?mb"
    using assms(7) DecodeString_length [OF assms(7)] by (auto simp: hex_val_def)
  show ?thesis
  proof (cases "?n = 253")
    case True
    then show ?thesis by (simp only: submit) (simp add: varUint_def)
  next
    case False
    then have "of_nat ?n \<noteq> (253 :: u64)" using assms(8) by (intro of_nat_u64_neq) auto
    then obtain nb where nb: "varUint (of_nat ?n) = Ok (EncodeToString nb)"
      and parse: "\<And>rest. parse_compact (nb @ rest) = Some (of_nat ?n, rest)"
      using varUint_bytes [of "of_nat ?n"] by blast
    have "DecodeString (header b @ EncodeToString nb @ coinbase b @ concat (map TxData (Transactions t)) @ ?mw) =
        Ok (hdr @ nb @ cb @ concat datas @ ?mb)"
      using assms(2,4) DecodeString_concat [OF assms(6)] mw
      by (simp only: DecodeString_append DecodeString_EncodeToString_append res_bind.simps)
    moreover have "parse_block (hdr @ nb @ cb @ concat datas @ ?mb) = Some (hdr, of_nat ?n, tx, concat datas @ ?mb)"
      using assms(3,5) parse by (simp add: parse_block_def reads_coinbase_def)
    ultimately show ?thesis using False by (simp only: submit nb res_bind.simps res.case) auto
  qed
qed

lemma sample_coinbase_reads:
  "reads_coinbase ([1, 0, 0, 0] @ [1] @ replicate 32 0 @ replicate 4 255 @ [1] @ [7] @ [0, 0, 0, 0] @ [0, 0, 0, 0, 0])
     \<lparr>cb_version = 1, cb_prevout = replicate 32 0 @ replicate 4 255, cb_script = [7], cb_sequence = 0,
      cb_outputs = [], cb_locktime = 0\<rparr>"
  using coinbase_bytes_parse [of "[1]" "[7]" 0 "[]" "[]"]
  by (simp add: reads_coinbase_def)

lemma submission_reads_back_witness:
  "let cb = [1, 0, 0, 0] @ [1] @ replicate 32 0 @ replicate 4 255 @ [1] @ [7] @ [0, 0, 0, 0] @ [0, 0, 0, 0, 0];
       b = empty_block\<lparr>Template := Some sample_template, header := EncodeToString (replicate 80 5),
              coinbase := EncodeToString cb\<rparr>;
       tx = \<lparr>cb_version = 1, cb_prevout = replicate 32 0 @ replicate 4 255, cb_script = [7], cb_sequence = 0,
              cb_outputs = [], cb_locktime = 0\<rparr> in
   (case block_Submit b of
      Ok s \<Rightarrow> length (Transactions sample_template) \<noteq> 252 \<and> (\<exists>bs. DecodeString s = Ok bs \<and>
        parse_block bs = Some (replicate 80 5, of_nat (length (Transactions sample_template) + 1), tx,
          concat [[0xab, 0xcd]] @ (if ([] :: byte list) = [] then [] else 1 # [])))
    | Err e \<Rightarrow> False
    | Panic m \<Rightarrow> length (Transactions sample_template) = 252)"
  unfolding Let_def
  by (rule submission_reads_back [OF _ _ _ _ sample_coinbase_reads])
     (simp_all add: sample_template_def hex_val_def del: EncodeToString_simps EncodeToString_append)

text \<open>The reader of an auxiliary proof of work.\<close>

record auxpow_data =
  ap_coinbase :: coinbase_tx
  ap_hash :: "byte list"
  ap_branch :: "byte list list"
  ap_index :: nat
  ap_chain_branch :: "byte list list"
  ap_chain_index :: nat
  ap_header :: "byte list"

definition parse_auxpow :: "byte list \<Rightarrow> (auxpow_data \<times> byte list) option" where
  "parse_auxpow bs =
     Option.bind (parse_coinbase bs) (\<lambda>(tx, r1).
     Option.bind (parse_bytes 32 r1) (\<lambda>(h, r2).
     Option.bind (parse_compact r2) (\<lambda>(n, r3).
     Option.bind (parse_many (parse_bytes 32) (unat n) r3) (\<lambda>(branch, r4).
     Option.bind (parse_bytes 4 r4) (\<lambda>(idx, r5).
     Option.bind (parse_compact r5) (\<lambda>(m, r6).
     Option.bind (parse_many (parse_bytes 32) (unat m) r6) (\<lambda>(chain_branch, r7).
     Option.bind (parse_bytes 4 r7) (\<lambda>(cidx, r8).
     Option.bind (parse_bytes 80 r8) (\<lambda>(hdr, rest).
       Some (\<lparr>ap_coinbase = tx, ap_hash = h, ap_branch = branch, ap_index = le_value idx,
              ap_chain_branch = chain_branch, ap_chain_index = le_value cidx, ap_header = hdr\<rparr>, rest))))))))))"

lemma parse_many_bytes:
  "(\<forall>i \<in> set items. length i = 32) \<Longrightarrow>
   parse_many (parse_bytes 32) (length items) (concat items @ rest) = Some (items, rest)"
  by (induction items) auto

lemma foldl_append_concat: "foldl (\<lambda>acc item. acc @ item) a items = a @ concat items"
  by (induction items arbitrary: a) auto

lemma AuxPow_text:
  assumes "hash b = EncodeToString h" and "h \<noteq> []"
    and "varUint (of_nat (length (merkleSteps b))) = Ok n"
  shows "res_bind (MakeAuxPow b) AuxPow_Serialize =
    Ok (coinbase b @ EncodeToString h @ n @ concat (merkleSteps b) @ ''00000000'' @ ''00'' @ ''00000000'' @ header b)"
proof -
  have "hash b \<noteq> []" using assms(1,2) by (cases h) auto
  with assms(1,3) show ?thesis
    by (simp add: MakeAuxPow_def AuxPow_Serialize_def makeParentMerkleBranch_def ParentMerkleBranch_Serialize_def
        makeAuxChainMerkleBranch_def AuxMerkleBranch_Serialize_def foldl_append_concat)
qed

lemma AuxPow_parse:
  assumes "DecodeString (coinbase b) = Ok cb" and "reads_coinbase cb tx"
    and "hash b = EncodeToString h" and "length h = 32"
    and "decodes (merkleSteps b) items" and "\<forall>i \<in> set items. length i = 32" and "length items < 253"
    and "DecodeString (header b) = Ok hdr" and "length hdr = 80"
  shows "\<exists>s bs. res_bind (MakeAuxPow b) AuxPow_Serialize = Ok s \<and> DecodeString s = Ok bs \<and>
    parse_auxpow bs = Some (\<lparr>ap_coinbase = tx, ap_hash = h, ap_branch = items, ap_index = 0,
      ap_chain_branch = [], ap_chain_index = 0, ap_header = hdr\<rparr>, [])"
proof -
  have len: "length (merkleSteps b) = length items" using res_map_length [OF assms(5)] by simp
  have "of_nat (length items) \<noteq> (253 :: u64)" using assms(7) by (intro of_nat_u64_neq) auto
  then obtain nb where nb: "varUint (of_nat (length items)) = Ok (EncodeToString nb)"
    and parse: "\<And>rest. parse_compact (nb @ rest) = Some (of_nat (length items), rest)"
    using varUint_bytes [of "of_nat (length items)"] by blast
  have h: "h \<noteq> []" using assms(4) by auto
  have ser: "res_bind (MakeAuxPow b) AuxPow_Serialize = Ok (coinbase b @ EncodeToString h @ EncodeToString nb @
      concat (merkleSteps b) @ ''00000000'' @ ''00'' @ ''00000000'' @ header b)"
    using AuxPow_text [OF assms(3) h] nb len by simp
  let ?bs = "cb @ h @ nb @ concat items @ [0, 0, 0, 0] @ [0] @ [0, 0, 0, 0] @ hdr"
  have zeros: "DecodeString ''00000000'' = Ok [0, 0, 0, 0]" "DecodeString ''00'' = Ok [0]"
    by (simp_all add: hex_val_def)
  have "DecodeString (coinbase b @ EncodeToString h @ EncodeToString nb @
      concat (merkleSteps b) @ ''00000000'' @ ''00'' @ ''00000000'' @ header b) = Ok ?bs"
    by (simp only: DecodeString_append [OF assms(1)] DecodeString_EncodeToString_append
        DecodeString_append [OF DecodeString_concat [OF assms(5)]] DecodeString_append [OF zeros(1)]
        DecodeString_append [OF zeros(2)] assms(8) res_bind.simps)
  moreover have "unat (of_nat (length items) :: u64) = length items"
    using assms(7) by (simp add: unat_of_nat_u64)
  then have "parse_auxpow ?bs = Some (\<lparr>ap_coinbase = tx, ap_hash = h, ap_branch = items, ap_index = 0,
      ap_chain_branch = [], ap_chain_index = 0, ap_header = hdr\<rparr>, [])"
    using assms(2,4,6,9) parse parse_many_bytes [OF assms(6)]
    by (simp add: parse_auxpow_def reads_coinbase_def)
  ultimately show ?thesis using ser by blast
qed



end
