(* ===== verification/Target.thy ===== *)
theory Target
  imports Block
begin

text \<open>
  \<open>bitcoin/target.go\<close>: targets as hexadecimal text, their conversion to and from difficulties with
  \<open>math/big.Float\<close>, and the decoding of compact bits.
\<close>

section \<open>Numbers and their text\<close>

text \<open>\<open>(*big.Int).SetString(s, 16)\<close>: an optional sign, at least one digit, nothing else.\<close>

fun scan_hex :: "nat \<Rightarrow> string \<Rightarrow> nat option" where
  "scan_hex acc [] = Some acc"
| "scan_hex acc (c # cs) = (case hex_val c of None \<Rightarrow> None | Some d \<Rightarrow> scan_hex (acc * 16 + d) cs)"

definition split_sign :: "string \<Rightarrow> bool \<times> string" where
  "split_sign s = (case s of [] \<Rightarrow> (False, [])
     | c # cs \<Rightarrow> if c = CHR ''-'' then (True, cs) else if c = CHR ''+'' then (False, cs) else (False, s))"

definition ToBig :: "string \<Rightarrow> int option" where
  "ToBig t = (case split_sign t of (neg, ds) \<Rightarrow>
     if ds = [] then None
     else map_option (\<lambda>n. if neg then - int n else int n) (scan_hex 0 ds))"

text \<open>\<open>(*big.Int).Text(16)\<close> and \<open>%x\<close> of an \<open>int64\<close>.\<close>

definition int_hex :: "int \<Rightarrow> string" where
  "int_hex i = (if i < 0 then ''-'' else []) @ hex_text (nat \<bar>i\<bar>)"

text \<open>\<open>big.Accuracy\<close>: the rounded value against the exact one.\<close>

datatype accuracy = Below | Exact | Above

definition compare_exact :: "rat \<Rightarrow> rat \<Rightarrow> accuracy" where
  "compare_exact r x = (if r < x then Below else if r = x then Exact else Above)"

text \<open>\<open>(*big.Float).Quo\<close> of values of precision \<open>p\<close> at most; \<open>0 / 0\<close> panics with \<open>ErrNaN\<close>.\<close>

fun big_quo :: "int \<Rightarrow> fl \<Rightarrow> fl \<Rightarrow> fl res" where
  "big_quo p (Fin s m) (Fin t n) =
     (if n = 0 then (if m = 0 then Panic ''division of zero by zero or infinity by infinity'' else Ok (Inf (s \<noteq> t)))
      else Ok (Fin (s \<noteq> t) (big_round p (m / n))))"
| "big_quo p (Fin s m) (Inf t) = Ok (Fin (s \<noteq> t) 0)"
| "big_quo p (Inf s) (Fin t n) = Ok (Inf (s \<noteq> t))"
| "big_quo p x y = Panic ''division of zero by zero or infinity by infinity''"

definition big_of_int :: "int \<Rightarrow> fl" where
  "big_of_int i = Fin (i < 0) (of_int \<bar>i\<bar>)"

definition big_Float64 :: "fl \<Rightarrow> fl \<times> accuracy" where
  "big_Float64 x = (let r = float_convert double x in
     (r, case (r, x) of (Inf s, Fin t m) \<Rightarrow> (if s then Below else Above) | _ \<Rightarrow> compare_exact (fval r) (fval x)))"

text \<open>\<open>(*big.Float).Int\<close>: truncation; an infinity gives a nil integer (printed \<open><nil>\<close>).\<close>

fun big_Int :: "fl \<Rightarrow> int option \<times> accuracy" where
  "big_Int (Fin s m) = (let i = (if s then - \<lfloor>m\<rfloor> else \<lfloor>m\<rfloor>) in
     (Some i, compare_exact (of_int i) (fval (Fin s m))))"
| "big_Int (Inf s) = (None, if s then Above else Below)"
| "big_Int NaN = (None, Exact)"

definition int_Text :: "int option \<Rightarrow> string" where
  "int_Text i = (case i of None \<Rightarrow> ''<nil>'' | Some v \<Rightarrow> int_hex v)"

section \<open>The code\<close>

definition highestTarget :: string where
  "highestTarget = ''00000000ffff'' @ replicate 52 CHR ''0''"

definition ToDifficulty :: "string \<Rightarrow> (fl \<times> accuracy) res" where
  "ToDifficulty t =
     (case ToBig highestTarget of None \<Rightarrow> Panic ''Failed to convert highest target value to big int''
      | Some highestTargetBig \<Rightarrow>
        (case ToBig t of None \<Rightarrow> Panic ''Failed to convert target to big int''
         | Some targetBig \<Rightarrow>
           let prec = max (max (bitlen \<bar>highestTargetBig\<bar>) 64) (max (bitlen \<bar>targetBig\<bar>) 64) in
           res_bind (big_quo prec (big_of_int highestTargetBig) (big_of_int targetBig)) (\<lambda>difficulty.
             Ok (big_Float64 difficulty))))"

definition TargetFromDifficulty :: "fl \<Rightarrow> (string \<times> accuracy) res" where
  "TargetFromDifficulty difficulty =
     (case ToBig highestTarget of None \<Rightarrow> Panic ''Failed to convert highest target value to big int''
      | Some highestTargetBig \<Rightarrow>
        if difficulty = NaN then Panic ''Float.SetFloat64(NaN)''
        else let prec = max (max (bitlen \<bar>highestTargetBig\<bar>) 64) 53 in
          res_bind (big_quo prec (big_of_int highestTargetBig) difficulty) (\<lambda>targetBigFloat.
            case big_Int targetBigFloat of (targetBigInt, bigAccuracy) \<Rightarrow> Ok (int_Text targetBigInt, bigAccuracy)))"

text \<open>\<open>strconv.ParseInt(s, 16, 8)\<close>.  The text of its error quotes \<open>s\<close>; characters that Go would
  escape in the quotation stand for themselves here.\<close>

definition parse_int_error :: "string \<Rightarrow> string \<Rightarrow> 'a res" where
  "parse_int_error s why = Err (''strconv.ParseInt: parsing '' @ [CHR 0x22] @ s @ [CHR 0x22] @ '': '' @ why)"

fun parse_uint8 :: "string \<Rightarrow> nat \<Rightarrow> string \<Rightarrow> nat res" where
  "parse_uint8 s n [] = Ok n"
| "parse_uint8 s n (c # cs) =
     (case hex_val c of None \<Rightarrow> parse_int_error s ''invalid syntax''
      | Some d \<Rightarrow> if 255 < n * 16 + d then parse_int_error s ''value out of range''
                  else parse_uint8 s (n * 16 + d) cs)"

definition ParseInt8 :: "string \<Rightarrow> int res" where
  "ParseInt8 s = (case split_sign s of (neg, ds) \<Rightarrow>
     if ds = [] then parse_int_error s ''invalid syntax''
     else res_bind (parse_uint8 s 0 ds) (\<lambda>un.
       if (\<not> neg \<and> 128 \<le> un) \<or> (neg \<and> 128 < un) then parse_int_error s ''value out of range''
       else Ok (if neg then - int un else int un)))"

definition TargetFromBits :: "string \<Rightarrow> string res" where
  "TargetFromBits bitsHex =
     (let l = length bitsHex in
      if l < 8 then Err ''string too short''
      else if l mod 2 = 0 then Err ''string must be even length''
      else res_bind (ParseInt8 (take 2 bitsHex)) (\<lambda>exponentValue.
           res_bind (ParseInt8 (drop 3 bitsHex)) (\<lambda>significandValue.
             Ok (int_hex ((significandValue * 256) XOR (exponentValue - 3))))))"

section \<open>Text lemmas\<close>

lemma scan_hex_digits:
  "\<forall>d \<in> set ds. d < 16 \<Longrightarrow> scan_hex acc (map digit_char ds) = Some (foldl (\<lambda>a d. a * 16 + d) acc ds)"
  by (induction ds arbitrary: acc) auto

lemma hex_text_not_sign: "split_sign (hex_text n) = (False, hex_text n)"
proof -
  obtain d ds where ds: "base_digits 16 n = d # ds" by (cases "base_digits 16 n") auto
  then have "d < 16" using base_digits_bound [of 16 d n] by simp
  then have "digit_char d \<noteq> CHR ''-'' \<and> digit_char d \<noteq> CHR ''+''"
    using hex_val_digit_char [of d] by (auto simp: hex_val_def)
  with ds show ?thesis by (simp add: hex_text_def nat_text_def split_sign_def)
qed

lemma scan_hex_text: "scan_hex 0 (hex_text n) = Some n"
  using scan_hex_digits [of "base_digits 16 n" 0] base_digits_bound [of 16 _ n] digits_value_base_digits [of 16 n]
  by (simp add: hex_text_def nat_text_def digits_value_def)

lemma hex_text_not_Nil [simp]: "hex_text n \<noteq> []"
  by (simp add: hex_text_def nat_text_def)

lemma ToBig_int_hex [simp]: "ToBig (int_hex i) = Some i"
proof (cases "i < 0")
  case True
  then show ?thesis by (simp add: ToBig_def int_hex_def scan_hex_text split_sign_def)
next
  case False
  then show ?thesis by (simp add: ToBig_def int_hex_def hex_text_not_sign scan_hex_text)
qed

lemma scan_hex_zeros: "scan_hex acc (replicate n CHR ''0'') = Some (acc * 16 ^ n)"
  by (induction n arbitrary: acc) (simp_all add: hex_val_def)

definition highest :: nat where "highest = 65535 * 2 ^ 208"

lemma ToBig_highestTarget: "ToBig highestTarget = Some (int highest)"
proof -
  have "scan_hex 0 highestTarget = Some (65535 * 16 ^ 52)"
    using scan_hex_zeros [of 65535 52] by (simp add: highestTarget_def hex_val_def)
  moreover have "(16 :: nat) ^ 52 = 2 ^ 208" by simp
  ultimately show ?thesis by (simp add: ToBig_def highestTarget_def split_sign_def highest_def)
qed

lemma bitlen_highest: "bitlen (int highest) = 224"
proof -
  have "bitlen (65535 * 2 ^ 208) = bitlen 65535 + int 208" by (rule bitlen_pow2) simp
  moreover have "bitlen 65535 = 16" by code_simp
  moreover have "int highest = 65535 * 2 ^ 208" unfolding highest_def by simp
  ultimately show ?thesis by (simp only:)
qed

section \<open>Difficulty to target\<close>

definition target_value :: "rat \<Rightarrow> int" where
  "target_value m = \<lfloor>big_round 224 (of_nat highest / m)\<rfloor>"

lemma TargetFromDifficulty_pos:
  assumes "0 < m"
  obtains a where "TargetFromDifficulty (Fin False m) = Ok (int_hex (target_value m), a)"
  using assms
  by (simp add: TargetFromDifficulty_def ToBig_highestTarget bitlen_highest big_of_int_def Let_def
      int_Text_def target_value_def)

lemma big_round_error:
  assumes "0 < x" shows "\<bar>big_round p x - x\<bar> \<le> x / 2 powi p"
proof -
  have "\<bar>big_round p x - x\<bar> \<le> 2 powi (flog2 x - p + 1) / 2"
    using assms round_to_error [of "2 powi (flog2 x - p + 1)" x] by (simp add: big_round_def)
  also have "\<dots> = 2 powi (flog2 x) / 2 powi p"
    by (simp add: power_int_add power_int_diff)
  also have "\<dots> \<le> x / 2 powi p"
    using flog2_bounds [OF assms] by (intro divide_right_mono) auto
  finally show ?thesis .
qed

lemma target_value_antitone: "0 < m \<Longrightarrow> m \<le> n \<Longrightarrow> target_value n \<le> target_value m"
proof -
  assume "0 < m" and "m \<le> n"
  then have "big_round 224 (of_nat highest / n) \<le> big_round 224 (of_nat highest / m)"
    by (intro big_round_mono divide_left_mono) auto
  then show ?thesis by (simp add: target_value_def floor_mono)
qed

text \<open>C30. A higher difficulty never gives a higher target: for difficulties \<open>0 < m \<le> n\<close> both targets
  are produced, as text that reads back as numbers, and the target of \<open>n\<close> is at most that of \<open>m\<close>.\<close>

theorem target_antitone:
  assumes "0 < m" and "m \<le> n"
  shows "\<exists>t a t' a' v v'. TargetFromDifficulty (Fin False m) = Ok (t, a) \<and>
    TargetFromDifficulty (Fin False n) = Ok (t', a') \<and>
    ToBig t = Some v \<and> ToBig t' = Some v' \<and> 0 \<le> v' \<and> v' \<le> v"
proof -
  have "target_value n \<le> target_value m" using target_value_antitone assms .
  moreover have "0 \<le> target_value n"
    using assms big_round_nonneg [of "of_nat highest / n" 224] by (simp add: target_value_def)
  moreover obtain a where "TargetFromDifficulty (Fin False m) = Ok (int_hex (target_value m), a)"
    using assms TargetFromDifficulty_pos [of m] by blast
  moreover obtain a' where "TargetFromDifficulty (Fin False n) = Ok (int_hex (target_value n), a')"
    using assms TargetFromDifficulty_pos [of n] by fastforce
  ultimately show ?thesis by fastforce
qed

lemma target_antitone_witness:
  "\<exists>t a t' a' v v'. TargetFromDifficulty (Fin False 3) = Ok (t, a) \<and>
    TargetFromDifficulty (Fin False (7 / 2)) = Ok (t', a') \<and>
    ToBig t = Some v \<and> ToBig t' = Some v' \<and> 0 \<le> v' \<and> v' \<le> v"
  by (rule target_antitone) simp_all

text \<open>The target of a difficulty \<open>m\<close> is the quotient of the highest target by \<open>m\<close> up to one unit
  and the relative error \<open>2 ^ -224\<close> of the division.\<close>

theorem target_accurate:
  assumes "0 < m"
  shows "\<exists>t a v. TargetFromDifficulty (Fin False m) = Ok (t, a) \<and> ToBig t = Some v \<and>
    \<bar>of_int v - of_nat (65535 * 2 ^ 208) / m\<bar> < 1 + of_nat (65535 * 2 ^ 208) / m / 2 ^ 224"
proof -
  let ?x = "of_nat highest / m"
  have "0 < ?x" using assms by (simp add: highest_def)
  then have "\<bar>big_round 224 ?x - ?x\<bar> \<le> ?x / 2 powi 224" by (rule big_round_error)
  moreover have "of_int (target_value m) \<le> big_round 224 ?x" "big_round 224 ?x < of_int (target_value m) + 1"
    unfolding target_value_def by linarith+
  ultimately have "\<bar>of_int (target_value m) - ?x\<bar> < 1 + ?x / 2 ^ 224" by simp
  with assms TargetFromDifficulty_pos [of m] show ?thesis
    unfolding highest_def by (metis ToBig_int_hex)
qed

lemma target_accurate_witness:
  "\<exists>t a v. TargetFromDifficulty (Fin False 1000) = Ok (t, a) \<and> ToBig t = Some v \<and>
    \<bar>of_int v - of_nat (65535 * 2 ^ 208) / 1000\<bar> < 1 + of_nat (65535 * 2 ^ 208) / 1000 / (2 :: rat) ^ 224"
  by (rule target_accurate) simp

lemma big_round_exact:
  assumes "0 < i" and "i < 2 ^ 224"
  shows "big_round 224 (of_nat i) = of_nat i"
proof -
  let ?x = "of_nat i :: rat"
  have x: "0 < ?x" using assms(1) by simp
  have "(2 :: rat) powi (flog2 ?x) \<le> ?x" using x by (rule flog2_bounds)
  also have "?x < 2 powi 224" using assms(2) by (metis of_nat_less_iff of_nat_numeral of_nat_power power_int_numeral)
  finally have "flog2 ?x < 224" unfolding powi_less_iff .
  then have k: "flog2 ?x - 224 + 1 \<le> 0" by simp
  define k where "k = flog2 ?x - 224 + 1"
  have eq: "?x = of_int (int i * 2 ^ nat (- k)) * 2 powi k"
    using k powi_multiple [of k 0] by (simp add: k_def)
  have "round_to (2 powi k) ?x = ?x"
    using round_to_multiple [of "2 powi k" "int i * 2 ^ nat (- k)"] unfolding eq [symmetric] by simp
  then show ?thesis using x by (simp add: big_round_def k_def)
qed

lemma target_pow2:
  assumes "k \<le> 208"
  shows "TargetFromDifficulty (Fin False (2 ^ k)) = Ok (int_hex (65535 * 2 ^ (208 - k)), Exact) \<and>
    ToDifficulty (int_hex (65535 * 2 ^ (208 - k))) = Ok (Fin False (2 ^ k), Exact)"
proof -
  define v where "v = (65535 * 2 ^ (208 - k) :: nat)"
  have "(2 :: nat) ^ 208 = 2 ^ k * 2 ^ (208 - k)" using assms by (simp flip: power_add)
  then have split: "highest = v * 2 ^ k" unfolding highest_def v_def by (simp only: mult.assoc mult.left_commute mult.commute)
  have "v \<le> 65535 * 2 ^ 208" unfolding v_def by (intro mult_le_mono2 power_increasing) auto
  moreover have "65535 * 2 ^ 208 < (2 :: nat) ^ 224" by simp
  ultimately have v: "0 < v" "v < 2 ^ 224" by (simp_all add: v_def)
  have "(of_nat highest :: rat) = of_nat v * 2 ^ k" by (simp add: split)
  then have quot: "(of_nat highest :: rat) / 2 ^ k = of_nat v" "(of_nat highest :: rat) / of_nat v = of_nat (2 ^ k)"
    using v by simp_all
  have to: "TargetFromDifficulty (Fin False (2 ^ k)) = Ok (int_hex (int v), Exact)"
    by (simp add: TargetFromDifficulty_def ToBig_highestTarget bitlen_highest big_of_int_def Let_def
        int_Text_def quot big_round_exact [OF v] compare_exact_def)
  have "bitlen (65535 * 2 ^ (208 - k)) = bitlen 65535 + int (208 - k)" by (rule bitlen_pow2) simp
  moreover have "bitlen 65535 = 16" by code_simp
  moreover have "int v = 65535 * 2 ^ (208 - k)" by (simp add: v_def)
  ultimately have "bitlen (int v) = 16 + int (208 - k)" by metis
  then have prec: "bitlen (int v) \<le> 224" using assms by simp
  have "(2 :: nat) ^ k < 2 ^ 224" using assms by (intro power_strict_increasing) auto
  then have "big_round 224 (of_nat (2 ^ k)) = of_nat (2 ^ k)" by (intro big_round_exact) auto
  then have "ToDifficulty (int_hex (int v)) = Ok (Fin False (2 ^ k), Exact)"
    using v prec assms
    by (simp add: ToDifficulty_def ToBig_highestTarget bitlen_highest big_of_int_def Let_def quot
        big_Float64_def fpack_pow2 compare_exact_def max_def)
  with to show ?thesis by (simp add: v_def)
qed

text \<open>Difficulties that are powers of two survive the round trip through the target exactly.\<close>

theorem target_difficulty_round_trip:
  assumes "k \<le> 208"
  shows "\<exists>t. TargetFromDifficulty (Fin False (2 ^ k)) = Ok (t, Exact) \<and>
    ToDifficulty t = Ok (Fin False (2 ^ k), Exact)"
  using target_pow2 [OF assms] by blast

lemma target_difficulty_round_trip_witness:
  "\<exists>t. TargetFromDifficulty (Fin False (2 ^ 10)) = Ok (t, Exact) \<and>
    ToDifficulty t = Ok (Fin False (2 ^ 10), Exact)"
  by (rule target_difficulty_round_trip) simp

section \<open>Compact bits\<close>

lemma ParseInt8_range: "ParseInt8 s = Ok i \<Longrightarrow> - 128 \<le> i \<and> i < 128"
  by (auto simp: ParseInt8_def parse_int_error_def outcome_simps split: prod.splits if_splits)

lemma xor_small:
  assumes "- (2 ^ n) \<le> i" "i < 2 ^ n" "- (2 ^ n) \<le> j" "j < (2 ^ n :: int)"
  shows "- (2 ^ n) \<le> i XOR j \<and> i XOR j < 2 ^ n"
proof -
  have "signed_take_bit n i = i" "signed_take_bit n j = j"
    using assms by (simp_all add: signed_take_bit_int_eq_self)
  moreover have "signed_take_bit n (i XOR j) = signed_take_bit n i XOR signed_take_bit n j"
    by (rule bit_eqI) (simp add: bit_signed_take_bit_iff bit_xor_iff)
  ultimately have "signed_take_bit n (i XOR j) = i XOR j" by simp
  then show ?thesis using signed_take_bit_int_greater_eq_minus_exp [of n "i XOR j"]
      signed_take_bit_int_less_exp [of n "i XOR j"] by simp
qed

text \<open>\<open>TargetFromBits\<close> refuses every text of even length, the eight digits of a template's bits
  among them; a text it accepts has an odd length, and the number it then returns lies in
  \<open>[-2^15, 2^15)\<close>, so it is never a 256-bit target: the expression uses \<open>^\<close>, which is exclusive or.\<close>

theorem TargetFromBits_refuses_compact_bits:
  "(case TargetFromBits s of
      Ok t \<Rightarrow> odd (length s) \<and> (\<exists>v. ToBig t = Some v \<and> - (2 ^ 15) \<le> v \<and> v < 2 ^ 15)
    | Err e \<Rightarrow> True
    | Panic m \<Rightarrow> False)"
proof (cases "TargetFromBits s")
  case (Ok t)
  then obtain e g where len: "odd (length s)" and e: "ParseInt8 (take 2 s) = Ok e"
    and g: "ParseInt8 (drop 3 s) = Ok g" and t: "t = int_hex ((g * 256) XOR (e - 3))"
    by (auto simp: TargetFromBits_def Let_def outcome_simps even_iff_mod_2_eq_zero split: if_splits)
  have "- (2 ^ 15) \<le> (g * 256) XOR (e - 3) \<and> (g * 256) XOR (e - 3) < 2 ^ 15"
    using ParseInt8_range [OF e] ParseInt8_range [OF g] by (intro xor_small) auto
  with Ok len t show ?thesis by simp
next
  case (Panic m)
  have "parse_uint8 r n ds \<noteq> Panic m" for r n ds
    by (induction r n ds rule: parse_uint8.induct) (auto simp: parse_int_error_def split: option.splits)
  then have "ParseInt8 r \<noteq> Panic m" for r
    by (auto simp: ParseInt8_def parse_int_error_def res_bind_eq_Panic split: prod.splits if_splits)
  with Panic show ?thesis
    by (auto simp: TargetFromBits_def Let_def res_bind_eq_Panic split: if_splits)
qed simp

end
