(* ===== verification/Effects.thy ===== *)
theory Effects
  imports Prelude
begin

text \<open>
  Code that changes state and may fail: an action maps a state to an outcome and the new state.  A
  failure keeps the changes made before it, as in Go.  The triples say what holds after a normal
  return and after a failure.
\<close>

type_synonym ('s, 'a) act = "'s \<Rightarrow> 'a res \<times> 's"

definition ret :: "'a \<Rightarrow> ('s, 'a) act" where
  "ret x s = (Ok x, s)"

definition lift_res :: "'a res \<Rightarrow> ('s, 'a) act" where
  "lift_res r s = (r, s)"

definition act_bind :: "('s, 'a) act \<Rightarrow> ('a \<Rightarrow> ('s, 'b) act) \<Rightarrow> ('s, 'b) act" where
  "act_bind m f s = (case m s of
     (Ok x, s') \<Rightarrow> f x s' | (Err e, s') \<Rightarrow> (Err e, s') | (Panic p, s') \<Rightarrow> (Panic p, s'))"

definition act_gets :: "('s \<Rightarrow> 'a) \<Rightarrow> ('s, 'a) act" where
  "act_gets f s = (Ok (f s), s)"

text \<open>\<open>x, err := m\<close> with the error kept as a value; a panic is not caught.\<close>

definition attempt :: "('s, 'a) act \<Rightarrow> ('s, 'a res) act" where
  "attempt m s = (case m s of
     (Ok x, s') \<Rightarrow> (Ok (Ok x), s') | (Err e, s') \<Rightarrow> (Ok (Err e), s') | (Panic p, s') \<Rightarrow> (Panic p, s'))"

text \<open>The text of an error is rewritten on the way out.\<close>

definition map_error :: "(string \<Rightarrow> string) \<Rightarrow> ('s, 'a) act \<Rightarrow> ('s, 'a) act" where
  "map_error g m s = (case m s of (Err e, s') \<Rightarrow> (Err (g e), s') | r \<Rightarrow> r)"

text \<open>\<open>for _, x := range xs { ... }\<close> whose body may return early with an error.\<close>

fun for_each :: "'a list \<Rightarrow> ('a \<Rightarrow> ('s, unit) act) \<Rightarrow> ('s, unit) act" where
  "for_each [] f = ret ()"
| "for_each (x # xs) f = act_bind (f x) (\<lambda>_. for_each xs f)"

fun map_each :: "'a list \<Rightarrow> ('a \<Rightarrow> ('s, 'b) act) \<Rightarrow> ('s, 'b list) act" where
  "map_each [] f = ret []"
| "map_each (x # xs) f = act_bind (f x) (\<lambda>y. act_bind (map_each xs f) (\<lambda>ys. ret (y # ys)))"

section \<open>Inversion\<close>

named_theorems act_simps \<open>evaluation of actions\<close>

lemma act_bind_eq [act_simps]:
  "m s = (Ok x, s') \<Longrightarrow> act_bind m f s = f x s'"
  "m s = (Err e, s') \<Longrightarrow> act_bind m f s = (Err e, s')"
  "m s = (Panic p, s') \<Longrightarrow> act_bind m f s = (Panic p, s')"
  by (simp_all add: act_bind_def)

lemma ret_eq [act_simps]: "ret x s = (Ok x, s)"
  by (simp add: ret_def)

lemma lift_res_eq [act_simps]: "lift_res r s = (r, s)"
  by (simp add: lift_res_def)

lemma act_gets_eq [act_simps]: "act_gets f s = (Ok (f s), s)"
  by (simp add: act_gets_def)

lemma act_bind_ret [simp]: "act_bind (ret x) f = f x"
  by (simp add: fun_eq_iff act_bind_def ret_def)

lemma act_bind_lift_Ok [simp]: "act_bind (lift_res (Ok x)) f = f x"
  by (simp add: fun_eq_iff act_bind_def lift_res_def)

lemma act_bind_lift_fail:
  "act_bind (lift_res (Err e)) f = lift_res (Err e)" "act_bind (lift_res (Panic e)) f = lift_res (Panic e)"
  by (simp_all add: fun_eq_iff act_bind_def lift_res_def)

lemma lift_res_Ok [simp]: "lift_res r s = (Ok x, t) \<longleftrightarrow> r = Ok x \<and> t = s"
  by (auto simp: lift_res_def)

lemma act_bind_assoc: "act_bind (act_bind m f) g = act_bind m (\<lambda>x. act_bind (f x) g)"
  by (simp add: fun_eq_iff act_bind_def split: prod.splits res.splits)

lemma act_bind_Ok_iff:
  "act_bind m f s = (Ok y, s'') \<longleftrightarrow> (\<exists>x s'. m s = (Ok x, s') \<and> f x s' = (Ok y, s''))"
  by (simp add: act_bind_def split: prod.splits res.splits)

lemma act_bind_Err_iff:
  "act_bind m f s = (Err e, s'') \<longleftrightarrow>
     m s = (Err e, s'') \<or> (\<exists>x s'. m s = (Ok x, s') \<and> f x s' = (Err e, s''))"
  by (simp add: act_bind_def split: prod.splits res.splits)

lemma act_bind_Panic_iff:
  "act_bind m f s = (Panic e, s'') \<longleftrightarrow>
     m s = (Panic e, s'') \<or> (\<exists>x s'. m s = (Ok x, s') \<and> f x s' = (Panic e, s''))"
  by (simp add: act_bind_def split: prod.splits res.splits)

section \<open>Triples\<close>

text \<open>From \<open>P\<close>, a normal return ends in \<open>Q\<close> and a failure in \<open>E\<close>.\<close>

definition triple :: "('s \<Rightarrow> bool) \<Rightarrow> ('s, 'a) act \<Rightarrow> ('a \<Rightarrow> 's \<Rightarrow> bool) \<Rightarrow> ('s \<Rightarrow> bool) \<Rightarrow> bool" where
  "triple P m Q E \<longleftrightarrow> (\<forall>s. P s \<longrightarrow> (case m s of (Ok x, s') \<Rightarrow> Q x s' | (Err e, s') \<Rightarrow> E s' | (Panic p, s') \<Rightarrow> E s'))"

abbreviation keeps :: "('s \<Rightarrow> bool) \<Rightarrow> ('s, 'a) act \<Rightarrow> bool" where
  "keeps P m \<equiv> triple P m (\<lambda>_. P) P"

named_theorems act_rules \<open>structural rules of triples\<close>

lemma tripleI:
  "(\<And>s x s'. P s \<Longrightarrow> m s = (Ok x, s') \<Longrightarrow> Q x s') \<Longrightarrow> (\<And>s e s'. P s \<Longrightarrow> m s = (Err e, s') \<Longrightarrow> E s') \<Longrightarrow>
   (\<And>s e s'. P s \<Longrightarrow> m s = (Panic e, s') \<Longrightarrow> E s') \<Longrightarrow> triple P m Q E"
  by (auto simp: triple_def split: res.splits)

lemma triple_OkD: "triple P m Q E \<Longrightarrow> P s \<Longrightarrow> m s = (Ok x, s') \<Longrightarrow> Q x s'"
  by (fastforce simp: triple_def)

lemma triple_failD: "triple P m Q E \<Longrightarrow> P s \<Longrightarrow> m s = (r, s') \<Longrightarrow> \<not> is_ok r \<Longrightarrow> E s'"
  by (cases r) (fastforce simp: triple_def)+

lemma keepsD: "keeps P m \<Longrightarrow> P s \<Longrightarrow> m s = (r, s') \<Longrightarrow> P s'"
  by (cases r) (fastforce simp: triple_def)+

lemma triple_weaken:
  "triple P' m Q' E' \<Longrightarrow> (\<And>s. P s \<Longrightarrow> P' s) \<Longrightarrow> (\<And>x s. Q' x s \<Longrightarrow> Q x s) \<Longrightarrow> (\<And>s. E' s \<Longrightarrow> E s) \<Longrightarrow>
   triple P m Q E"
  by (fastforce simp: triple_def split: res.splits prod.splits)

lemma triple_ret [act_rules]: "(\<And>s. P s \<Longrightarrow> Q x s) \<Longrightarrow> triple P (ret x) Q E"
  by (simp add: triple_def ret_def)

lemma triple_lift [act_rules]:
  "(\<And>s x. P s \<Longrightarrow> r = Ok x \<Longrightarrow> Q x s) \<Longrightarrow> (\<And>s. P s \<Longrightarrow> E s) \<Longrightarrow> triple P (lift_res r) Q E"
  by (auto simp: triple_def lift_res_def split: res.splits)

lemma triple_gets [act_rules]: "(\<And>s. P s \<Longrightarrow> Q (f s) s) \<Longrightarrow> triple P (act_gets f) Q E"
  by (simp add: triple_def act_gets_def)

lemma triple_bind:
  "triple P m R E \<Longrightarrow> (\<And>x. triple (R x) (f x) Q E) \<Longrightarrow> triple P (act_bind m f) Q E"
  unfolding triple_def act_bind_def by (fastforce split: prod.splits res.splits)

lemma keeps_bind [act_rules]: "keeps P m \<Longrightarrow> (\<And>x. keeps P (f x)) \<Longrightarrow> keeps P (act_bind m f)"
  by (rule triple_bind)

lemma keeps_attempt [act_rules]: "keeps P m \<Longrightarrow> keeps P (attempt m)"
  unfolding triple_def attempt_def by (fastforce split: prod.splits res.splits)

lemma keeps_map_error [act_rules]: "keeps P m \<Longrightarrow> keeps P (map_error g m)"
  unfolding triple_def map_error_def by (fastforce split: prod.splits res.splits)

lemma keeps_for_each [act_rules]: "(\<And>x. x \<in> set xs \<Longrightarrow> keeps P (f x)) \<Longrightarrow> keeps P (for_each xs f)"
  by (induction xs) (auto intro!: act_rules)

lemma keeps_map_each [act_rules]: "(\<And>x. x \<in> set xs \<Longrightarrow> keeps P (f x)) \<Longrightarrow> keeps P (map_each xs f)"
  by (induction xs) (auto intro!: act_rules)

end
