(* ===== verification/Rpc.thy ===== *)
theory Rpc
  imports Effects Float64 Coinbase
begin

text \<open>
  Package \<open>rpc\<close>: the JSON-RPC client of a node and the manager that fails over between the nodes of
  a chain.  The HTTP transport is not under \<open>src/\<close>: it is a parameter, a function of the node's URL,
  the request and a state of the outside world of any type.  JSON values are a datatype; the texts
  of decoding errors are abbreviated.
\<close>

section \<open>JSON\<close>

text \<open>\<open>JInt\<close> is a numeral without fraction or exponent, \<open>JDec\<close> one with.\<close>

datatype json = JNull | JBool bool | JInt int | JDec rat | JStr string | JArr "json list"
  | JObj "(string \<times> json) list"

text \<open>A decoder updates a value and may report an error; it keeps what it has decoded (\<open>saveError\<close>).\<close>

type_synonym 'a decoder = "json \<Rightarrow> 'a \<Rightarrow> string option \<times> 'a"

definition type_error :: "string \<Rightarrow> string option" where
  "type_error t = Some (''json: cannot unmarshal value of type '' @ t)"

definition or_else :: "string option \<Rightarrow> string option \<Rightarrow> string option" where
  "or_else a b = (case a of Some e \<Rightarrow> Some e | None \<Rightarrow> b)"

fun dec_string :: "string decoder" where
  "dec_string (JStr s) x = (None, s)"
| "dec_string JNull x = (None, x)"
| "dec_string j x = (type_error ''string'', x)"

definition rat_float :: "fformat \<Rightarrow> rat \<Rightarrow> fl" where
  "rat_float F r = fpack F (r < 0) \<bar>r\<bar>"

fun dec_float :: "fformat \<Rightarrow> fl decoder" where
  "dec_float F (JInt i) x = (if is_fin (rat_float F (of_int i)) then (None, rat_float F (of_int i))
     else (type_error ''float'', x))"
| "dec_float F (JDec r) x = (if is_fin (rat_float F r) then (None, rat_float F r) else (type_error ''float'', x))"
| "dec_float F JNull x = (None, x)"
| "dec_float F j x = (type_error ''float'', x)"

fun dec_int :: "int \<Rightarrow> int \<Rightarrow> int decoder" where
  "dec_int lo hi (JInt i) x = (if lo \<le> i \<and> i < hi then (None, i) else (type_error ''integer'', x))"
| "dec_int lo hi JNull x = (None, x)"
| "dec_int lo hi j x = (type_error ''integer'', x)"

fun dec_elems :: "'a decoder \<Rightarrow> 'a \<Rightarrow> json list \<Rightarrow> string option \<times> 'a list" where
  "dec_elems d z [] = (None, [])"
| "dec_elems d z (j # js) = (case d j z of (e, x) \<Rightarrow> case dec_elems d z js of (e', xs) \<Rightarrow> (or_else e e', x # xs))"

fun dec_list :: "'a decoder \<Rightarrow> 'a \<Rightarrow> 'a list decoder" where
  "dec_list d z (JArr js) x = dec_elems d z js"
| "dec_list d z JNull x = (None, [])"
| "dec_list d z j x = (type_error ''slice'', x)"

text \<open>Field names match without regard to (ASCII) case.\<close>

definition lower_char :: "char \<Rightarrow> char" where
  "lower_char c = (if (65 :: nat) \<le> of_char c \<and> (of_char c :: nat) \<le> 90 then char_of ((of_char c :: nat) + 32) else c)"

definition fold_eq :: "string \<Rightarrow> string \<Rightarrow> bool" where
  "fold_eq a b = (map lower_char a = map lower_char b)"

type_synonym 'a fields = "(string \<times> 'a decoder) list"

fun dec_field :: "'a fields \<Rightarrow> string \<Rightarrow> 'a decoder" where
  "dec_field [] k j x = (None, x)"
| "dec_field ((n, d) # fs) k j x = (if fold_eq n k then d j x else dec_field fs k j x)"

fun dec_members :: "'a fields \<Rightarrow> (string \<times> json) list \<Rightarrow> 'a \<Rightarrow> string option \<times> 'a" where
  "dec_members fs [] x = (None, x)"
| "dec_members fs ((k, j) # kvs) x =
     (case dec_field fs k j x of (e, y) \<Rightarrow> case dec_members fs kvs y of (e', z) \<Rightarrow> (or_else e e', z))"

fun dec_struct :: "'a fields \<Rightarrow> 'a decoder" where
  "dec_struct fs (JObj kvs) x = dec_members fs kvs x"
| "dec_struct fs JNull x = (None, x)"
| "dec_struct fs j x = (type_error ''struct'', x)"

definition dec_at :: "('a \<Rightarrow> 'b) \<Rightarrow> ('b \<Rightarrow> 'a \<Rightarrow> 'a) \<Rightarrow> 'b decoder \<Rightarrow> 'a decoder" where
  "dec_at get put d j x = (case d j (get x) of (e, y) \<Rightarrow> (e, put y x))"

text \<open>\<open>json.Unmarshal\<close> of a raw message; an absent message is a syntax error.\<close>

definition Unmarshal :: "'a decoder \<Rightarrow> json option \<Rightarrow> 'a \<Rightarrow> string option \<times> 'a" where
  "Unmarshal d r x = (case r of None \<Rightarrow> (Some ''unexpected end of JSON input'', x) | Some j \<Rightarrow> d j x)"

section \<open>Requests\<close>

datatype rpc_param = PStr string | PInt int | PFloat fl | PAmounts "(string \<times> fl) list"
  | PRules "(string \<times> string list) list"

record rpcRequest =
  rqID :: int
  JsonRPCVersion :: string
  Method :: string
  Parameters :: "rpc_param list option"

record rpcError =
  Code :: int
  Message :: string

record rpcResponse =
  Result :: "json option"
  ErrorField :: rpcError
  rsID :: int

text \<open>The answer of the HTTP client: no answer, or a status and the decoded body (the error of the
  decoder is dropped; what it could not read keeps its zero value).\<close>

datatype http_reply = NoReply string | Reply nat rpcResponse

type_synonym 'w transport = "string \<Rightarrow> rpcRequest \<Rightarrow> 'w \<Rightarrow> http_reply \<times> 'w"

record RPCClient =
  NodeUrl :: string
  cName :: string

text \<open>\<open>json.Marshal\<close> refuses numbers that are not finite.\<close>

fun param_ok :: "rpc_param \<Rightarrow> bool" where
  "param_ok (PFloat x) = is_fin x"
| "param_ok (PAmounts xs) = list_all (\<lambda>(k, x). is_fin x) xs"
| "param_ok p = True"

definition doRequest :: "'w transport \<Rightarrow> RPCClient \<Rightarrow> string \<Rightarrow> rpc_param list option \<Rightarrow> ('w, rpcResponse \<times> nat) act" where
  "doRequest http r method params w =
     (let jsonStr = \<lparr>rqID = 1219, JsonRPCVersion = ''2.0'', Method = method, Parameters = params\<rparr> in
      if \<not> list_all param_ok (case params of None \<Rightarrow> [] | Some ps \<Rightarrow> ps)
      then (Err ''json: unsupported value'', w)
      else case http (NodeUrl r) jsonStr w of
        (NoReply e, w') \<Rightarrow> (Err e, w')
      | (Reply status resp, w') \<Rightarrow> (Ok (resp, status), w'))"

definition handleHttpError :: "rpcResponse \<Rightarrow> nat \<Rightarrow> 'a res" where
  "handleHttpError response status =
     Err (''HTTP '' @ dec_text status @ '': '' @ Message (ErrorField response))"

text \<open>The common shape: the request, the status, then the result.\<close>

definition call :: "'w transport \<Rightarrow> RPCClient \<Rightarrow> string \<Rightarrow> rpc_param list option \<Rightarrow>
    (json option \<Rightarrow> ('w, 'a) act) \<Rightarrow> ('w, 'a) act" where
  "call http r method params k = act_bind (doRequest http r method params) (\<lambda>(resp, status).
     if status \<noteq> 200 then lift_res (handleHttpError resp status) else k (Result resp))"

definition GetPeerCount :: "'w transport \<Rightarrow> RPCClient \<Rightarrow> ('w, int) act" where
  "GetPeerCount http r = call http r ''getconnectioncount'' None
     (\<lambda>result. ret (snd (Unmarshal (dec_int (- (2 ^ 63)) (2 ^ 63)) result 0)))"

definition GetBlockTemplate :: "'w transport \<Rightarrow> RPCClient \<Rightarrow> ('w, json option) act" where
  "GetBlockTemplate http r = call http r ''getblocktemplate'' (Some [PRules [(''rules'', [''mweb'', ''segwit''])]]) ret"

definition CreateAuxBlock :: "'w transport \<Rightarrow> RPCClient \<Rightarrow> string \<Rightarrow> ('w, json option) act" where
  "CreateAuxBlock http r rewardAddress = call http r ''createauxblock'' (Some [PStr rewardAddress]) ret"

record GetBlockReplyPart =
  rpHeight :: int
  rpDifficulty :: fl

record GetBlockReply =
  gbHash :: string
  gbDifficulty :: fl
  gbTimestamp :: int
  gbSize :: int
  gbHeight :: int
  gbParentID :: string
  gbNonce :: string
  gbMiner :: string
  gbTransactions :: "string list"

definition zero_block_reply :: GetBlockReply where
  "zero_block_reply = \<lparr>gbHash = [], gbDifficulty = fzero, gbTimestamp = 0, gbSize = 0, gbHeight = 0,
     gbParentID = [], gbNonce = [], gbMiner = [], gbTransactions = []\<rparr>"

definition block_reply_fields :: "GetBlockReply fields" where
  "block_reply_fields = [
     (''id'', dec_at gbHash (\<lambda>v x. x\<lparr>gbHash := v\<rparr>) dec_string),
     (''difficulty'', dec_at gbDifficulty (\<lambda>v x. x\<lparr>gbDifficulty := v\<rparr>) (dec_float double)),
     (''time'', dec_at gbTimestamp (\<lambda>v x. x\<lparr>gbTimestamp := v\<rparr>) (dec_int (- (2 ^ 63)) (2 ^ 63))),
     (''size'', dec_at gbSize (\<lambda>v x. x\<lparr>gbSize := v\<rparr>) (dec_int (- (2 ^ 63)) (2 ^ 63))),
     (''height'', dec_at gbHeight (\<lambda>v x. x\<lparr>gbHeight := v\<rparr>) (dec_int 0 (2 ^ 64))),
     (''previousblockhash'', dec_at gbParentID (\<lambda>v x. x\<lparr>gbParentID := v\<rparr>) dec_string),
     (''nonce64'', dec_at gbNonce (\<lambda>v x. x\<lparr>gbNonce := v\<rparr>) dec_string),
     (''miner'', dec_at gbMiner (\<lambda>v x. x\<lparr>gbMiner := v\<rparr>) dec_string),
     (''tx'', dec_at gbTransactions (\<lambda>v x. x\<lparr>gbTransactions := v\<rparr>) (dec_list dec_string []))]"

text \<open>\<open>GetBlockByHash\<close> drops the error of \<open>Unmarshal\<close>.\<close>

definition GetBlockByHash :: "'w transport \<Rightarrow> RPCClient \<Rightarrow> string \<Rightarrow> ('w, GetBlockReply) act" where
  "GetBlockByHash http r h = call http r ''getblock'' (Some [PStr h])
     (\<lambda>result. ret (snd (Unmarshal (dec_struct block_reply_fields) result zero_block_reply)))"

definition GetLatestBlock :: "'w transport \<Rightarrow> RPCClient \<Rightarrow> ('w, GetBlockReplyPart) act" where
  "GetLatestBlock http r = call http r ''getbestblockhash'' None (\<lambda>result.
     act_bind (GetBlockByHash http r (snd (Unmarshal dec_string result []))) (\<lambda>block.
       ret \<lparr>rpHeight = gbHeight block, rpDifficulty = gbDifficulty block\<rparr>))"

definition GetBlockByHeight :: "'w transport \<Rightarrow> RPCClient \<Rightarrow> int \<Rightarrow> ('w, GetBlockReply) act" where
  "GetBlockByHeight http r height = call http r ''getblockhash'' (Some [PInt height]) (\<lambda>result.
     GetBlockByHash http r (snd (Unmarshal dec_string result [])))"

text \<open>The raw text of a result, as far as the code compares it: the literals \<open>null\<close> and \<open>true\<close>.\<close>

definition submit_error :: "nat \<Rightarrow> string \<Rightarrow> rpcResponse \<Rightarrow> 'a res" where
  "submit_error status result resp =
     Err (''HTTP ('' @ dec_text status @ '') '' @ result @ '' error-msg: '' @ Message (ErrorField resp))"

fun raw_text :: "(json \<Rightarrow> string) \<Rightarrow> json option \<Rightarrow> string" where
  "raw_text render None = []"
| "raw_text render (Some JNull) = ''null''"
| "raw_text render (Some (JBool True)) = ''true''"
| "raw_text render (Some (JBool False)) = ''false''"
| "raw_text render (Some j) = render j"

text \<open>\<open>render\<close> is the text of any other value in the node's answer.\<close>

definition SubmitBlock :: "(json \<Rightarrow> string) \<Rightarrow> 'w transport \<Rightarrow> RPCClient \<Rightarrow> rpc_param list \<Rightarrow> ('w, bool) act" where
  "SubmitBlock render http r submission =
     (case submission of
        PStr s # rest \<Rightarrow>
          act_bind (doRequest http r ''submitblock'' (Some [PStr s])) (\<lambda>(resp, status).
            let result = raw_text render (Result resp) in
            if status \<noteq> 200 \<or> result \<noteq> ''null'' then lift_res (submit_error status result resp)
            else ret True)
      | [] \<Rightarrow> lift_res (Panic ''index out of range'')
      | p # rest \<Rightarrow> lift_res (Panic ''interface conversion''))"

definition SubmitAuxBlock :: "(json \<Rightarrow> string) \<Rightarrow> 'w transport \<Rightarrow> RPCClient \<Rightarrow> string \<Rightarrow> string \<Rightarrow> ('w, bool) act" where
  "SubmitAuxBlock render http r auxBlockHash primaryAuxPow =
     act_bind (doRequest http r ''submitauxblock'' (Some [PStr auxBlockHash, PStr primaryAuxPow])) (\<lambda>(resp, status).
       let result = raw_text render (Result resp) in
       if status \<noteq> 200 \<or> result \<noteq> ''true'' then lift_res (submit_error status result resp)
       else ret True)"

definition ValidateAddress :: "'w transport \<Rightarrow> RPCClient \<Rightarrow> string \<Rightarrow> ('w, string) act" where
  "ValidateAddress http r address = act_bind (doRequest http r ''validateaddress'' (Some [PStr address])) (\<lambda>(resp, status).
     if status \<noteq> 200 then lift_res (Err ''RPC: `validateaddress` failed HTTP 200'')
     else (case Unmarshal (dec_struct [(''scriptPubKey'', dec_string)]) (Result resp) [] of
         (Some e, x) \<Rightarrow> lift_res (Err e) | (None, x) \<Rightarrow> ret x))"

record blockChainInfoResponse =
  ciChain :: string
  ciNetworkDifficulty :: fl

definition GetBlockChainInfo :: "'w transport \<Rightarrow> RPCClient \<Rightarrow> ('w, blockChainInfoResponse) act" where
  "GetBlockChainInfo http r = act_bind (doRequest http r ''getblockchaininfo'' None) (\<lambda>(resp, status).
     if status \<noteq> 200 then lift_res (Err ''RPC: `getblockchaininfo` failed HTTP 200'')
     else (case Unmarshal (dec_struct [
             (''chain'', dec_at ciChain (\<lambda>v x. x\<lparr>ciChain := v\<rparr>) dec_string),
             (''difficulty'', dec_at ciNetworkDifficulty (\<lambda>v x. x\<lparr>ciNetworkDifficulty := v\<rparr>) (dec_float double))])
           (Result resp) \<lparr>ciChain = [], ciNetworkDifficulty = fzero\<rparr> of
         (Some e, x) \<Rightarrow> lift_res (Err e) | (None, x) \<Rightarrow> ret x))"

section \<open>Wallet\<close>

record TransactionDetails =
  tdAddress :: string
  tdCategory :: string
  tdAmount :: fl

record Transaction =
  TransactionID :: string
  txAmount :: fl
  Confirmations :: int
  Blockhash :: string
  Blockheight :: int
  BlockTime :: int
  TransactionTime :: int
  RecievedTime :: int
  Details :: "TransactionDetails list"

definition zero_details :: TransactionDetails where
  "zero_details = \<lparr>tdAddress = [], tdCategory = [], tdAmount = fzero\<rparr>"

definition details_fields :: "TransactionDetails fields" where
  "details_fields = [
     (''address'', dec_at tdAddress (\<lambda>v x. x\<lparr>tdAddress := v\<rparr>) dec_string),
     (''category'', dec_at tdCategory (\<lambda>v x. x\<lparr>tdCategory := v\<rparr>) dec_string),
     (''amount'', dec_at tdAmount (\<lambda>v x. x\<lparr>tdAmount := v\<rparr>) (dec_float single))]"

definition zero_transaction :: Transaction where
  "zero_transaction = \<lparr>TransactionID = [], txAmount = fzero, Confirmations = 0, Blockhash = [], Blockheight = 0,
     BlockTime = 0, TransactionTime = 0, RecievedTime = 0, Details = []\<rparr>"

definition transaction_fields :: "Transaction fields" where
  "transaction_fields = (let i64 = dec_int (- (2 ^ 63)) (2 ^ 63); u64 = dec_int 0 (2 ^ 64) in [
     (''txid'', dec_at TransactionID (\<lambda>v x. x\<lparr>TransactionID := v\<rparr>) dec_string),
     (''amount'', dec_at txAmount (\<lambda>v x. x\<lparr>txAmount := v\<rparr>) (dec_float double)),
     (''confirmations'', dec_at Confirmations (\<lambda>v x. x\<lparr>Confirmations := v\<rparr>) u64),
     (''blockhash'', dec_at Blockhash (\<lambda>v x. x\<lparr>Blockhash := v\<rparr>) dec_string),
     (''blockheight'', dec_at Blockheight (\<lambda>v x. x\<lparr>Blockheight := v\<rparr>) u64),
     (''blocktime'', dec_at BlockTime (\<lambda>v x. x\<lparr>BlockTime := v\<rparr>) i64),
     (''time'', dec_at TransactionTime (\<lambda>v x. x\<lparr>TransactionTime := v\<rparr>) i64),
     (''recievedtime'', dec_at RecievedTime (\<lambda>v x. x\<lparr>RecievedTime := v\<rparr>) i64),
     (''details'', dec_at Details (\<lambda>v x. x\<lparr>Details := v\<rparr>) (dec_list (dec_struct details_fields) zero_details))])"

definition unmarshal_or_fail :: "'a decoder \<Rightarrow> 'a \<Rightarrow> json option \<Rightarrow> ('w, 'a) act" where
  "unmarshal_or_fail d z result = (case Unmarshal d result z of
     (Some e, x) \<Rightarrow> lift_res (Err e) | (None, x) \<Rightarrow> ret x)"

definition GetTransaction :: "'w transport \<Rightarrow> RPCClient \<Rightarrow> string \<Rightarrow> ('w, Transaction) act" where
  "GetTransaction http r transactionID = call http r ''gettransaction'' (Some [PStr transactionID])
     (unmarshal_or_fail (dec_struct transaction_fields) zero_transaction)"

text \<open>\<open>SendMany\<close>: the amounts are a Go map, an association list with distinct keys here.\<close>

definition SendMany :: "'w transport \<Rightarrow> RPCClient \<Rightarrow> (string \<times> fl) list \<Rightarrow> ('w, string) act" where
  "SendMany http r transactions = call http r ''sendmany'' (Some [PStr [], PAmounts transactions])
     (unmarshal_or_fail dec_string [])"

definition GetWalletBalance :: "'w transport \<Rightarrow> RPCClient \<Rightarrow> ('w, fl) act" where
  "GetWalletBalance http r = call http r ''getbalance'' None
     (\<lambda>result. ret (snd (Unmarshal (dec_float double) result fzero)))"

definition SendTransaction :: "'w transport \<Rightarrow> RPCClient \<Rightarrow> string \<Rightarrow> fl \<Rightarrow> ('w, string) act" where
  "SendTransaction http r to v = call http r ''sendtoaddress'' (Some [PStr to, PFloat v])
     (\<lambda>result. ret (snd (Unmarshal dec_string result [])))"

definition isWalletUnlocked :: "bool res" where "isWalletUnlocked = Ok False"
definition lockWallet :: "unit res" where "lockWallet = Ok ()"

section \<open>Clients and health\<close>

text \<open>\<open>Check\<close>: the template request succeeds.\<close>

definition Check :: "'w transport \<Rightarrow> RPCClient \<Rightarrow> ('w, bool) act" where
  "Check http r = act_bind (attempt (GetBlockTemplate http r)) (\<lambda>t. ret (is_ok t))"

end
