(* ===== verification/RpcManager.thy ===== *)
theory RpcManager
  imports Rpc
begin

text \<open>
  \<open>rpc/manager.go\<close>: the nodes of a chain, the active one, fail-over to the next healthy node, and the
  background loop that returns to the primary node; \<open>time.ParseDuration\<close> for its configuration.
\<close>

section \<open>Durations\<close>

definition is_digit :: "char \<Rightarrow> bool" where
  "is_digit c = ((48 :: nat) \<le> of_char c \<and> (of_char c :: nat) \<le> 57)"

definition digit_of :: "char \<Rightarrow> nat" where
  "digit_of c = of_char c - 48"

text \<open>\<open>leadingInt\<close> on a run of digits: \<open>None\<close> on overflow of \<open>2^63\<close>.\<close>

fun leading_int :: "nat \<Rightarrow> string \<Rightarrow> nat option" where
  "leading_int x [] = Some x"
| "leading_int x (c # cs) = (if 2 ^ 63 div 10 < x then None
     else if 2 ^ 63 < x * 10 + digit_of c then None else leading_int (x * 10 + digit_of c) cs)"

text \<open>\<open>leadingFraction\<close>: digits after an overflow are ignored.\<close>

fun leading_fraction :: "nat \<Rightarrow> fl \<Rightarrow> bool \<Rightarrow> string \<Rightarrow> nat \<times> fl" where
  "leading_fraction x scale overflow [] = (x, scale)"
| "leading_fraction x scale overflow (c # cs) =
     (if overflow then leading_fraction x scale overflow cs
      else if (2 ^ 63 - 1) div 10 < x then leading_fraction x scale True cs
      else if 2 ^ 63 < x * 10 + digit_of c then leading_fraction x scale True cs
      else leading_fraction (x * 10 + digit_of c) (mul64 scale (Fin False 10)) overflow cs)"

definition duration_unit :: "string \<Rightarrow> nat option" where
  "duration_unit u =
     (if u = ''ns'' then Some 1
      else if u = ''us'' \<or> u = [char_of (0xc2 :: nat), char_of (0xb5 :: nat), CHR ''s'']
        \<or> u = [char_of (0xce :: nat), char_of (0xbc :: nat), CHR ''s''] then Some 1000
      else if u = ''ms'' then Some 1000000
      else if u = ''s'' then Some 1000000000
      else if u = ''m'' then Some 60000000000
      else if u = ''h'' then Some 3600000000000
      else None)"

definition bad_duration :: "string \<Rightarrow> string \<Rightarrow> 'a res" where
  "bad_duration why s = Err (''time: '' @ why @ '' '' @ [CHR 0x22] @ s @ [CHR 0x22])"

text \<open>One group: the digits, the digits after a point, the unit, and what follows.\<close>

definition duration_part :: "string \<Rightarrow> string \<times> string \<times> string \<times> string" where
  "duration_part s =
     (let s1 = dropWhile is_digit s;
          dot = (s1 \<noteq> [] \<and> hd s1 = CHR ''.'');
          s2 = (if dot then dropWhile is_digit (tl s1) else s1);
          unit_char = (\<lambda>x. x \<noteq> CHR ''.'' \<and> \<not> is_digit x)
      in (takeWhile is_digit s, if dot then takeWhile is_digit (tl s1) else [],
          takeWhile unit_char s2, dropWhile unit_char s2))"

lemma length_dropWhile_less: "takeWhile P xs \<noteq> [] \<Longrightarrow> length (dropWhile P xs) < length xs"
  by (cases xs) (auto simp: less_Suc_eq_le length_dropWhile_le split: if_splits)

lemma duration_part_shorter:
  assumes "duration_part s = (ds, fs, u, s3)" and "u \<noteq> []"
  shows "length s3 < length s"
proof -
  let ?s1 = "dropWhile is_digit s"
  let ?s2 = "if ?s1 \<noteq> [] \<and> hd ?s1 = CHR ''.'' then dropWhile is_digit (tl ?s1) else ?s1"
  have "length s3 < length ?s2"
    using assms length_dropWhile_less [of "\<lambda>x. x \<noteq> CHR ''.'' \<and> \<not> is_digit x" ?s2]
    by (auto simp: duration_part_def Let_def)
  moreover have "length ?s2 \<le> length ?s1"
    using length_dropWhile_le [of is_digit "tl ?s1"] by (cases ?s1) auto
  moreover have "length ?s1 \<le> length s" by (rule length_dropWhile_le)
  ultimately show ?thesis by linarith
qed

function duration_loop :: "string \<Rightarrow> nat \<Rightarrow> string \<Rightarrow> nat res" where
  "duration_loop orig d s =
     (if s = [] then Ok d
      else if hd s \<noteq> CHR ''.'' \<and> \<not> is_digit (hd s) then bad_duration ''invalid duration'' orig
      else case duration_part s of (ds, fs, u, s3) \<Rightarrow>
        (case leading_int 0 ds of None \<Rightarrow> bad_duration ''invalid duration'' orig
         | Some v \<Rightarrow>
           if ds = [] \<and> fs = [] then bad_duration ''invalid duration'' orig
           else if u = [] then bad_duration ''missing unit in duration'' orig
           else (case duration_unit u of
               None \<Rightarrow> bad_duration (''unknown unit '' @ [CHR 0x22] @ u @ [CHR 0x22] @ '' in duration'') orig
             | Some n \<Rightarrow>
               if 2 ^ 63 div n < v then bad_duration ''invalid duration'' orig
               else (let (f, scale) = leading_fraction 0 (Fin False 1) False fs;
                         extra = (if 0 < f then (case float_trunc (mul64 (float_of_int double (int f))
                                   (div64 (float_of_int double (int n)) scale)) of Some i \<Rightarrow> nat i | None \<Rightarrow> 0) else 0);
                         v' = v * n + extra in
                     if 2 ^ 63 < v' then bad_duration ''invalid duration'' orig
                     else if 2 ^ 63 < d + v' then bad_duration ''invalid duration'' orig
                     else duration_loop orig (d + v') s3))))"
  by pat_completeness auto
termination
  by (relation "measure (\<lambda>(orig, d, s). length s)") (auto intro: duration_part_shorter [OF sym])

declare duration_loop.simps [simp del]

definition ParseDuration :: "string \<Rightarrow> int res" where
  "ParseDuration s =
     (let neg = (s \<noteq> [] \<and> hd s = CHR ''-'');
          r = (if s \<noteq> [] \<and> (hd s = CHR ''-'' \<or> hd s = CHR ''+'') then tl s else s) in
      if r = ''0'' then Ok 0
      else if r = [] then bad_duration ''invalid duration'' s
      else res_bind (duration_loop s 0 r) (\<lambda>d.
        if neg then Ok (- int d)
        else if 2 ^ 63 - 1 < d then bad_duration ''invalid duration'' s
        else Ok (int d)))"

section \<open>The manager\<close>

record Config =
  Name :: string
  URL :: string
  Username :: string
  Password :: string
  Timeout :: string

text \<open>\<open>strings.Split(rpcURL, "://")\<close>: the first two parts are used; a second one must exist.\<close>

fun split_scheme :: "string \<Rightarrow> string \<times> string option" where
  "split_scheme [] = ([], None)"
| "split_scheme (c # cs) =
     (if take 3 (c # cs) = ''://'' then ([], Some (drop 3 (c # cs)))
      else (case split_scheme cs of (p, r) \<Rightarrow> (c # p, r)))"

definition NewRPCClient :: "string \<Rightarrow> string \<Rightarrow> string \<Rightarrow> string \<Rightarrow> string \<Rightarrow> RPCClient res" where
  "NewRPCClient name rpcURL rpcUser rpcPassword timeout =
     (case split_scheme rpcURL of
        (p0, None) \<Rightarrow> Panic ''index out of range''
      | (p0, Some r) \<Rightarrow>
        let p1 = fst (split_scheme r);
            rpcClient = \<lparr>NodeUrl = p0 @ ''://'' @ rpcUser @ '':'' @ rpcPassword @ ''@'' @ p1, cName = name\<rparr>
        in (case ParseDuration timeout of
              Ok d \<Rightarrow> Ok rpcClient
            | Err e \<Rightarrow> Panic (''util: Can'' @ [CHR 0x27] @ ''blockTemplate parse duration `'' @ timeout @ ''`: '' @ e)
            | Panic m \<Rightarrow> Panic m))"

record Manager =
  mChainName :: string
  activeIndex :: nat
  clients :: "RPCClient list"
  primaryCheckInterval :: int

definition MakeRPCManager :: "string \<Rightarrow> Config list \<Rightarrow> string \<Rightarrow> Manager res" where
  "MakeRPCManager chainName nodes returnToPrimaryAfter =
     res_bind (res_map (\<lambda>node. NewRPCClient (Name node) (URL node) (Username node) (Password node) (Timeout node)) nodes)
       (\<lambda>cs. case ParseDuration returnToPrimaryAfter of
          Ok d \<Rightarrow> Ok \<lparr>mChainName = chainName, activeIndex = 0, clients = cs, primaryCheckInterval = d\<rparr>
        | Err e \<Rightarrow> Panic e | Panic m \<Rightarrow> Panic m)"

definition GetActiveClient :: "Manager \<Rightarrow> RPCClient res" where
  "GetActiveClient m = (if activeIndex m < length (clients m) then Ok (clients m ! activeIndex m)
     else Panic ''index out of range'')"

definition GetIndex :: "Manager \<Rightarrow> nat" where "GetIndex m = activeIndex m"

definition RestorePrimary :: "Manager \<Rightarrow> Manager" where
  "RestorePrimary m = m\<lparr>activeIndex := 0\<rparr>"

definition nextNode :: "Manager \<Rightarrow> Manager" where
  "nextNode m = (if activeIndex m + 1 < length (clients m) then m\<lparr>activeIndex := activeIndex m + 1\<rparr>
     else m\<lparr>activeIndex := 0\<rparr>)"

definition CheckPrimary :: "'w transport \<Rightarrow> Manager \<Rightarrow> ('w, bool) act" where
  "CheckPrimary http m = (case clients m of [] \<Rightarrow> lift_res (Panic ''index out of range'') | c # cs \<Rightarrow> Check http c)"

text \<open>The remaining operations change the manager and the world: the state is the pair.\<close>

definition on_world :: "('w, 'a) act \<Rightarrow> (Manager \<times> 'w, 'a) act" where
  "on_world f s = (case s of (m, w) \<Rightarrow> case f w of (r, w') \<Rightarrow> (r, (m, w')))"

definition checkActiveNodeHealth :: "'w transport \<Rightarrow> (Manager \<times> 'w, bool) act" where
  "checkActiveNodeHealth http s = (case s of (m, w) \<Rightarrow>
     act_bind (lift_res (GetActiveClient m)) (\<lambda>c. on_world (Check http c)) (m, w))"

text \<open>\<open>left\<close> is \<open>nodesLength - nodesChecked\<close>: the loop of \<open>FindHealthyNode\<close>.\<close>

fun find_loop :: "'w transport \<Rightarrow> nat \<Rightarrow> (Manager \<times> 'w, unit) act" where
  "find_loop http 0 s = (Err (''no healthy '' @ mChainName (fst s) @ '' nodes!''), s)"
| "find_loop http (Suc left) s =
     act_bind (checkActiveNodeHealth http) (\<lambda>nowHealthy.
       if nowHealthy then ret () else find_loop http left) (nextNode (fst s), snd s)"

definition FindHealthyNode :: "'w transport \<Rightarrow> (Manager \<times> 'w, unit) act" where
  "FindHealthyNode http s = find_loop http (length (clients (fst s))) s"

text \<open>The result says whether the loop back to the primary was launched.\<close>

definition CheckAndRecoverRPCs :: "'w transport \<Rightarrow> (Manager \<times> 'w, bool) act" where
  "CheckAndRecoverRPCs http =
     act_bind (checkActiveNodeHealth http) (\<lambda>healthy.
       if healthy then ret False
       else act_bind (FindHealthyNode http) (\<lambda>_. ret True))"

section \<open>Fail-over\<close>

lemma doRequest_no_Panic: "doRequest http r method params w \<noteq> (Panic p, w')"
  by (auto simp: doRequest_def Let_def split: prod.splits http_reply.splits)

lemma GetBlockTemplate_no_Panic: "GetBlockTemplate http r w \<noteq> (Panic p, w')"
  by (auto simp: GetBlockTemplate_def call_def act_bind_def ret_def lift_res_def handleHttpError_def
      dest: doRequest_no_Panic [THEN notE] split: prod.splits res.splits if_splits)

lemma Check_total: obtains b w' where "Check http c w = (Ok b, w')"
proof -
  obtain r w' where r: "GetBlockTemplate http c w = (r, w')" by fastforce
  then show ?thesis
    using that GetBlockTemplate_no_Panic [of http c w] by (cases r) (auto simp: Check_def attempt_def act_simps)
qed

lemma nextNode_rotates:
  "activeIndex m < length (clients m) \<Longrightarrow>
   nextNode m = m\<lparr>activeIndex := (activeIndex m + 1) mod length (clients m)\<rparr>"
  by (cases "activeIndex m + 1 = length (clients m)") (auto simp: nextNode_def)

definition rotate_by :: "nat \<Rightarrow> Manager \<Rightarrow> Manager" where
  "rotate_by j m = m\<lparr>activeIndex := (activeIndex m + j) mod length (clients m)\<rparr>"

lemma rotate_by_simps [simp]:
  "clients (rotate_by j m) = clients m" "mChainName (rotate_by j m) = mChainName m"
  "activeIndex (rotate_by j m) = (activeIndex m + j) mod length (clients m)"
  "rotate_by i (rotate_by j m) = rotate_by (j + i) m"
  by (simp_all add: rotate_by_def mod_add_left_eq add.assoc)

lemma rotate_by_full: "activeIndex m < length (clients m) \<Longrightarrow> rotate_by 0 m = m \<and> rotate_by (length (clients m)) m = m"
  by (simp add: rotate_by_def)

text \<open>One round of the loop from a valid index: one node further, one check.\<close>

lemma find_loop_Suc:
  assumes "activeIndex m < length (clients m)"
    and "Check http (clients m ! ((activeIndex m + 1) mod length (clients m))) w = (Ok b, w')"
  shows "find_loop http (Suc left) (m, w) =
    (if b then (Ok (), (rotate_by 1 m, w')) else find_loop http left (rotate_by 1 m, w'))"
proof -
  have "(activeIndex m + 1) mod length (clients m) < length (clients m)"
    using assms(1) by (intro mod_less_divisor) auto
  with assms show ?thesis
    by (simp add: nextNode_rotates rotate_by_def checkActiveNodeHealth_def GetActiveClient_def on_world_def act_simps act_bind_def)
qed

lemma find_loop_rotates:
  assumes "activeIndex m < length (clients m)" and "find_loop http left (m, w) = (r, (m', w'))"
  shows "(\<exists>j. 1 \<le> j \<and> j \<le> left \<and> r = Ok () \<and> m' = rotate_by j m) \<or>
    (\<exists>e. r = Err e \<and> m' = rotate_by left m)"
  using assms
proof (induction left arbitrary: m w)
  case 0
  then show ?case by (auto simp: rotate_by_full)
next
  case (Suc left)
  obtain b v where b: "Check http (clients m ! ((activeIndex m + 1) mod length (clients m))) w = (Ok b, v)"
    by (rule Check_total)
  have valid: "activeIndex (rotate_by 1 m) < length (clients (rotate_by 1 m))"
    using Suc.prems(1) by (simp, intro mod_less_divisor) auto
  show ?case
  proof (cases b)
    case True
    with Suc.prems b show ?thesis by (auto simp: find_loop_Suc simp del: find_loop.simps intro!: exI [of _ 1])
  next
    case False
    with Suc.prems b have "find_loop http left (rotate_by 1 m, v) = (r, (m', w'))"
      by (simp add: find_loop_Suc del: find_loop.simps)
    from Suc.IH [OF valid this] show ?thesis
      by (elim disjE exE) (auto intro!: exI [of _ "_ + 1"])
  qed
qed

lemma CheckAndRecover_index:
  assumes valid: "activeIndex m < length (clients m)"
    and run: "CheckAndRecoverRPCs http (m, w) = (r, (m', w'))"
  shows "clients m' = clients m \<and> activeIndex m' < length (clients m) \<and>
    (r = Ok True \<or> activeIndex m' = activeIndex m) \<and> (\<forall>p. r \<noteq> Panic p)"
proof -
  obtain b v where b: "Check http (clients m ! activeIndex m) w = (Ok b, v)" by (rule Check_total)
  have act: "checkActiveNodeHealth http (m, w) = (Ok b, (m, v))"
    using valid b by (simp add: checkActiveNodeHealth_def GetActiveClient_def on_world_def act_simps)
  show ?thesis
  proof (cases b)
    case True
    with act run valid show ?thesis by (auto simp: CheckAndRecoverRPCs_def act_simps)
  next
    case False
    obtain q m2 v2 where q: "FindHealthyNode http (m, v) = (q, (m2, v2))" by (metis surj_pair)
    then have loop: "find_loop http (length (clients m)) (m, v) = (q, (m2, v2))" by (simp add: FindHealthyNode_def)
    have lt: "(activeIndex m + j) mod length (clients m) < length (clients m)" for j
      using valid by (intro mod_less_divisor) auto
    from find_loop_rotates [OF valid loop] show ?thesis
    proof (elim disjE exE conjE)
      fix j assume "q = Ok ()" "m2 = rotate_by j m"
      with act run q False lt show ?thesis by (auto simp: CheckAndRecoverRPCs_def act_simps act_bind_def)
    next
      fix e assume "q = Err e" "m2 = rotate_by (length (clients m)) m"
      with act run q False valid show ?thesis
        by (auto simp: CheckAndRecoverRPCs_def act_simps act_bind_def rotate_by_full)
    qed
  qed
qed

text \<open>
  The manager as a state machine: the server asks for a recovery, and every launched loop wakes up
  after its interval.  \<open>watchers\<close> counts the running loops.  A step is one whole method: the
  interleavings inside a method (they would be data races in Go) are not modelled.
\<close>

record 'w mgr_sys =
  mgr :: Manager
  watchers :: nat
  net :: 'w

inductive mgr_step :: "'w transport \<Rightarrow> 'w mgr_sys \<Rightarrow> 'w mgr_sys \<Rightarrow> bool" for http where
  recover: "CheckAndRecoverRPCs http (mgr s, net s) = (r, (m', w')) \<Longrightarrow>
    mgr_step http s (s\<lparr>mgr := m', net := w', watchers := (if r = Ok True then Suc (watchers s) else watchers s)\<rparr>)"
| restore: "watchers s = Suc n \<Longrightarrow> CheckPrimary http (mgr s) (net s) = (Ok True, w') \<Longrightarrow>
    mgr_step http s (s\<lparr>mgr := RestorePrimary (mgr s), net := w', watchers := n\<rparr>)"
| still_sick: "watchers s = Suc n \<Longrightarrow> CheckPrimary http (mgr s) (net s) = (Ok False, w') \<Longrightarrow>
    mgr_step http s (s\<lparr>net := w'\<rparr>)"

inductive_cases mgr_stepE: "mgr_step http s s'"

definition mgr_inv :: "RPCClient list \<Rightarrow> 'w mgr_sys \<Rightarrow> bool" where
  "mgr_inv cs s \<longleftrightarrow> clients (mgr s) = cs \<and> activeIndex (mgr s) < length cs \<and>
     (activeIndex (mgr s) \<noteq> 0 \<longrightarrow> 0 < watchers s)"

lemma mgr_step_inv: "mgr_step http s s' \<Longrightarrow> mgr_inv cs s \<Longrightarrow> mgr_inv cs s'"
proof (induction rule: mgr_step.induct)
  case (recover s r m' w')
  with CheckAndRecover_index [of "mgr s" http "net s" r m' w'] show ?case by (auto simp: mgr_inv_def)
qed (auto simp: mgr_inv_def RestorePrimary_def)


definition down_then_up :: "unit transport" where
  "down_then_up url rq w = (if url = ''b'' then Reply 200 \<lparr>Result = Some JNull, ErrorField = \<lparr>Code = 0, Message = []\<rparr>, rsID = 1219\<rparr>
     else NoReply ''connection refused'', w)"

definition two_nodes :: Manager where
  "two_nodes = \<lparr>mChainName = ''dogecoin'', activeIndex = 0,
     clients = [\<lparr>NodeUrl = ''a'', cName = ''one''\<rparr>, \<lparr>NodeUrl = ''b'', cName = ''two''\<rparr>], primaryCheckInterval = 1\<rparr>"

lemmas rpc_eval = CheckAndRecoverRPCs_def FindHealthyNode_def checkActiveNodeHealth_def GetActiveClient_def
  on_world_def Check_def attempt_def GetBlockTemplate_def call_def doRequest_def nextNode_def act_bind_def
  ret_def lift_res_def handleHttpError_def

lemma two_nodes_recover:
  "CheckAndRecoverRPCs down_then_up (two_nodes, ()) = (Ok True, (two_nodes\<lparr>activeIndex := 1\<rparr>, ()))"
  by (simp add: two_nodes_def down_then_up_def rpc_eval numeral_2_eq_2 Let_def)


text \<open>The node \<open>i\<close> places after the active one.\<close>

definition at_index :: "Manager \<Rightarrow> nat \<Rightarrow> RPCClient" where
  "at_index m i = clients m ! ((activeIndex m + i) mod length (clients m))"

lemma find_loop_first:
  assumes "activeIndex m < length (clients m)" and "\<And>c v. Check http c v = (Ok (healthy c), v)"
  shows "(\<exists>j. 1 \<le> j \<and> j \<le> left \<and> find_loop http left (rotate_by k m, w) = (Ok (), (rotate_by (k + j) m, w)) \<and>
      healthy (at_index m (k + j)) \<and> (\<forall>i. 1 \<le> i \<and> i < j \<longrightarrow> \<not> healthy (at_index m (k + i)))) \<or>
    (find_loop http left (rotate_by k m, w) =
        (Err (''no healthy '' @ mChainName m @ '' nodes!''), (rotate_by (k + left) m, w)) \<and>
      (\<forall>i. 1 \<le> i \<and> i \<le> left \<longrightarrow> \<not> healthy (at_index m (k + i))))"
proof (induction left arbitrary: k)
  case 0
  then show ?case by simp
next
  case (Suc left)
  have valid: "activeIndex (rotate_by k m) < length (clients (rotate_by k m))"
    using assms(1) by (simp, intro mod_less_divisor) auto
  have "clients m ! ((activeIndex (rotate_by k m) + 1) mod length (clients m)) = at_index m (k + 1)"
    by (simp add: at_index_def mod_Suc_eq)
  then have step: "find_loop http (Suc left) (rotate_by k m, w) =
      (if healthy (at_index m (k + 1)) then (Ok (), (rotate_by (k + 1) m, w))
       else find_loop http left (rotate_by (k + 1) m, w))"
    using find_loop_Suc [OF valid, of http w _ w left] assms(2) by simp
  show ?case
  proof (cases "healthy (at_index m (k + 1))")
    case True
    with step show ?thesis by (intro disjI1 exI [of _ 1]) simp
  next
    case False
    from Suc.IH [of "k + 1"] show ?thesis
    proof (elim disjE exE conjE)
      fix j
      assume j: "1 \<le> j" "j \<le> left" "find_loop http left (rotate_by (k + 1) m, w) = (Ok (), (rotate_by (k + 1 + j) m, w))"
        "healthy (at_index m (k + 1 + j))" "\<forall>i. 1 \<le> i \<and> i < j \<longrightarrow> \<not> healthy (at_index m (k + 1 + i))"
      have "\<not> healthy (at_index m (k + i))" if "1 \<le> i" "i < j + 1" for i
        using that j(5)[rule_format, of "i - 1"] False by (cases "i = 1") (auto simp: Suc_le_eq)
      with j step False show ?thesis by (intro disjI1 exI [of _ "j + 1"]) (auto simp: add.assoc)
    next
      assume e: "find_loop http left (rotate_by (k + 1) m, w) =
          (Err (''no healthy '' @ mChainName m @ '' nodes!''), (rotate_by (k + 1 + left) m, w))"
        "\<forall>i. 1 \<le> i \<and> i \<le> left \<longrightarrow> \<not> healthy (at_index m (k + 1 + i))"
      have "\<not> healthy (at_index m (k + i))" if "1 \<le> i" "i \<le> Suc left" for i
        using that e(2)[rule_format, of "i - 1"] False by (cases "i = 1") (auto simp: Suc_le_eq)
      with e(1) step False show ?thesis by (intro disjI2) (auto simp: add.assoc)
    qed
  qed
qed

lemma rotation_covers:
  assumes "activeIndex m < length (clients m)" and "c \<in> set (clients m)"
  shows "\<exists>i. 1 \<le> i \<and> i \<le> length (clients m) \<and> c = at_index m i"
proof -
  from assms(2) obtain p where p: "p < length (clients m)" "c = clients m ! p" by (auto simp: in_set_conv_nth)
  show ?thesis
  proof (cases "activeIndex m < p")
    case True
    with p show ?thesis by (intro exI [of _ "p - activeIndex m"]) (auto simp: at_index_def Suc_le_eq)
  next
    case False
    with p assms(1) have "(activeIndex m + (p + length (clients m) - activeIndex m)) mod length (clients m) = p" by simp
    with p False assms(1) show ?thesis by (intro exI [of _ "p + length (clients m) - activeIndex m"]) (auto simp: at_index_def Suc_le_eq)
  qed
qed

text \<open>With nodes whose health does not change during the search, \<open>FindHealthyNode\<close> moves to the
  first healthy node after the active one, in rotation and with the active one last; when no node is
  healthy it reports an error and the active index is what it was.\<close>

theorem FindHealthyNode_first_healthy:
  assumes "activeIndex m < length (clients m)" and "\<And>c v. Check http c v = (Ok (healthy c), v)"
  shows "(\<exists>j. 1 \<le> j \<and> j \<le> length (clients m) \<and>
      FindHealthyNode http (m, w) = (Ok (), (rotate_by j m, w)) \<and>
      healthy (clients m ! ((activeIndex m + j) mod length (clients m))) \<and>
      (\<forall>i. 1 \<le> i \<and> i < j \<longrightarrow> \<not> healthy (clients m ! ((activeIndex m + i) mod length (clients m))))) \<or>
    (FindHealthyNode http (m, w) = (Err (''no healthy '' @ mChainName m @ '' nodes!''), (m, w)) \<and>
      (\<forall>c \<in> set (clients m). \<not> healthy c))"
proof -
  have none: "\<forall>c \<in> set (clients m). \<not> healthy c" if "\<forall>i. 1 \<le> i \<and> i \<le> length (clients m) \<longrightarrow> \<not> healthy (at_index m i)"
    using that rotation_covers [OF assms(1)] by blast
  show ?thesis
    using find_loop_first [OF assms, where left = "length (clients m)" and k = 0 and w = w] none rotate_by_full [OF assms(1)]
    unfolding FindHealthyNode_def at_index_def [symmetric] by auto
qed

lemma FindHealthyNode_first_healthy_witness:
  "\<exists>j. 1 \<le> j \<and> j \<le> 2 \<and> FindHealthyNode down_then_up (two_nodes, ()) = (Ok (), (rotate_by j two_nodes, ())) \<and>
    NodeUrl (clients two_nodes ! (j mod 2)) = ''b''"
proof -
  have "Check down_then_up c v = (Ok (NodeUrl c = ''b''), v)" for c v
    by (simp add: down_then_up_def rpc_eval Let_def)
  from FindHealthyNode_first_healthy [of two_nodes, OF _ this] show ?thesis by (auto simp: two_nodes_def numeral_2_eq_2)
qed

end
