(* ===== verification/Database.thy ===== *)
theory Database
  imports Effects Float64 "HOL-Library.AList"
begin

text \<open>
  The state behind package \<open>persistence\<close>: the tables of \<open>docs\<close>' schema as lists of rows, and the
  environment of a statement.  The server and the driver are not under \<open>src/\<close>: whether the n-th
  statement fails (and whether it took effect before the connection was lost), what the clock reads,
  and how the driver and the server convert a float64 to \<open>decimal(28,8)\<close> and back are fields of the
  state no operation changes.  A \<open>decimal(28,8)\<close> is an integer number of \<open>10^-8\<close> units.  Times are
  integers in the resolution of the database, 0 is the zero \<open>time.Time\<close>.  A query without
  \<open>ORDER BY\<close> returns rows in the order of the table.
\<close>

datatype fault = Before string | After string

record Share =
  shPoolID :: string
  shBlockHeight :: nat
  shMiner :: string
  shWorker :: string
  shUserAgent :: string
  shDifficulty :: fl
  shNetworkDifficulty :: fl
  shIpAddress :: string
  shCreated :: int

record Found =
  ID :: nat
  fPoolID :: string
  fChain :: string
  BlockHeight :: nat
  fNetworkDifficulty :: fl
  Status :: string
  Type :: string
  ConfirmationProgress :: fl
  Effort :: fl
  TransactionConfirmationData :: string
  Miner :: string
  Reward :: fl
  Source :: string
  Hash :: string
  Created :: int

text \<open>A row of \<open>blocks\<close>: the reward column is a decimal.\<close>

record block_row =
  row_block :: Found
  row_reward :: int

type_synonym balance_key = "string \<times> string \<times> string"

record balance_row =
  bKey :: balance_key
  bAmount :: int
  bCreated :: int
  bUpdated :: int

record change_row =
  cKey :: balance_key
  cAmount :: int
  cUsage :: string
  cCreated :: int

record Payment =
  pPoolID :: string
  pChain :: string
  pAddress :: string
  pAmount :: fl
  pTransactionConfirmationData :: string
  pCreated :: int

record payment_row =
  row_payment :: Payment
  row_amount :: int

record MinerSettings =
  sPoolID :: string
  sMiner :: string
  sPaymentThreshold :: fl
  sCreated :: int
  sUpdated :: int

record settings_row =
  row_settings :: MinerSettings
  row_threshold :: int

record MinerStat =
  msPoolID :: string
  msMiner :: string
  msWorker :: string
  msHashrate :: fl
  msSharesPerSecond :: fl
  msCreated :: int

record PoolStat =
  psPoolID :: string
  ConnectedMiners :: nat
  ConnectedWorkers :: nat
  PoolHashrate :: fl
  NetworkHashrate :: fl
  psNetworkDifficulty :: fl
  LastNetworkBlockTime :: int
  psBlockHeight :: nat
  ConnectedPeers :: nat
  psSharesPerSecond :: fl
  psCreated :: int

record db =
  shares :: "Share list"
  blocks :: "block_row list"
  balances :: "balance_row list"
  balance_changes :: "change_row list"
  payments :: "payment_row list"
  miner_settings :: "settings_row list"
  poolstats :: "PoolStat list"
  minerstats :: "MinerStat list"
  block_seq :: nat
  tick :: nat
  faults :: "nat \<Rightarrow> fault option"
  clock :: "nat \<Rightarrow> int"
  to_decimal :: "fl \<Rightarrow> int option"
  of_decimal :: "int \<Rightarrow> fl"

section \<open>Statements\<close>

text \<open>\<open>Prepare\<close> and \<open>Exec\<close>, or \<open>Query\<close> with the reading of its rows, as one statement.\<close>

definition sql :: "('z db_scheme, 'a) act \<Rightarrow> ('z db_scheme, 'a) act" where
  "sql f d = (let d' = d\<lparr>tick := Suc (tick d)\<rparr> in
     case faults d (tick d) of
       None \<Rightarrow> f d'
     | Some (Before e) \<Rightarrow> (Err e, d')
     | Some (After e) \<Rightarrow> (case f d' of (Ok x, d'') \<Rightarrow> (Err e, d'') | (Err e', d'') \<Rightarrow> (Err e', d'') | (Panic p, d'') \<Rightarrow> (Panic p, d'')))"

definition query :: "('z db_scheme \<Rightarrow> 'a res) \<Rightarrow> ('z db_scheme, 'a) act" where
  "query f = sql (\<lambda>d. (f d, d))"

definition Now :: "('z db_scheme, int) act" where
  "Now d = (Ok (clock d (tick d)), d\<lparr>tick := Suc (tick d)\<rparr>)"

text \<open>A float as a \<open>decimal(28,8)\<close> parameter.\<close>

definition decimal_overflow :: "int \<Rightarrow> bool" where
  "decimal_overflow v = (10 ^ 28 \<le> \<bar>v\<bar>)"

definition decimal_param :: "'z db_scheme \<Rightarrow> fl \<Rightarrow> int res" where
  "decimal_param d x = (case to_decimal d x of
     None \<Rightarrow> Err ''pq: invalid input syntax for type numeric''
   | Some v \<Rightarrow> if decimal_overflow v then Err ''pq: numeric field overflow'' else Ok v)"

lemma decimal_param_tick [simp]: "decimal_param (d\<lparr>tick := n\<rparr>) = decimal_param d"
  by (simp add: fun_eq_iff decimal_param_def)

text \<open>Scanning a NULL into a variable that cannot hold it.\<close>

definition null_error :: "'a res" where
  "null_error = Err ''sql: Scan error on column index 0: converting NULL to float64 is unsupported''"

text \<open>What no operation changes: the environment.\<close>

definition same_env :: "'z db_scheme \<Rightarrow> 'y db_scheme \<Rightarrow> bool" where
  "same_env d e \<longleftrightarrow> faults e = faults d \<and> clock e = clock d \<and> to_decimal e = to_decimal d \<and>
     of_decimal e = of_decimal d \<and> tick d \<le> tick e"

lemma sql_cases:
  assumes "sql f d = (r, d')"
  obtains (ran) "f (d\<lparr>tick := Suc (tick d)\<rparr>) = (r, d')"
  | (lost) x e where "f (d\<lparr>tick := Suc (tick d)\<rparr>) = (Ok x, d')" "r = Err e"
  | (failed) e where "r = Err e" "d' = d\<lparr>tick := Suc (tick d)\<rparr>"
  using assms unfolding sql_def Let_def
  by (auto split: option.splits fault.splits prod.splits res.splits)

lemma sql_Ok: "sql f d = (Ok x, d') \<longleftrightarrow> faults d (tick d) = None \<and> f (d\<lparr>tick := Suc (tick d)\<rparr>) = (Ok x, d')"
  by (auto simp: sql_def Let_def split: option.splits fault.splits prod.splits res.splits)

lemma query_Ok: "query f d = (Ok x, d') \<longleftrightarrow>
    faults d (tick d) = None \<and> f (d\<lparr>tick := Suc (tick d)\<rparr>) = Ok x \<and> d' = d\<lparr>tick := Suc (tick d)\<rparr>"
  by (auto simp: query_def sql_Ok)

lemma query_state: "query f d = (r, d') \<Longrightarrow> d' = d\<lparr>tick := Suc (tick d)\<rparr>"
  by (auto simp: query_def elim!: sql_cases)

lemma Now_eq [act_simps]: "Now d = (Ok (clock d (tick d)), d\<lparr>tick := Suc (tick d)\<rparr>)"
  by (simp add: Now_def)

lemma sql_no_fault: "faults d (tick d) = None \<Longrightarrow> sql f d = f (d\<lparr>tick := Suc (tick d)\<rparr>)"
  by (simp add: sql_def)

text \<open>The tick is updated last.\<close>

lemma tick_commute [simp]:
  "d\<lparr>tick := n, shares := a\<rparr> = d\<lparr>shares := a, tick := n\<rparr>"
  "d\<lparr>tick := n, blocks := b\<rparr> = d\<lparr>blocks := b, tick := n\<rparr>"
  "d\<lparr>tick := n, balances := c\<rparr> = d\<lparr>balances := c, tick := n\<rparr>"
  "d\<lparr>tick := n, balance_changes := e\<rparr> = d\<lparr>balance_changes := e, tick := n\<rparr>"
  "d\<lparr>tick := n, payments := f\<rparr> = d\<lparr>payments := f, tick := n\<rparr>"
  "d\<lparr>tick := n, miner_settings := g\<rparr> = d\<lparr>miner_settings := g, tick := n\<rparr>"
  "d\<lparr>tick := n, poolstats := h\<rparr> = d\<lparr>poolstats := h, tick := n\<rparr>"
  "d\<lparr>tick := n, minerstats := i\<rparr> = d\<lparr>minerstats := i, tick := n\<rparr>"
  "d\<lparr>tick := n, block_seq := j\<rparr> = d\<lparr>block_seq := j, tick := n\<rparr>"
  by (cases d, simp)+

text \<open>Two states that differ in the tick at most.\<close>

definition tick_apart :: "'z db_scheme \<Rightarrow> 'z db_scheme \<Rightarrow> bool" where
  "tick_apart d e \<longleftrightarrow> e\<lparr>tick := 0\<rparr> = d\<lparr>tick := 0\<rparr>"

lemma tick_apart_step [simp]: "tick_apart d d" "tick_apart d (e\<lparr>tick := n\<rparr>) = tick_apart d e"
  by (simp_all add: tick_apart_def)

lemma tick_apart_trans: "tick_apart a b \<Longrightarrow> tick_apart b c \<Longrightarrow> tick_apart a c"
  by (simp add: tick_apart_def)

lemma tick_apart_env: "tick_apart d e \<Longrightarrow> faults e = faults d \<and> clock e = clock d \<and>
    to_decimal e = to_decimal d \<and> of_decimal e = of_decimal d \<and> shares e = shares d \<and> blocks e = blocks d \<and>
    balances e = balances d \<and> balance_changes e = balance_changes d \<and> payments e = payments d \<and>
    miner_settings e = miner_settings d \<and> poolstats e = poolstats d \<and> minerstats e = minerstats d"
  by (cases d, cases e) (simp add: tick_apart_def)

lemma same_env_refl [simp]: "same_env d d"
  by (simp add: same_env_def)

lemma same_env_trans [trans]: "same_env a b \<Longrightarrow> same_env b c \<Longrightarrow> same_env a c"
  by (auto simp: same_env_def)

text \<open>A property of the tables only is kept by every query.\<close>

lemma keeps_query [act_rules]:
  "(\<And>d. P d \<Longrightarrow> P (d\<lparr>tick := Suc (tick d)\<rparr>)) \<Longrightarrow> keeps P (query f)"
  by (rule tripleI) (auto dest: query_state)

lemma keeps_Now [act_rules]: "(\<And>d. P d \<Longrightarrow> P (d\<lparr>tick := Suc (tick d)\<rparr>)) \<Longrightarrow> keeps P Now"
  by (rule tripleI) (auto simp: Now_def)

lemma keeps_sql [act_rules]:
  "(\<And>d. P d \<Longrightarrow> P (d\<lparr>tick := Suc (tick d)\<rparr>)) \<Longrightarrow> keeps P f \<Longrightarrow> keeps P (sql f)"
  by (rule tripleI) (fastforce elim!: sql_cases dest: keepsD)+

section \<open>An empty database\<close>

text \<open>A database for the witnesses: no faults, every finite float is cut to 8 decimals.\<close>

definition sample_decimal :: "fl \<Rightarrow> int option" where
  "sample_decimal x = (if is_fin x then Some \<lfloor>fval x * 10 ^ 8\<rfloor> else None)"

definition sample_db :: db where
  "sample_db = \<lparr>shares = [], blocks = [], balances = [], balance_changes = [], payments = [], miner_settings = [],
     poolstats = [], minerstats = [], block_seq = 1, tick = 0, faults = (\<lambda>n. None), clock = (\<lambda>n. 1000 + int n),
     to_decimal = sample_decimal, of_decimal = (\<lambda>v. Fin (v < 0) (of_int \<bar>v\<bar> / 10 ^ 8))\<rparr>"

end
