(* ===== verification/Settings.thy ===== *)
theory Settings
  imports RpcManager Database
begin

text \<open>
  \<open>config/config.go\<close>: the configuration the pool reads, its accessors, and the state shared by the
  code that uses both the database and the nodes.  A Go map keyed by chain name is a partial
  function.  Reading the JSON file is not modelled.
\<close>

record coinNodeConfig =
  nName :: string
  RPC_URL :: string
  RPC_Username :: string
  RPC_Password :: string
  nTimeout :: string
  NotifyURL :: string
  RewardTo :: string

record recipient =
  rAddress :: string
  Percentage :: fl

text \<open>\<open>config.Chain\<close>: the payout settings of a chain; the minimum payment is a \<open>float32\<close>.\<close>

record payout_chain =
  pcName :: string
  RewardFrom :: string
  MinerMinimumPayment :: fl
  PoolRewardRecipients :: "recipient list"

record PayoutsConfig =
  Interval :: string
  Scheme :: string
  Chains :: "string \<Rightarrow> payout_chain option"

record pool_config =
  PoolName :: string
  BlockSignature :: string
  BlockchainNodes :: "string \<Rightarrow> coinNodeConfig list option"
  cfgPort :: string
  MaxConnections :: int
  ConnectionTimeout :: string
  PoolDifficulty :: fl
  BlockChainOrder :: "string list"
  ShareFlushInterval :: string
  HashrateWindow :: string
  PoolStatsInterval :: string
  Payouts :: PayoutsConfig
  AppStatsInterval :: string

definition GetPrimary :: "string list \<Rightarrow> string res" where
  "GetPrimary b = (case b of [] \<Rightarrow> Panic ''index out of range'' | c # cs \<Rightarrow> Ok c)"

definition GetAux1 :: "string list \<Rightarrow> string" where
  "GetAux1 b = (if length b < 2 then [] else b ! 1)"

section \<open>The node managers of \<open>main.go\<close>\<close>

text \<open>\<open>makeRPCManagers\<close>: one manager per chain of the merge order, in the order of the chains.  A chain
  without nodes gets a manager without clients.\<close>

definition node_rpc_config :: "coinNodeConfig \<Rightarrow> Config" where
  "node_rpc_config n = \<lparr>Name = nName n, URL = RPC_URL n, Username = RPC_Username n,
     Password = RPC_Password n, Timeout = nTimeout n\<rparr>"

definition configured_nodes :: "pool_config \<Rightarrow> string \<Rightarrow> coinNodeConfig list" where
  "configured_nodes configuration chain =
     (case BlockchainNodes configuration chain of None \<Rightarrow> [] | Some ns \<Rightarrow> ns)"

fun managers_loop :: "pool_config \<Rightarrow> (string \<Rightarrow> Manager option) \<Rightarrow> string list \<Rightarrow> (string \<Rightarrow> Manager option) res" where
  "managers_loop configuration managers [] = Ok managers"
| "managers_loop configuration managers (chain # rest) =
     res_bind (MakeRPCManager chain (map node_rpc_config (configured_nodes configuration chain)) ''1h'')
       (\<lambda>manager. managers_loop configuration (managers(chain \<mapsto> manager)) rest)"

definition makeRPCManagers :: "pool_config \<Rightarrow> (string \<Rightarrow> Manager option) res" where
  "makeRPCManagers configuration = managers_loop configuration Map.empty (BlockChainOrder configuration)"

definition mustParseDuration :: "string \<Rightarrow> int res" where
  "mustParseDuration s = (case ParseDuration s of
     Err e \<Rightarrow> Panic (''util: Can'' @ [CHR 0x27] @ ''t parse duration `'' @ s @ ''`: '' @ e) | r \<Rightarrow> r)"

definition manager_for :: "pool_config \<Rightarrow> string \<Rightarrow> Manager \<Rightarrow> bool" where
  "manager_for configuration chain m \<longleftrightarrow> mChainName m = chain \<and> activeIndex m = 0 \<and>
     map cName (clients m) = map nName (configured_nodes configuration chain)"

lemma NewRPCClient_name: "NewRPCClient name url user pw t = Ok c \<Longrightarrow> cName c = name"
  by (auto simp: NewRPCClient_def Let_def split: prod.splits option.splits res.splits)

lemma NewRPCClients_names:
  "res_map (\<lambda>node. NewRPCClient (Name node) (URL node) (Username node) (Password node) (Timeout node)) ns = Ok cs \<Longrightarrow>
   map cName cs = map Name ns"
  by (induction ns arbitrary: cs) (auto simp: outcome_simps dest: NewRPCClient_name)

lemma MakeRPCManager_for:
  assumes "MakeRPCManager chain (map node_rpc_config (configured_nodes configuration chain)) t = Ok m"
  shows "manager_for configuration chain m"
proof -
  let ?ns = "map node_rpc_config (configured_nodes configuration chain)"
  obtain cs where "res_map (\<lambda>node. NewRPCClient (Name node) (URL node) (Username node) (Password node) (Timeout node)) ?ns = Ok cs"
    and m: "mChainName m = chain" "activeIndex m = 0" "clients m = cs"
    using assms by (cases "ParseDuration t") (auto simp: MakeRPCManager_def outcome_simps)
  with NewRPCClients_names [of ?ns cs] show ?thesis
    by (simp add: manager_for_def comp_def node_rpc_config_def)
qed

lemma managers_loop_dom:
  "managers_loop configuration managers order = Ok ms \<Longrightarrow>
   dom ms = dom managers \<union> set order \<and>
   (\<forall>chain m. ms chain = Some m \<longrightarrow> managers chain = Some m \<or> manager_for configuration chain m)"
proof (induction order arbitrary: managers)
  case Nil
  then show ?case by simp
next
  case (Cons chain rest)
  then obtain m where m: "manager_for configuration chain m"
    and rest: "managers_loop configuration (managers(chain \<mapsto> m)) rest = Ok ms"
    by (auto simp: outcome_simps dest: MakeRPCManager_for)
  from Cons.IH [OF rest] m show ?case by (auto split: if_splits)
qed

text \<open>\<open>makeRPCManagers\<close> makes a manager for every chain of the merge order and for no other chain; each
  starts on its first node and has one client per configured node, in the configured order, so an
  index of the manager is an index of the node list of the configuration.\<close>

theorem makeRPCManagers_covers_order:
  assumes "makeRPCManagers configuration = Ok ms"
  shows "dom ms = set (BlockChainOrder configuration) \<and>
    (\<forall>chain m. ms chain = Some m \<longrightarrow> mChainName m = chain \<and> activeIndex m = 0 \<and>
       map cName (clients m) = map nName (configured_nodes configuration chain))"
  using managers_loop_dom [OF assms [unfolded makeRPCManagers_def]] by (auto simp: manager_for_def)

definition sample_config :: pool_config where
  "sample_config = \<lparr>PoolName = ''p'', BlockSignature = ''/sig/'',
     BlockchainNodes = [''dogecoin'' \<mapsto> [\<lparr>nName = ''d0'', RPC_URL = ''http://d'', RPC_Username = ''u'', RPC_Password = ''w'',
       nTimeout = ''5s'', NotifyURL = ''tcp://d:1'', RewardTo = ''Dpool''\<rparr>]],
     cfgPort = ''3333'', MaxConnections = 2, ConnectionTimeout = ''1m'', PoolDifficulty = Fin False 1,
     BlockChainOrder = [''dogecoin''], ShareFlushInterval = ''5s'', HashrateWindow = ''10m'', PoolStatsInterval = ''1m'',
     Payouts = \<lparr>Interval = ''1m'', Scheme = ''solo'', Chains = [''dogecoin'' \<mapsto> \<lparr>pcName = [], RewardFrom = [],
       MinerMinimumPayment = Fin False 2,
       PoolRewardRecipients = [\<lparr>rAddress = ''Dpool'', Percentage = Fin False (1 / 4)\<rparr>,
                               \<lparr>rAddress = ''Ddev'', Percentage = Fin False (1 / 4)\<rparr>]\<rparr>]\<rparr>,
     AppStatsInterval = ''1m''\<rparr>"

definition sample_manager :: Manager where
  "sample_manager = \<lparr>mChainName = ''dogecoin'', activeIndex = 0,
     clients = [\<lparr>NodeUrl = ''http://u:w@d'', cName = ''d0''\<rparr>], primaryCheckInterval = 3600000000000\<rparr>"

lemma parse_1h: "ParseDuration ''1h'' = Ok 3600000000000"
  by (simp add: ParseDuration_def duration_loop.simps duration_part_def is_digit_def digit_of_def duration_unit_def Let_def)

lemma parse_5s: "ParseDuration ''5s'' = Ok 5000000000"
  by (simp add: ParseDuration_def duration_loop.simps duration_part_def is_digit_def digit_of_def duration_unit_def Let_def)

lemma sample_managers: "makeRPCManagers sample_config = Ok [''dogecoin'' \<mapsto> sample_manager]"
  by (simp add: makeRPCManagers_def MakeRPCManager_def configured_nodes_def node_rpc_config_def NewRPCClient_def
      parse_1h parse_5s sample_config_def sample_manager_def)

lemma makeRPCManagers_covers_order_witness:
  "dom [''dogecoin'' \<mapsto> sample_manager] = set (BlockChainOrder sample_config) \<and>
    map cName (clients sample_manager) = map nName (configured_nodes sample_config ''dogecoin'')"
  using makeRPCManagers_covers_order [OF sample_managers] by simp

section \<open>The world\<close>

text \<open>The database together with the outside world the transport of the nodes acts on.\<close>

record 'w world = db +
  nodes :: 'w

definition on_nodes :: "('w, 'a) act \<Rightarrow> (('w, 'z) world_scheme, 'a) act" where
  "on_nodes f s = (case f (nodes s) of (r, w) \<Rightarrow> (r, s\<lparr>nodes := w\<rparr>))"

lemma nodes_db [simp]:
  "shares (s\<lparr>nodes := w\<rparr>) = shares s" "blocks (s\<lparr>nodes := w\<rparr>) = blocks s"
  "balances (s\<lparr>nodes := w\<rparr>) = balances s" "balance_changes (s\<lparr>nodes := w\<rparr>) = balance_changes s"
  "payments (s\<lparr>nodes := w\<rparr>) = payments s" "tick (s\<lparr>nodes := w\<rparr>) = tick s"
  "faults (s\<lparr>nodes := w\<rparr>) = faults s" "clock (s\<lparr>nodes := w\<rparr>) = clock s"
  "to_decimal (s\<lparr>nodes := w\<rparr>) = to_decimal s" "of_decimal (s\<lparr>nodes := w\<rparr>) = of_decimal s"
  by simp_all

lemma keeps_on_nodes [act_rules]:
  "(\<And>s w. P s \<Longrightarrow> P (s\<lparr>nodes := w\<rparr>)) \<Longrightarrow> keeps P (on_nodes f)"
  by (rule tripleI) (auto simp: on_nodes_def split: prod.splits)

end
