(* ===== verification/Balances.thy ===== *)
theory Balances
  imports Database "HOL-Library.Multiset" "HOL-Library.Sublist"
begin

text \<open>
  \<open>persistence/balance.go\<close>: the ledger.  \<open>AddAmount\<close> records a change and then creates or updates
  the balance, in separate statements without a transaction.
\<close>

record Balance =
  PoolID :: string
  Chain :: string
  Address :: string
  Amount :: fl
  balCreated :: int
  balUpdated :: int

definition insert_change :: "string \<Rightarrow> string \<Rightarrow> string \<Rightarrow> string \<Rightarrow> fl \<Rightarrow> int \<Rightarrow> ('z db_scheme, unit) act" where
  "insert_change poolID chain address usage amount now = sql (\<lambda>d.
     case decimal_param d amount of
       Ok v \<Rightarrow> (Ok (), d\<lparr>balance_changes := balance_changes d @
          [\<lparr>cKey = (poolID, chain, address), cAmount = v, cUsage = usage, cCreated = now\<rparr>]\<rparr>)
     | Err e \<Rightarrow> (Err e, d) | Panic p \<Rightarrow> (Panic p, d))"

definition balance_key_of :: "Balance \<Rightarrow> balance_key" where
  "balance_key_of b = (PoolID b, Chain b, Address b)"

definition Balances_Insert :: "Balance \<Rightarrow> ('z db_scheme, unit) act" where
  "Balances_Insert balance = sql (\<lambda>d.
     case decimal_param d (Amount balance) of
       Ok v \<Rightarrow>
         if balance_key_of balance \<in> set (map bKey (balances d))
         then (Err ''pq: duplicate key value violates unique constraint'', d)
         else (Ok (), d\<lparr>balances := balances d @ [\<lparr>bKey = balance_key_of balance, bAmount = v,
                 bCreated = balCreated balance, bUpdated = balUpdated balance\<rparr>]\<rparr>)
     | Err e \<Rightarrow> (Err e, d) | Panic p \<Rightarrow> (Panic p, d))"

text \<open>\<open>UPDATE balances SET amount = amount + $1, updated = now()\<close>: the server's clock.\<close>

definition Balances_Update :: "Balance \<Rightarrow> ('z db_scheme, unit) act" where
  "Balances_Update balance = sql (\<lambda>d.
     case decimal_param d (Amount balance) of
       Ok v \<Rightarrow>
         if list_ex (\<lambda>row. bKey row = balance_key_of balance \<and> decimal_overflow (bAmount row + v)) (balances d)
         then (Err ''pq: numeric field overflow'', d)
         else (Ok (), d\<lparr>balances := map (\<lambda>row. if bKey row = balance_key_of balance
                 then row\<lparr>bAmount := bAmount row + v, bUpdated := clock d (tick d)\<rparr> else row) (balances d)\<rparr>)
     | Err e \<Rightarrow> (Err e, d) | Panic p \<Rightarrow> (Panic p, d))"

definition GetBalance :: "string \<Rightarrow> string \<Rightarrow> string \<Rightarrow> ('z db_scheme, fl option) act" where
  "GetBalance poolID chain address = query (\<lambda>d.
     Ok (case filter (\<lambda>row. bKey row = (poolID, chain, address)) (balances d) of
           [] \<Rightarrow> None | row # rows \<Rightarrow> Some (of_decimal d (bAmount row))))"

definition AddAmount :: "string \<Rightarrow> string \<Rightarrow> string \<Rightarrow> string \<Rightarrow> fl \<Rightarrow> ('z db_scheme, unit) act" where
  "AddAmount poolID chain address usage amount =
     act_bind Now (\<lambda>now.
     act_bind (insert_change poolID chain address usage amount now) (\<lambda>_.
     act_bind (GetBalance poolID chain address) (\<lambda>balance.
       let balanceRecord = \<lparr>PoolID = poolID, Chain = chain, Address = address, Amount = amount,
             balCreated = 0, balUpdated = now\<rparr> in
       case balance of
         None \<Rightarrow> Balances_Insert (balanceRecord\<lparr>balCreated := now\<rparr>)
       | Some b \<Rightarrow> Balances_Update balanceRecord)))"

text \<open>The rows at or above the miner's own threshold, or the given minimum when the miner has none.
  \<open>$3\<close> is compared with a decimal, so it is converted like an amount.\<close>

definition threshold_of :: "'z db_scheme \<Rightarrow> string \<Rightarrow> string \<Rightarrow> int \<Rightarrow> int" where
  "threshold_of d poolID address minimum =
     (case filter (\<lambda>s. sPoolID (row_settings s) = poolID \<and> sMiner (row_settings s) = address) (miner_settings d) of
        [] \<Rightarrow> minimum | s # ss \<Rightarrow> row_threshold s)"

definition balance_of_row :: "'z db_scheme \<Rightarrow> balance_row \<Rightarrow> Balance" where
  "balance_of_row d row = (case bKey row of (p, c, a) \<Rightarrow>
     \<lparr>PoolID = p, Chain = c, Address = a, Amount = of_decimal d (bAmount row),
      balCreated = bCreated row, balUpdated = bUpdated row\<rparr>)"

definition due :: "'z db_scheme \<Rightarrow> string \<Rightarrow> string \<Rightarrow> int \<Rightarrow> balance_row \<Rightarrow> bool" where
  "due d poolID chain minimum row = (case bKey row of (p, c, a) \<Rightarrow>
     p = poolID \<and> c = chain \<and> threshold_of d poolID a minimum \<le> bAmount row)"

definition GetPoolBalancesOverThreshold :: "string \<Rightarrow> string \<Rightarrow> fl \<Rightarrow> ('z db_scheme, Balance list) act" where
  "GetPoolBalancesOverThreshold poolID chain minimum = query (\<lambda>d.
     res_bind (decimal_param d minimum) (\<lambda>m.
       Ok (map (balance_of_row d) (filter (due d poolID chain m) (balances d)))))"

definition BalanceChanges_page :: "string \<Rightarrow> nat \<Rightarrow> nat \<Rightarrow> ('z db_scheme, 'a list) act" where
  "BalanceChanges_page poolID page pageSize = query (\<lambda>d.
     case take pageSize (drop page (sort_key (\<lambda>c. - cCreated c) (filter (\<lambda>c. fst (cKey c) = poolID) (balance_changes d)))) of
       [] \<Rightarrow> Ok []
     | c # cs \<Rightarrow> Err ''sql: expected 8 destination arguments in Scan, not 1'')"

definition GetBalanceChangesCount :: "string \<Rightarrow> ('z db_scheme, nat) act" where
  "GetBalanceChangesCount poolID = query (\<lambda>d. Ok (length (filter (\<lambda>c. fst (cKey c) = poolID) (balance_changes d))))"

section \<open>The ledger\<close>

text \<open>What the two tables say of a key; the primary key of \<open>balances\<close>.\<close>

definition bal :: "'z db_scheme \<Rightarrow> balance_key \<Rightarrow> int" where
  "bal d k = sum_list (map bAmount (filter (\<lambda>row. bKey row = k) (balances d)))"

definition chg :: "'z db_scheme \<Rightarrow> balance_key \<Rightarrow> int" where
  "chg d k = sum_list (map cAmount (filter (\<lambda>c. cKey c = k) (balance_changes d)))"

definition keys_distinct :: "'z db_scheme \<Rightarrow> bool" where
  "keys_distinct d = distinct (map bKey (balances d))"

text \<open>Everything but the ledger and the tick is the same, and changes are only appended.\<close>

definition beside_ledger :: "'z db_scheme \<Rightarrow> 'z db_scheme \<Rightarrow> bool" where
  "beside_ledger d e \<longleftrightarrow>
     d\<lparr>balances := [], balance_changes := [], tick := 0\<rparr> = e\<lparr>balances := [], balance_changes := [], tick := 0\<rparr>
     \<and> tick d \<le> tick e \<and> prefix (balance_changes d) (balance_changes e)"

lemma beside_ledger_refl [simp]: "beside_ledger d d"
  by (simp add: beside_ledger_def)

lemma beside_ledger_trans: "beside_ledger a b \<Longrightarrow> beside_ledger b c \<Longrightarrow> beside_ledger a c"
  by (auto simp: beside_ledger_def intro: prefix_order.trans)

lemma beside_ledger_env: "beside_ledger d e \<Longrightarrow> to_decimal e = to_decimal d \<and> faults e = faults d \<and> of_decimal e = of_decimal d"
proof -
  assume "beside_ledger d e"
  then have eq: "d\<lparr>balances := [], balance_changes := [], tick := 0\<rparr> = e\<lparr>balances := [], balance_changes := [], tick := 0\<rparr>"
    by (simp add: beside_ledger_def)
  show ?thesis
    using arg_cong [OF eq, of to_decimal] arg_cong [OF eq, of faults] arg_cong [OF eq, of of_decimal] by simp
qed

lemma filter_key_distinct:
  "distinct (map bKey rows) \<Longrightarrow>
   filter (\<lambda>r. bKey r = k) rows = (case find (\<lambda>r. bKey r = k) rows of None \<Rightarrow> [] | Some r \<Rightarrow> [r])"
proof (induction rows)
  case Nil
  then show ?case by simp
next
  case (Cons r rows)
  show ?case
  proof (cases "bKey r = k")
    case True
    with Cons.prems have "filter (\<lambda>r. bKey r = k) rows = []"
      by (simp add: filter_empty_conv) (metis image_eqI)
    with True show ?thesis by simp
  next
    case False
    with Cons show ?thesis by simp
  qed
qed

lemma update_row_filter:
  "(\<And>r. bKey (g r) = bKey r) \<Longrightarrow>
   filter (\<lambda>r. bKey r = k) (map (\<lambda>r. if bKey r = k' then g r else r) rows) =
   (if k = k' then map g (filter (\<lambda>r. bKey r = k) rows) else filter (\<lambda>r. bKey r = k) rows)"
  by (induction rows) auto

lemma bal_update:
  assumes "keys_distinct d" and "k \<in> set (map bKey (balances d))"
  shows "bal (d\<lparr>balances := map (\<lambda>row. if bKey row = k then row\<lparr>bAmount := bAmount row + v, bUpdated := t\<rparr> else row) (balances d)\<rparr>) =
    (bal d)(k := bal d k + v)"
proof -
  obtain r where r: "find (\<lambda>r. bKey r = k) (balances d) = Some r"
    using assms(2) by (cases "find (\<lambda>r. bKey r = k) (balances d)") (auto simp: find_None_iff)
  show ?thesis
    using filter_key_distinct [OF assms(1) [unfolded keys_distinct_def], of k] r
    by (auto simp: fun_eq_iff bal_def update_row_filter)
qed

lemma bal_insert:
  "k \<notin> set (map bKey (balances d)) \<Longrightarrow> bKey row = k \<Longrightarrow>
   bal (d\<lparr>balances := balances d @ [row]\<rparr>) = (bal d)(k := bal d k + bAmount row)"
  by (auto simp: fun_eq_iff bal_def)

lemma ledger_tick [simp]:
  "bal (d\<lparr>tick := n\<rparr>) = bal d" "chg (d\<lparr>tick := n\<rparr>) = chg d"
  "keys_distinct (d\<lparr>tick := n\<rparr>) = keys_distinct d" "beside_ledger d (d\<lparr>tick := n\<rparr>) = (tick d \<le> n)"
  "bal (d\<lparr>balance_changes := cs\<rparr>) = bal d" "chg (d\<lparr>balances := bs\<rparr>) = chg d"
  by (simp_all add: fun_eq_iff bal_def chg_def keys_distinct_def beside_ledger_def)

definition adds :: "(balance_key \<Rightarrow> int) \<Rightarrow> balance_key \<Rightarrow> int \<Rightarrow> (balance_key \<Rightarrow> int)" where
  "adds f k v = f(k := f k + v)"

lemma insert_change_outcome:
  assumes "insert_change p c a usage x now d = (r, d')"
  shows "(\<exists>v. decimal_param d x = Ok v \<and> balances d' = balances d \<and> beside_ledger d d' \<and> chg d' = adds (chg d) (p, c, a) v) \<or>
    (r \<noteq> Ok () \<and> balances d' = balances d \<and> beside_ledger d d' \<and> chg d' = chg d)"
  using assms unfolding insert_change_def
  by (elim sql_cases)
     (auto simp: beside_ledger_def chg_def adds_def fun_eq_iff decimal_param_def split: res.splits option.splits if_splits)

lemma balance_write_outcome:
  assumes "(case b of None \<Rightarrow> Balances_Insert rec | Some y \<Rightarrow> Balances_Update rec) d = (r, d')"
    and "keys_distinct d" and "b = None \<longleftrightarrow> balance_key_of rec \<notin> set (map bKey (balances d))"
  shows "keys_distinct d' \<and> beside_ledger d d' \<and> chg d' = chg d \<and>
    ((\<exists>v. decimal_param d (Amount rec) = Ok v \<and> bal d' = adds (bal d) (balance_key_of rec) v) \<or>
     (r \<noteq> Ok () \<and> bal d' = bal d))"
proof -
  let ?d = "d\<lparr>tick := Suc (tick d)\<rparr>"
  have same: "decimal_param ?d x = decimal_param d x" for x by (simp add: decimal_param_def)
  show ?thesis
  proof (cases b)
    case None
    then have fresh: "balance_key_of rec \<notin> set (map bKey (balances ?d))" using assms(3) by simp
    have "Balances_Insert rec d = (r, d')" using assms(1) None by simp
    then show ?thesis unfolding Balances_Insert_def
      using assms(2) fresh bal_insert [OF fresh]
      by (elim sql_cases)
        (auto simp: same adds_def keys_distinct_def beside_ledger_def split: res.splits if_splits)
  next
    case (Some y)
    then have old: "balance_key_of rec \<in> set (map bKey (balances ?d))" using assms(3) by simp
    have "Balances_Update rec d = (r, d')" using assms(1) Some by simp
    then show ?thesis unfolding Balances_Update_def
      using assms(2) bal_update [of ?d, OF _ old]
      by (elim sql_cases)
        (auto simp: same adds_def keys_distinct_def beside_ledger_def comp_def if_distrib [of bKey] cong: if_cong split: res.splits if_splits)
  qed
qed

lemma keys_in_rows: "filter (\<lambda>row. bKey row = k) rows = [] \<longleftrightarrow> k \<notin> set (map bKey rows)"
  by (auto simp: filter_empty_conv)

lemma AddAmount_outcome:
  assumes distinct: "keys_distinct d" and run: "AddAmount p c a usage x d = (r, d')"
  shows "keys_distinct d' \<and> beside_ledger d d' \<and>
    ((\<exists>v. decimal_param d x = Ok v \<and> chg d' = adds (chg d) (p, c, a) v \<and>
        (bal d' = adds (bal d) (p, c, a) v \<or> r \<noteq> Ok () \<and> bal d' = bal d)) \<or>
     (r \<noteq> Ok () \<and> chg d' = chg d \<and> bal d' = bal d))"
proof -
  let ?k = "(p, c, a)" and ?d0 = "d\<lparr>tick := Suc (tick d)\<rparr>"
  have param: "decimal_param e y = decimal_param d y" if "beside_ledger d e" for e y
    using beside_ledger_env [OF that] by (simp add: decimal_param_def)
  obtain q d1 where q: "insert_change p c a usage x (clock d (tick d)) ?d0 = (q, d1)" by fastforce
  have base: "beside_ledger d ?d0" by simp
  from insert_change_outcome [OF q]
  have d1: "balances d1 = balances ?d0" "beside_ledger ?d0 d1"
    and change: "(\<exists>v. decimal_param ?d0 x = Ok v \<and> chg d1 = adds (chg ?d0) ?k v) \<or> (q \<noteq> Ok () \<and> chg d1 = chg ?d0)"
    by auto
  have bal1: "bal d1 = bal d" "keys_distinct d1" using d1(1) distinct by (simp_all add: bal_def keys_distinct_def fun_eq_iff)
  have b1: "beside_ledger d d1" using base d1(2) by (rule beside_ledger_trans)
  show ?thesis
  proof (cases "q = Ok ()")
    case False
    then have "r \<noteq> Ok () \<and> d' = d1" using run q by (cases q) (auto simp: AddAmount_def act_simps)
    then have r: "r \<noteq> Ok ()" and d': "d' = d1" by auto
    have "(\<exists>v. decimal_param d x = Ok v \<and> chg d1 = adds (chg d) ?k v) \<or> chg d1 = chg d"
      using change param [OF base, of x] by simp blast
    with r bal1 b1 show ?thesis unfolding d' by blast
  next
    case True
    then obtain v where v: "decimal_param d x = Ok v" "chg d1 = adds (chg d) ?k v"
      using change param [OF base] by auto
    obtain g d2 where g: "GetBalance p c a d1 = (g, d2)" by fastforce
    have d2: "d2 = d1\<lparr>tick := Suc (tick d1)\<rparr>" using g unfolding GetBalance_def by (rule query_state)
    then have b2: "beside_ledger d d2" using b1 by (auto intro: beside_ledger_trans)
    show ?thesis
    proof (cases g)
      case (Ok b)
      define rec where "rec = \<lparr>PoolID = p, Chain = c, Address = a, Amount = x,
        balCreated = (if b = None then clock d (tick d) else 0), balUpdated = clock d (tick d)\<rparr>"
      have key: "balance_key_of rec = ?k" and amt: "Amount rec = x" by (simp_all add: rec_def balance_key_of_def)
      have wrote: "(case b of None \<Rightarrow> Balances_Insert rec | Some y \<Rightarrow> Balances_Update rec) d2 = (r, d')"
        using run q True g Ok by (cases b) (simp_all add: AddAmount_def act_simps Let_def rec_def)
      have "b = None \<longleftrightarrow> balance_key_of rec \<notin> set (map bKey (balances d2))"
        using g Ok d2 keys_in_rows [of ?k "balances d1"]
        by (auto simp: GetBalance_def query_Ok key split: list.splits)
      from balance_write_outcome [OF wrote _ this] bal1 d2 v param [OF b2] b2 show ?thesis
        by (auto simp: key amt intro: beside_ledger_trans)
    next
      case (Err e)
      with run q True g have "r = Err e" "d' = d2" by (simp_all add: AddAmount_def act_simps)
      with v b2 bal1 d2 show ?thesis by auto
    next
      case (Panic e)
      with run q True g have "r = Panic e" "d' = d2" by (simp_all add: AddAmount_def act_simps)
      with v b2 bal1 d2 show ?thesis by auto
    qed
  qed
qed

text \<open>C3. Crediting the ledger: when \<open>AddAmount\<close> succeeds, the balance of the key and the sum of its
  recorded changes grow by the same amount, the decimal of the float, and every other balance, every
  other sum and every other table is what it was.  When it fails at any statement, even if the server
  carried the statement out, nothing is booked, or only the change is, or both are.\<close>

theorem AddAmount_ledger:
  assumes "keys_distinct d" and "AddAmount p c a usage x d = (r, d')"
  shows "keys_distinct d' \<and> beside_ledger d d' \<and>
    (if r = Ok () then \<exists>v. decimal_param d x = Ok v \<and>
        bal d' = (bal d)((p, c, a) := bal d (p, c, a) + v) \<and> chg d' = (chg d)((p, c, a) := chg d (p, c, a) + v)
     else bal d' = bal d \<and> chg d' = chg d \<or>
       (\<exists>v. decimal_param d x = Ok v \<and> chg d' = (chg d)((p, c, a) := chg d (p, c, a) + v) \<and>
         (bal d' = bal d \<or> bal d' = (bal d)((p, c, a) := bal d (p, c, a) + v))))"
  using AddAmount_outcome [OF assms] by (auto simp: adds_def)

definition sample_db_after :: db where
  "sample_db_after = sample_db\<lparr>tick := 4,
     balances := [\<lparr>bKey = (''p'', ''dogecoin'', ''D1''), bAmount = 250000000, bCreated = 1000, bUpdated = 1000\<rparr>],
     balance_changes := [\<lparr>cKey = (''p'', ''dogecoin'', ''D1''), cAmount = 250000000, cUsage = ''u'', cCreated = 1000\<rparr>]\<rparr>"

lemma sample_AddAmount:
  "AddAmount ''p'' ''dogecoin'' ''D1'' ''u'' (Fin False (5 / 2)) sample_db = (Ok (), sample_db_after)"
  by (simp add: AddAmount_def insert_change_def GetBalance_def query_def Balances_Insert_def balance_key_of_def
      act_bind_def Now_def sql_def sample_db_def sample_db_after_def sample_decimal_def decimal_param_def decimal_overflow_def Let_def)

lemma AddAmount_ledger_witness:
  "keys_distinct sample_db_after \<and> beside_ledger sample_db sample_db_after \<and>
    (if Ok () = Ok () then \<exists>v. decimal_param sample_db (Fin False (5 / 2)) = Ok v \<and>
        bal sample_db_after = (bal sample_db)((''p'', ''dogecoin'', ''D1'') := bal sample_db (''p'', ''dogecoin'', ''D1'') + v) \<and>
        chg sample_db_after = (chg sample_db)((''p'', ''dogecoin'', ''D1'') := chg sample_db (''p'', ''dogecoin'', ''D1'') + v)
     else bal sample_db_after = bal sample_db \<and> chg sample_db_after = chg sample_db \<or>
       (\<exists>v. decimal_param sample_db (Fin False (5 / 2)) = Ok v \<and>
         chg sample_db_after = (chg sample_db)((''p'', ''dogecoin'', ''D1'') := chg sample_db (''p'', ''dogecoin'', ''D1'') + v) \<and>
         (bal sample_db_after = bal sample_db \<or>
          bal sample_db_after = (bal sample_db)((''p'', ''dogecoin'', ''D1'') := bal sample_db (''p'', ''dogecoin'', ''D1'') + v))))"
  by (rule AddAmount_ledger [OF _ sample_AddAmount]) (simp add: keys_distinct_def sample_db_def)

section \<open>The interface to the payout code\<close>

text \<open>
  What the payout code needs of a ledger: a credit that succeeds adds its worth to one key and to
  nothing else, and any credit keeps the ledger usable.  Paying a list of credits then has an effect
  that does not depend on the order, which in Go is the random order of a map.
\<close>

locale credit_store =
  fixes credit :: "'k \<Rightarrow> fl \<Rightarrow> ('s, unit) act"
    and total :: "'s \<Rightarrow> 'k \<Rightarrow> int"
    and worth :: "'s \<Rightarrow> fl \<Rightarrow> int res"
    and usable :: "'s \<Rightarrow> bool"
  assumes credit_Ok: "usable s \<Longrightarrow> credit k x s = (Ok (), s') \<Longrightarrow>
      \<exists>v. worth s x = Ok v \<and> total s' = (total s)(k := total s k + v)"
    and credit_usable: "usable s \<Longrightarrow> credit k x s = (r, s') \<Longrightarrow> usable s' \<and> worth s' = worth s"
begin

definition worth_value :: "'s \<Rightarrow> fl \<Rightarrow> int" where
  "worth_value s x = (case worth s x of Ok v \<Rightarrow> v | Err e \<Rightarrow> 0 | Panic p \<Rightarrow> 0)"

definition credited :: "'s \<Rightarrow> ('k \<times> fl) list \<Rightarrow> 'k \<Rightarrow> int" where
  "credited s kxs k = sum_list (map (worth_value s \<circ> snd) (filter (\<lambda>(k', x). k' = k) kxs))"

lemma credit_all:
  "usable s \<Longrightarrow> for_each kxs (\<lambda>(k, x). credit k x) s = (Ok (), s') \<Longrightarrow>
   usable s' \<and> worth s' = worth s \<and> (\<forall>(k, x) \<in> set kxs. is_ok (worth s x)) \<and>
   total s' = (\<lambda>k. total s k + credited s kxs k)"
proof (induction kxs arbitrary: s)
  case Nil
  then show ?case by (auto simp: credited_def ret_def)
next
  case (Cons kx kxs)
  obtain k x where kx: "kx = (k, x)" by fastforce
  from Cons.prems(2) obtain s1 where s1: "credit k x s = (Ok (), s1)"
    and rest: "for_each kxs (\<lambda>(k, x). credit k x) s1 = (Ok (), s')"
    by (auto simp: kx act_bind_Ok_iff)
  from credit_Ok [OF Cons.prems(1) s1] obtain v where v: "worth s x = Ok v"
    "total s1 = (total s)(k := total s k + v)" by auto
  have s1_ok: "usable s1" "worth s1 = worth s" using credit_usable [OF Cons.prems(1) s1] by auto
  with Cons.IH [OF s1_ok(1) rest] have ih: "usable s'" "worth s' = worth s"
    "\<forall>(k, x) \<in> set kxs. is_ok (worth s x)" "total s' = (\<lambda>k. total s1 k + credited s1 kxs k)" by auto
  have "credited s1 kxs = credited s kxs"
    using s1_ok(2) by (simp add: credited_def worth_value_def fun_eq_iff comp_def)
  then have "total s' = (\<lambda>k'. total s k' + credited s (kx # kxs) k')"
    using ih(4) v by (auto simp: fun_eq_iff kx credited_def worth_value_def)
  with ih v kx show ?case by auto
qed

lemma credited_perm: "mset kxs = mset kys \<Longrightarrow> credited s kxs = credited s kys"
proof
  fix k
  assume "mset kxs = mset kys"
  then have "mset (map (worth_value s \<circ> snd) (filter (\<lambda>(k', x). k' = k) kxs)) =
    mset (map (worth_value s \<circ> snd) (filter (\<lambda>(k', x). k' = k) kys))"
    by (simp add: mset_map mset_filter)
  then show "credited s kxs k = credited s kys k"
    unfolding credited_def by (metis sum_mset_sum_list)
qed

lemma credit_order_irrelevant:
  assumes "usable s" and "mset kxs = mset kys"
    and "for_each kxs (\<lambda>(k, x). credit k x) s = (Ok (), s1)" and "for_each kys (\<lambda>(k, x). credit k x) s = (Ok (), s2)"
  shows "total s1 = total s2"
  using credit_all [OF assms(1,3)] credit_all [OF assms(1,4)] credited_perm [OF assms(2), of s] by auto

end

interpretation ledger: credit_store "\<lambda>(p, c, a) x. AddAmount p c a usage x" bal decimal_param keys_distinct
  for usage :: string
proof unfold_locales
  fix s s' :: "'z db_scheme" and k x
  assume ok: "keys_distinct s" and run: "(case k of (p, c, a) \<Rightarrow> \<lambda>x. AddAmount p c a usage x) x s = (Ok (), s')"
  obtain p c a where k: "k = (p, c, a)" by (cases k)
  from AddAmount_outcome [OF ok, of p c a usage x "Ok ()" s'] run
  show "\<exists>v. decimal_param s x = Ok v \<and> bal s' = (bal s)(k := bal s k + v)" by (auto simp: k adds_def)
next
  fix s s' :: "'z db_scheme" and k x r
  assume ok: "keys_distinct s" and run: "(case k of (p, c, a) \<Rightarrow> \<lambda>x. AddAmount p c a usage x) x s = (r, s')"
  obtain p c a where k: "k = (p, c, a)" by (cases k)
  from AddAmount_outcome [OF ok, of p c a usage x r s'] run beside_ledger_env [of s s']
  show "keys_distinct s' \<and> decimal_param s' = decimal_param s" by (auto simp: k decimal_param_def fun_eq_iff)
qed

end
