(* ===== verification/Shares.thy ===== *)
theory Shares
  imports Database
begin

text \<open>
  \<open>persistence/share.go\<close>: the shares table, the pages the payout schemes read, the sums the
  statistics use, and the grouping of the accumulated work by miner.
\<close>

section \<open>Arithmetic of the server\<close>

text \<open>\<open>double precision\<close> in SQL: division by zero, overflow and underflow are errors.\<close>

definition is_zero :: "fl \<Rightarrow> bool" where
  "is_zero x = (case x of Fin s m \<Rightarrow> m = 0 | _ \<Rightarrow> False)"

definition is_inf :: "fl \<Rightarrow> bool" where
  "is_inf x = (case x of Inf s \<Rightarrow> True | _ \<Rightarrow> False)"

definition pg_add :: "fl \<Rightarrow> fl \<Rightarrow> fl res" where
  "pg_add x y = (let r = add64 x y in
     if is_inf r \<and> \<not> is_inf x \<and> \<not> is_inf y then Err ''pq: value out of range: overflow'' else Ok r)"

definition pg_mul :: "fl \<Rightarrow> fl \<Rightarrow> fl res" where
  "pg_mul x y = (let r = mul64 x y in
     if is_inf r \<and> \<not> is_inf x \<and> \<not> is_inf y then Err ''pq: value out of range: overflow''
     else if is_zero r \<and> \<not> is_zero x \<and> \<not> is_zero y then Err ''pq: value out of range: underflow'' else Ok r)"

definition pg_div :: "fl \<Rightarrow> fl \<Rightarrow> fl res" where
  "pg_div x y = (let r = div64 x y in
     if is_zero y \<and> x \<noteq> NaN then Err ''pq: division by zero''
     else if is_inf r \<and> \<not> is_inf x then Err ''pq: value out of range: overflow''
     else if is_zero r \<and> \<not> is_zero x \<and> \<not> is_inf y then Err ''pq: value out of range: underflow'' else Ok r)"

text \<open>\<open>SUM\<close>: NULL on no rows.\<close>

fun pg_sum_from :: "fl \<Rightarrow> fl list \<Rightarrow> fl res" where
  "pg_sum_from acc [] = Ok acc"
| "pg_sum_from acc (x # xs) = res_bind (pg_add acc x) (\<lambda>a. pg_sum_from a xs)"

definition pg_sum :: "fl list \<Rightarrow> fl option res" where
  "pg_sum xs = (case xs of [] \<Rightarrow> Ok None | y # ys \<Rightarrow> res_bind (pg_sum_from y ys) (\<lambda>s. Ok (Some s)))"

definition scan_float :: "fl option \<Rightarrow> fl res" where
  "scan_float v = (case v of None \<Rightarrow> null_error | Some x \<Rightarrow> Ok x)"

section \<open>Writing\<close>

text \<open>\<open>InsertBatch\<close>: begin, prepare, one statement per share, flush, close, commit; the rows are
  there once the commit is done.\<close>

definition silent :: "('z db_scheme, unit) act" where
  "silent = query (\<lambda>d. Ok ())"

definition Shares_InsertBatch :: "Share list \<Rightarrow> ('z db_scheme, unit) act" where
  "Shares_InsertBatch batch =
     act_bind silent (\<lambda>_. act_bind silent (\<lambda>_.
     act_bind (for_each batch (\<lambda>share. silent)) (\<lambda>_.
     act_bind silent (\<lambda>_. act_bind silent (\<lambda>_.
       sql (\<lambda>d. (Ok (), d\<lparr>shares := shares d @ batch\<rparr>)))))))"

definition DeleteSharesByMiner :: "string \<Rightarrow> string \<Rightarrow> ('z db_scheme, unit) act" where
  "DeleteSharesByMiner poolID minerAddress = sql (\<lambda>d.
     (Ok (), d\<lparr>shares := filter (\<lambda>s. \<not> (shPoolID s = poolID \<and> shMiner s = minerAddress)) (shares d)\<rparr>))"

definition DeleteSharesBefore :: "string \<Rightarrow> int \<Rightarrow> ('z db_scheme, unit) act" where
  "DeleteSharesBefore poolID before = sql (\<lambda>d.
     (Ok (), d\<lparr>shares := filter (\<lambda>s. \<not> (shPoolID s = poolID \<and> shCreated s < before)) (shares d)\<rparr>))"

section \<open>Reading\<close>

definition eligible :: "string \<Rightarrow> int \<Rightarrow> bool \<Rightarrow> Share \<Rightarrow> bool" where
  "eligible poolID before inclusive s \<longleftrightarrow>
     shPoolID s = poolID \<and> (if inclusive then shCreated s \<le> before else shCreated s < before)"

definition GetSharesBefore :: "string \<Rightarrow> int \<Rightarrow> bool \<Rightarrow> nat \<Rightarrow> ('z db_scheme, Share list) act" where
  "GetSharesBefore poolID before inclusive pageSize = query (\<lambda>d.
     Ok (take pageSize (sort_key (\<lambda>s. - shCreated s) (filter (eligible poolID before inclusive) (shares d)))))"

text \<open>\<open>inclusive\<close> is not used.\<close>

definition CountSharesBefore :: "string \<Rightarrow> int \<Rightarrow> bool \<Rightarrow> ('z db_scheme, nat) act" where
  "CountSharesBefore poolID before inclusive = query (\<lambda>d.
     Ok (length (filter (\<lambda>s. shPoolID s = poolID \<and> shCreated s < before) (shares d))))"

definition CountSharesByMiner :: "string \<Rightarrow> string \<Rightarrow> ('z db_scheme, nat) act" where
  "CountSharesByMiner poolID minerAddress = query (\<lambda>d.
     Ok (length (filter (\<lambda>s. shPoolID s = poolID \<and> shMiner s = minerAddress) (shares d))))"

definition strictly_between :: "string \<Rightarrow> int \<Rightarrow> int \<Rightarrow> Share \<Rightarrow> bool" where
  "strictly_between poolID start stop s \<longleftrightarrow> shPoolID s = poolID \<and> start < shCreated s \<and> shCreated s < stop"

definition GetEffortBetweenCreated :: "string \<Rightarrow> fl \<Rightarrow> int \<Rightarrow> int \<Rightarrow> ('z db_scheme, fl) act" where
  "GetEffortBetweenCreated poolID shareConst start stop = query (\<lambda>d.
     res_bind (res_map (\<lambda>s. res_bind (pg_mul (shDifficulty s) shareConst) (\<lambda>x. pg_div x (shNetworkDifficulty s)))
                (filter (strictly_between poolID start stop) (shares d))) (\<lambda>xs.
     res_bind (pg_sum xs) scan_float))"

definition GetAccumulatedShareDifficultyBetween :: "string \<Rightarrow> int \<Rightarrow> int \<Rightarrow> ('z db_scheme, fl) act" where
  "GetAccumulatedShareDifficultyBetween poolID start stop = query (\<lambda>d.
     res_bind (pg_sum (map shDifficulty (filter (strictly_between poolID start stop) (shares d)))) scan_float)"

text \<open>\<open>coalesce(SUM(difficulty / networkdifficulty), 0)\<close>\<close>

definition GetEffectiveAccumulatedShareDifficultyBetween :: "string \<Rightarrow> int \<Rightarrow> int \<Rightarrow> ('z db_scheme, fl) act" where
  "GetEffectiveAccumulatedShareDifficultyBetween poolID start stop = query (\<lambda>d.
     res_bind (res_map (\<lambda>s. pg_div (shDifficulty s) (shNetworkDifficulty s))
                (filter (strictly_between poolID start stop) (shares d))) (\<lambda>xs.
     res_bind (pg_sum xs) (\<lambda>s. Ok (case s of None \<Rightarrow> fzero | Some x \<Rightarrow> x))))"

text \<open>Two queries whose text is not valid SQL: the format verb is left in place (\<open>fmt.Sprint\<close> for
  \<open>fmt.Sprintf\<close>), and the alias \<open>s\<close> names no table.  The server rejects both.\<close>

definition GetAccumulatedUserAgentShareDifficultyBetween ::
  "string \<Rightarrow> int \<Rightarrow> int \<Rightarrow> bool \<Rightarrow> ('z db_scheme, (string \<times> fl) list) act" where
  "GetAccumulatedUserAgentShareDifficultyBetween poolID start stop byVersion =
     query (\<lambda>d. Err ''pq: syntax error'')"

definition GetRecentyUsedIpAddresses :: "string \<Rightarrow> ('z db_scheme, string list) act" where
  "GetRecentyUsedIpAddresses poolID = query (\<lambda>d. Err ''pq: missing FROM-clause entry for table s'')"

section \<open>Accumulated work\<close>

record MinerWorkerHashAccumulation =
  accMiner :: string
  accWorker :: string
  SumDifficulty :: fl
  ShareCount :: nat
  FirstShare :: int
  LastShare :: int

text \<open>One group per miner and worker, in the order of their first share.\<close>

definition worker_group :: "Share list \<Rightarrow> string \<times> string \<Rightarrow> MinerWorkerHashAccumulation res" where
  "worker_group ss k =
     (let g = filter (\<lambda>s. (shMiner s, shWorker s) = k) ss in
      res_bind (pg_sum (map shDifficulty g)) (\<lambda>t. res_bind (scan_float t) (\<lambda>x.
        Ok \<lparr>accMiner = fst k, accWorker = snd k, SumDifficulty = x, ShareCount = length g,
            FirstShare = Min (set (map shCreated g)), LastShare = Max (set (map shCreated g))\<rparr>)))"

definition GetWorkerHashAccumulationBetween ::
  "string \<Rightarrow> int \<Rightarrow> int \<Rightarrow> ('z db_scheme, MinerWorkerHashAccumulation list) act" where
  "GetWorkerHashAccumulationBetween poolID start stop = query (\<lambda>d.
     let ss = filter (\<lambda>s. shPoolID s = poolID \<and> start \<le> shCreated s \<and> shCreated s \<le> stop) (shares d) in
     res_map (worker_group ss) (rev (remdups (rev (map (\<lambda>s. (shMiner s, shWorker s)) ss)))))"

text \<open>\<open>GroupByMiner\<close>: a Go map, as an association list in insertion order.\<close>

fun group_loop :: "(string \<times> MinerWorkerHashAccumulation list) list \<Rightarrow> MinerWorkerHashAccumulation list \<Rightarrow>
    (string \<times> MinerWorkerHashAccumulation list) list" where
  "group_loop miners [] = miners"
| "group_loop miners (summary # rest) =
     (let miner = (case map_of miners (accMiner summary) of None \<Rightarrow> [] | Some m \<Rightarrow> m) in
      group_loop (AList.update (accMiner summary) (miner @ [summary]) miners) rest)"

definition GroupByMiner :: "MinerWorkerHashAccumulation list \<Rightarrow> (string \<times> MinerWorkerHashAccumulation list) list" where
  "GroupByMiner results = group_loop [] results"

lemma group_loop_lookup:
  "distinct (map fst miners) \<Longrightarrow>
   distinct (map fst (group_loop miners rs)) \<and>
   map_of (group_loop miners rs) m =
     (let old = (case map_of miners m of None \<Rightarrow> [] | Some xs \<Rightarrow> xs); new = filter (\<lambda>r. accMiner r = m) rs in
      if map_of miners m = None \<and> new = [] then None else Some (old @ new))"
proof (induction rs arbitrary: miners)
  case Nil
  then show ?case by (auto split: option.splits)
next
  case (Cons r rs)
  define miners' where "miners' = AList.update (accMiner r)
    ((case map_of miners (accMiner r) of None \<Rightarrow> [] | Some m \<Rightarrow> m) @ [r]) miners"
  have "distinct (map fst miners')" using Cons.prems by (simp add: miners'_def distinct_update)
  from Cons.IH [OF this] show ?case
    by (auto simp: miners'_def [symmetric] Let_def)
       (auto simp: miners'_def update_conv' Let_def split: option.splits)
qed

text \<open>\<open>GroupByMiner\<close> partitions its input: every miner that occurs is a key once, with exactly its
  own entries, all of them and in their order, and no other key exists.\<close>

theorem GroupByMiner_partitions:
  "distinct (map fst (GroupByMiner rs)) \<and>
   (\<forall>m. map_of (GroupByMiner rs) m =
     (if m \<in> accMiner ` set rs then Some (filter (\<lambda>r. accMiner r = m) rs) else None))"
  using group_loop_lookup [of "[]" rs] by (auto simp: GroupByMiner_def Let_def filter_empty_conv image_iff)

section \<open>Properties\<close>

lemma keeps_silent [act_rules]:
  "(\<And>d. P d \<Longrightarrow> P (d\<lparr>tick := Suc (tick d)\<rparr>)) \<Longrightarrow> keeps P silent"
  unfolding silent_def by (rule keeps_query)

lemma tick_apart_shares: "tick_apart d e \<Longrightarrow> tick_apart (d\<lparr>shares := f (shares d)\<rparr>) (e\<lparr>shares := f (shares e)\<rparr>)"
proof -
  assume "tick_apart d e"
  then have eq: "e\<lparr>tick := 0\<rparr> = d\<lparr>tick := 0\<rparr>" by (simp add: tick_apart_def)
  from arg_cong [OF eq, of "\<lambda>d. d\<lparr>shares := f (shares d)\<rparr>"] show ?thesis by (simp add: tick_apart_def)
qed

lemma sql_shares:
  "triple (tick_apart d) (sql (\<lambda>d. (Ok (), d\<lparr>shares := f (shares d)\<rparr>)))
     (\<lambda>_. tick_apart (d\<lparr>shares := f (shares d)\<rparr>))
     (\<lambda>e. tick_apart d e \<or> tick_apart (d\<lparr>shares := f (shares d)\<rparr>) e)"
  by (rule tripleI) (auto elim!: sql_cases dest: tick_apart_shares [of _ _ f])

lemma InsertBatch_triple:
  "triple (tick_apart d) (Shares_InsertBatch batch) (\<lambda>_. tick_apart (d\<lparr>shares := shares d @ batch\<rparr>))
     (\<lambda>e. tick_apart d e \<or> tick_apart (d\<lparr>shares := shares d @ batch\<rparr>) e)"
proof -
  let ?P = "tick_apart d" and ?Q = "tick_apart (d\<lparr>shares := shares d @ batch\<rparr>)"
  have step: "triple ?P silent (\<lambda>_. ?P) (\<lambda>e. ?P e \<or> ?Q e)"
    by (rule triple_weaken [OF keeps_silent [of ?P]]) auto
  have loop: "triple ?P (for_each batch (\<lambda>share. silent)) (\<lambda>_. ?P) (\<lambda>e. ?P e \<or> ?Q e)"
    by (rule triple_weaken [OF keeps_for_each [of batch ?P, OF keeps_silent [of ?P]]]) auto
  show ?thesis
    unfolding Shares_InsertBatch_def
    by (rule triple_bind, rule step)+ (rule triple_bind, rule loop, rule triple_bind, rule step,
      rule triple_bind, rule step, rule sql_shares [where f = "\<lambda>s. s @ batch"])
qed



text \<open>C22. The accumulated work accounts for every share of the window exactly once: when the query
  succeeds, there is one entry per miner and worker, and the counts of the entries add up to the
  number of shares of the pool created in the window, ends included.\<close>

theorem accumulation_counts_all:
  assumes "GetWorkerHashAccumulationBetween poolID start stop d = (Ok ws, d')"
  shows "distinct (map (\<lambda>w. (accMiner w, accWorker w)) ws) \<and>
    sum_list (map ShareCount ws) =
      length (filter (\<lambda>s. shPoolID s = poolID \<and> start \<le> shCreated s \<and> shCreated s \<le> stop) (shares d))"
proof -
  let ?ss = "filter (\<lambda>s. shPoolID s = poolID \<and> start \<le> shCreated s \<and> shCreated s \<le> stop) (shares d)"
  let ?key = "\<lambda>s. (shMiner s, shWorker s)"
  let ?ks = "rev (remdups (rev (map ?key ?ss)))"
  from assms have run: "res_map (worker_group ?ss) ?ks = Ok ws"
    by (simp add: GetWorkerHashAccumulationBetween_def query_Ok Let_def)
  have entry: "(accMiner w, accWorker w) = k \<and> ShareCount w = length (filter (\<lambda>s. ?key s = k) ?ss)"
    if "worker_group ?ss k = Ok w" for k w
    using that by (auto simp: worker_group_def Let_def outcome_simps)
  have walk: "map (\<lambda>w. (accMiner w, accWorker w)) vs = ks \<and>
      map ShareCount vs = map (\<lambda>k. length (filter (\<lambda>s. ?key s = k) ?ss)) ks"
    if "res_map (worker_group ?ss) ks = Ok vs" for ks vs
    using that by (induction ks arbitrary: vs) (auto simp: outcome_simps dest!: entry)
  have count: "length xs = sum_list (map (\<lambda>k. length (filter (\<lambda>x. f x = k) xs)) ks)"
    if "distinct ks" "f ` set xs \<subseteq> set ks" for f :: "Share \<Rightarrow> string \<times> string" and xs ks
    using that
  proof (induction xs)
    case Nil
    then show ?case by (simp add: map_replicate_const sum_list_replicate)
  next
    case (Cons x xs)
    have "sum_list (map (\<lambda>k. length (filter (\<lambda>y. f y = k) (x # xs))) ks) =
      sum_list (map (\<lambda>k. (if f x = k then 1 else 0) + length (filter (\<lambda>y. f y = k) xs)) ks)"
      by (intro arg_cong [where f = sum_list] map_cong) auto
    also have "\<dots> = sum_list (map (\<lambda>k. if f x = k then 1 else 0) ks) + length xs"
      using Cons by (simp add: sum_list_addf)
    also have "sum_list (map (\<lambda>k. if f x = k then 1 else 0) ks) = (1 :: nat)"
      using Cons.prems by (simp add: sum_list_distinct_conv_sum_set sum.delta')
    finally show ?case by simp
  qed
  from walk [OF run] count [of ?ks ?key ?ss] show ?thesis by auto
qed

lemma accumulation_counts_all_witness:
  "let s = \<lparr>shPoolID = ''p'', shBlockHeight = 7, shMiner = ''D1'', shWorker = ''rig'', shUserAgent = [],
        shDifficulty = Fin False 1, shNetworkDifficulty = Fin False 2, shIpAddress = ''::1'', shCreated = 5\<rparr>;
       d = sample_db\<lparr>shares := [s]\<rparr>;
       ws = [\<lparr>accMiner = ''D1'', accWorker = ''rig'', SumDifficulty = Fin False 1, ShareCount = 1, FirstShare = 5, LastShare = 5\<rparr>] in
   distinct (map (\<lambda>w. (accMiner w, accWorker w)) ws) \<and>
    sum_list (map ShareCount ws) =
      length (filter (\<lambda>s. shPoolID s = ''p'' \<and> 0 \<le> shCreated s \<and> shCreated s \<le> 9) (shares d))"
  unfolding Let_def
  by (rule accumulation_counts_all)
     (simp add: GetWorkerHashAccumulationBetween_def query_def sql_def worker_group_def pg_sum_def scan_float_def
       sample_db_def Let_def)

end
