(* ===== verification/FoundBlocks.thy ===== *)
theory FoundBlocks
  imports Shares
begin

text \<open>
  \<open>persistence/found.go\<close> and \<open>persistence/payment.go\<close>: the blocks the pool has found, with their
  states, and the payments it has made.
\<close>

section \<open>Found blocks\<close>

definition StatusPending :: string where "StatusPending = ''pending''"
definition StatusOrphaned :: string where "StatusOrphaned = ''orphaned''"
definition StatusConfirmed :: string where "StatusConfirmed = ''confirmed''"

fun GetConfirmed :: "Found list \<Rightarrow> Found list" where
  "GetConfirmed [] = []"
| "GetConfirmed (block # rest) =
     (if Status block = StatusConfirmed then block # GetConfirmed rest else GetConfirmed rest)"

definition roundToThreeDigits :: "fl \<Rightarrow> fl" where
  "roundToThreeDigits x = div64 (math_Round (mul64 x (Fin False 1000))) (Fin False 1000)"

text \<open>The unique constraint on pool, chain and height, checked when the statement commits.\<close>

definition height_key :: "block_row \<Rightarrow> string \<times> string \<times> nat" where
  "height_key row = (fPoolID (row_block row), fChain (row_block row), BlockHeight (row_block row))"

definition heights_unique :: "block_row list \<Rightarrow> bool" where
  "heights_unique rows = distinct (map height_key rows)"

definition unique_error :: "'a res" where
  "unique_error = Err ''pq: duplicate key value violates unique constraint''"

definition block_of_row :: "'z db_scheme \<Rightarrow> block_row \<Rightarrow> Found" where
  "block_of_row d row = (row_block row)\<lparr>Reward := of_decimal d (row_reward row)\<rparr>"

definition write_blocks :: "'z db_scheme \<Rightarrow> block_row list \<Rightarrow> unit res \<times> 'z db_scheme" where
  "write_blocks d rows = (if heights_unique rows then (Ok (), d\<lparr>blocks := rows\<rparr>) else (unique_error, d))"

definition Blocks_Insert :: "Found \<Rightarrow> ('z db_scheme, unit) act" where
  "Blocks_Insert block = sql (\<lambda>d.
     case decimal_param d (Reward block) of
       Ok v \<Rightarrow> write_blocks (d\<lparr>block_seq := Suc (block_seq d)\<rparr>) (blocks d @
          [\<lparr>row_block = block\<lparr>ID := block_seq d, fNetworkDifficulty := roundToThreeDigits (fNetworkDifficulty block)\<rparr>,
            row_reward = v\<rparr>])
     | Err e \<Rightarrow> (Err e, d) | Panic p \<Rightarrow> (Panic p, d))"

definition updated_row :: "Found \<Rightarrow> int \<Rightarrow> block_row \<Rightarrow> block_row" where
  "updated_row block v row =
     \<lparr>row_block = (row_block row)\<lparr>BlockHeight := BlockHeight block, Status := Status block, Type := Type block,
        Effort := Effort block, ConfirmationProgress := ConfirmationProgress block, Hash := Hash block\<rparr>,
      row_reward = v\<rparr>"

definition Blocks_Update :: "Found \<Rightarrow> ('z db_scheme, unit) act" where
  "Blocks_Update block = act_bind (sql (\<lambda>d.
     case decimal_param d (Reward block) of
       Ok v \<Rightarrow>
         (let hit = (\<lambda>row. ID (row_block row) = ID block);
              rows = map (\<lambda>row. if hit row then updated_row block v row else row) (blocks d) in
          case write_blocks d rows of
            (Ok u, d') \<Rightarrow> (Ok (length (filter hit (blocks d))), d')
          | (Err e, d') \<Rightarrow> (Err e, d') | (Panic p, d') \<Rightarrow> (Panic p, d'))
     | Err e \<Rightarrow> (Err e, d) | Panic p \<Rightarrow> (Panic p, d)))
     (\<lambda>count. if count < 1 then lift_res (Err (''No update of block: '' @ dec_text (BlockHeight block))) else ret ())"

definition Blocks_Delete :: "Found \<Rightarrow> ('z db_scheme, unit) act" where
  "Blocks_Delete block = sql (\<lambda>d. (Ok (), d\<lparr>blocks := filter (\<lambda>row. ID (row_block row) \<noteq> ID block) (blocks d)\<rparr>))"

text \<open>\<open>status = ANY('{a,b}')\<close>: the array literal of plain words.\<close>

definition status_any :: "string list \<Rightarrow> string \<Rightarrow> bool" where
  "status_any blockStatus s =
     (let statusString = Join '','' blockStatus in
      if statusString = [] then False else s \<in> set (Split (CHR '','') statusString))"

definition newest_first :: "block_row list \<Rightarrow> block_row list" where
  "newest_first rows = sort_key (\<lambda>row. - Created (row_block row)) rows"

definition PageBlocks :: "string \<Rightarrow> string \<Rightarrow> string list \<Rightarrow> nat \<Rightarrow> nat \<Rightarrow> ('z db_scheme, Found list) act" where
  "PageBlocks poolID chain blockStatus page pageSize = query (\<lambda>d.
     Ok (map (block_of_row d) (take pageSize (drop page (newest_first
       (filter (\<lambda>row. fPoolID (row_block row) = poolID \<and> fChain (row_block row) = chain \<and>
          status_any blockStatus (Status (row_block row))) (blocks d)))))))"

text \<open>A number is passed for the array of states: the server rejects it.\<close>

definition PageBlocksAcrossAllPools :: "nat \<Rightarrow> nat \<Rightarrow> nat \<Rightarrow> ('z db_scheme, Found list) act" where
  "PageBlocksAcrossAllPools blockStatus page pageSize = query (\<lambda>d. Err ''pq: malformed array literal'')"

definition PendingBlocksForPool :: "string \<Rightarrow> ('z db_scheme, Found list) act" where
  "PendingBlocksForPool poolID = query (\<lambda>d.
     Ok (map (block_of_row d) (filter (\<lambda>row. fPoolID (row_block row) = poolID \<and> Status (row_block row) = StatusPending) (blocks d))))"

text \<open>The newest block strictly before a time; \<open>id\<close> and \<open>chain\<close> are not selected.\<close>

definition BlockBefore :: "string \<Rightarrow> string list \<Rightarrow> int \<Rightarrow> ('z db_scheme, Found option) act" where
  "BlockBefore poolID blockStatus before = query (\<lambda>d.
     Ok (case newest_first (filter (\<lambda>row. fPoolID (row_block row) = poolID \<and>
            status_any blockStatus (Status (row_block row)) \<and> Created (row_block row) < before) (blocks d)) of
         [] \<Rightarrow> None | row # rows \<Rightarrow> Some ((block_of_row d row)\<lparr>ID := 0, fChain := []\<rparr>)))"

text \<open>One argument is bound where the statement has two.\<close>

definition BlockByHeight :: "string \<Rightarrow> nat \<Rightarrow> ('z db_scheme, Found option) act" where
  "BlockByHeight poolID height = query (\<lambda>d. Err ''pq: got 1 parameters but the statement requires 2'')"

definition PoolBlockCount :: "string \<Rightarrow> ('z db_scheme, nat) act" where
  "PoolBlockCount poolID = query (\<lambda>d. Ok (length (filter (\<lambda>row. fPoolID (row_block row) = poolID) (blocks d))))"

definition hour :: int where "hour = 3600000000"

definition PoolBlocksPerHour :: "string \<Rightarrow> ('z db_scheme, nat) act" where
  "PoolBlocksPerHour poolID = query (\<lambda>d. Ok (length (filter (\<lambda>row.
     fPoolID (row_block row) = poolID \<and> clock d (tick d) - hour \<le> Created (row_block row)) (blocks d))))"

definition PoolLastBlockTime :: "string \<Rightarrow> ('z db_scheme, int) act" where
  "PoolLastBlockTime poolID = query (\<lambda>d.
     case newest_first (filter (\<lambda>row. fPoolID (row_block row) = poolID) (blocks d)) of
       [] \<Rightarrow> Err ''sql: no rows in result set'' | row # rows \<Rightarrow> Ok (Created (row_block row)))"

section \<open>Payments\<close>

definition Payments_Insert :: "Payment \<Rightarrow> ('z db_scheme, unit) act" where
  "Payments_Insert payment = sql (\<lambda>d.
     case decimal_param d (pAmount payment) of
       Ok v \<Rightarrow> (Ok (), d\<lparr>payments := payments d @ [\<lparr>row_payment = payment, row_amount = v\<rparr>]\<rparr>)
     | Err e \<Rightarrow> (Err e, d) | Panic p \<Rightarrow> (Panic p, d))"

text \<open>\<open>pq.CopyIn("poolid", ...)\<close> names a table \<open>poolid\<close>, which does not exist: preparing fails.\<close>

definition Payments_InsertBatch :: "Payment list \<Rightarrow> ('z db_scheme, unit) act" where
  "Payments_InsertBatch batch = act_bind silent (\<lambda>_. query (\<lambda>d. Err ''pq: relation poolid does not exist''))"

definition payment_of_row :: "'z db_scheme \<Rightarrow> payment_row \<Rightarrow> Payment" where
  "payment_of_row d row = (row_payment row)\<lparr>pAmount := of_decimal d (row_amount row)\<rparr>"

definition payment_match :: "string \<Rightarrow> string \<Rightarrow> payment_row \<Rightarrow> bool" where
  "payment_match poolID miner row \<longleftrightarrow> pPoolID (row_payment row) = poolID \<and>
     (miner \<noteq> [] \<longrightarrow> pAddress (row_payment row) = miner)"

definition PagePayments :: "string \<Rightarrow> string \<Rightarrow> nat \<Rightarrow> nat \<Rightarrow> ('z db_scheme, Payment list) act" where
  "PagePayments poolID miner page pageSize = query (\<lambda>d.
     Ok (map (payment_of_row d) (take pageSize (drop page
       (sort_key (\<lambda>row. - pCreated (row_payment row)) (filter (payment_match poolID miner) (payments d)))))))"

definition PaymentsCount :: "string \<Rightarrow> string \<Rightarrow> ('z db_scheme, nat) act" where
  "PaymentsCount poolID miner = query (\<lambda>d. Ok (length (filter (payment_match poolID miner) (payments d))))"

text \<open>The last payments by chain: the newest of the pool and chain, if they went to this miner.  A failed
  query has nil rows, which are tested before the error: the answer is an empty map.\<close>

definition MinerLastPayments :: "string \<Rightarrow> string \<Rightarrow> ('z db_scheme, (string \<times> Payment) list) act" where
  "MinerLastPayments poolID miner =
     act_bind (attempt (query (\<lambda>d.
       let newest = (\<lambda>row. \<forall>b \<in> set (payments d). pPoolID (row_payment b) = pPoolID (row_payment row) \<and>
             pChain (row_payment b) = pChain (row_payment row) \<longrightarrow> pCreated (row_payment b) \<le> pCreated (row_payment row)) in
       Ok (foldl (\<lambda>m row. AList.update (pChain (row_payment row)) (payment_of_row d row) m) []
         (filter (\<lambda>row. pPoolID (row_payment row) = poolID \<and> pAddress (row_payment row) = miner \<and> newest row) (payments d))))))
     (\<lambda>r. ret (case r of Ok m \<Rightarrow> m | _ \<Rightarrow> []))"

text \<open>Two columns are selected and six scanned.\<close>

definition PageMinerPaymentsByDay :: "string \<Rightarrow> string \<Rightarrow> nat \<Rightarrow> nat \<Rightarrow> ('z db_scheme, Payment list) act" where
  "PageMinerPaymentsByDay poolID miner page pageSize = query (\<lambda>d.
     let days = (\<lambda>row. pCreated (row_payment row) div (24 * hour)) in
     case take pageSize (drop page (remdups (map days (filter (payment_match poolID miner) (payments d))))) of
       [] \<Rightarrow> Ok []
     | day # rest \<Rightarrow> Err ''sql: expected 2 destination arguments in Scan, not 6'')"

definition MinerPaymentsByDayCount :: "string \<Rightarrow> string \<Rightarrow> ('z db_scheme, (string \<times> nat) list) act" where
  "MinerPaymentsByDayCount poolID miner = query (\<lambda>d. Err ''pq: syntax error at or near FROM'')"

section \<open>Properties\<close>

definition blocks_wf :: "'z db_scheme \<Rightarrow> bool" where
  "blocks_wf d \<longleftrightarrow> heights_unique (blocks d) \<and> distinct (map (ID \<circ> row_block) (blocks d)) \<and>
     (\<forall>row \<in> set (blocks d). ID (row_block row) < block_seq d)"

lemma blocks_wf_tick [simp]: "blocks_wf (d\<lparr>tick := n\<rparr>) = blocks_wf d"
  by (simp add: blocks_wf_def)

lemma keeps_Blocks_Insert: "keeps blocks_wf (Blocks_Insert block)"
proof -
  have "keeps blocks_wf (\<lambda>d. case decimal_param d (Reward block) of
       Ok v \<Rightarrow> write_blocks (d\<lparr>block_seq := Suc (block_seq d)\<rparr>) (blocks d @
          [\<lparr>row_block = block\<lparr>ID := block_seq d, fNetworkDifficulty := roundToThreeDigits (fNetworkDifficulty block)\<rparr>,
            row_reward = v\<rparr>])
     | Err e \<Rightarrow> (Err e, d) | Panic p \<Rightarrow> (Panic p, d))"
    by (rule tripleI)
      (auto simp: blocks_wf_def write_blocks_def unique_error_def less_Suc_eq split: res.splits if_splits, fastforce)
  then show ?thesis unfolding Blocks_Insert_def by (intro keeps_sql) auto
qed

lemma updated_row_ID [simp]: "ID (row_block (updated_row block v row)) = ID (row_block row)"
  by (simp add: updated_row_def)

lemma keeps_Blocks_Update: "keeps blocks_wf (Blocks_Update block)"
proof -
  have ids: "map (ID \<circ> row_block) (map (\<lambda>row. if P row then updated_row block v row else row) rows) =
      map (ID \<circ> row_block) rows" for P v rows by simp
  have wf: "blocks_wf (d\<lparr>blocks := map (\<lambda>row. if P row then updated_row block v row else row) (blocks d)\<rparr>)"
    if "blocks_wf d" "heights_unique (map (\<lambda>row. if P row then updated_row block v row else row) (blocks d))"
    for d :: "'z db_scheme" and P v
    using that by (auto simp: blocks_wf_def ids simp del: map_map)
  have "keeps blocks_wf (\<lambda>d :: 'z db_scheme. case decimal_param d (Reward block) of
       Ok v \<Rightarrow>
         (let hit = (\<lambda>row. ID (row_block row) = ID block);
              rows = map (\<lambda>row. if hit row then updated_row block v row else row) (blocks d) in
          case write_blocks d rows of
            (Ok u, d') \<Rightarrow> (Ok (length (filter hit (blocks d))), d')
          | (Err e, d') \<Rightarrow> (Err e, d') | (Panic p, d') \<Rightarrow> (Panic p, d'))
     | Err e \<Rightarrow> (Err e, d) | Panic p \<Rightarrow> (Panic p, d))"
    by (rule tripleI) (auto simp: write_blocks_def unique_error_def Let_def intro: wf split: res.splits if_splits)
  then show ?thesis unfolding Blocks_Update_def
    by (intro keeps_bind keeps_sql) (auto intro!: act_rules)
qed

lemma keeps_Blocks_Delete: "keeps blocks_wf (Blocks_Delete block)"
  unfolding Blocks_Delete_def
  by (intro keeps_sql tripleI) (auto simp: blocks_wf_def heights_unique_def distinct_map_filter)

lemma GetConfirmed_filter: "GetConfirmed bs = filter (\<lambda>b. Status b = StatusConfirmed) bs"
  by (induction bs) auto


text \<open>A successful update writes exactly the block with that id: height, state, type, effort,
  progress, hash and reward become the new ones, its other columns and all other rows stay; and an
  update that names no row reports an error.\<close>

theorem Blocks_Update_exact:
  assumes "blocks_wf d" and "Blocks_Update block d = (r, d')" and "faults d (tick d) = None"
    and "decimal_param d (Reward block) = Ok v"
    and "heights_unique (map (\<lambda>row. if ID (row_block row) = ID block then updated_row block v row else row) (blocks d))"
  shows "blocks d' = map (\<lambda>row. if ID (row_block row) = ID block
      then \<lparr>row_block = (row_block row)\<lparr>BlockHeight := BlockHeight block, Status := Status block, Type := Type block,
              Effort := Effort block, ConfirmationProgress := ConfirmationProgress block, Hash := Hash block\<rparr>, row_reward = v\<rparr>
      else row) (blocks d) \<and>
    (r = Ok () \<longleftrightarrow> ID block \<in> ID ` row_block ` set (blocks d))"
proof -
  have "decimal_param (d\<lparr>tick := n\<rparr>) x = decimal_param d x" for n x by (simp add: decimal_param_def)
  then show ?thesis
    using assms(2-5) unfolding Blocks_Update_def
    by (auto simp: sql_no_fault act_bind_def write_blocks_def Let_def updated_row_def [abs_def] filter_empty_conv image_image
        lift_res_def ret_def Suc_le_eq less_Suc_eq split: if_splits intro: rev_image_eqI)
qed

definition sample_found :: Found where
  "sample_found = \<lparr>ID = 1, fPoolID = ''p'', fChain = ''dogecoin'', BlockHeight = 9, fNetworkDifficulty = Fin False 2,
     Status = StatusPending, Type = [], ConfirmationProgress = fzero, Effort = fzero, TransactionConfirmationData = [],
     Miner = ''D1'', Reward = Fin False 3, Source = [], Hash = ''ab'', Created = 7\<rparr>"

definition db_with_block :: db where
  "db_with_block = sample_db\<lparr>blocks := [\<lparr>row_block = sample_found, row_reward = 300000000\<rparr>], block_seq := 2\<rparr>"

lemma Blocks_Update_exact_witness:
  "let block = sample_found\<lparr>Status := StatusConfirmed\<rparr>; v = 300000000;
       d' = db_with_block\<lparr>blocks := [\<lparr>row_block = block, row_reward = v\<rparr>], tick := 1\<rparr> in
   blocks d' = map (\<lambda>row. if ID (row_block row) = ID block
      then \<lparr>row_block = (row_block row)\<lparr>BlockHeight := BlockHeight block, Status := Status block, Type := Type block,
              Effort := Effort block, ConfirmationProgress := ConfirmationProgress block, Hash := Hash block\<rparr>, row_reward = v\<rparr>
      else row) (blocks db_with_block) \<and>
    (Ok () = Ok () \<longleftrightarrow> ID block \<in> ID ` row_block ` set (blocks db_with_block))"
  unfolding Let_def
  by (rule Blocks_Update_exact)
     (simp_all add: blocks_wf_def heights_unique_def db_with_block_def sample_db_def sample_found_def Blocks_Update_def
       sql_def act_bind_def write_blocks_def decimal_param_def sample_decimal_def decimal_overflow_def updated_row_def
       height_key_def ret_def Let_def)

text \<open>A block inserted as pending is the last of the pool's pending blocks, as it was stored: a
  fresh id, the network difficulty rounded to three digits, the reward as a decimal.\<close>

theorem insert_then_pending:
  assumes "Blocks_Insert block d = (Ok (), d')" and "Status block = StatusPending"
    and "PendingBlocksForPool (fPoolID block) d' = (Ok bs, d'')"
  shows "\<exists>v. decimal_param d (Reward block) = Ok v \<and> bs \<noteq> [] \<and>
    last bs = block\<lparr>ID := block_seq d, fNetworkDifficulty := roundToThreeDigits (fNetworkDifficulty block),
      Reward := of_decimal d v\<rparr>"
proof -
  have "decimal_param (d\<lparr>tick := n\<rparr>) x = decimal_param d x" for n x by (simp add: decimal_param_def)
  with assms show ?thesis
    by (auto simp: Blocks_Insert_def sql_Ok PendingBlocksForPool_def query_Ok write_blocks_def unique_error_def block_of_row_def
        split: res.splits if_splits)
qed

definition db_after_insert :: db where
  "db_after_insert = sample_db\<lparr>blocks := [\<lparr>row_block = sample_found\<lparr>ID := 1,
     fNetworkDifficulty := roundToThreeDigits (Fin False 2)\<rparr>, row_reward = 300000000\<rparr>], block_seq := 2, tick := 1\<rparr>"

lemma insert_then_pending_witness:
  "let bs = [sample_found\<lparr>ID := 1, fNetworkDifficulty := roundToThreeDigits (Fin False 2), Reward := Fin False 3\<rparr>] in
   \<exists>v. decimal_param sample_db (Reward sample_found) = Ok v \<and> bs \<noteq> [] \<and>
    last bs = sample_found\<lparr>ID := block_seq sample_db,
      fNetworkDifficulty := roundToThreeDigits (fNetworkDifficulty sample_found), Reward := of_decimal sample_db v\<rparr>"
  unfolding Let_def
  by (rule insert_then_pending [of _ _ db_after_insert _ "db_after_insert\<lparr>tick := 2\<rparr>"])
     (simp_all add: Blocks_Insert_def PendingBlocksForPool_def query_Ok sql_Ok write_blocks_def heights_unique_def
       db_after_insert_def sample_db_def sample_found_def decimal_param_def sample_decimal_def decimal_overflow_def
       block_of_row_def Let_def)

end
