(* ===== verification/Rewards.thy ===== *)
theory Rewards
  imports Settings Balances FoundBlocks
begin

text \<open>
  \<open>payouts/rewards.go\<close>, \<open>factory.go\<close> and the three payout schemes \<open>solo.go\<close>, \<open>prop.go\<close> and
  \<open>pplns.go\<close>: how the reward of a confirmed block is split between the pool's recipients and the
  miners.  The order in which Go ranges over a map is the parameter \<open>ord\<close>, a function of the tick
  and the keys; the page size, 100000 in the code, is a parameter of the schemes.
\<close>

section \<open>Maps of amounts\<close>

text \<open>\<open>m[k] += x\<close> on a \<open>map[string]float64\<close>, and \<open>range m\<close> in a given order of the keys.\<close>

definition amount_add :: "(string \<times> fl) list \<Rightarrow> string \<Rightarrow> fl \<Rightarrow> (string \<times> fl) list" where
  "amount_add m k x = AList.update k (add64 (case map_of m k of None \<Rightarrow> fzero | Some y \<Rightarrow> y) x) m"

definition in_order :: "(string list \<Rightarrow> string list) \<Rightarrow> (string \<times> 'a) list \<Rightarrow> (string \<times> 'a) list" where
  "in_order p m = List.map_filter (\<lambda>k. map_option (Pair k) (map_of m k)) (p (map fst m))"

section \<open>Paging through the shares\<close>

text \<open>One page: a loop over its shares that may return an error.\<close>

fun scan_page :: "(Share \<Rightarrow> 'a \<Rightarrow> 'a res) \<Rightarrow> 'a \<Rightarrow> Share list \<Rightarrow> 'a res" where
  "scan_page step acc [] = Ok acc"
| "scan_page step acc (share # page) = res_bind (step share acc) (\<lambda>a. scan_page step a page)"

text \<open>The loop \<open>for !done\<close> of \<open>PROP\<close> and \<open>PPLNS\<close>: \<open>before\<close> becomes the time of the last share of a
  full page.  \<open>finished\<close> is the flag the page may have set.\<close>

function page_loop :: "nat \<Rightarrow> (Share \<Rightarrow> 'a \<Rightarrow> 'a res) \<Rightarrow> ('a \<Rightarrow> bool) \<Rightarrow> string \<Rightarrow> int \<Rightarrow> bool \<Rightarrow> 'a \<Rightarrow>
    ('z db_scheme, 'a) act" where
  "page_loop pageSize step finished poolID before inclusive acc d =
     (case GetSharesBefore poolID before inclusive pageSize d of
        (Err e, d') \<Rightarrow> (Err e, d')
      | (Panic e, d') \<Rightarrow> (Panic e, d')
      | (Ok page, d') \<Rightarrow>
        (case scan_page step acc page of
           Err e \<Rightarrow> (Err e, d')
         | Panic e \<Rightarrow> (Panic e, d')
         | Ok acc' \<Rightarrow>
           if length page < pageSize then (Ok acc', d')
           else if page = [] then (Panic ''index out of range'', d')
           else if finished acc' then (Ok acc', d')
           else page_loop pageSize step finished poolID (shCreated (last page)) False acc' d'))"
  by pat_completeness auto

lemma GetSharesBefore_Ok:
  "GetSharesBefore poolID before inclusive n d = (Ok page, d') \<longleftrightarrow>
     faults d (tick d) = None \<and> d' = d\<lparr>tick := Suc (tick d)\<rparr> \<and>
     page = take n (sort_key (\<lambda>s. - shCreated s) (filter (eligible poolID before inclusive) (shares d)))"
  by (auto simp: GetSharesBefore_def query_Ok)

lemma GetSharesBefore_last:
  assumes "GetSharesBefore poolID before inclusive n d = (Ok page, d')" and "page \<noteq> []"
  shows "last page \<in> set (shares d)" and "eligible poolID before inclusive (last page)"
    and "set page \<subseteq> set (shares d)"
proof -
  have sub: "set page \<subseteq> set (filter (eligible poolID before inclusive) (shares d))"
    using assms(1) set_take_subset [of n "sort_key (\<lambda>s. - shCreated s) (filter (eligible poolID before inclusive) (shares d))"]
    by (auto simp: GetSharesBefore_Ok)
  with assms(2) show "last page \<in> set (shares d)" "eligible poolID before inclusive (last page)" "set page \<subseteq> set (shares d)"
    by (auto dest: last_in_set)
qed

text \<open>The shares still ahead: fewer after every full page, as the last one of the page is not eligible
  any more.\<close>

lemma ahead_shrinks:
  assumes "GetSharesBefore poolID before inclusive n d = (Ok page, d')" and "page \<noteq> []"
  shows "length (filter (eligible poolID (shCreated (last page)) False) (shares d')) <
    length (filter (eligible poolID before inclusive) (shares d))"
proof -
  let ?s = "last page"
  have s: "?s \<in> set (shares d)" "eligible poolID before inclusive ?s" and d': "shares d' = shares d"
    using GetSharesBefore_last [OF assms] assms(1) by (auto simp: GetSharesBefore_Ok)
  have "filter (eligible poolID (shCreated ?s) False) (shares d) =
      filter (\<lambda>x. shCreated x < shCreated ?s) (filter (eligible poolID before inclusive) (shares d))"
    using s(2) by (auto simp: eligible_def filter_filter intro!: filter_cong split: if_splits)
  moreover have "length (filter (\<lambda>x. shCreated x < shCreated ?s) (filter (eligible poolID before inclusive) (shares d))) <
      length (filter (eligible poolID before inclusive) (shares d))"
    using s by (intro length_filter_less [of ?s]) auto
  ultimately show ?thesis by (simp add: d')
qed

termination page_loop
  by (relation "measure (\<lambda>(n, step, fin, poolID, before, inclusive, acc, d).
        length (filter (eligible poolID before inclusive) (shares d)))")
     (auto dest: sym intro: ahead_shrinks)

declare page_loop.simps [simp del]

section \<open>The schemes\<close>

definition usage_text :: "string \<Rightarrow> Found \<Rightarrow> string" where
  "usage_text scheme confirmed = scheme @ '' REWARD FOR BLOCK '' @ dec_text (BlockHeight confirmed)"

text \<open>The loop that credits the awards.\<close>

definition award_all :: "string \<Rightarrow> Found \<Rightarrow> string \<Rightarrow> (string \<times> fl) list \<Rightarrow> ('z db_scheme, unit) act" where
  "award_all poolID confirmed usage awards =
     for_each awards (\<lambda>(miner, reward). AddAmount poolID (fChain confirmed) miner usage reward)"

definition SOLO_UpdateMinerBalances :: "string \<Rightarrow> fl \<Rightarrow> Found \<Rightarrow> ('z db_scheme, int) act" where
  "SOLO_UpdateMinerBalances poolID remainingReward confirmed =
     act_bind (AddAmount poolID (fChain confirmed) (Miner confirmed) (usage_text ''SOLO'' confirmed) remainingReward)
       (\<lambda>_. ret (Created confirmed))"

subsection \<open>PROP\<close>

record prop_scan =
  minerShares :: "(string \<times> fl) list"
  minerScores :: "(string \<times> fl) list"
  accumlatedScore :: fl
  cutoffTime :: int

definition prop_share :: "Share \<Rightarrow> prop_scan \<Rightarrow> prop_scan res" where
  "prop_share share a =
     (let adjustedShare = shDifficulty share;
          score = div64 adjustedShare (shNetworkDifficulty share) in
      Ok \<lparr>minerShares = amount_add (minerShares a) (shMiner share) adjustedShare,
          minerScores = amount_add (minerScores a) (shMiner share) score,
          accumlatedScore = add64 (accumlatedScore a) score,
          cutoffTime = (if cutoffTime a = 0 \<or> cutoffTime a < shCreated share then shCreated share else cutoffTime a)\<rparr>)"

definition prop_rewards :: "fl \<Rightarrow> fl \<Rightarrow> (string \<times> fl) list \<Rightarrow> (string \<times> fl) list \<times> fl" where
  "prop_rewards blockReward rewardPerScorePoint scores =
     foldl (\<lambda>(minerRewards, remainingReward) (miner, score).
        let reward = mul64 score rewardPerScorePoint in
        (amount_add minerRewards miner reward, sub64 remainingReward reward)) ([], blockReward) scores"

definition PROP_UpdateMinerBalances ::
  "nat \<Rightarrow> (nat \<Rightarrow> string list \<Rightarrow> string list) \<Rightarrow> string \<Rightarrow> fl \<Rightarrow> Found \<Rightarrow> ('z db_scheme, int) act" where
  "PROP_UpdateMinerBalances pageSize ord poolID blockReward confirmed =
     act_bind (page_loop pageSize prop_share (\<lambda>a. False) poolID (Created confirmed) True
         \<lparr>minerShares = [], minerScores = [], accumlatedScore = fzero, cutoffTime = 0\<rparr>) (\<lambda>a.
     act_bind (act_gets tick) (\<lambda>t.
       let (minerRewards, remainingReward) =
             prop_rewards blockReward (div64 blockReward (accumlatedScore a)) (in_order (ord t) (minerScores a)) in
       if fle remainingReward fzero
       then lift_res (Err ''PROP payout overflow! - we awarded more than we have.  Awards not persisted'')
       else act_bind (award_all poolID confirmed (usage_text ''PROP'' confirmed) (in_order (ord (Suc t)) minerRewards))
              (\<lambda>_. ret (cutoffTime a))))"

subsection \<open>PPLNS\<close>

record pplns_scan =
  pRemainingReward :: fl
  pAccumlatedScore :: fl
  pMinerRewards :: "(string \<times> fl) list"
  pCutoffTime :: int
  windowDone :: bool

definition NWindow :: fl where "NWindow = Fin False 2"

text \<open>\<open>accumlatedScore\<close> is read and never written.\<close>

definition pplns_share :: "fl \<Rightarrow> Share \<Rightarrow> pplns_scan \<Rightarrow> pplns_scan res" where
  "pplns_share blockReward share a =
     (let adjustedShare = shDifficulty share;
          score0 = div64 adjustedShare (shNetworkDifficulty share);
          reached = fle NWindow (add64 (pAccumlatedScore a) score0);
          score = (if reached then sub64 NWindow (pAccumlatedScore a) else score0);
          reward = div64 (mul64 score blockReward) NWindow;
          remaining = sub64 (pRemainingReward a) reward in
      if fle remaining fzero
      then Err ''PPLNS payout overflow! - we awarded more than we have.  Awards not persisted''
      else Ok \<lparr>pRemainingReward = remaining, pAccumlatedScore = pAccumlatedScore a,
               pMinerRewards = amount_add (pMinerRewards a) (shMiner share) reward,
               pCutoffTime = (if reached then shCreated share else pCutoffTime a),
               windowDone = (windowDone a \<or> reached)\<rparr>)"

definition pplns_init :: "fl \<Rightarrow> pplns_scan" where
  "pplns_init blockReward = \<lparr>pRemainingReward = blockReward, pAccumlatedScore = fzero, pMinerRewards = [],
     pCutoffTime = 0, windowDone = False\<rparr>"

definition PPLNS_UpdateMinerBalances ::
  "nat \<Rightarrow> (nat \<Rightarrow> string list \<Rightarrow> string list) \<Rightarrow> string \<Rightarrow> fl \<Rightarrow> Found \<Rightarrow> ('z db_scheme, int) act" where
  "PPLNS_UpdateMinerBalances pageSize ord poolID blockReward confirmed =
     act_bind (page_loop pageSize (pplns_share blockReward) windowDone poolID (Created confirmed) True
         (pplns_init blockReward)) (\<lambda>a.
     act_bind (act_gets tick) (\<lambda>t.
     act_bind (map_error (\<lambda>e. ''failed to add balances: '' @ [CHR 0x0a] @ e)
       (award_all poolID confirmed (usage_text ''PPLNS'' confirmed) (in_order (ord t) (pMinerRewards a))))
       (\<lambda>_. ret (pCutoffTime a))))"

section \<open>The factory and the split\<close>

datatype scheme = PROP_scheme | PPLNS_scheme | SOLO_scheme

definition upper_char :: "char \<Rightarrow> char" where
  "upper_char c = (if (97 :: nat) \<le> of_char c \<and> (of_char c :: nat) \<le> 122 then char_of ((of_char c :: nat) - 32) else c)"

text \<open>Names are ASCII.\<close>

definition payoutSchemeFactory :: "string \<Rightarrow> scheme res" where
  "payoutSchemeFactory schemeName =
     (let name = map upper_char schemeName in
      if name = ''PROP'' then Ok PROP_scheme
      else if name = ''PPLNS'' then Ok PPLNS_scheme
      else if name = ''SOLO'' then Ok SOLO_scheme
      else Panic (''Unknown payout scheme: '' @ name))"

fun UpdateMinerBalances ::
  "nat \<Rightarrow> (nat \<Rightarrow> string list \<Rightarrow> string list) \<Rightarrow> scheme \<Rightarrow> string \<Rightarrow> fl \<Rightarrow> Found \<Rightarrow> ('z db_scheme, int) act" where
  "UpdateMinerBalances pageSize ord PROP_scheme = PROP_UpdateMinerBalances pageSize ord"
| "UpdateMinerBalances pageSize ord PPLNS_scheme = PPLNS_UpdateMinerBalances pageSize ord"
| "UpdateMinerBalances pageSize ord SOLO_scheme = SOLO_UpdateMinerBalances"

fun pool_reward_loop :: "pool_config \<Rightarrow> nat \<Rightarrow> Found \<Rightarrow> fl \<Rightarrow> recipient list \<Rightarrow> ('z db_scheme, fl) act" where
  "pool_reward_loop config index confirmed remainingReward [] = ret remainingReward"
| "pool_reward_loop config index confirmed remainingReward (poolRecipient # rest) =
     (let recipientAmount = mul64 (Percentage poolRecipient) (Reward confirmed);
          remainingReward' = sub64 remainingReward recipientAmount in
      case BlockchainNodes config (fChain confirmed) of
        None \<Rightarrow> lift_res (Err (''calculatePoolReward(): failed to get blockchain node for : '' @ fChain confirmed))
      | Some chain \<Rightarrow>
        if length chain \<le> index then lift_res (Panic ''index out of range'')
        else if rAddress poolRecipient = RewardTo (chain ! index)
        then pool_reward_loop config index confirmed remainingReward' rest
        else act_bind (AddAmount (PoolName config) (fChain confirmed) (rAddress poolRecipient)
               (''Reward for block '' @ dec_text (BlockHeight confirmed)) recipientAmount)
             (\<lambda>_. pool_reward_loop config index confirmed remainingReward' rest))"

definition calculatePoolReward :: "Found \<Rightarrow> pool_config \<Rightarrow> Manager \<Rightarrow> ('z db_scheme, fl) act" where
  "calculatePoolReward confirmed config rpcManager =
     (case Chains (Payouts config) (fChain confirmed) of
        None \<Rightarrow> lift_res (Err (''calculatePoolReward(): failed to find payout config for: '' @ fChain confirmed))
      | Some payoutConfig \<Rightarrow>
          pool_reward_loop config (GetIndex rpcManager) confirmed (Reward confirmed) (PoolRewardRecipients payoutConfig))"

definition calculateMinerRewards ::
  "nat \<Rightarrow> (nat \<Rightarrow> string list \<Rightarrow> string list) \<Rightarrow> fl \<Rightarrow> Found \<Rightarrow> pool_config \<Rightarrow> ('z db_scheme, int) act" where
  "calculateMinerRewards pageSize ord remaining confirmed config =
     act_bind (lift_res (payoutSchemeFactory (Scheme (Payouts config)))) (\<lambda>payoutScheme.
       UpdateMinerBalances pageSize ord payoutScheme (PoolName config) remaining confirmed)"

definition calculateBlockRewards ::
  "nat \<Rightarrow> (nat \<Rightarrow> string list \<Rightarrow> string list) \<Rightarrow> Found \<Rightarrow> pool_config \<Rightarrow> Manager \<Rightarrow> ('z db_scheme, int) act" where
  "calculateBlockRewards pageSize ord confirmed config rpcManager =
     act_bind (calculatePoolReward confirmed config rpcManager) (\<lambda>remaining.
       calculateMinerRewards pageSize ord remaining confirmed config)"

section \<open>Paging\<close>

lemma scan_page_append:
  "scan_page step acc (xs @ ys) = res_bind (scan_page step acc xs) (\<lambda>a. scan_page step a ys)"
  by (induction xs arbitrary: acc) (simp_all add: res_bind_assoc)

lemma scan_page_inv:
  assumes "\<And>s a a'. s \<in> set ss \<Longrightarrow> I a \<Longrightarrow> step s a = Ok a' \<Longrightarrow> I a'" and "I acc" and "scan_page step acc ss = Ok acc'"
  shows "I acc'"
  using assms by (induction ss arbitrary: acc) (auto simp: outcome_simps)

text \<open>Paging changes the tick only.\<close>

lemma page_loop_state:
  "page_loop n step fin poolID before inclusive acc d = (r, d') \<Longrightarrow> \<exists>m \<ge> tick d. d' = d\<lparr>tick := m\<rparr>"
proof (induction n step fin poolID before inclusive acc d arbitrary: r d' rule: page_loop.induct)
  case (1 n step fin poolID before inclusive acc d)
  obtain q d1 where q: "GetSharesBefore poolID before inclusive n d = (q, d1)" by fastforce
  have d1: "d1 = d\<lparr>tick := Suc (tick d)\<rparr>" using q unfolding GetSharesBefore_def by (rule query_state)
  show ?case
  proof (cases "d' = d1")
    case True
    with d1 show ?thesis by (intro exI [of _ "Suc (tick d)"]) simp
  next
    case False
    with "1.prems" q obtain page acc' where page: "q = Ok page" "scan_page step acc page = Ok acc'"
      "\<not> length page < n" "page \<noteq> []" "\<not> fin acc'"
      and rest: "page_loop n step fin poolID (shCreated (last page)) False acc' d1 = (r, d')"
      by (subst (asm) page_loop.simps) (auto split: res.splits if_splits)
    from "1.IH" [OF q [unfolded page(1), symmetric] refl page(2-5) rest] d1 show ?thesis
      by (auto intro: Suc_leD)
  qed
qed

lemma page_loop_inv:
  assumes "\<And>s a a'. s \<in> set (shares d) \<Longrightarrow> I a \<Longrightarrow> step s a = Ok a' \<Longrightarrow> I a'" and "I acc"
    and "page_loop n step fin poolID before inclusive acc d = (Ok acc', d')"
  shows "I acc'"
  using assms
proof (induction n step fin poolID before inclusive acc d arbitrary: acc' d' rule: page_loop.induct)
  case (1 n step fin poolID before inclusive acc d)
  from "1.prems"(3) obtain page d1 a where page: "GetSharesBefore poolID before inclusive n d = (Ok page, d1)"
    and scan: "scan_page step acc page = Ok a"
    by (subst (asm) page_loop.simps) (auto split: res.splits prod.splits)
  have sub: "set page \<subseteq> set (shares d)"
    using GetSharesBefore_last(3) [OF page] by (cases page) auto
  have Ia: "I a"
    by (rule scan_page_inv [where I = I, OF _ "1.prems"(2) scan]) (use "1.prems"(1) sub in blast)
  have d1: "shares d1 = shares d" using page by (auto simp: GetSharesBefore_Ok)
  show ?case
  proof (cases "acc' = a")
    case False
    with "1.prems"(3) page scan have c: "\<not> length page < n" "page \<noteq> []" "\<not> fin a"
      and rest: "page_loop n step fin poolID (shCreated (last page)) False a d1 = (Ok acc', d')"
      by (subst (asm) page_loop.simps, auto split: if_splits)+
    have step: "\<And>s x x'. s \<in> set (shares d1) \<Longrightarrow> I x \<Longrightarrow> step s x = Ok x' \<Longrightarrow> I x'"
      using "1.prems"(1) d1 by simp
    show ?thesis by (rule "1.IH" [OF page [symmetric] refl scan c step Ia rest])
  qed (use Ia in simp)
qed

text \<open>The shares a complete scan visits, newest first.\<close>

definition newest_shares :: "string \<Rightarrow> int \<Rightarrow> bool \<Rightarrow> Share list \<Rightarrow> Share list" where
  "newest_shares poolID before inclusive ss = sort_key (\<lambda>s. - shCreated s) (filter (eligible poolID before inclusive) ss)"

lemma newest_after_page:
  assumes dist: "distinct (map shCreated (filter (eligible poolID before inclusive) ss))"
    and page: "page = take n (newest_shares poolID before inclusive ss)" "page \<noteq> []"
  shows "newest_shares poolID (shCreated (last page)) False ss = drop n (newest_shares poolID before inclusive ss)"
proof -
  let ?xs = "newest_shares poolID before inclusive ss" and ?b = "shCreated (last page)"
  have "last page \<in> set ?xs" using page(1) last_in_set [OF page(2)] set_take_subset [of n ?xs] by auto
  then have el: "eligible poolID before inclusive (last page)" by (simp add: newest_shares_def)
  then have "filter (eligible poolID ?b False) ss =
      filter (\<lambda>s. shCreated s < ?b) (filter (eligible poolID before inclusive) ss)"
    by (auto simp: eligible_def intro!: filter_cong split: if_splits)
  then have eq: "newest_shares poolID ?b False ss = filter (\<lambda>s. shCreated s < ?b) ?xs"
    by (simp add: newest_shares_def filter_sort)
  have sorted: "sorted (map (\<lambda>s. - shCreated s) ?xs)" by (simp add: newest_shares_def)
  have dist': "distinct (map shCreated ?xs)"
    using dist by (simp add: newest_shares_def distinct_map)
  have split: "?xs = page @ drop n ?xs" using page(1) by simp
  obtain front where front: "page = front @ [last page]" using page(2) by (metis append_butlast_last_id)
  have "filter (\<lambda>s. shCreated s < ?b) page = []"
  proof -
    have "sorted (map (\<lambda>s. - shCreated s) (front @ [last page]))"
      using sorted split front by (metis map_append sorted_wrt_append)
    then show ?thesis by (subst front) (auto simp: sorted_wrt_append filter_empty_conv)
  qed
  moreover have "filter (\<lambda>s. shCreated s < ?b) (drop n ?xs) = drop n ?xs"
  proof -
    have "sorted (map (\<lambda>s. - shCreated s) (page @ drop n ?xs))" using sorted split by simp
    moreover have "distinct (map shCreated (page @ drop n ?xs))" using dist' split by simp
    ultimately have "shCreated s < ?b" if "s \<in> set (drop n ?xs)" for s
      using that last_in_set [OF page(2)] by (fastforce simp: sorted_wrt_append)
    then show ?thesis by (simp add: filter_id_conv)
  qed
  ultimately show ?thesis using eq split by (metis append_Nil filter_append)
qed

lemma distinct_ahead:
  assumes "distinct (map shCreated (filter (eligible poolID before inclusive) ss))"
    and "page = take n (newest_shares poolID before inclusive ss)" and "page \<noteq> []"
  shows "distinct (map shCreated (filter (eligible poolID (shCreated (last page)) False) ss))"
proof -
  let ?xs = "newest_shares poolID before inclusive ss"
  have "mset (filter (eligible poolID (shCreated (last page)) False) ss) = mset (drop n ?xs)"
    using newest_after_page [OF assms] by (metis mset_sort newest_shares_def)
  moreover have "distinct (map shCreated (drop n ?xs))"
    using assms(1) by (simp add: newest_shares_def distinct_map distinct_drop flip: drop_map)
  ultimately show ?thesis by (metis mset_eq_imp_distinct_iff mset_map)
qed

lemma page_loop_scans:
  "distinct (map shCreated (filter (eligible poolID before inclusive) (shares d))) \<Longrightarrow> 0 < n \<Longrightarrow> \<forall>m. faults d m = None \<Longrightarrow> \<forall>a. \<not> fin a \<Longrightarrow>
   fst (page_loop n step fin poolID before inclusive acc d) = scan_page step acc (newest_shares poolID before inclusive (shares d))"
proof (induction n step fin poolID before inclusive acc d rule: page_loop.induct)
  case (1 n step fin poolID before inclusive acc d)
  let ?xs = "newest_shares poolID before inclusive (shares d)" and ?d1 = "d\<lparr>tick := Suc (tick d)\<rparr>"
  have page: "GetSharesBefore poolID before inclusive n d = (Ok (take n ?xs), ?d1)"
    using "1.prems"(3) by (simp add: GetSharesBefore_Ok newest_shares_def)
  show ?case
  proof (cases "n \<le> length ?xs")
    case False
    then show ?thesis by (subst page_loop.simps) (simp add: page split: res.splits)
  next
    case True
    with "1.prems"(2) have ne: "take n ?xs \<noteq> []" and len: "\<not> length (take n ?xs) < n" by auto
    let ?b = "shCreated (last (take n ?xs))"
    have ahead: "newest_shares poolID ?b False (shares ?d1) = drop n ?xs"
      using newest_after_page [OF "1.prems"(1) refl ne] by simp
    show ?thesis
    proof (cases "scan_page step acc (take n ?xs)")
      case (Ok a)
      have dist: "distinct (map shCreated (filter (eligible poolID ?b False) (shares ?d1)))"
        using distinct_ahead [OF "1.prems"(1) refl ne] by simp
      have "\<not> fin a" "\<forall>m. faults ?d1 m = None" using "1.prems"(3,4) by auto
      with "1.IH" [OF page [symmetric] refl Ok len ne _ dist "1.prems"(2) _ "1.prems"(4)]
      have "fst (page_loop n step fin poolID ?b False a ?d1) = scan_page step a (drop n ?xs)"
        using ahead by simp
      moreover have "scan_page step acc ?xs = scan_page step a (drop n ?xs)"
        using scan_page_append [of step acc "take n ?xs" "drop n ?xs"] Ok by simp
      ultimately show ?thesis
        using page len ne Ok \<open>\<not> fin a\<close> by (subst page_loop.simps) simp
    next
      case (Err e)
      then have "scan_page step acc ?xs = Err e"
        using scan_page_append [of step acc "take n ?xs" "drop n ?xs"] by simp
      then show ?thesis using page Err by (subst page_loop.simps) simp
    next
      case (Panic e)
      then have "scan_page step acc ?xs = Panic e"
        using scan_page_append [of step acc "take n ?xs" "drop n ?xs"] by simp
      then show ?thesis using page Panic by (subst page_loop.simps) simp
    qed
  qed
qed

text \<open>C17. Paging is complete: if no two eligible shares were created at the same time, the page loop
  visits every share of the pool up to the block's time exactly once, newest first, whatever the page
  size: its result is that of one scan over all of them.\<close>

theorem page_loop_complete:
  assumes "distinct (map shCreated (filter (eligible poolID before inclusive) (shares d)))"
    and "0 < n" and "\<forall>m. faults d m = None" and "\<forall>a. \<not> fin a"
  shows "fst (page_loop n step fin poolID before inclusive acc d) =
    scan_page step acc (sort_key (\<lambda>s. - shCreated s) (filter (eligible poolID before inclusive) (shares d)))"
  using page_loop_scans [OF assms, of step acc] by (simp only: newest_shares_def)

definition sample_share :: "string \<Rightarrow> rat \<Rightarrow> int \<Rightarrow> Share" where
  "sample_share miner difficulty created = \<lparr>shPoolID = ''p'', shBlockHeight = 7, shMiner = miner, shWorker = ''rig'',
     shUserAgent = [], shDifficulty = Fin False difficulty, shNetworkDifficulty = Fin False 1, shIpAddress = ''::1'',
     shCreated = created\<rparr>"

definition db_with_shares :: "Share list \<Rightarrow> db" where
  "db_with_shares ss = sample_db\<lparr>shares := ss\<rparr>"

lemma db_with_shares_simps [simp]:
  "shares (db_with_shares ss) = ss" "faults (db_with_shares ss) n = None" "keys_distinct (db_with_shares ss)"
  "tick (db_with_shares ss) = 0" "bal (db_with_shares ss) k = 0"
  by (simp_all add: db_with_shares_def sample_db_def keys_distinct_def bal_def)

lemma page_loop_complete_witness:
  "fst (page_loop 1 prop_share (\<lambda>a. False) ''p'' 9 True \<lparr>minerShares = [], minerScores = [], accumlatedScore = fzero, cutoffTime = 0\<rparr>
      (db_with_shares [sample_share ''A'' 1 5, sample_share ''B'' 2 7])) =
    scan_page prop_share \<lparr>minerShares = [], minerScores = [], accumlatedScore = fzero, cutoffTime = 0\<rparr>
      (sort_key (\<lambda>s. - shCreated s) (filter (eligible ''p'' 9 True)
        (shares (db_with_shares [sample_share ''A'' 1 5, sample_share ''B'' 2 7]))))"
  by (rule page_loop_complete) (simp_all add: sample_share_def eligible_def)

text \<open>Without distinct times paging is not complete: when a page ends between two shares created at
  the same time, the second one is never visited, as \<open>before\<close> excludes it.\<close>

theorem page_boundary_skips_share:
  assumes "shares d = [s1, s2]" and "shPoolID s1 = poolID" and "shPoolID s2 = poolID"
    and "shCreated s1 = shCreated s2" and "shCreated s1 \<le> before" and "\<forall>m. faults d m = None"
  shows "fst (page_loop 1 step fin poolID before True acc d) = scan_page step acc [s1]"
proof -
  let ?d1 = "d\<lparr>tick := Suc (tick d)\<rparr>"
  have one: "GetSharesBefore poolID before True 1 d = (Ok [s1], ?d1)"
    using assms by (simp add: GetSharesBefore_Ok eligible_def)
  have two: "GetSharesBefore poolID (shCreated s1) False 1 ?d1 = (Ok [], ?d1\<lparr>tick := Suc (Suc (tick d))\<rparr>)"
    using assms by (simp add: GetSharesBefore_Ok eligible_def)
  have "fst (page_loop 1 step fin poolID (shCreated s1) False a ?d1) = Ok a" for a
    by (subst page_loop.simps) (simp only: two, simp)
  then show ?thesis by (subst page_loop.simps) (simp only: one, simp split: res.splits)
qed

lemma page_boundary_skips_share_witness:
  "fst (page_loop 1 prop_share (\<lambda>a. False) ''p'' 9 True \<lparr>minerShares = [], minerScores = [], accumlatedScore = fzero, cutoffTime = 0\<rparr>
      (db_with_shares [sample_share ''A'' 1 5, sample_share ''B'' 2 5])) =
    scan_page prop_share \<lparr>minerShares = [], minerScores = [], accumlatedScore = fzero, cutoffTime = 0\<rparr> [sample_share ''A'' 1 5]"
  by (rule page_boundary_skips_share [where ?s2.0 = "sample_share ''B'' 2 5"]) (simp_all add: sample_share_def)

section \<open>What a payout may touch\<close>

text \<open>Since the state \<open>d0\<close>, only balances and changes of the keys \<open>K\<close> have changed, and, if all went
  well, every balance by as much as the sum of its changes.\<close>

definition framed :: "balance_key set \<Rightarrow> 'z db_scheme \<Rightarrow> 'z db_scheme \<Rightarrow> bool" where
  "framed K d0 e \<longleftrightarrow> keys_distinct e \<and> beside_ledger d0 e \<and> (\<forall>k. k \<notin> K \<longrightarrow> bal e k = bal d0 k \<and> chg e k = chg d0 k)"

definition booked :: "balance_key set \<Rightarrow> 'z db_scheme \<Rightarrow> 'z db_scheme \<Rightarrow> bool" where
  "booked K d0 e \<longleftrightarrow> framed K d0 e \<and> (\<forall>k. bal e k - bal d0 k = chg e k - chg d0 k)"

lemma booked_framed: "booked K d0 e \<Longrightarrow> framed K d0 e"
  by (simp add: booked_def)

lemma booked_refl: "keys_distinct d \<Longrightarrow> booked K d d"
  by (simp add: booked_def framed_def)

lemma beside_ledger_tick: "beside_ledger d e \<Longrightarrow> tick e \<le> m \<Longrightarrow> beside_ledger d (e\<lparr>tick := m\<rparr>)"
  by (erule beside_ledger_trans) simp

lemma booked_tick: "booked K d0 e \<Longrightarrow> tick e \<le> m \<Longrightarrow> booked K d0 (e\<lparr>tick := m\<rparr>)"
  by (simp add: booked_def framed_def beside_ledger_tick)

lemma beside_ledger_shares: "beside_ledger d e \<Longrightarrow> shares e = shares d"
proof -
  assume "beside_ledger d e"
  then have eq: "d\<lparr>balances := [], balance_changes := [], tick := 0\<rparr> = e\<lparr>balances := [], balance_changes := [], tick := 0\<rparr>"
    by (simp add: beside_ledger_def)
  show ?thesis using arg_cong [OF eq, of shares] by simp
qed

lemma AddAmount_booked [act_rules]:
  assumes "(p, c, a) \<in> K"
  shows "triple (booked K d0) (AddAmount p c a usage x) (\<lambda>_. booked K d0) (framed K d0)"
proof -
  have step: "(r = Ok () \<longrightarrow> booked K d0 e') \<and> framed K d0 e'"
    if "booked K d0 e" and "AddAmount p c a usage x e = (r, e')" for e e' and r :: "unit res"
  proof -
    have "keys_distinct e" using that(1) by (simp add: booked_def framed_def)
    from AddAmount_outcome [OF this that(2)] that(1) assms show ?thesis
      by (auto simp: booked_def framed_def adds_def intro: beside_ledger_trans split: if_splits)
  qed
  show ?thesis by (rule tripleI) (use step in auto)
qed

lemma triple_for_each:
  "(\<And>x. x \<in> set xs \<Longrightarrow> triple P (f x) (\<lambda>_. P) E) \<Longrightarrow> triple P (for_each xs f) (\<lambda>_. P) E"
  by (induction xs) (auto intro!: triple_bind triple_ret)

lemma triple_map_error: "triple P m Q E \<Longrightarrow> triple P (map_error g m) Q E"
  unfolding triple_def map_error_def by (fastforce split: prod.splits res.splits)

lemma triple_lift_fail: "\<not> is_ok r \<Longrightarrow> (\<And>s. P s \<Longrightarrow> E s) \<Longrightarrow> triple P (lift_res r) Q E"
  by (cases r) (auto simp: triple_def lift_res_def)

lemma award_all_booked:
  assumes "\<And>m x. (m, x) \<in> set awards \<Longrightarrow> (p, fChain b, m) \<in> K"
  shows "triple (booked K d0) (award_all p b usage awards) (\<lambda>_. booked K d0) (framed K d0)"
  unfolding award_all_def
  by (rule triple_for_each) (use assms in \<open>auto intro: AddAmount_booked\<close>)

lemma page_loop_booked:
  assumes "\<And>s a a'. s \<in> set (shares d0) \<Longrightarrow> I a \<Longrightarrow> step s a = Ok a' \<Longrightarrow> I a'" and "I acc"
  shows "triple (booked K d0) (page_loop n step fin poolID before inclusive acc) (\<lambda>a e. booked K d0 e \<and> I a) (framed K d0)"
proof (rule tripleI)
  fix e a e'
  assume e: "booked K d0 e" and run: "page_loop n step fin poolID before inclusive acc e = (Ok a, e')"
  have "shares e = shares d0" using e by (simp add: booked_def framed_def beside_ledger_shares)
  then have "I a" by (intro page_loop_inv [where I = I, OF _ assms(2) run]) (use assms(1) in simp)
  with page_loop_state [OF run] e show "booked K d0 e' \<and> I a" by (auto intro: booked_tick)
qed (auto dest!: page_loop_state intro: booked_tick booked_framed)

lemma map_of_amount_add: "map_of (amount_add m k x) = (map_of m)(k \<mapsto> add64 (case map_of m k of None \<Rightarrow> fzero | Some y \<Rightarrow> y) x)"
  by (simp add: amount_add_def update_conv')

lemma distinct_amount_add: "distinct (map fst m) \<Longrightarrow> distinct (map fst (amount_add m k x))"
  by (simp add: amount_add_def distinct_update)

lemma keys_amount_add: "fst ` set (amount_add m k x) = insert k (fst ` set m)"
  by (simp add: amount_add_def dom_update)

lemma set_in_order: "set (in_order p m) \<subseteq> {(k, x). map_of m k = Some x}"
  by (auto simp: in_order_def List.map_filter_def)

lemma in_order_keys: "(k, x) \<in> set (in_order p m) \<Longrightarrow> k \<in> fst ` set m"
  using subsetD [OF set_in_order [of p m], of "(k, x)"] by (auto dest!: map_of_SomeD simp: rev_image_eqI)

lemma prop_rewards_keys: "fst ` set (fst (prop_rewards R rate sc)) \<subseteq> fst ` set sc"
proof -
  let ?f = "\<lambda>(ws, rem) (miner, score). let reward = mul64 score rate in (amount_add ws miner reward, sub64 rem reward)"
  have "fst ` set (fst (foldl ?f (ws, rem) sc)) \<subseteq> fst ` set ws \<union> fst ` set sc" for ws rem
  proof (induction sc arbitrary: ws rem)
    case (Cons ms sc)
    obtain m x where ms: "ms = (m, x)" by fastforce
    from Cons.IH [of "amount_add ws m (mul64 x rate)" "sub64 rem (mul64 x rate)"]
    show ?case by (auto simp: ms Let_def keys_amount_add)
  qed simp
  from this [of "[]" R] show ?thesis by (simp add: prop_rewards_def)
qed

section \<open>The interface of a payout scheme\<close>

text \<open>
  The contract \<open>rewards.go\<close> relies on: a scheme credits miners of recorded shares and the finder of
  the block, on the block's chain, and books what it credits.  The pool's own share of the reward is
  paid before, so the whole distribution of a reward keeps the contract.
\<close>

locale payout_scheme =
  fixes update :: "string \<Rightarrow> fl \<Rightarrow> Found \<Rightarrow> ('z db_scheme, int) act"
  assumes update_booked: "\<forall>m \<in> insert (Miner b) (shMiner ` set (shares d0)). (p, fChain b, m) \<in> K \<Longrightarrow>
    triple (booked K d0) (update p x b) (\<lambda>_. booked K d0) (framed K d0)"
begin

lemma pool_loop_booked:
  assumes "\<forall>a \<in> rAddress ` set rs. (PoolName config, fChain b, a) \<in> K"
  shows "triple (booked K d0) (pool_reward_loop config i b x rs) (\<lambda>_. booked K d0) (framed K d0)"
  using assms
proof (induction rs arbitrary: x)
  case Nil
  then show ?case by (simp add: triple_ret)
next
  case (Cons r rs)
  then show ?case
    by (auto simp: Let_def intro!: triple_bind AddAmount_booked triple_lift_fail intro: booked_framed split: option.splits)
qed

lemma pool_part_booked:
  assumes "\<forall>c rec. Chains (Payouts config) (fChain b) = Some c \<longrightarrow> rec \<in> set (PoolRewardRecipients c) \<longrightarrow>
      (PoolName config, fChain b, rAddress rec) \<in> K"
  shows "triple (booked K d0) (calculatePoolReward b config man) (\<lambda>_. booked K d0) (framed K d0)"
  unfolding calculatePoolReward_def using assms
  by (auto intro!: pool_loop_booked triple_lift_fail intro: booked_framed split: option.splits)

lemma reward_booked:
  assumes "\<forall>m \<in> insert (Miner b) (shMiner ` set (shares d0)). (PoolName config, fChain b, m) \<in> K"
    and "\<forall>c rec. Chains (Payouts config) (fChain b) = Some c \<longrightarrow> rec \<in> set (PoolRewardRecipients c) \<longrightarrow>
      (PoolName config, fChain b, rAddress rec) \<in> K"
  shows "triple (booked K d0) (act_bind (calculatePoolReward b config man) (\<lambda>x. update (PoolName config) x b))
    (\<lambda>_. booked K d0) (framed K d0)"
  by (rule triple_bind [OF pool_part_booked [OF assms(2)] update_booked [OF assms(1)]])

end

interpretation solo_scheme: payout_scheme SOLO_UpdateMinerBalances
proof unfold_locales
  fix b :: Found and K :: "balance_key set" and p :: string and x :: fl and d0 :: "'z db_scheme"
  assume "\<forall>m \<in> insert (Miner b) (shMiner ` set (shares d0)). (p, fChain b, m) \<in> K"
  then show "triple (booked K d0) (SOLO_UpdateMinerBalances p x b) (\<lambda>_. booked K d0) (framed K d0)"
    unfolding SOLO_UpdateMinerBalances_def
    by (intro triple_bind [OF AddAmount_booked] triple_ret) auto
qed

lemma prop_share_keys:
  "prop_share s a = Ok a' \<Longrightarrow> fst ` set (minerScores a') = insert (shMiner s) (fst ` set (minerScores a))"
  by (drule sym) (simp add: prop_share_def Let_def keys_amount_add)

lemma pplns_share_keys:
  "pplns_share R s a = Ok a' \<Longrightarrow> fst ` set (pMinerRewards a') = insert (shMiner s) (fst ` set (pMinerRewards a))"
  by (simp add: pplns_share_def Let_def split: if_splits) (drule sym, simp add: keys_amount_add)+

interpretation prop_scheme: payout_scheme "PROP_UpdateMinerBalances n ord" for n ord
proof unfold_locales
  fix b :: Found and K :: "balance_key set" and p :: string and x :: fl and d0 :: "'z db_scheme"
  assume K: "\<forall>m \<in> insert (Miner b) (shMiner ` set (shares d0)). (p, fChain b, m) \<in> K"
  let ?I = "\<lambda>a. fst ` set (minerScores a) \<subseteq> shMiner ` set (shares d0)"
  let ?P = "booked K d0" and ?E = "framed K d0"
  show "triple ?P (PROP_UpdateMinerBalances n ord p x b) (\<lambda>_. ?P) ?E"
    unfolding PROP_UpdateMinerBalances_def
  proof (rule triple_bind [OF page_loop_booked [where I = ?I]])
    fix a
    let ?ws = "\<lambda>t. prop_rewards x (div64 x (accumlatedScore a)) (in_order (ord t) (minerScores a))"
    have award: "triple ?P (award_all p b u (in_order o' (fst (?ws t)))) (\<lambda>_. ?P) ?E" if "?I a" for u o' t
    proof (rule award_all_booked)
      fix m y
      assume "(m, y) \<in> set (in_order o' (fst (?ws t)))"
      then have "m \<in> fst ` set (fst (?ws t))" by (rule in_order_keys)
      then have "m \<in> fst ` set (in_order (ord t) (minerScores a))" by (rule subsetD [OF prop_rewards_keys])
      then obtain z where "(m, z) \<in> set (in_order (ord t) (minerScores a))" by auto
      then have "m \<in> fst ` set (minerScores a)" by (rule in_order_keys)
      with that K show "(p, fChain b, m) \<in> K" by auto
    qed
    have rest: "triple ?P (act_bind (act_gets tick) (\<lambda>t. let (ws, rem) = ?ws t in
        if fle rem fzero then lift_res (Err e) else act_bind (award_all p b u (in_order (ord (Suc t)) ws)) (\<lambda>_. ret (cutoffTime a))))
        (\<lambda>_. ?P) ?E" if "?I a" for e u
    proof (rule triple_bind [OF triple_gets, where R = "\<lambda>_. ?P"])
      fix t
      obtain ws rem where ws: "?ws t = (ws, rem)" by fastforce
      have "triple ?P (award_all p b u (in_order (ord (Suc t)) ws)) (\<lambda>_. ?P) ?E"
        using award [OF that, of u "ord (Suc t)" t] ws by simp
      then show "triple ?P (let (ws, rem) = ?ws t in if fle rem fzero then lift_res (Err e)
          else act_bind (award_all p b u (in_order (ord (Suc t)) ws)) (\<lambda>_. ret (cutoffTime a))) (\<lambda>_. ?P) ?E"
        by (simp add: ws triple_lift_fail booked_framed triple_bind triple_ret)
    qed simp
    show "triple (\<lambda>e. ?P e \<and> ?I a) (act_bind (act_gets tick) (\<lambda>t. let (ws, rem) = ?ws t in
        if fle rem fzero then lift_res (Err ''PROP payout overflow! - we awarded more than we have.  Awards not persisted'')
        else act_bind (award_all p b (usage_text ''PROP'' b) (in_order (ord (Suc t)) ws)) (\<lambda>_. ret (cutoffTime a))))
        (\<lambda>_. ?P) ?E"
      by (cases "?I a") (rule triple_weaken [OF rest], simp_all add: triple_def)
  qed (auto simp: prop_share_keys)
qed

interpretation pplns_scheme: payout_scheme "PPLNS_UpdateMinerBalances n ord" for n ord
proof unfold_locales
  fix b :: Found and K :: "balance_key set" and p :: string and x :: fl and d0 :: "'z db_scheme"
  assume K: "\<forall>m \<in> insert (Miner b) (shMiner ` set (shares d0)). (p, fChain b, m) \<in> K"
  let ?I = "\<lambda>a. fst ` set (pMinerRewards a) \<subseteq> shMiner ` set (shares d0)"
  let ?P = "booked K d0" and ?E = "framed K d0"
  show "triple ?P (PPLNS_UpdateMinerBalances n ord p x b) (\<lambda>_. ?P) ?E"
    unfolding PPLNS_UpdateMinerBalances_def
  proof (rule triple_bind [OF page_loop_booked [where I = ?I]])
    fix a
    have award: "triple ?P (award_all p b u (in_order o' (pMinerRewards a))) (\<lambda>_. ?P) ?E" if "?I a" for u o'
    proof (rule award_all_booked)
      fix m y
      assume "(m, y) \<in> set (in_order o' (pMinerRewards a))"
      then have "m \<in> fst ` set (pMinerRewards a)" by (rule in_order_keys)
      with that K show "(p, fChain b, m) \<in> K" by auto
    qed
    have rest: "triple ?P (act_bind (act_gets tick) (\<lambda>t. act_bind (map_error g (award_all p b u (in_order (ord t) (pMinerRewards a))))
        (\<lambda>_. ret (pCutoffTime a)))) (\<lambda>_. ?P) ?E" if "?I a" for g u
      using award [OF that]
      by (intro triple_bind [OF triple_gets, where R = "\<lambda>_. ?P"] triple_bind [OF triple_map_error] triple_ret) auto
    show "triple (\<lambda>e. ?P e \<and> ?I a) (act_bind (act_gets tick) (\<lambda>t.
        act_bind (map_error (\<lambda>e. ''failed to add balances: '' @ [CHR 0x0a] @ e)
          (award_all p b (usage_text ''PPLNS'' b) (in_order (ord t) (pMinerRewards a)))) (\<lambda>_. ret (pCutoffTime a))))
        (\<lambda>_. ?P) ?E"
      by (cases "?I a") (rule triple_weaken [OF rest], simp_all add: triple_def)
  qed (auto simp: pplns_share_keys pplns_init_def)
qed

end
