(* ===== verification/Stratum.thy ===== *)
theory Stratum
  imports Rewards Block
begin

text \<open>
  The wire side of package \<open>pool\<close>: requests and responses (\<open>requests.go\<close>, the types of
  \<open>responses.go\<close>), the texts of a work packet (\<open>convertWorkToStringSlice\<close> of \<open>work.go\<close>), the decoding
  of the nodes' templates into the structs of package \<open>bitcoin\<close>, and the state of the server
  (\<open>server.go\<close>, \<open>session.go\<close>, \<open>pairs.go\<close>, \<open>nodes.go\<close>, \<open>network.go\<close>).  Raw JSON is a JSON value, an
  absent one is \<open>None\<close>.
\<close>

section \<open>Messages\<close>

record stratumRequest =
  sqId :: "json option"
  sqMethod :: string
  sqParams :: "json option"

record stratumResponse =
  spId :: "json option"
  spVersion :: string
  spResult :: json
  spError :: "(int \<times> string) option"

text \<open>What is written to a connection: \<open>mining.multi_version\<close> is answered with a nil interface.\<close>

datatype packet = Request stratumRequest | Response stratumResponse | NilPacket

definition dec_raw :: "json option decoder" where
  "dec_raw j x = (None, Some j)"

definition request_fields :: "stratumRequest fields" where
  "request_fields = [
     (''id'', dec_at sqId (\<lambda>v x. x\<lparr>sqId := v\<rparr>) dec_raw),
     (''method'', dec_at sqMethod (\<lambda>v x. x\<lparr>sqMethod := v\<rparr>) dec_string),
     (''params'', dec_at sqParams (\<lambda>v x. x\<lparr>sqParams := v\<rparr>) dec_raw)]"

definition zero_request :: stratumRequest where
  "zero_request = \<lparr>sqId = None, sqMethod = [], sqParams = None\<rparr>"

definition zero_response :: stratumResponse where
  "zero_response = \<lparr>spId = None, spVersion = [], spResult = JNull, spError = None\<rparr>"

text \<open>The empty work is the nil slice of a failed \<open>generateWorkFromCache\<close>, whose JSON is \<open>null\<close>; a
  generated work has at least eight entries.\<close>

definition miningNotify :: "string list \<Rightarrow> stratumRequest" where
  "miningNotify work = zero_request\<lparr>sqMethod := ''mining.notify'', sqParams := Some (if work = [] then JNull else JArr (map JStr work))\<rparr>"

text \<open>\<open>json.Marshal\<close> refuses a number that is not finite; the error is logged and nothing is set.\<close>

definition miningSetDifficulty :: "fl \<Rightarrow> stratumRequest" where
  "miningSetDifficulty difficulty = zero_request\<lparr>sqMethod := ''mining.set_difficulty'',
     sqParams := (if is_fin difficulty then Some (JArr [JDec (fval difficulty)]) else None)\<rparr>"

definition miningSetExtranonce :: "string \<Rightarrow> stratumRequest" where
  "miningSetExtranonce extranonce = zero_request\<lparr>sqMethod := ''mining.set_extranonce'',
     sqParams := Some (JArr [JStr extranonce])\<rparr>"

text \<open>\<open>fmt.Sprintf("%v", v)\<close> of the two kinds of entries.\<close>

fun work_text :: "work_item \<Rightarrow> string" where
  "work_text (WStr s) = s"
| "work_text (WStrs ss) = ''['' @ Join '' '' ss @ '']''"

definition convertWorkToStringSlice :: "work \<Rightarrow> string list" where
  "convertWorkToStringSlice w = map work_text w"

section \<open>Templates of the nodes\<close>

fun dec_u64 :: "u64 decoder" where
  "dec_u64 (JInt i) x = (if 0 \<le> i \<and> i < 2 ^ 64 then (None, of_int i) else (type_error ''uint'', x))"
| "dec_u64 JNull x = (None, x)"
| "dec_u64 j x = (type_error ''uint'', x)"

text \<open>A signed 64-bit field, kept as its bits.\<close>

fun dec_i64 :: "u64 decoder" where
  "dec_i64 (JInt i) x = (if - (2 ^ 63) \<le> i \<and> i < 2 ^ 63 then (None, of_int i) else (type_error ''int'', x))"
| "dec_i64 JNull x = (None, x)"
| "dec_i64 j x = (type_error ''int'', x)"

definition zero_tx :: transaction where
  "zero_tx = \<lparr>TxData = [], TxID = [], TxFee = 0\<rparr>"

definition tx_fields :: "transaction fields" where
  "tx_fields = [
     (''data'', dec_at TxData (\<lambda>v x. x\<lparr>TxData := v\<rparr>) dec_string),
     (''txid'', dec_at TxID (\<lambda>v x. x\<lparr>TxID := v\<rparr>) dec_string),
     (''fee'', dec_at TxFee (\<lambda>v x. x\<lparr>TxFee := v\<rparr>) dec_i64)]"

definition zero_template :: template where
  "zero_template = \<lparr>tVersion = 0, PrevBlockHash = [], Height = 0, CoinBaseValue = 0, DefaultWitnessCommitment = [],
     Bits = [], TargetHex = [], Transactions = [], CurrentTime = 0, MimbleWimble = []\<rparr>"

definition template_fields :: "template fields" where
  "template_fields = [
     (''version'', dec_at tVersion (\<lambda>v x. x\<lparr>tVersion := v\<rparr>) dec_u64),
     (''previousblockhash'', dec_at PrevBlockHash (\<lambda>v x. x\<lparr>PrevBlockHash := v\<rparr>) dec_string),
     (''height'', dec_at Height (\<lambda>v x. x\<lparr>Height := v\<rparr>) dec_u64),
     (''coinbasevalue'', dec_at CoinBaseValue (\<lambda>v x. x\<lparr>CoinBaseValue := v\<rparr>) dec_u64),
     (''default_witness_commitment'', dec_at DefaultWitnessCommitment (\<lambda>v x. x\<lparr>DefaultWitnessCommitment := v\<rparr>) dec_string),
     (''bits'', dec_at Bits (\<lambda>v x. x\<lparr>Bits := v\<rparr>) dec_string),
     (''target'', dec_at TargetHex (\<lambda>v x. x\<lparr>TargetHex := v\<rparr>) dec_string),
     (''transactions'', dec_at Transactions (\<lambda>v x. x\<lparr>Transactions := v\<rparr>) (dec_list (dec_struct tx_fields) zero_tx)),
     (''curtime'', dec_at CurrentTime (\<lambda>v x. x\<lparr>CurrentTime := v\<rparr>) dec_u64),
     (''mweb'', dec_at MimbleWimble (\<lambda>v x. x\<lparr>MimbleWimble := v\<rparr>) dec_string)]"

definition zero_aux :: AuxBlock where
  "zero_aux = \<lparr>auxHash = [], auxChainID = 0, auxPreviousBlockHash = [], auxCoinbaseHash = [], auxCoinbaseValue = 0,
     auxBits = [], auxHeight = 0, auxTarget = []\<rparr>"

definition aux_fields :: "AuxBlock fields" where
  "aux_fields = [
     (''hash'', dec_at auxHash (\<lambda>v x. x\<lparr>auxHash := v\<rparr>) dec_string),
     (''chainid'', dec_at auxChainID (\<lambda>v x. x\<lparr>auxChainID := v\<rparr>) (dec_int (- (2 ^ 63)) (2 ^ 63))),
     (''previousblockhash'', dec_at auxPreviousBlockHash (\<lambda>v x. x\<lparr>auxPreviousBlockHash := v\<rparr>) dec_string),
     (''coinbasehash'', dec_at auxCoinbaseHash (\<lambda>v x. x\<lparr>auxCoinbaseHash := v\<rparr>) dec_string),
     (''coinbasevalue'', dec_at auxCoinbaseValue (\<lambda>v x. x\<lparr>auxCoinbaseValue := v\<rparr>) dec_u64),
     (''bits'', dec_at auxBits (\<lambda>v x. x\<lparr>auxBits := v\<rparr>) dec_string),
     (''height'', dec_at auxHeight (\<lambda>v x. x\<lparr>auxHeight := v\<rparr>) dec_u64),
     (''target'', dec_at auxTarget (\<lambda>v x. x\<lparr>auxTarget := v\<rparr>) dec_string)]"

section \<open>The state of the server\<close>

text \<open>An active node; \<open>RPC\<close> is a pointer.  A chain the map lacks has the zero node.\<close>

record blockChainNode =
  bnNotifyURL :: string
  bnRPC :: "RPCClient option"
  bnChainName :: string
  bnNetwork :: string
  bnRewardPubScriptKey :: string
  bnRewardTo :: string
  bnNetworkDifficulty :: fl

definition zero_node :: blockChainNode where
  "zero_node = \<lparr>bnNotifyURL = [], bnRPC = None, bnChainName = [], bnNetwork = [], bnRewardPubScriptKey = [],
     bnRewardTo = [], bnNetworkDifficulty = fzero\<rparr>"

text \<open>A connection is the number of the \<open>stratumClient\<close> behind the pointer the code passes around;
  its handler is serving, has closed the connection, or has returned without closing it.\<close>

record stratumClient =
  scIp :: string
  scLogin :: string
  scExtranonce1 :: string
  scUserAgent :: string
  scSessionID :: string

datatype phase = Serving | Closed | Abandoned

record Pair =
  pairBlock :: BitcoinBlock
  AuxBlocks :: "AuxBlock list"

definition Pair_GetPrimary :: "Pair \<Rightarrow> BitcoinBlock" where "Pair_GetPrimary p = pairBlock p"

definition Pair_GetAuxN :: "Pair \<Rightarrow> nat \<Rightarrow> AuxBlock res" where
  "Pair_GetAuxN p n = (if n < length (AuxBlocks p) then Ok (AuxBlocks p ! n) else Panic ''index out of range'')"

definition Pair_GetAux1 :: "Pair \<Rightarrow> AuxBlock res" where "Pair_GetAux1 p = Pair_GetAuxN p 0"

text \<open>The server, with the package variables \<open>sessions\<close>, \<open>extranonces\<close>, \<open>numberOfConnections\<close> and the
  job counter of package \<open>bitcoin\<close>, the connections, the packets written to them, and the positions in
  the streams of random digits, UUIDs and writes.\<close>

record 'w server = "'w world" +
  svConfig :: pool_config
  activeNodes :: "string \<Rightarrow> blockChainNode option"
  svManagers :: "string \<Rightarrow> Manager option"
  recoveries :: "string list"
  templates :: Pair
  workCache :: "string list"
  shareBuffer :: "Share list"
  flushing :: "Share list option"
  sessions :: "(string \<times> nat) list"
  conns :: "nat \<Rightarrow> stratumClient"
  phases :: "nat \<Rightarrow> phase"
  nextConn :: nat
  extranonces :: "string set"
  numberOfConnections :: int
  jobCounter :: nat
  draws :: nat
  uuids :: nat
  writes :: nat
  sent :: "(nat \<times> packet) list"
  hashblockCounter :: "string \<Rightarrow> 32 word"

text \<open>Code that is not under \<open>src/\<close> and the outside world: scrypt, the nodes' transport, the order in
  which Go ranges over maps, the random digits (\<open>rand.Intn(16)\<close>), the UUIDs, failures of writes to a
  connection, the JSON parser and the text of JSON values.\<close>

record 'w outside =
  scryptFn :: scrypt_fn
  httpT :: "'w transport"
  mapOrder :: "nat \<Rightarrow> string list \<Rightarrow> string list"
  digitsR :: "nat \<Rightarrow> nat"
  newUUID :: "nat \<Rightarrow> string"
  sendFault :: "nat \<Rightarrow> string option"
  parseJson :: "string \<Rightarrow> json option"
  renderJson :: "json \<Rightarrow> string"

definition act_modify :: "('s \<Rightarrow> 's) \<Rightarrow> ('s, unit) act" where
  "act_modify f s = (Ok (), f s)"

lemma act_modify_eq [act_simps]: "act_modify f s = (Ok (), f s)"
  by (simp add: act_modify_def)

lemma triple_modify [act_rules]: "(\<And>s. P s \<Longrightarrow> Q () (f s)) \<Longrightarrow> triple P (act_modify f) Q E"
  by (simp add: triple_def act_modify_def)

end
