(* ===== verification/PoolWork.thy ===== *)
theory PoolWork
  imports Stratum
begin

text \<open>
  \<open>pool/work.go\<close>, \<open>pool/nodes.go\<close> and the fetching and broadcasting of \<open>pool/server.go\<close>: the active
  nodes, the templates they give, the work made of them and its delivery to the sessions.  The
  subscription to the nodes' block notifications (ZeroMQ) is not modelled beyond the message it
  delivers.
\<close>

section \<open>Nodes\<close>

definition node_of :: "'w server \<Rightarrow> string \<Rightarrow> blockChainNode" where
  "node_of s chainName = (case activeNodes s chainName of None \<Rightarrow> zero_node | Some n \<Rightarrow> n)"

definition GetPrimaryNode :: "('w server, blockChainNode) act" where
  "GetPrimaryNode = act_bind (act_gets svConfig) (\<lambda>config.
     act_bind (lift_res (GetPrimary (BlockChainOrder config))) (\<lambda>primary. act_gets (\<lambda>s. node_of s primary)))"

definition GetAux1Node :: "('w server, blockChainNode) act" where
  "GetAux1Node = act_gets (\<lambda>s. node_of s (GetAux1 (BlockChainOrder (svConfig s))))"

text \<open>A call of a method of \<open>RPCClient\<close>, which reads through the pointer.\<close>

definition via_rpc :: "RPCClient option \<Rightarrow> (RPCClient \<Rightarrow> ('w, 'a) act) \<Rightarrow> ('w server, 'a) act" where
  "via_rpc rpc f = (case rpc of None \<Rightarrow> lift_res nil_pointer | Some c \<Rightarrow> on_nodes (f c))"

text \<open>\<open>log.Fatal\<close> ends the program like a panic does.\<close>

definition fatal_on_error :: "('s, 'a) act \<Rightarrow> ('s, 'a) act" where
  "fatal_on_error m s = (case m s of (Err e, s') \<Rightarrow> (Panic e, s') | r \<Rightarrow> r)"

definition load_node :: "'w outside \<Rightarrow> string \<Rightarrow> ('w server, unit) act" where
  "load_node out blockChainName =
     act_bind (act_gets (\<lambda>s. (svManagers s blockChainName, svConfig s))) (\<lambda>(manager, config).
       case manager of None \<Rightarrow> lift_res (Panic (''Blockchain not found for: '' @ blockChainName))
       | Some rpcManager \<Rightarrow>
         act_bind (lift_res (GetActiveClient rpcManager)) (\<lambda>rpcClient.
         let nodes = configured_nodes config blockChainName in
         if length nodes \<le> GetIndex rpcManager then lift_res (Panic ''index out of range'')
         else let nodeConfig = nodes ! GetIndex rpcManager in
         act_bind (fatal_on_error (on_nodes (GetBlockChainInfo (httpT out) rpcClient))) (\<lambda>chainInfo.
         act_bind (fatal_on_error (on_nodes (ValidateAddress (httpT out) rpcClient (RewardTo nodeConfig)))) (\<lambda>rewardPubScriptKey.
           act_modify (\<lambda>s. s\<lparr>activeNodes := (activeNodes s)(blockChainName \<mapsto>
             \<lparr>bnNotifyURL = NotifyURL nodeConfig, bnRPC = Some rpcClient, bnChainName = blockChainName,
              bnNetwork = ciChain chainInfo, bnRewardPubScriptKey = rewardPubScriptKey,
              bnRewardTo = RewardTo nodeConfig, bnNetworkDifficulty = ciNetworkDifficulty chainInfo\<rparr>)\<rparr>)))))"

definition loadBlockchainNodes :: "'w outside \<Rightarrow> ('w server, unit) act" where
  "loadBlockchainNodes out =
     act_bind (act_modify (\<lambda>s. s\<lparr>activeNodes := Map.empty\<rparr>)) (\<lambda>_.
     act_bind (act_gets svConfig) (\<lambda>config. for_each (BlockChainOrder config) (load_node out)))"

section \<open>Fail-over\<close>

text \<open>The managers are shared with the payouts.  A manager that moved to a backup has started its loop
  back to the primary.\<close>

definition recover_manager :: "'w outside \<Rightarrow> string \<Rightarrow> Manager \<Rightarrow> ('w server, unit) act" where
  "recover_manager out coin manager s =
     (case CheckAndRecoverRPCs (httpT out) (manager, nodes s) of
        (r, (manager', w)) \<Rightarrow>
          (res_bind r (\<lambda>_. Ok ()), s\<lparr>svManagers := (svManagers s)(coin \<mapsto> manager'), nodes := w,
             recoveries := (if r = Ok True then coin # recoveries s else recoveries s)\<rparr>))"

fun recover_loop :: "'w outside \<Rightarrow> string list \<Rightarrow> ('w server, unit) act" where
  "recover_loop out [] = ret ()"
| "recover_loop out (coin # rest) =
     act_bind (act_gets (\<lambda>s. svManagers s coin)) (\<lambda>m. case m of
        None \<Rightarrow> recover_loop out rest
      | Some manager \<Rightarrow>
        act_bind (map_error (\<lambda>e. coin @ [CHR 0x0a] @ e) (recover_manager out coin manager)) (\<lambda>_. recover_loop out rest))"

text \<open>The keys of the map are the chains of the merge order (\<open>makeRPCManagers\<close>).\<close>

definition Pool_CheckAndRecoverRPCs :: "'w outside \<Rightarrow> ('w server, unit) act" where
  "Pool_CheckAndRecoverRPCs out =
     act_bind (act_gets (\<lambda>s. (writes s, svConfig s))) (\<lambda>(t, config).
       recover_loop out (mapOrder out t (remdups (BlockChainOrder config))))"

section \<open>Templates\<close>

fun fetch_aux :: "'w outside \<Rightarrow> (string \<times> AuxBlock) list \<Rightarrow> string list \<Rightarrow> ('w server, (string \<times> AuxBlock) list) act" where
  "fetch_aux out auxBlocks [] = ret auxBlocks"
| "fetch_aux out auxBlocks (auxName # rest) =
     act_bind (act_gets (\<lambda>s. node_of s auxName)) (\<lambda>auxNode.
     act_bind (attempt (via_rpc (bnRPC auxNode) (\<lambda>c. CreateAuxBlock (httpT out) c (bnRewardTo auxNode)))) (\<lambda>r.
       case r of
         Ok response \<Rightarrow>
           (case Unmarshal (dec_struct aux_fields) response zero_aux of
              (Some e, x) \<Rightarrow> fetch_aux out auxBlocks rest
            | (None, auxBlock) \<Rightarrow> fetch_aux out (AList.update auxName auxBlock auxBlocks) rest)
       | _ \<Rightarrow> fetch_aux out auxBlocks rest))"

definition fetchAllBlockTemplatesFromRPC :: "'w outside \<Rightarrow> ('w server, template \<times> (string \<times> AuxBlock) list) act" where
  "fetchAllBlockTemplatesFromRPC out =
     act_bind GetPrimaryNode (\<lambda>primary.
     act_bind (map_error (\<lambda>e. ''RPC error: '' @ e) (via_rpc (bnRPC primary) (GetBlockTemplate (httpT out)))) (\<lambda>response.
     act_bind (unmarshal_or_fail (dec_struct template_fields) zero_template response) (\<lambda>template.
     act_bind (act_gets svConfig) (\<lambda>config.
     act_bind (fetch_aux out [] (tl (BlockChainOrder config))) (\<lambda>auxBlocks. ret (template, auxBlocks))))))"

section \<open>Work\<close>

text \<open>\<open>GenerateWork\<close> counts the jobs in a variable of its package.  The auxiliary blocks are a Go map of
  pointers that are never nil here.\<close>

definition generate_work :: "'w outside \<Rightarrow> template \<Rightarrow> (string \<times> AuxBlock) list \<Rightarrow> string \<Rightarrow> string \<Rightarrow> string \<Rightarrow> int \<Rightarrow>
    ('w server, BitcoinBlock \<times> work) act" where
  "generate_work out template auxBlocks chainName arbitrary rewardPubScriptKey reserved s =
     (case GenerateWork (scryptFn out) (jobCounter s) (Some template)
         (map (\<lambda>(name, a). (name, Some a)) (in_order (mapOrder out (jobCounter s)) auxBlocks)) chainName arbitrary
         rewardPubScriptKey reserved of
        Ok (block, work, jobs) \<Rightarrow> (Ok (block, work), s\<lparr>jobCounter := jobs\<rparr>)
      | Err e \<Rightarrow> (Err e, s)
      | Panic m \<Rightarrow> (Panic m, s))"

text \<open>The signature in the coinbase: one auxiliary block is merged, the first \<open>range\<close> yields.\<close>

definition auxillary_text :: "'w outside \<Rightarrow> (string \<times> AuxBlock) list \<Rightarrow> ('w server, string) act" where
  "auxillary_text out auxBlocks =
     act_bind (act_gets (\<lambda>s. (BlockSignature (svConfig s), writes s))) (\<lambda>(signature, t).
       case in_order (mapOrder out t) auxBlocks of
         [] \<Rightarrow> ret signature
       | (name, auxBlock) # rest \<Rightarrow>
         act_bind (lift_res (hexStringToByteString (auxHash auxBlock))) (\<lambda>mergedPOW.
         act_bind (act_modify (\<lambda>s. s\<lparr>templates := (templates s)\<lparr>AuxBlocks := [auxBlock]\<rparr>\<rparr>)) (\<lambda>_.
           ret (signature @ mergedPOW))))"

definition fetchRpcBlockTemplatesAndCacheWork :: "'w outside \<Rightarrow> ('w server, unit) act" where
  "fetchRpcBlockTemplatesAndCacheWork out =
     act_bind (attempt (fetchAllBlockTemplatesFromRPC out)) (\<lambda>first.
     act_bind (case first of Ok x \<Rightarrow> ret x
               | _ \<Rightarrow> act_bind (Pool_CheckAndRecoverRPCs out) (\<lambda>_. fetchAllBlockTemplatesFromRPC out)) (\<lambda>(template, auxBlocks).
     act_bind (auxillary_text out auxBlocks) (\<lambda>auxillary.
     act_bind (act_gets svConfig) (\<lambda>config.
     act_bind (lift_res (GetPrimary (BlockChainOrder config))) (\<lambda>primaryName.
     act_bind GetPrimaryNode (\<lambda>primary.
     act_bind (generate_work out template auxBlocks primaryName auxillary (bnRewardPubScriptKey primary) 8) (\<lambda>(block, work).
       act_modify (\<lambda>s. s\<lparr>workCache := convertWorkToStringSlice work, templates := (templates s)\<lparr>pairBlock := block\<rparr>\<rparr>))))))))"

definition generateWorkFromCache :: "'w outside \<Rightarrow> bool \<Rightarrow> ('w server, string list) act" where
  "generateWorkFromCache out force =
     act_bind (act_gets (\<lambda>s. (workCache s, svConfig s))) (\<lambda>(cached, config).
       if force \<or> length cached = 0
       then act_bind (lift_res (GetPrimary (BlockChainOrder config))) (\<lambda>primaryName.
            act_bind (fetchAllBlockTemplatesFromRPC out) (\<lambda>(template, auxBlocks).
            act_bind (generate_work out template auxBlocks primaryName [] [] 0) (\<lambda>(block, work).
            act_bind (act_modify (\<lambda>s. s\<lparr>workCache := convertWorkToStringSlice work\<rparr>)) (\<lambda>_. act_gets workCache))))
       else ret cached)"

section \<open>Delivery\<close>

definition sendPacket :: "'w outside \<Rightarrow> packet \<Rightarrow> nat \<Rightarrow> ('w server, unit) act" where
  "sendPacket out packet client s =
     (case sendFault out (writes s) of
        None \<Rightarrow> (Ok (), s\<lparr>writes := Suc (writes s), sent := sent s @ [(client, packet)]\<rparr>)
      | Some e \<Rightarrow> (Err e, s\<lparr>writes := Suc (writes s)\<rparr>))"

definition notifyAllSessions :: "'w outside \<Rightarrow> stratumRequest \<Rightarrow> ('w server, unit) act" where
  "notifyAllSessions out request =
     act_bind (act_gets (\<lambda>s. in_order (mapOrder out (writes s)) (sessions s))) (\<lambda>targets.
       for_each targets (\<lambda>(sessionID, client). act_bind (attempt (sendPacket out (Request request) client)) (\<lambda>_. ret ())))"

definition broadcastWork :: "'w outside \<Rightarrow> string list \<Rightarrow> ('w server, unit) act" where
  "broadcastWork out work = notifyAllSessions out (miningNotify work)"

text \<open>The message of a subscription, and what the loop of \<open>listenForBlockNotifications\<close> does with it.  A
  failed \<open>generateWorkFromCache\<close> leaves a nil slice, which is broadcast.\<close>

record hashBlockResponse =
  blockChainName :: string
  previousBlockHash :: string
  blockHashCounter :: "32 word"

definition hash_block_message :: "string \<Rightarrow> byte list list \<Rightarrow> hashBlockResponse option res" where
  "hash_block_message name frames =
     (if 2 < length frames
      then (if length (frames ! 2) < 4 then Panic ''index out of range''
            else Ok (Some \<lparr>blockChainName = name, previousBlockHash = EncodeToString (frames ! 1),
              blockHashCounter = of_nat (le_value (take 4 (frames ! 2)))\<rparr>))
      else Ok None)"

definition on_new_block :: "'w outside \<Rightarrow> hashBlockResponse \<Rightarrow> ('w server, unit) act" where
  "on_new_block out msg =
     act_bind (act_modify (\<lambda>s. s\<lparr>hashblockCounter := (hashblockCounter s)(blockChainName msg := blockHashCounter msg)\<rparr>)) (\<lambda>_.
     act_bind (attempt (fetchRpcBlockTemplatesAndCacheWork out)) (\<lambda>_.
     act_bind (attempt (generateWorkFromCache out True)) (\<lambda>r.
       broadcastWork out (case r of Ok work \<Rightarrow> work | _ \<Rightarrow> []))))"

section \<open>Submission to the chains\<close>

text \<open>\<open>!success || err != nil\<close>: \<open>SubmitBlock\<close> returns true or an error.\<close>

definition submitBlockToChain :: "'w outside \<Rightarrow> BitcoinBlock \<Rightarrow> ('w server, unit) act" where
  "submitBlockToChain out block =
     act_bind (lift_res (block_Submit block)) (\<lambda>submission.
     act_bind GetPrimaryNode (\<lambda>primary.
     act_bind (map_error (\<lambda>e. bnChainName primary @ '' primary node rejection: '' @ e)
       (via_rpc (bnRPC primary) (\<lambda>c. SubmitBlock (renderJson out) (httpT out) c [PStr submission]))) (\<lambda>success. ret ())))"

definition submitAuxBlock :: "'w outside \<Rightarrow> BitcoinBlock \<Rightarrow> AuxBlock \<Rightarrow> ('w server, unit) act" where
  "submitAuxBlock out primaryBlock aux1Block =
     act_bind (lift_res (res_bind (MakeAuxPow primaryBlock) AuxPow_Serialize)) (\<lambda>auxpow.
     act_bind GetAux1Node (\<lambda>node.
     act_bind (map_error (\<lambda>e. bnChainName node @ '' node failed to submit aux block: '' @ e)
       (via_rpc (bnRPC node) (\<lambda>c. SubmitAuxBlock (renderJson out) (httpT out) c (auxHash aux1Block) auxpow))) (\<lambda>success. ret ())))"

end
