(* ===== verification/PoolServer.thy ===== *)
theory PoolServer
  imports PoolWork
begin

text \<open>
  The connections of package \<open>pool\<close>: extranonces (\<open>extraNonce.go\<close>), sessions (\<open>session.go\<close>), policy
  (\<open>policy.go\<close>), the handlers of the stratum methods (\<open>responses.go\<close>), the life of a connection
  (\<open>network.go\<close>), the share buffer (\<open>buffer.go\<close>) and the start of the server (\<open>server.go\<close>).  A handler
  runs without interruption; handlers of different connections, the flushing of shares and the block
  notifications interleave as the steps of a relation.
\<close>

section \<open>Extranonces\<close>

definition hex_digit :: "nat \<Rightarrow> char" where
  "hex_digit d = ''0123456789abcdef'' ! (d mod 16)"

text \<open>The digits from position \<open>d\<close> of the random stream.\<close>

definition randomHex :: "(nat \<Rightarrow> nat) \<Rightarrow> nat \<Rightarrow> nat \<Rightarrow> string" where
  "randomHex digits strlen d = map (\<lambda>i. hex_digit (digits (d + i))) [0..<strlen]"

text \<open>The loop ends when a text is not in use; \<open>None\<close> is the loop that does not end.\<close>

partial_function (option) fresh_loop :: "(nat \<Rightarrow> nat) \<Rightarrow> nat \<Rightarrow> string set \<Rightarrow> nat \<Rightarrow> (string \<times> nat) option" where
  "fresh_loop digits strlen used d =
     (if randomHex digits strlen d \<in> used then fresh_loop digits strlen used (d + strlen)
      else Some (randomHex digits strlen d, d + strlen))"

definition uniqueExtranonce :: "(nat \<Rightarrow> nat) \<Rightarrow> nat \<Rightarrow> 'w server \<Rightarrow> (string \<times> 'w server) option" where
  "uniqueExtranonce digits strlen s =
     map_option (\<lambda>(x, d). (x, s\<lparr>extranonces := insert x (extranonces s), draws := d\<rparr>))
       (fresh_loop digits strlen (extranonces s) (draws s))"

definition extranonce1Length :: nat where "extranonce1Length = 4"

section \<open>Sessions and policy\<close>

definition addSession :: "nat \<Rightarrow> ('w server, unit) act" where
  "addSession c = act_modify (\<lambda>s. s\<lparr>sessions := AList.update (scSessionID (conns s c)) c (sessions s)\<rparr>)"

definition removeSession :: "string \<Rightarrow> ('w server, unit) act" where
  "removeSession sessionID = act_modify (\<lambda>s. s\<lparr>sessions := AList.delete sessionID (sessions s)\<rparr>)"

definition isBanned :: "string \<Rightarrow> bool" where "isBanned ip = False"

definition surpassedLimitPolicy :: "string \<Rightarrow> bool" where "surpassedLimitPolicy ip = False"

definition banClient :: "nat \<Rightarrow> ('w server, unit) act" where
  "banClient c = act_bind (act_gets (\<lambda>s. scSessionID (conns s c))) removeSession"

definition set_client :: "nat \<Rightarrow> (stratumClient \<Rightarrow> stratumClient) \<Rightarrow> ('w server, unit) act" where
  "set_client c f = act_modify (\<lambda>s. s\<lparr>conns := (conns s)(c := f (conns s c))\<rparr>)"

section \<open>Stratum methods\<close>

definition miningSubscribe :: "'w outside \<Rightarrow> stratumRequest \<Rightarrow> nat \<Rightarrow> ('w server, packet) act" where
  "miningSubscribe out request c =
     act_bind (act_gets (\<lambda>s. conns s c)) (\<lambda>client.
     if isBanned (scIp client) then lift_res (Err (''client blocked: '' @ scIp client))
     else
       let requestParamsJson = (case sqParams request of None \<Rightarrow> JNull | Some j \<Rightarrow> j);
           requestParams = snd (Unmarshal (dec_list dec_string []) (Some requestParamsJson) []) in
       act_bind (case requestParams of [] \<Rightarrow> ret ()
                 | clientType # ps \<Rightarrow> set_client c (\<lambda>cl. cl\<lparr>scUserAgent := clientType\<rparr>)) (\<lambda>_.
       act_bind (act_gets (\<lambda>s. newUUID out (uuids s))) (\<lambda>sessionID.
       act_bind (act_modify (\<lambda>s. s\<lparr>uuids := Suc (uuids s)\<rparr>)) (\<lambda>_.
       act_bind (set_client c (\<lambda>cl. cl\<lparr>scSessionID := sessionID\<rparr>)) (\<lambda>_.
         ret (Response (zero_response\<lparr>spId := sqId request, spResult := JArr [
           JArr [JArr [JStr ''mining.set_difficulty'', JStr sessionID], JArr [JStr ''mining.notify'', JStr sessionID]],
           JStr (scExtranonce1 client), JInt 4]\<rparr>)))))))"

text \<open>The addresses of a login against the networks of the active nodes, in the merge order.\<close>

fun check_addresses :: "scrypt_fn \<Rightarrow> (string \<Rightarrow> string) \<Rightarrow> string \<Rightarrow> (string \<times> string) list \<Rightarrow> unit res" where
  "check_addresses scrypt network ip [] = Ok ()"
| "check_addresses scrypt network ip ((chainName, inputBlockChainAddress) # rest) =
     res_bind (GetChain scrypt chainName) (\<lambda>blockChain.
       if (network chainName = ''test'' \<and> \<not> ValidTestnetAddress blockChain inputBlockChainAddress) \<or>
          (network chainName = ''main'' \<and> \<not> ValidMainnetAddress blockChain inputBlockChainAddress)
       then Err (''invalid '' @ chainName @ '' '' @ network chainName @ ''net miner address from '' @ ip @ '': '' @
              inputBlockChainAddress)
       else check_addresses scrypt network ip rest)"

text \<open>What the login string itself must satisfy.\<close>

definition check_login :: "scrypt_fn \<Rightarrow> (string \<Rightarrow> string) \<Rightarrow> string list \<Rightarrow> string \<Rightarrow> string \<Rightarrow> unit res" where
  "check_login scrypt network order ip loginString =
     (let loginParts = Split CHR ''.'' loginString in
      if length loginParts \<noteq> 2 then Err ''invalid login format: missing rigID''
      else let minerAddresses = Split CHR ''-'' (loginParts ! 0) in
        if length minerAddresses \<noteq> length order
        then Err (''not enough miner addresses to login: expected '' @ dec_text (length order))
        else check_addresses scrypt network ip (zip order minerAddresses))"

definition miningAuthorize :: "'w outside \<Rightarrow> stratumRequest \<Rightarrow> nat \<Rightarrow> ('w server, packet) act" where
  "miningAuthorize out request c =
     act_bind (act_gets (\<lambda>s. scIp (conns s c))) (\<lambda>ip.
     if isBanned ip then lift_res (Err (''banned client attempted to access: '' @ ip))
     else (case Unmarshal (dec_list dec_string []) (sqParams request) [] of
       (Some e, params) \<Rightarrow> lift_res (Err e)
     | (None, []) \<Rightarrow> lift_res (Err ''invalid parameters'')
     | (None, loginString # params) \<Rightarrow>
         act_bind (act_gets svConfig) (\<lambda>config.
         act_bind (act_gets (\<lambda>s chainName. bnNetwork (node_of s chainName))) (\<lambda>network.
         act_bind (lift_res (check_login (scryptFn out) network (BlockChainOrder config) ip loginString)) (\<lambda>_.
         act_bind (set_client c (\<lambda>cl. cl\<lparr>scLogin := loginString\<rparr>)) (\<lambda>_.
         act_bind (addSession c) (\<lambda>_.
         act_bind (sendPacket out (Response (zero_response\<lparr>spId := sqId request, spResult := JBool True\<rparr>)) c) (\<lambda>_.
         act_bind (sendPacket out (Request (miningSetDifficulty (PoolDifficulty config))) c) (\<lambda>_.
         act_bind (generateWorkFromCache out False) (\<lambda>work.
           ret (Request (miningNotify work))))))))))))"

definition miningExtranonceSubscribe :: "stratumRequest \<Rightarrow> ('w server, packet) act" where
  "miningExtranonceSubscribe request = ret (Response (zero_response\<lparr>spId := sqId request, spResult := JBool True\<rparr>))"

text \<open>\<open>int64(f)\<close> as amd64 computes it outside the range (the language leaves it open).\<close>

definition to_int64 :: "fl \<Rightarrow> int" where
  "to_int64 x = (case float_to_int (- (2 ^ 63)) (2 ^ 63) x of Some i \<Rightarrow> i | None \<Rightarrow> - (2 ^ 63))"

definition targetInt :: "fl \<Rightarrow> int" where
  "targetInt poolDifficulty = to_int64 poolDifficulty * 0x100000000"

text \<open>The auxiliary entries of the cached work, \<open>name:hash\<close>, after its eight fields.\<close>

fun submit_entries :: "'w outside \<Rightarrow> string \<Rightarrow> string \<Rightarrow> string list \<Rightarrow> ('w server, unit) act" where
  "submit_entries out hdr chainName [] = ret ()"
| "submit_entries out hdr chainName (auxStr # rest) =
     (let parts = SplitN2 CHR '':'' auxStr in
      if length parts = 2 \<and> parts ! 0 = chainName
      then act_bind (act_gets (\<lambda>s. node_of s chainName)) (\<lambda>auxChain.
           act_bind (attempt (via_rpc (bnRPC auxChain)
             (\<lambda>c. SubmitAuxBlock (renderJson out) (httpT out) c (parts ! 1) hdr))) (\<lambda>_.
           submit_entries out hdr chainName rest))
      else submit_entries out hdr chainName rest)"

definition receiveWorkFromClient :: "'w outside \<Rightarrow> string list \<Rightarrow> ('w server, unit) act" where
  "receiveWorkFromClient out submittedWork =
     act_bind (map_error (\<lambda>e. ''failed to fetch work template: '' @ e) (generateWorkFromCache out False)) (\<lambda>currentWork.
     if length submittedWork < 5 then lift_res (Err ''invalid work submission: too few parameters'')
     else let jobID = submittedWork ! 1; extranonce2 = submittedWork ! 2; ntime = submittedWork ! 3; nonce = submittedWork ! 4 in
     if currentWork = [] then lift_res (Panic ''index out of range'')
     else if jobID \<noteq> currentWork ! 0 then lift_res (Err ''invalid share: stale job'')
     else
       act_bind (map_error (\<lambda>e. ''failed to get block template: '' @ e) (fetchAllBlockTemplatesFromRPC out)) (\<lambda>(template, auxBlocks).
       act_bind (act_gets svConfig) (\<lambda>config.
       act_bind (lift_res (GetPrimary (BlockChainOrder config))) (\<lambda>primaryName.
       act_bind (map_error (\<lambda>e. ''failed to regenerate work: '' @ e)
         (generate_work out template auxBlocks primaryName extranonce2 [] 0)) (\<lambda>(block, work).
       case MakeHeader block extranonce2 nonce ntime of (headerResult, block1) \<Rightarrow>
       act_bind (map_error (\<lambda>e. ''failed to make header: '' @ e) (lift_res headerResult)) (\<lambda>hdr.
       act_bind (map_error (\<lambda>e. ''failed to hash header: '' @ e) (lift_res (fst (block_Sum block1)))) (\<lambda>hashInt.
       if targetInt (PoolDifficulty config) < int hashInt
       then lift_res (Err ''invalid share: below pool difficulty'')
       else
         act_bind (act_gets (\<lambda>s. node_of s primaryName)) (\<lambda>primaryChain.
         act_bind (attempt (via_rpc (bnRPC primaryChain) (\<lambda>c. SubmitBlock (renderJson out) (httpT out) c [PStr hdr]))) (\<lambda>_.
           for_each (tl (BlockChainOrder config)) (\<lambda>chainName.
             submit_entries out hdr chainName (drop 8 currentWork)))))))))))"

definition miningSubmit :: "'w outside \<Rightarrow> stratumRequest \<Rightarrow> ('w server, packet) act" where
  "miningSubmit out request =
     (let response = (\<lambda>b. Response (zero_response\<lparr>spId := sqId request, spResult := JBool b\<rparr>)) in
      case Unmarshal (dec_list dec_string []) (sqParams request) [] of
        (Some e, work) \<Rightarrow> lift_res (Err (''failed to parse submit params: '' @ e))
      | (None, work) \<Rightarrow>
        act_bind (attempt (receiveWorkFromClient out work)) (\<lambda>r. case r of
          Ok u \<Rightarrow> ret (response True)
        | Err e \<Rightarrow> if Contains e ''invalid share'' then ret (response False) else lift_res (Err e)
        | Panic m \<Rightarrow> lift_res (Panic m)))"

definition handleStratumRequest :: "'w outside \<Rightarrow> stratumRequest \<Rightarrow> nat \<Rightarrow> ('w server, packet) act" where
  "handleStratumRequest out request c =
     (if sqMethod request = ''mining.subscribe'' then miningSubscribe out request c
      else if sqMethod request = ''mining.authorize'' then miningAuthorize out request c
      else if sqMethod request = ''mining.extranonce.subscribe'' then miningExtranonceSubscribe request
      else if sqMethod request = ''mining.submit'' then miningSubmit out request
      else if sqMethod request = ''mining.multi_version'' then ret NilPacket
      else lift_res (Err (''unknown stratum request method: '' @ sqMethod request)))"

text \<open>The deadline of the connection is not part of the state.\<close>

definition respondToStratumClient :: "'w outside \<Rightarrow> nat \<Rightarrow> string \<Rightarrow> ('w server, unit) act" where
  "respondToStratumClient out c requestPayload =
     (case parseJson out requestPayload of
        None \<Rightarrow> lift_res (Err ''invalid character in JSON'')
      | Some j \<Rightarrow>
        (case dec_struct request_fields j zero_request of
           (Some e, request) \<Rightarrow> lift_res (Err e)
         | (None, request) \<Rightarrow>
           act_bind (handleStratumRequest out request c) (\<lambda>response. sendPacket out response c)))"

section \<open>Connections\<close>

text \<open>What \<open>ReadLine\<close> yields.  \<open>LongLine\<close> is a line that does not fit the buffer: no error.\<close>

datatype line = EndOfFile | LongLine | ReadError string | Line string

text \<open>One turn of the loop of \<open>handleStratumConnection\<close>; \<open>False\<close> is its return without an error.\<close>

definition handle_line :: "'w outside \<Rightarrow> nat \<Rightarrow> line \<Rightarrow> ('w server, bool) act" where
  "handle_line out c inp = (case inp of
       EndOfFile \<Rightarrow> act_bind (act_gets (\<lambda>s. conns s c)) (\<lambda>client.
         act_bind (removeSession (scSessionID client)) (\<lambda>_. lift_res (Err (''client disconnect: '' @ scIp client))))
     | LongLine \<Rightarrow> act_bind (banClient c) (\<lambda>_. ret False)
     | ReadError e \<Rightarrow> lift_res (Err e)
     | Line payload \<Rightarrow>
         if 1 < length payload then act_bind (respondToStratumClient out c payload) (\<lambda>_. ret True) else ret True)"

text \<open>\<open>openNewConnection\<close> around it: an error closes the connection.\<close>

definition close_connection :: "nat \<Rightarrow> ('w server, unit) act" where
  "close_connection c =
     act_bind (act_gets (\<lambda>s. scSessionID (conns s c))) (\<lambda>sessionID.
     act_bind (removeSession sessionID) (\<lambda>_.
       act_modify (\<lambda>s. s\<lparr>phases := (phases s)(c := Closed), numberOfConnections := numberOfConnections s - 1\<rparr>)))"

definition connection_turn :: "'w outside \<Rightarrow> nat \<Rightarrow> line \<Rightarrow> ('w server, unit) act" where
  "connection_turn out c inp =
     act_bind (attempt (handle_line out c inp)) (\<lambda>r. case r of
       Ok True \<Rightarrow> ret ()
     | Ok False \<Rightarrow> act_modify (\<lambda>s. s\<lparr>phases := (phases s)(c := Abandoned)\<rparr>)
     | _ \<Rightarrow> close_connection c)"

text \<open>The loop of \<open>listenForConnections\<close> for a connection from \<open>ip\<close>; a banned address is closed at once.\<close>

definition accept_connection :: "'w outside \<Rightarrow> string \<Rightarrow> 'w server \<Rightarrow> 'w server option" where
  "accept_connection out ip s =
     (if MaxConnections (svConfig s) < numberOfConnections s then None
      else if isBanned ip then Some s
      else map_option (\<lambda>(x, s1). s1\<lparr>
          conns := (conns s1)(nextConn s1 := \<lparr>scIp = ip, scLogin = [], scExtranonce1 = x, scUserAgent = [], scSessionID = []\<rparr>),
          phases := (phases s1)(nextConn s1 := Serving), nextConn := Suc (nextConn s1),
          numberOfConnections := numberOfConnections s1 + 1\<rparr>)
        (uniqueExtranonce (digitsR out) (extranonce1Length * 2) s))"

section \<open>The share buffer\<close>

definition flush_take :: "('w server, unit) act" where
  "flush_take = act_modify (\<lambda>s. s\<lparr>flushing := Some (shareBuffer s), shareBuffer := []\<rparr>)"

definition flush_write :: "Share list \<Rightarrow> ('w server, unit) act" where
  "flush_write sharesToWrite =
     act_bind (attempt (Shares_InsertBatch sharesToWrite)) (\<lambda>r.
       act_modify (\<lambda>s. s\<lparr>flushing := None,
         shareBuffer := (if is_ok r then shareBuffer s else shareBuffer s @ sharesToWrite)\<rparr>))"

section \<open>Start\<close>

definition NewServer :: "pool_config \<Rightarrow> (string \<Rightarrow> Manager option) \<Rightarrow> 'w server \<Rightarrow> 'w server" where
  "NewServer cfg managers s = s\<lparr>svConfig := cfg, svManagers := managers, activeNodes := Map.empty, recoveries := [],
     templates := \<lparr>pairBlock = empty_block, AuxBlocks = []\<rparr>, workCache := [], shareBuffer := [], flushing := None,
     sessions := [], nextConn := 0, extranonces := {}, numberOfConnections := 0\<rparr>"

text \<open>\<open>Start\<close> up to the loops it enters; an error there is a panic.  \<open>make\<close> of a negative length panics.\<close>

definition startBufferManager :: "('w server, unit) act" where
  "startBufferManager = act_bind (act_gets (\<lambda>s. ShareFlushInterval (svConfig s))) (\<lambda>interval.
     act_bind (lift_res (mustParseDuration interval)) (\<lambda>_. ret ()))"

definition Start :: "'w outside \<Rightarrow> ('w server, unit) act" where
  "Start out =
     act_bind (act_modify (\<lambda>s. s\<lparr>sessions := []\<rparr>)) (\<lambda>_.
     act_bind (loadBlockchainNodes out) (\<lambda>_.
     act_bind startBufferManager (\<lambda>_.
     act_bind (act_gets svConfig) (\<lambda>config.
     if BlockChainOrder config = [] then lift_res (Panic ''makeslice: len out of range'')
     else act_bind (act_modify (\<lambda>s. s\<lparr>templates := (templates s)\<lparr>AuxBlocks :=
          replicate (length (BlockChainOrder config) - 1) zero_aux\<rparr>\<rparr>)) (\<lambda>_.
     act_bind (fatal_on_error (fetchRpcBlockTemplatesAndCacheWork out)) (\<lambda>_.
     act_bind (fatal_on_error (generateWorkFromCache out False)) (\<lambda>work.
     act_bind (lift_res (mustParseDuration (ConnectionTimeout config))) (\<lambda>_.
       broadcastWork out work))))))))"

section \<open>The running server\<close>

text \<open>Every step is a whole turn of one goroutine.  A turn that panics ends the program and has no
  successor.  \<open>outside\<close> lets the world of the nodes move; \<open>return_primary\<close> is a turn of the loop a manager
  that left its primary has started.\<close>

inductive pool_step :: "'w outside \<Rightarrow> 'w server \<Rightarrow> 'w server \<Rightarrow> bool" for out where
  accept: "accept_connection out ip s = Some s' \<Longrightarrow> pool_step out s s'"
| turn: "c < nextConn s \<Longrightarrow> phases s c = Serving \<Longrightarrow> connection_turn out c inp s = (Ok (), s') \<Longrightarrow> pool_step out s s'"
| new_block: "on_new_block out msg s = (Ok (), s') \<Longrightarrow> pool_step out s s'"
| take_shares: "flushing s = None \<Longrightarrow> flush_take s = (Ok (), s') \<Longrightarrow> pool_step out s s'"
| write_shares: "flushing s = Some ss \<Longrightarrow> flush_write ss s = (Ok (), s') \<Longrightarrow> pool_step out s s'"
| return_primary: "coin \<in> set (recoveries s) \<Longrightarrow> svManagers s coin = Some m \<Longrightarrow>
    pool_step out s (s\<lparr>svManagers := (svManagers s)(coin \<mapsto> RestorePrimary m)\<rparr>)"
| outside: "pool_step out s (s\<lparr>nodes := w\<rparr>)"

end
