(* ===== verification/PoolInvariant.thy ===== *)
theory PoolInvariant
  imports PoolServer
begin

text \<open>
  What every step of the server keeps.  Work, templates, fail-over and delivery touch only a few
  fields of the state: a predicate that does not look at these is kept by all of them, which is the
  locale \<open>work_blind\<close>.  The invariant of a running server is one such predicate.
\<close>

section \<open>Predicates that do not look at the work\<close>

locale work_blind =
  fixes P :: "'w server \<Rightarrow> bool"
  assumes nodes [simp]: "P (s\<lparr>nodes := w\<rparr>) = P s"
    and jobs [simp]: "P (s\<lparr>jobCounter := n\<rparr>) = P s"
    and cached [simp]: "P (s\<lparr>workCache := c\<rparr>) = P s"
    and templated [simp]: "P (s\<lparr>templates := t\<rparr>) = P s"
    and managed [simp]: "P (s\<lparr>svManagers := m\<rparr>) = P s"
    and recovering [simp]: "P (s\<lparr>recoveries := r\<rparr>) = P s"
    and written [simp]: "P (s\<lparr>writes := n\<rparr>) = P s"
    and delivered [simp]: "P (s\<lparr>sent := p\<rparr>) = P s"
    and counted [simp]: "P (s\<lparr>hashblockCounter := h\<rparr>) = P s"
begin

lemma keeps_via_rpc: "keeps P (via_rpc rpc f)"
  unfolding via_rpc_def by (auto intro!: keeps_on_nodes triple_lift split: option.split)

lemma keeps_GetPrimaryNode: "keeps P GetPrimaryNode"
  unfolding GetPrimaryNode_def by (intro keeps_bind triple_gets triple_lift)

lemma keeps_fetch_aux: "keeps P (fetch_aux out acc names)"
  by (induction names arbitrary: acc)
     (auto intro!: keeps_bind keeps_attempt keeps_via_rpc triple_gets triple_ret split: res.split option.split prod.split)

lemma keeps_unmarshal: "keeps P (unmarshal_or_fail d z r)"
  unfolding unmarshal_or_fail_def by (auto intro!: triple_ret triple_lift split: option.split prod.split)

lemma keeps_fetchAll: "keeps P (fetchAllBlockTemplatesFromRPC out)"
  unfolding fetchAllBlockTemplatesFromRPC_def
  by (intro keeps_bind keeps_GetPrimaryNode keeps_map_error keeps_via_rpc keeps_unmarshal triple_gets keeps_fetch_aux triple_ret)

lemma keeps_recover_manager: "keeps P (recover_manager out coin m)"
  by (rule tripleI) (auto simp: recover_manager_def split: prod.splits)

lemma keeps_recover_loop: "keeps P (recover_loop out coins)"
  by (induction coins) (auto intro!: keeps_bind keeps_map_error keeps_recover_manager triple_gets triple_ret split: option.split)

lemma keeps_Pool_CheckAndRecoverRPCs: "keeps P (Pool_CheckAndRecoverRPCs out)"
  unfolding Pool_CheckAndRecoverRPCs_def by (auto intro!: keeps_bind keeps_recover_loop triple_gets split: prod.split)

lemma keeps_generate_work: "keeps P (generate_work out t aux name arb pk n)"
  by (rule tripleI) (auto simp: generate_work_def split: res.splits prod.splits)

lemma keeps_auxillary_text: "keeps P (auxillary_text out aux)"
  unfolding auxillary_text_def
  by (auto intro!: keeps_bind triple_gets triple_lift triple_modify triple_ret split: prod.split list.split)

lemma keeps_fetchRpc: "keeps P (fetchRpcBlockTemplatesAndCacheWork out)"
  unfolding fetchRpcBlockTemplatesAndCacheWork_def
  by (auto intro!: keeps_bind keeps_attempt keeps_fetchAll keeps_Pool_CheckAndRecoverRPCs keeps_auxillary_text
      keeps_GetPrimaryNode keeps_generate_work triple_gets triple_lift triple_modify triple_ret split: prod.split res.split)

lemma keeps_generateWorkFromCache: "keeps P (generateWorkFromCache out force)"
  unfolding generateWorkFromCache_def
  by (auto intro!: keeps_bind keeps_fetchAll keeps_generate_work triple_gets triple_lift triple_modify triple_ret split: prod.split)

lemma keeps_sendPacket: "keeps P (sendPacket out p c)"
  by (rule tripleI) (auto simp: sendPacket_def split: option.splits)

lemma keeps_broadcastWork: "keeps P (broadcastWork out work)"
  unfolding broadcastWork_def notifyAllSessions_def
  by (auto intro!: keeps_bind keeps_for_each keeps_attempt keeps_sendPacket triple_gets triple_ret split: prod.split)

lemma keeps_on_new_block: "keeps P (on_new_block out msg)"
  unfolding on_new_block_def
  by (intro keeps_bind keeps_attempt keeps_fetchRpc keeps_generateWorkFromCache keeps_broadcastWork triple_modify) simp

lemma keeps_submit_entries: "keeps P (submit_entries out hdr name es)"
  by (induction es) (auto intro!: keeps_bind keeps_attempt keeps_via_rpc triple_gets triple_ret simp: Let_def)

lemma keeps_receiveWork: "keeps P (receiveWorkFromClient out work)"
  unfolding receiveWorkFromClient_def Let_def
  by (auto intro!: keeps_bind keeps_map_error keeps_attempt keeps_generateWorkFromCache keeps_fetchAll keeps_generate_work
      keeps_via_rpc keeps_for_each keeps_submit_entries triple_gets triple_lift split: prod.split)

lemma keeps_miningSubmit: "keeps P (miningSubmit out rq)"
  unfolding miningSubmit_def Let_def
  by (auto intro!: keeps_bind keeps_attempt keeps_receiveWork triple_lift triple_ret split: prod.split option.split res.split)

end

section \<open>Logins\<close>

text \<open>A login that opens a session: one address per chain of the merge order, each valid on its chain for
  the network its node reports, joined with \<open>-\<close>, a dot, and the rig.\<close>

definition authorised :: "scrypt_fn \<Rightarrow> (string \<Rightarrow> string) \<Rightarrow> string list \<Rightarrow> string \<Rightarrow> bool" where
  "authorised scrypt network order login \<longleftrightarrow> (\<exists>addresses rig.
     login = Join ''-'' addresses @ ''.'' @ rig \<and> CHR ''.'' \<notin> set rig \<and> length addresses = length order \<and>
     (\<forall>a \<in> set addresses. CHR ''-'' \<notin> set a \<and> CHR ''.'' \<notin> set a) \<and>
     (\<forall>(name, a) \<in> set (zip order addresses). \<exists>c. GetChain scrypt name = Ok c \<and>
        (network name = ''test'' \<longrightarrow> ValidTestnetAddress c a) \<and> (network name = ''main'' \<longrightarrow> ValidMainnetAddress c a)))"

lemma check_addresses_Ok:
  "check_addresses scrypt network ip ps = Ok u \<Longrightarrow> (name, a) \<in> set ps \<Longrightarrow> \<exists>c. GetChain scrypt name = Ok c \<and>
     (network name = ''test'' \<longrightarrow> ValidTestnetAddress c a) \<and> (network name = ''main'' \<longrightarrow> ValidMainnetAddress c a)"
proof (induction ps)
  case (Cons p ps)
  obtain nm ad where p: "p = (nm, ad)" by (cases p)
  obtain c where c: "GetChain scrypt nm = Ok c" and valid: "network nm = ''test'' \<longrightarrow> ValidTestnetAddress c ad"
      "network nm = ''main'' \<longrightarrow> ValidMainnetAddress c ad" and rest: "check_addresses scrypt network ip ps = Ok u"
    using Cons.prems(1) unfolding p by (cases "GetChain scrypt nm") (auto split: if_split_asm)
  from Cons.prems(2) consider "(name, a) = (nm, ad)" | "(name, a) \<in> set ps" unfolding p by auto
  then show ?case
  proof cases
    case 1
    with c valid show ?thesis by blast
  qed (use Cons.IH rest in blast)
qed simp

lemma check_login_authorised:
  assumes "check_login scrypt network order ip login = Ok u"
  shows "authorised scrypt network order login"
proof -
  have "length (Split CHR ''.'' login) = 2" using assms by (simp add: check_login_def Let_def split: if_splits)
  then obtain pre rig where parts: "Split CHR ''.'' login = [pre, rig]" by (auto simp: numeral_2_eq_2 length_Suc_conv)
  let ?as = "Split CHR ''-'' pre"
  have "(if length ?as \<noteq> length order then Err (''not enough miner addresses to login: expected '' @ dec_text (length order))
      else check_addresses scrypt network ip (zip order ?as)) = Ok u"
    using assms by (simp only: check_login_def Let_def parts nth_Cons_0) simp
  then have len: "length ?as = length order" and ok: "check_addresses scrypt network ip (zip order ?as) = Ok u"
    by (simp_all split: if_splits)
  have "login = pre @ ''.'' @ rig" using Join_Split [of "CHR ''.''" login] parts by simp
  moreover have "pre = Join ''-'' ?as" by (simp add: Join_Split)
  moreover have dots: "CHR ''.'' \<notin> set rig" "CHR ''.'' \<notin> set pre"
    using Split_parts_free [of _ "CHR ''.''" login] parts by auto
  moreover have "CHR ''-'' \<notin> set a \<and> CHR ''.'' \<notin> set a" if "a \<in> set ?as" for a
    using that dots(2) Split_parts_free [OF that] Split_parts_chars [OF that] by auto
  ultimately show ?thesis
    unfolding authorised_def using len check_addresses_Ok [OF ok]
    by (intro exI [of _ ?as] exI [of _ rig]) auto
qed

section \<open>The invariant\<close>

definition hex_text_of :: "nat \<Rightarrow> string \<Rightarrow> bool" where
  "hex_text_of n x \<longleftrightarrow> length x = n \<and> set x \<subseteq> set ''0123456789abcdef''"

definition network_of :: "'w server \<Rightarrow> string \<Rightarrow> string" where
  "network_of s name = bnNetwork (node_of s name)"

text \<open>The connections still counted.\<close>

definition held :: "nat \<Rightarrow> (nat \<Rightarrow> phase) \<Rightarrow> nat set" where
  "held n ph = {c. c < n \<and> ph c \<noteq> Closed}"

text \<open>\<open>s0\<close> is the state after the start, \<open>ph\<close> and \<open>n\<close> are the phases and number of connections.\<close>

definition turn_inv :: "'w outside \<Rightarrow> 'w server \<Rightarrow> (nat \<Rightarrow> phase) \<Rightarrow> nat \<Rightarrow> 'w server \<Rightarrow> bool" where
  "turn_inv out s0 ph n s \<longleftrightarrow> phases s = ph \<and> nextConn s = n \<and>
     svConfig s = svConfig s0 \<and> activeNodes s = activeNodes s0 \<and>
     shares s = shares s0 \<and> shareBuffer s = [] \<and> (flushing s = None \<or> flushing s = Some []) \<and>
     numberOfConnections s = int (card (held n ph)) \<and> numberOfConnections s \<le> max 0 (MaxConnections (svConfig s0) + 1) \<and>
     (\<forall>c < n. scExtranonce1 (conns s c) \<in> extranonces s \<and> hex_text_of 8 (scExtranonce1 (conns s c))) \<and>
     inj_on (\<lambda>c. scExtranonce1 (conns s c)) {..<n} \<and>
     (\<forall>(sid, c) \<in> set (sessions s). c < n \<and>
        authorised (scryptFn out) (network_of s0) (BlockChainOrder (svConfig s0)) (scLogin (conns s c)))"

definition pool_inv :: "'w outside \<Rightarrow> 'w server \<Rightarrow> 'w server \<Rightarrow> bool" where
  "pool_inv out s0 s \<longleftrightarrow> turn_inv out s0 (phases s) (nextConn s) s"

interpretation turning: work_blind "turn_inv out s0 ph n" for out s0 ph n
  by unfold_locales (simp_all add: turn_inv_def)

interpretation pooling: work_blind "pool_inv out s0" for out s0
  by unfold_locales (simp_all add: pool_inv_def turn_inv_def)

section \<open>Handlers\<close>

lemma AList_update_set: "(k, v) \<in> set (AList.update k' v' m) \<Longrightarrow> (k, v) = (k', v') \<or> (k, v) \<in> set m"
  by (induction m) (auto split: if_splits)

lemma AList_delete_set: "x \<in> set (AList.delete k m) \<Longrightarrow> x \<in> set m"
  by (auto simp: AList.delete_eq)

lemma keeps_removeSession: "keeps (turn_inv out s0 ph n) (removeSession sid)"
  unfolding removeSession_def by (rule triple_modify) (auto simp: turn_inv_def dest!: AList_delete_set)

lemma keeps_set_client:
  assumes "\<And>cl. scExtranonce1 (f cl) = scExtranonce1 cl"
    and "\<And>cl. scLogin (f cl) = scLogin cl \<or> authorised (scryptFn out) (network_of s0) (BlockChainOrder (svConfig s0)) (scLogin (f cl))"
  shows "keeps (turn_inv out s0 ph n) (set_client c f)"
  unfolding set_client_def
proof (rule triple_modify)
  fix s :: "'a server"
  assume inv: "turn_inv out s0 ph n s"
  let ?conns = "(conns s)(c := f (conns s c))"
  have x: "scExtranonce1 (?conns d) = scExtranonce1 (conns s d)" for d by (simp add: assms(1))
  have l: "authorised (scryptFn out) (network_of s0) (BlockChainOrder (svConfig s0)) (scLogin (?conns d))"
    if "authorised (scryptFn out) (network_of s0) (BlockChainOrder (svConfig s0)) (scLogin (conns s d))" for d
    using that assms(2) [of "conns s c"] by auto
  have "conns (s\<lparr>conns := ?conns\<rparr>) = ?conns" by simp
  then show "turn_inv out s0 ph n (s\<lparr>conns := ?conns\<rparr>)"
    using inv l unfolding turn_inv_def by (simp del: fun_upd_apply add: x) blast
qed

lemma keeps_addSession:
  "triple (\<lambda>s. turn_inv out s0 ph n s \<and>
       authorised (scryptFn out) (network_of s0) (BlockChainOrder (svConfig s0)) (scLogin (conns s c)))
     (addSession c) (\<lambda>_. turn_inv out s0 ph n) (turn_inv out s0 ph n)" if "c < n"
  unfolding addSession_def using that
  by (intro triple_modify) (auto simp: turn_inv_def dest!: AList_update_set)

lemma turn_inv_network: "turn_inv out s0 ph n s \<Longrightarrow> (\<lambda>name. bnNetwork (node_of s name)) = network_of s0"
  by (simp add: fun_eq_iff turn_inv_def network_of_def node_of_def)

lemma keeps_miningSubscribe: "keeps (turn_inv out s0 ph n) (miningSubscribe out rq c)"
  unfolding miningSubscribe_def Let_def
  by (auto intro!: keeps_bind keeps_set_client triple_gets triple_ret triple_lift triple_modify simp: turn_inv_def split: list.split)

lemma triple_set_login:
  assumes "authorised (scryptFn out) (network_of s0) (BlockChainOrder (svConfig s0)) login"
  shows "triple (turn_inv out s0 ph n) (set_client c (\<lambda>cl. cl\<lparr>scLogin := login\<rparr>))
     (\<lambda>_ s. turn_inv out s0 ph n s \<and> authorised (scryptFn out) (network_of s0) (BlockChainOrder (svConfig s0)) (scLogin (conns s c)))
     (turn_inv out s0 ph n)"
proof (rule tripleI)
  fix s x s'
  assume inv: "turn_inv out s0 ph n s" and run: "set_client c (\<lambda>cl. cl\<lparr>scLogin := login\<rparr>) s = (Ok x, s')"
  have "turn_inv out s0 ph n s'" using keepsD [OF keeps_set_client inv run] assms by simp
  moreover have "scLogin (conns s' c) = login" using run by (auto simp: set_client_def act_modify_def)
  ultimately show "turn_inv out s0 ph n s' \<and>
      authorised (scryptFn out) (network_of s0) (BlockChainOrder (svConfig s0)) (scLogin (conns s' c))"
    using assms by simp
qed (auto simp: set_client_def act_modify_def)

lemma triple_pure: "(A \<Longrightarrow> triple P m Q E) \<Longrightarrow> triple (\<lambda>s. P s \<and> A) m Q E"
  by (auto simp: triple_def)

lemma keeps_miningAuthorize:
  assumes "c < n"
  shows "keeps (turn_inv out s0 ph n) (miningAuthorize out rq c)"
proof -
  let ?I = "turn_inv out s0 ph n"
  have body: "keeps ?I (act_bind (act_gets svConfig) (\<lambda>config.
         act_bind (act_gets (\<lambda>s name. bnNetwork (node_of s name))) (\<lambda>network.
         act_bind (lift_res (check_login (scryptFn out) network (BlockChainOrder config) ip login)) (\<lambda>_.
         act_bind (set_client c (\<lambda>cl. cl\<lparr>scLogin := login\<rparr>)) (\<lambda>_. act_bind (addSession c) (\<lambda>_.
         act_bind (sendPacket out p c) (\<lambda>_. act_bind (sendPacket out (q config) c) (\<lambda>_.
         act_bind (generateWorkFromCache out False) (\<lambda>work. ret (f work))))))))))" for ip login p q f
  proof (rule triple_bind [where R = "\<lambda>config s. ?I s \<and> config = svConfig s0"], rule triple_gets)
    fix config
    show "triple (\<lambda>s. ?I s \<and> config = svConfig s0) (act_bind (act_gets (\<lambda>s name. bnNetwork (node_of s name))) (\<lambda>network.
         act_bind (lift_res (check_login (scryptFn out) network (BlockChainOrder config) ip login)) (\<lambda>_.
         act_bind (set_client c (\<lambda>cl. cl\<lparr>scLogin := login\<rparr>)) (\<lambda>_. act_bind (addSession c) (\<lambda>_.
         act_bind (sendPacket out p c) (\<lambda>_. act_bind (sendPacket out (q config) c) (\<lambda>_.
         act_bind (generateWorkFromCache out False) (\<lambda>work. ret (f work))))))))) (\<lambda>_. ?I) ?I"
    proof (rule triple_pure, rule triple_bind [where R = "\<lambda>network s. ?I s \<and> network = network_of s0"], rule triple_gets)
      fix s
      assume "?I s"
      then show "?I s \<and> (\<lambda>name. bnNetwork (node_of s name)) = network_of s0" using turn_inv_network by blast
    next
      fix network
      assume config: "config = svConfig s0"
      let ?login = "check_login (scryptFn out) network (BlockChainOrder config) ip login"
      show "triple (\<lambda>s. ?I s \<and> network = network_of s0) (act_bind (lift_res ?login) (\<lambda>_.
         act_bind (set_client c (\<lambda>cl. cl\<lparr>scLogin := login\<rparr>)) (\<lambda>_. act_bind (addSession c) (\<lambda>_.
         act_bind (sendPacket out p c) (\<lambda>_. act_bind (sendPacket out (q config) c) (\<lambda>_.
         act_bind (generateWorkFromCache out False) (\<lambda>work. ret (f work)))))))) (\<lambda>_. ?I) ?I"
      proof (rule triple_pure, rule triple_bind [where R = "\<lambda>_ s. ?I s \<and> is_ok ?login"], rule triple_lift)
        fix u
        assume network: "network = network_of s0"
        have login: "authorised (scryptFn out) (network_of s0) (BlockChainOrder (svConfig s0)) login" if "is_ok ?login"
          using that check_login_authorised config network by (cases ?login) auto
        show "triple (\<lambda>s. ?I s \<and> is_ok ?login) (act_bind (set_client c (\<lambda>cl. cl\<lparr>scLogin := login\<rparr>)) (\<lambda>_.
           act_bind (addSession c) (\<lambda>_. act_bind (sendPacket out p c) (\<lambda>_. act_bind (sendPacket out (q config) c) (\<lambda>_.
           act_bind (generateWorkFromCache out False) (\<lambda>work. ret (f work))))))) (\<lambda>_. ?I) ?I"
          by (rule triple_pure, rule triple_bind [OF triple_set_login [OF login]], assumption,
            rule triple_bind [OF keeps_addSession [OF assms]])
            (intro keeps_bind turning.keeps_sendPacket turning.keeps_generateWorkFromCache triple_ret)
      qed simp_all
    qed
  qed (simp_all add: turn_inv_def)
  show ?thesis unfolding miningAuthorize_def
    by (auto intro!: keeps_bind triple_gets triple_lift body split: prod.split option.split list.split)
qed

lemma keeps_handle:
  assumes "c < n"
  shows "keeps (turn_inv out s0 ph n) (handleStratumRequest out rq c)"
  unfolding handleStratumRequest_def miningExtranonceSubscribe_def
  using keeps_miningAuthorize [OF assms] keeps_miningSubscribe turning.keeps_miningSubmit
  by (auto intro!: triple_ret triple_lift)

lemma keeps_respond:
  assumes "c < n"
  shows "keeps (turn_inv out s0 ph n) (respondToStratumClient out c payload)"
  unfolding respondToStratumClient_def
  by (auto intro!: keeps_bind keeps_handle [OF assms] turning.keeps_sendPacket triple_lift split: option.split prod.split)

lemma keeps_handle_line:
  assumes "c < n"
  shows "keeps (turn_inv out s0 ph n) (handle_line out c inp)"
  unfolding handle_line_def banClient_def
  by (auto intro!: keeps_bind keeps_respond [OF assms] keeps_removeSession triple_gets triple_lift triple_ret split: line.split)

section \<open>Fresh extranonces\<close>

lemma hex_digit_mem: "hex_digit d \<in> set ''0123456789abcdef''"
proof -
  have "d mod 16 < length ''0123456789abcdef''" by simp
  then show ?thesis unfolding hex_digit_def by (rule nth_mem)
qed

lemma randomHex_form: "hex_text_of n (randomHex digits n d)"
  using hex_digit_mem unfolding hex_text_of_def randomHex_def by auto

lemma fresh_loop_Some:
  assumes "fresh_loop digits n used d = Some (x, d')"
  shows "x \<notin> used \<and> hex_text_of n x"
proof -
  have "case (x, d') of (x, d') \<Rightarrow> x \<notin> used \<and> hex_text_of n x"
    by (rule fresh_loop.raw_induct [where P = "\<lambda>digits n used d r. case r of (x, d') \<Rightarrow> x \<notin> used \<and> hex_text_of n x", OF _ assms])
       (use randomHex_form in \<open>auto split: if_splits\<close>)
  then show ?thesis by simp
qed

text \<open>After \<open>k\<close> texts in use the loop stands at the \<open>k\<close>-th.\<close>

lemma fresh_loop_skip:
  "(\<forall>j < k. randomHex digits n (d + j * n) \<in> used) \<Longrightarrow> fresh_loop digits n used d = fresh_loop digits n used (d + k * n)"
proof (induction k arbitrary: d)
  case (Suc k)
  have "randomHex digits n d \<in> used" using Suc.prems [rule_format, of 0] by simp
  then have "fresh_loop digits n used d = fresh_loop digits n used (d + n)" by (simp add: fresh_loop.simps [of digits n used d])
  moreover have "\<forall>j < k. randomHex digits n (d + n + j * n) \<in> used"
    using Suc.prems [rule_format, of "Suc _"] by (simp add: add.assoc)
  ultimately show ?case using Suc.IH [of "d + n"] by (simp add: add.assoc)
qed simp

section \<open>Steps\<close>

lemma pool_inv_turn:
  assumes inv: "pool_inv out s0 s" and c: "c < nextConn s" and serving: "phases s c = Serving"
    and run: "connection_turn out c inp s = (Ok (), s')"
  shows "pool_inv out s0 s'"
proof -
  let ?I = "turn_inv out s0 (phases s) (nextConn s)"
  obtain r s1 where r: "attempt (handle_line out c inp) s = (Ok r, s1)" and rest: "(case r of Ok True \<Rightarrow> ret ()
     | Ok False \<Rightarrow> act_modify (\<lambda>s. s\<lparr>phases := (phases s)(c := Abandoned)\<rparr>) | _ \<Rightarrow> close_connection c) s1 = (Ok (), s')"
    using run by (auto simp: connection_turn_def act_bind_Ok_iff)
  have i1: "?I s1" using keepsD [OF keeps_attempt [OF keeps_handle_line [OF c]] _ r] inv by (simp add: pool_inv_def)
  then have ph: "phases s1 = phases s" and n: "nextConn s1 = nextConn s" by (simp_all add: turn_inv_def)
  have close: "pool_inv out s0 s'" if cl: "close_connection c s1 = (Ok (), s')"
  proof -
    let ?s2 = "s1\<lparr>sessions := AList.delete (scSessionID (conns s1 c)) (sessions s1)\<rparr>"
    have s': "s' = ?s2\<lparr>phases := (phases s1)(c := Closed), numberOfConnections := numberOfConnections s1 - 1\<rparr>"
      using cl by (simp add: close_connection_def removeSession_def act_bind_def act_gets_def act_modify_def)
    have "?I ?s2" using i1 by (auto simp: turn_inv_def dest!: AList_delete_set)
    moreover have "held (nextConn s) ((phases s)(c := Closed)) = held (nextConn s) (phases s) - {c}" by (auto simp: held_def)
    moreover have "card (held (nextConn s) (phases s)) = Suc (card (held (nextConn s) (phases s) - {c}))"
      using c serving by (intro card.remove) (simp_all add: held_def)
    ultimately show ?thesis
      unfolding s' pool_inv_def turn_inv_def by (auto simp: ph n)
  qed
  show ?thesis
  proof (cases r)
    case (Ok b)
    show ?thesis
    proof (cases b)
      case True
      then have "s' = s1" using rest Ok by (simp add: ret_def)
      then show ?thesis using i1 by (simp add: pool_inv_def ph n)
    next
      case False
      have "held (nextConn s) ((phases s)(c := Abandoned)) = held (nextConn s) (phases s)" using serving by (auto simp: held_def)
      then show ?thesis using rest i1 Ok False by (auto simp: act_modify_def pool_inv_def turn_inv_def ph n)
    qed
  qed (use rest close in simp_all)
qed

lemma pool_inv_accept:
  assumes inv: "pool_inv out s0 s" and acc: "accept_connection out ip s = Some s'"
  shows "pool_inv out s0 s'"
proof -
  let ?n = "nextConn s"
  obtain x d where le: "numberOfConnections s \<le> MaxConnections (svConfig s)"
    and fresh: "fresh_loop (digitsR out) 8 (extranonces s) (draws s) = Some (x, d)"
    and s': "s' = s\<lparr>extranonces := insert x (extranonces s), draws := d,
          conns := (conns s)(?n := \<lparr>scIp = ip, scLogin = [], scExtranonce1 = x, scUserAgent = [], scSessionID = []\<rparr>),
          phases := (phases s)(?n := Serving), nextConn := Suc ?n, numberOfConnections := numberOfConnections s + 1\<rparr>"
    using acc by (auto simp: accept_connection_def isBanned_def uniqueExtranonce_def extranonce1Length_def split: if_splits)
  have x: "x \<notin> extranonces s" "hex_text_of 8 x" using fresh_loop_Some [OF fresh] by simp_all
  have "held (Suc ?n) ((phases s)(?n := Serving)) = insert ?n (held ?n (phases s))" by (auto simp: held_def less_Suc_eq)
  moreover have "?n \<notin> held ?n (phases s)" "finite (held ?n (phases s))" by (simp_all add: held_def)
  ultimately have card: "card (held (Suc ?n) ((phases s)(?n := Serving))) = Suc (card (held ?n (phases s)))" by simp
  have inj: "inj_on (\<lambda>c. scExtranonce1 (conns s' c)) {..<Suc ?n}"
  proof (rule inj_onI)
    fix a b
    assume ab: "a \<in> {..<Suc ?n}" "b \<in> {..<Suc ?n}" "scExtranonce1 (conns s' a) = scExtranonce1 (conns s' b)"
    have old: "scExtranonce1 (conns s c) \<noteq> x" if "c < ?n" for c using inv that x(1) by (auto simp: pool_inv_def turn_inv_def)
    have "inj_on (\<lambda>c. scExtranonce1 (conns s c)) {..<?n}" using inv by (simp add: pool_inv_def turn_inv_def)
    then show "a = b" using ab old by (auto simp: s' less_Suc_eq inj_on_def split: if_splits)
  qed
  show ?thesis
    using inv inj x le card unfolding pool_inv_def turn_inv_def s'
    by (auto simp: less_Suc_eq split: prod.splits)
qed

lemma pool_inv_tick [simp]: "pool_inv out s0 (s\<lparr>tick := t\<rparr>) = pool_inv out s0 s"
  by (simp add: pool_inv_def turn_inv_def)

lemma pool_inv_tick_apart: "tick_apart s t \<Longrightarrow> pool_inv out s0 s \<Longrightarrow> pool_inv out s0 t"
proof -
  assume "tick_apart s t" and inv: "pool_inv out s0 s"
  then have "t\<lparr>tick := 0\<rparr> = s\<lparr>tick := 0\<rparr>" by (simp add: tick_apart_def)
  then have "pool_inv out s0 (t\<lparr>tick := 0\<rparr>)" using inv by (metis pool_inv_tick)
  then show ?thesis by simp
qed

lemma pool_inv_flush:
  assumes inv: "pool_inv out s0 s" and "flushing s = Some ss" and run: "flush_write ss s = (Ok (), s')"
  shows "pool_inv out s0 s'"
proof -
  have ss: "ss = []" using inv assms(2) by (simp add: pool_inv_def turn_inv_def)
  obtain r s1 where r: "attempt (Shares_InsertBatch ss) s = (Ok r, s1)"
    and s': "s' = s1\<lparr>flushing := None, shareBuffer := (if is_ok r then shareBuffer s1 else shareBuffer s1 @ ss)\<rparr>"
    using run by (auto simp: flush_write_def act_bind_Ok_iff act_modify_def)
  then obtain q where q: "Shares_InsertBatch ss s = (q, s1)" by (auto simp: attempt_def split: prod.splits res.splits)
  have "tick_apart s s1"
    using triple_OkD [OF InsertBatch_triple [of s ss], of s _ s1] triple_failD [OF InsertBatch_triple [of s ss], of s q s1] q
    by (cases q) (auto simp: ss)
  then have "pool_inv out s0 s1" using inv by (rule pool_inv_tick_apart)
  then show ?thesis by (auto simp: s' ss pool_inv_def turn_inv_def)
qed

lemma pool_inv_step: "pool_step out s s' \<Longrightarrow> pool_inv out s0 s \<Longrightarrow> pool_inv out s0 s'"
proof (induction rule: pool_step.induct)
  case (accept ip s s')
  then show ?case by (metis pool_inv_accept)
next
  case (turn c s inp s')
  then show ?case by (metis pool_inv_turn)
next
  case (new_block msg s s')
  then show ?case using keepsD [OF pooling.keeps_on_new_block] by metis
next
  case (take_shares s s')
  then show ?case by (auto simp: flush_take_def act_modify_def pool_inv_def turn_inv_def)
next
  case (write_shares s ss s')
  then show ?case by (metis pool_inv_flush)
qed simp_all

lemma pool_inv_reachable: "(pool_step out)\<^sup>*\<^sup>* s s' \<Longrightarrow> pool_inv out s0 s \<Longrightarrow> pool_inv out s0 s'"
  by (induction rule: rtranclp_induct) (auto intro: pool_inv_step)

end
