(* ===== verification/RewardProperties.thy ===== *)
theory RewardProperties
  imports Rewards
begin

text \<open>
  What the payout schemes do with a reward: the frame and the books of a distribution, the awards of
  PROP and PPLNS in floating point, and the two ways in which a payout is refused or never cleans up.
\<close>

section \<open>The distribution of a reward\<close>

definition payees :: "pool_config \<Rightarrow> Found \<Rightarrow> 'z db_scheme \<Rightarrow> string set" where
  "payees config b d = insert (Miner b) (shMiner ` set (shares d)) \<union>
     (case Chains (Payouts config) (fChain b) of None \<Rightarrow> {} | Some c \<Rightarrow> rAddress ` set (PoolRewardRecipients c))"

lemma calculateBlockRewards_booked:
  assumes "K = {(PoolName config, fChain b, a) | a. a \<in> payees config b d}"
  shows "triple (booked K d) (calculateBlockRewards n ord b config man) (\<lambda>_. booked K d) (framed K d)"
proof -
  have K: "\<forall>m \<in> insert (Miner b) (shMiner ` set (shares d)). (PoolName config, fChain b, m) \<in> K"
    "\<forall>c rec. Chains (Payouts config) (fChain b) = Some c \<longrightarrow> rec \<in> set (PoolRewardRecipients c) \<longrightarrow>
      (PoolName config, fChain b, rAddress rec) \<in> K"
    by (auto simp: assms payees_def)
  show ?thesis
  proof (cases "payoutSchemeFactory (Scheme (Payouts config))")
    case (Ok s)
    then show ?thesis
      using solo_scheme.reward_booked [OF K] prop_scheme.reward_booked [OF K, where n = n and ord = ord]
        pplns_scheme.reward_booked [OF K, where n = n and ord = ord]
      by (cases s) (simp_all add: calculateBlockRewards_def calculateMinerRewards_def)
  qed (auto simp: calculateBlockRewards_def calculateMinerRewards_def act_bind_lift_fail
      intro!: triple_bind [OF solo_scheme.pool_part_booked [OF K(2)]] triple_lift_fail intro: booked_framed)
qed

lemma calculateBlockRewards_framed:
  assumes "keys_distinct d" and "calculateBlockRewards n ord b config man d = (r, d')"
  shows "keys_distinct d' \<and> beside_ledger d d'"
proof -
  let ?K = "{(PoolName config, fChain b, a) | a. a \<in> payees config b d}"
  have t: "triple (booked ?K d) (calculateBlockRewards n ord b config man) (\<lambda>_. booked ?K d) (framed ?K d)"
    by (rule calculateBlockRewards_booked) simp
  then have "framed ?K d d'"
    using triple_OkD [OF t booked_refl [OF assms(1)]] triple_failD [OF t booked_refl [OF assms(1)]] assms(2)
    by (cases r) (auto intro: booked_framed)
  then show ?thesis by (simp add: framed_def)
qed

text \<open>C8. The distribution of a reward, by any scheme, touches nothing but the ledger, and there only the
  pool's and chain's accounts of the block's finder, of miners with recorded shares and of the
  configured recipients; and when it succeeds, every balance grows by exactly what is recorded as its
  changes.\<close>

theorem block_rewards_booked:
  assumes "keys_distinct d" and "calculateBlockRewards n ord b config man d = (r, d')"
  shows "keys_distinct d' \<and> beside_ledger d d' \<and>
    (\<forall>p c a. \<not> (p = PoolName config \<and> c = fChain b \<and> a \<in> insert (Miner b) (shMiner ` set (shares d)) \<union>
        (case Chains (Payouts config) (fChain b) of None \<Rightarrow> {} | Some pc \<Rightarrow> rAddress ` set (PoolRewardRecipients pc))) \<longrightarrow>
       bal d' (p, c, a) = bal d (p, c, a) \<and> chg d' (p, c, a) = chg d (p, c, a)) \<and>
    (is_ok r \<longrightarrow> (\<forall>k. bal d' k - bal d k = chg d' k - chg d k))"
proof -
  let ?K = "{(PoolName config, fChain b, a) | a. a \<in> payees config b d}"
  have t: "triple (booked ?K d) (calculateBlockRewards n ord b config man) (\<lambda>_. booked ?K d) (framed ?K d)"
    by (rule calculateBlockRewards_booked) simp
  have ok: "is_ok r \<Longrightarrow> booked ?K d d'"
    using triple_OkD [OF t booked_refl [OF assms(1)]] assms(2) by (cases r) auto
  have "framed ?K d d'"
    using ok triple_failD [OF t booked_refl [OF assms(1)] assms(2)] by (auto intro: booked_framed)
  with ok show ?thesis unfolding framed_def booked_def payees_def by auto
qed

definition sample_rewarded :: db where
  "sample_rewarded = sample_db\<lparr>tick := 8,
     balances := [\<lparr>bKey = (''p'', ''dogecoin'', ''Ddev''), bAmount = 75000000, bCreated = 1000, bUpdated = 1000\<rparr>,
       \<lparr>bKey = (''p'', ''dogecoin'', ''D1''), bAmount = 150000000, bCreated = 1004, bUpdated = 1004\<rparr>],
     balance_changes := [
       \<lparr>cKey = (''p'', ''dogecoin'', ''Ddev''), cAmount = 75000000, cUsage = ''Reward for block 9'', cCreated = 1000\<rparr>,
       \<lparr>cKey = (''p'', ''dogecoin'', ''D1''), cAmount = 150000000, cUsage = ''SOLO REWARD FOR BLOCK 9'', cCreated = 1004\<rparr>]\<rparr>"

lemma sample_floats [simp]:
  "fpack double s (3 / 4) = Fin s (3 / 4)" "fpack double s (9 / 4) = Fin s (9 / 4)" "fpack double s (3 / 2) = Fin s (3 / 2)"
  using fpack_double [of "3 / 4" 3 "- 2" s] fpack_double [of "9 / 4" 9 "- 2" s] fpack_double [of "3 / 2" 3 "- 1" s]
  by (simp_all add: power_int_minus)

lemma sample_factory: "payoutSchemeFactory ''solo'' = Ok SOLO_scheme"
  by code_simp

lemma dec_9: "dec_text 9 = ''9''"
  by (simp add: dec_text_def nat_text_def base_digits.simps digit_char_def)

lemmas ledger_eval = AddAmount_def insert_change_def GetBalance_def query_def Balances_Insert_def Balances_Update_def
  balance_key_of_def act_bind_def ret_def lift_res_def Now_def sql_def sample_db_def sample_decimal_def decimal_param_def
  decimal_overflow_def Let_def

lemma sample_reward_run:
  "calculateBlockRewards 100000 (\<lambda>t ks. ks) sample_found sample_config sample_manager sample_db = (Ok 7, sample_rewarded)"
  by (simp add: calculateBlockRewards_def calculatePoolReward_def calculateMinerRewards_def SOLO_UpdateMinerBalances_def
      sample_found_def sample_config_def sample_manager_def GetIndex_def sample_factory fsub_def dec_9 usage_text_def
      sample_rewarded_def ledger_eval)

lemma block_rewards_booked_witness:
  "keys_distinct sample_rewarded \<and> beside_ledger sample_db sample_rewarded \<and>
    bal sample_rewarded (''q'', ''dogecoin'', ''D1'') = bal sample_db (''q'', ''dogecoin'', ''D1'') \<and>
    bal sample_rewarded (''p'', ''dogecoin'', ''Ddev'') - bal sample_db (''p'', ''dogecoin'', ''Ddev'') =
    chg sample_rewarded (''p'', ''dogecoin'', ''Ddev'') - chg sample_db (''p'', ''dogecoin'', ''Ddev'')"
  using block_rewards_booked [OF _ sample_reward_run] by (simp add: keys_distinct_def sample_db_def sample_config_def)

subsection \<open>PPLNS\<close>

definition fnonneg :: "fl \<Rightarrow> bool" where
  "fnonneg x = (case x of Fin s m \<Rightarrow> \<not> s \<and> 0 \<le> m | Inf s \<Rightarrow> \<not> s | NaN \<Rightarrow> False)"

lemma fpack_cases:
  assumes "0 \<le> m"
  obtains "fpack F s m = Inf s" | z where "fpack F s m = Fin s z" and "0 \<le> z"
proof (cases "m = 0")
  case False
  with assms have "0 \<le> round_to (fulp F m) m" by (intro round_to_nonneg) (auto simp: fulp_def)
  with that False show ?thesis by (cases "2 powi femax F \<le> round_to (fulp F m) m") (simp_all add: fpack_def Let_def)
qed (use that in \<open>simp add: fpack_def\<close>)

lemma fnonneg_fpack: "0 \<le> m \<Longrightarrow> fnonneg (fpack F False m)"
  by (erule fpack_cases [of m F False]) (auto simp: fnonneg_def)

lemma fnonneg_simps [simp]:
  "\<not> fnonneg NaN" "fnonneg (Inf s) = (\<not> s)" "fnonneg (Fin s m) = (\<not> s \<and> 0 \<le> m)"
  by (simp_all add: fnonneg_def)

lemma fnonneg_div: "fnonneg x \<Longrightarrow> 0 < y \<Longrightarrow> fnonneg (fdiv F x (Fin False y))"
  by (cases x) (auto simp: fnonneg_fpack)

lemma fnonneg_mul: "fnonneg x \<Longrightarrow> 0 < y \<Longrightarrow> fnonneg (fmul F x (Fin False y))"
  by (cases x) (auto simp: fnonneg_fpack)

text \<open>What is left of a reward after an award of at least nothing: it is used up, or positive and no
  more than before.\<close>

lemma remaining_bounds:
  assumes "0 < q" "q \<le> r" and r: "fpack double False r = Fin False r" and "fnonneg w"
    and left: "\<not> fle (sub64 (Fin False q) w) fzero"
  obtains q' where "sub64 (Fin False q) w = Fin False q'" and "0 < q'" and "q' \<le> r" and "w \<noteq> Fin False r"
proof -
  obtain m where w: "w = Fin False m" "0 \<le> m"
    using assms(4) left by (cases w) (auto simp: fnonneg_def fsub_def fle_def)
  have pos: "m < q"
  proof (rule ccontr)
    assume "\<not> m < q"
    then have qm: "0 \<le> m - q" by simp
    have eq: "sub64 (Fin False q) w = (if m - q = 0 then fzero else fpack double True (m - q))"
      using qm by (simp add: w fsub_def Let_def)
    have "fle (fpack double True (m - q)) fzero"
      by (rule fpack_cases [OF qm, of double True]) (simp_all add: fle_def less_eq_rat_def)
    with eq left show False by (simp add: fle_def split: if_splits)
  qed
  obtain x where x: "fpack double False (q - m) = Fin False x" "0 \<le> x" "x \<le> r"
    using fpack_mono [of "q - m" r double False r] assms(1-3) w pos by (auto simp: double_def)
  have "sub64 (Fin False q) w = Fin False x" using pos x by (simp add: w fsub_def Let_def)
  with left x pos assms(2) show ?thesis by (intro that [of x]) (auto simp: w fle_def)
qed

definition pplns_open :: "rat \<Rightarrow> pplns_scan \<Rightarrow> bool" where
  "pplns_open r a \<longleftrightarrow> (\<exists>q. pRemainingReward a = Fin False q \<and> 0 < q \<and> q \<le> r) \<and>
     pAccumlatedScore a = fzero \<and> pCutoffTime a = 0 \<and> \<not> windowDone a"

lemma pplns_share_open:
  assumes r: "0 < r" "fpack double False r = Fin False r" "fpack double False (2 * r) = Fin False (2 * r)"
    and share: "shDifficulty s = Fin False x" "0 \<le> x" "shNetworkDifficulty s = Fin False y" "0 < y"
    and a: "pplns_open r a" and step: "pplns_share (Fin False r) s a = Ok a'"
  shows "pplns_open r a'"
proof -
  obtain q where q: "pRemainingReward a = Fin False q" "0 < q" "q \<le> r"
    and rest: "pAccumlatedScore a = fzero" "pCutoffTime a = 0" "\<not> windowDone a"
    using a by (auto simp: pplns_open_def)
  have two: "sub64 NWindow fzero = Fin False 2" "fpack double False 2 = Fin False 2"
    using fpack_double [of 2 1 1 False] by (simp_all add: NWindow_def fsub_def)
  define score where "score = div64 (shDifficulty s) (shNetworkDifficulty s)"
  define reached where "reached = fle NWindow (add64 fzero score)"
  define w where "w = div64 (mul64 (if reached then Fin False 2 else score) (Fin False r)) NWindow"
  have "fnonneg score" unfolding score_def share using share by (intro fnonneg_div) (auto simp: fnonneg_def)
  then have w0: "fnonneg w"
    unfolding w_def NWindow_def using r by (intro fnonneg_div fnonneg_mul) (auto simp: fnonneg_def)
  have full: "w = Fin False r" if reached
    using that r by (simp add: w_def NWindow_def)
  have ok: "\<not> fle (sub64 (Fin False q) w) fzero"
    and a': "a' = \<lparr>pRemainingReward = sub64 (Fin False q) w, pAccumlatedScore = fzero,
       pMinerRewards = amount_add (pMinerRewards a) (shMiner s) w,
       pCutoffTime = (if reached then shCreated s else 0), windowDone = reached\<rparr>"
    using step unfolding pplns_share_def Let_def
    by (simp_all only: q(1) rest two score_def [symmetric] reached_def [symmetric] w_def [symmetric] if_True if_False
        disj.left_neutral res.inject res.distinct simp_thms split: if_splits)
  obtain q' where q': "sub64 (Fin False q) w = Fin False q'" "0 < q'" "q' \<le> r" "w \<noteq> Fin False r"
    using remaining_bounds [OF q(2,3) r(2) w0 ok] by blast
  with full have "\<not> reached" by blast
  with q' show ?thesis by (simp add: a' pplns_open_def)
qed

text \<open>C18. The PPLNS window never closes: whenever a PPLNS payout succeeds, its cutoff is the zero time, so
  no share is ever deleted after it.  A share that alone reaches the window takes the whole reward,
  which counts as an overflow, and the accumulated score is never updated.  (Difficulties are finite
  and not negative, the reward and its double are doubles.)\<close>

theorem PPLNS_never_cuts:
  assumes r: "0 < r" "fpack double False r = Fin False r" "fpack double False (2 * r) = Fin False (2 * r)"
    and difficulties: "\<forall>s \<in> set (shares d). \<exists>x y. shDifficulty s = Fin False x \<and> 0 \<le> x \<and>
        shNetworkDifficulty s = Fin False y \<and> 0 < y"
    and run: "PPLNS_UpdateMinerBalances n ord p (Fin False r) b d = (Ok t, d')"
  shows "t = 0"
proof -
  obtain a d1 where a: "page_loop n (pplns_share (Fin False r)) windowDone p (Created b) True (pplns_init (Fin False r)) d = (Ok a, d1)"
    and t: "t = pCutoffTime a"
    using run by (auto simp: PPLNS_UpdateMinerBalances_def act_bind_Ok_iff act_gets_def ret_def)
  have "pplns_open r a"
  proof (rule page_loop_inv [where I = "pplns_open r", OF _ _ a])
    show "pplns_open r (pplns_init (Fin False r))" using r by (simp add: pplns_open_def pplns_init_def)
  qed (use difficulties r in \<open>blast intro: pplns_share_open\<close>)
  with t show ?thesis by (simp add: pplns_open_def)
qed

definition pplns_after :: db where
  "pplns_after = (db_with_shares [sample_share ''A'' (1 / 2) 5])\<lparr>tick := 5,
     balances := [\<lparr>bKey = (''p'', ''dogecoin'', ''A''), bAmount = 75000000, bCreated = 1001, bUpdated = 1001\<rparr>],
     balance_changes := [\<lparr>cKey = (''p'', ''dogecoin'', ''A''), cAmount = 75000000, cUsage = ''PPLNS REWARD FOR BLOCK 9'', cCreated = 1001\<rparr>]\<rparr>"

lemma more_floats [simp]:
  "fpack double s (1 / 2) = Fin s (1 / 2)" "fpack double s 3 = Fin s 3" "fpack double s 6 = Fin s 6"
  using fpack_double [of "1 / 2" 1 "- 1" s] fpack_double [of 3 3 0 s] fpack_double [of 6 6 0 s]
  by (simp_all add: power_int_minus)

lemma pplns_sample_run:
  "PPLNS_UpdateMinerBalances 100000 (\<lambda>t ks. ks) ''p'' (Fin False 3) sample_found (db_with_shares [sample_share ''A'' (1 / 2) 5]) =
    (Ok 0, pplns_after)"
proof -
  let ?d = "db_with_shares [sample_share ''A'' (1 / 2) 5]"
  have "GetSharesBefore ''p'' 7 True 100000 ?d = (Ok [sample_share ''A'' (1 / 2) 5], ?d\<lparr>tick := 1\<rparr>)"
    by (simp add: GetSharesBefore_Ok eligible_def sample_share_def)
  moreover have "scan_page (pplns_share (Fin False 3)) (pplns_init (Fin False 3)) [sample_share ''A'' (1 / 2) 5] =
    Ok \<lparr>pRemainingReward = Fin False (9 / 4), pAccumlatedScore = fzero, pMinerRewards = [(''A'', Fin False (3 / 4))],
        pCutoffTime = 0, windowDone = False\<rparr>"
    by (simp add: pplns_share_def pplns_init_def sample_share_def NWindow_def amount_add_def fsub_def fle_def)
  ultimately show ?thesis
    unfolding PPLNS_UpdateMinerBalances_def
    by (subst act_bind_def, subst page_loop.simps)
       (simp add: sample_found_def award_all_def in_order_def usage_text_def dec_9 map_error_def act_gets_def
          pplns_after_def db_with_shares_def ledger_eval List.map_filter_def)
qed

lemma PPLNS_never_cuts_witness: "(0 :: int) = 0 \<and> shares pplns_after = [sample_share ''A'' (1 / 2) 5]"
proof
  show "(0 :: int) = 0"
  proof (rule PPLNS_never_cuts [OF _ _ _ _ pplns_sample_run])
    show "\<forall>s \<in> set (shares (db_with_shares [sample_share ''A'' (1 / 2) 5])).
      \<exists>x y. shDifficulty s = Fin False x \<and> 0 \<le> x \<and> shNetworkDifficulty s = Fin False y \<and> 0 < y"
      by (simp add: sample_share_def exI [of _ "1 / 2"] exI [of _ 1])
  qed simp_all
qed (simp add: pplns_after_def)

subsection \<open>PROP\<close>

definition share_score :: "Share \<Rightarrow> fl" where
  "share_score s = div64 (shDifficulty s) (shNetworkDifficulty s)"

definition total_score :: "Share list \<Rightarrow> fl" where
  "total_score ss = foldl (\<lambda>x s. add64 x (share_score s)) fzero ss"

lemma prop_scan_result:
  assumes "scan_page prop_share a ss = Ok b" and "distinct (map fst (minerScores a))" and "\<forall>s \<in> set ss. 0 < shCreated s"
    and "0 \<le> cutoffTime a"
  shows "distinct (map fst (minerScores b)) \<and>
    accumlatedScore b = foldl (\<lambda>x s. add64 x (share_score s)) (accumlatedScore a) ss \<and>
    cutoffTime b = Max (insert (cutoffTime a) (shCreated ` set ss)) \<and>
    (\<forall>m. map_of (minerScores b) m = (case filter (\<lambda>s. shMiner s = m) ss of [] \<Rightarrow> map_of (minerScores a) m
       | g # gs \<Rightarrow> Some (foldl (\<lambda>x s. add64 x (share_score s))
           (case map_of (minerScores a) m of None \<Rightarrow> fzero | Some y \<Rightarrow> y) (g # gs))))"
  using assms
proof (induction ss arbitrary: a)
  case (Cons s ss)
  define a' where "a' = \<lparr>minerShares = amount_add (minerShares a) (shMiner s) (shDifficulty s),
    minerScores = amount_add (minerScores a) (shMiner s) (share_score s),
    accumlatedScore = add64 (accumlatedScore a) (share_score s), cutoffTime = max (cutoffTime a) (shCreated s)\<rparr>"
  have "prop_share s a = Ok a'"
    using Cons.prems(3,4) by (auto simp: prop_share_def a'_def share_score_def Let_def)
  with Cons.prems(1) have rest: "scan_page prop_share a' ss = Ok b" by simp
  have d: "distinct (map fst (minerScores a'))" using Cons.prems(2) by (simp add: a'_def distinct_amount_add)
  have m: "map_of (minerScores a') = (map_of (minerScores a))(shMiner s \<mapsto>
      add64 (case map_of (minerScores a) (shMiner s) of None \<Rightarrow> fzero | Some y \<Rightarrow> y) (share_score s))"
    by (simp add: a'_def map_of_amount_add)
  have c: "Max (insert (cutoffTime a') (shCreated ` set ss)) = Max (insert (cutoffTime a) (shCreated ` set (s # ss)))"
  proof -
    have "Max (insert (max x y) A) = Max (insert x (insert y A))" if "finite A" for x y :: int and A
      using that by (cases "A = {}") (simp_all add: max.assoc max.left_commute)
    then show ?thesis by (simp add: a'_def)
  qed
  have acc: "accumlatedScore a' = add64 (accumlatedScore a) (share_score s)" by (simp add: a'_def)
  have "\<forall>s \<in> set ss. 0 < shCreated s" "0 \<le> cutoffTime a'" using Cons.prems(3,4) by (simp_all add: a'_def)
  from Cons.IH [OF rest d this] c acc show ?case
    by (auto simp: m split: list.splits if_splits)
qed simp

lemma prop_rewards_lookup:
  assumes "distinct (map fst sc)"
  shows "distinct (map fst (fst (prop_rewards R rate sc))) \<and>
    map_of (fst (prop_rewards R rate sc)) = (\<lambda>m. map_option (\<lambda>s. add64 fzero (mul64 s rate)) (map_of sc m))"
proof -
  let ?f = "\<lambda>(ws, rem) (miner, score). let reward = mul64 score rate in (amount_add ws miner reward, sub64 rem reward)"
  have "distinct (map fst (fst (foldl ?f (ws, rem) sc))) \<and>
      map_of (fst (foldl ?f (ws, rem) sc)) = (\<lambda>m. case map_of sc m of None \<Rightarrow> map_of ws m | Some s \<Rightarrow> Some (add64 fzero (mul64 s rate)))"
    if "distinct (map fst sc)" "distinct (map fst ws)" "\<forall>m \<in> fst ` set sc. map_of ws m = None" for ws rem
    using that
  proof (induction sc arbitrary: ws rem)
    case (Cons ms sc)
    obtain m x where ms: "ms = (m, x)" by fastforce
    let ?ws = "amount_add ws m (mul64 x rate)"
    have fresh: "map_of sc m = None" using Cons.prems(1) by (simp add: ms map_of_eq_None_iff)
    have ws: "map_of ?ws = (map_of ws)(m \<mapsto> add64 fzero (mul64 x rate))"
      using Cons.prems(3) by (simp add: map_of_amount_add ms)
    have "\<forall>k \<in> fst ` set sc. map_of ?ws k = None" using Cons.prems(1,3) by (auto simp: ws ms)
    with Cons.IH [of ?ws "sub64 rem (mul64 x rate)"] Cons.prems(1,2) fresh show ?case
      by (auto simp: ms ws Let_def distinct_amount_add fun_eq_iff split: option.splits)
  qed simp
  from this [of "[]" R] assms show ?thesis
    by (simp add: prop_rewards_def fun_eq_iff split: option.splits)
qed

lemma map_filter_lookup:
  "\<forall>k \<in> set ks. \<exists>x. f k = Some x \<Longrightarrow>
   List.map_filter (\<lambda>k. map_option (Pair k) (f k)) ks = map (\<lambda>k. (k, the (f k))) ks"
  by (induction ks) (auto simp: List.map_filter_def)

lemma in_order_perm:
  assumes "distinct (map fst m)" and "mset (p (map fst m)) = mset (map fst m)"
  shows "mset (in_order p m) = mset m"
proof -
  have "in_order p m = map (\<lambda>k. (k, the (map_of m k))) (p (map fst m))"
  proof -
    have "set (p (map fst m)) = fst ` set m" using assms(2) by (metis set_map set_mset_mset)
    then have "\<forall>k \<in> set (p (map fst m)). \<exists>x. map_of m k = Some x"
      by (metis (no_types, lifting) domD dom_map_of_conv_image_fst)
    then show ?thesis unfolding in_order_def by (rule map_filter_lookup)
  qed
  then have "mset (in_order p m) = image_mset (\<lambda>k. (k, the (map_of m k))) (mset (map fst m))"
    using assms(2) by (metis mset_map)
  also have "\<dots> = mset (map (\<lambda>(k, x). (k, the (map_of m k))) m)"
    by (simp add: multiset.map_comp comp_def split_def)
  also have "map (\<lambda>(k, x). (k, the (map_of m k))) m = m"
    using assms(1) by (intro map_idI) auto
  finally show ?thesis .
qed

lemma for_each_map: "for_each (map g xs) f = for_each xs (\<lambda>x. f (g x))"
  by (induction xs) simp_all

lemma award_all_credits:
  "award_all p b usage awards =
   for_each (map (\<lambda>(m, x). ((p, fChain b, m), x)) awards) (\<lambda>(k, x). (case k of (p, c, a) \<Rightarrow> \<lambda>x. AddAmount p c a usage x) x)"
  by (simp add: award_all_def for_each_map split_def)

lemma credited_lookup:
  assumes "distinct (map fst ws)"
  shows "ledger.credited d (map (\<lambda>(m, x). ((p, c, m), x)) ws) k =
    (if fst k = p \<and> fst (snd k) = c then (case map_of ws (snd (snd k)) of None \<Rightarrow> 0 | Some x \<Rightarrow> ledger.worth_value d x) else 0)"
  using assms
proof (induction ws)
  case (Cons w ws)
  obtain m x where w: "w = (m, x)" by fastforce
  have "map_of ws m = None" using Cons.prems by (simp add: w map_of_eq_None_iff)
  with Cons show ?case by (cases k) (auto simp: w ledger.credited_def)
qed (simp add: ledger.credited_def)

lemma award_all_ledger:
  assumes "keys_distinct d" and "award_all p b usage awards d = (Ok (), d')"
    and "mset awards = mset ws" and "distinct (map fst ws)"
  shows "(\<forall>m x. map_of ws m = Some x \<longrightarrow> (\<exists>v. decimal_param d x = Ok v \<and> bal d' (p, fChain b, m) = bal d (p, fChain b, m) + v)) \<and>
    (\<forall>q c m. (q, c) \<noteq> (p, fChain b) \<or> map_of ws m = None \<longrightarrow> bal d' (q, c, m) = bal d (q, c, m))"
proof -
  let ?k = "\<lambda>(m, x). ((p, fChain b, m), x :: fl)"
  have all: "\<forall>(k, x) \<in> set (map ?k awards). is_ok (decimal_param d x)"
    "bal d' = (\<lambda>k. bal d k + ledger.credited d (map ?k awards) k)"
    using ledger.credit_all [OF assms(1) assms(2) [unfolded award_all_credits]] by auto
  have "ledger.credited d (map ?k awards) = ledger.credited d (map ?k ws)"
    by (rule ledger.credited_perm) (simp add: assms(3))
  with all(2) have b: "bal d' k = bal d k + (if fst k = p \<and> fst (snd k) = fChain b
      then (case map_of ws (snd (snd k)) of None \<Rightarrow> 0 | Some x \<Rightarrow> ledger.worth_value d x) else 0)" for k
    using credited_lookup [OF assms(4), of d p "fChain b" k] by simp
  have sets: "set awards = set ws" using assms(3) by (rule mset_eq_setD)
  have ok: "\<exists>v. decimal_param d x = Ok v" if "map_of ws m = Some x" for m x
  proof -
    have "(m, x) \<in> set awards" using map_of_SomeD [OF that] sets by simp
    with all(1) show ?thesis by (auto simp: is_ok_iff)
  qed
  have "\<exists>v. decimal_param d x = Ok v \<and> bal d' (p, fChain b, m) = bal d (p, fChain b, m) + v" if "map_of ws m = Some x" for m x
    using ok [OF that] that by (auto simp: b ledger.worth_value_def)
  moreover have "bal d' (q, c, m) = bal d (q, c, m)" if "(q, c) \<noteq> (p, fChain b) \<or> map_of ws m = None" for q c m
    using that by (auto simp: b)
  ultimately show ?thesis by blast
qed

lemma map_of_perm: "distinct (map fst xs) \<Longrightarrow> mset ys = mset xs \<Longrightarrow> distinct (map fst ys) \<and> map_of ys = map_of xs"
  by (metis map_of_inject_set mset_eq_imp_distinct_iff mset_eq_setD mset_map)

abbreviation prop_init :: prop_scan where
  "prop_init \<equiv> \<lparr>minerShares = [], minerScores = [], accumlatedScore = fzero, cutoffTime = 0\<rparr>"

lemma scan_prop_Ok: "\<exists>a. scan_page prop_share a0 ss = Ok a"
  by (induction ss arbitrary: a0) (auto simp: prop_share_def Let_def)

text \<open>What the paging of PROP yields.\<close>

lemma PROP_scan:
  assumes dist: "distinct (map shCreated (filter (eligible p before True) (shares d)))" and n: "0 < n"
    and faults: "\<forall>m. faults d m = None" and times: "\<forall>s \<in> set (shares d). 0 < shCreated s"
    and ss: "ss = sort_key (\<lambda>s. - shCreated s) (filter (eligible p before True) (shares d))"
  obtains a t where "page_loop n prop_share (\<lambda>a. False) p before True prop_init d = (Ok a, d\<lparr>tick := t\<rparr>)"
    and "accumlatedScore a = total_score ss" and "cutoffTime a = Max (insert 0 (shCreated ` set ss))"
    and "distinct (map fst (minerScores a))"
    and "\<And>m. map_of (minerScores a) m = (if m \<in> shMiner ` set ss then Some (total_score (filter (\<lambda>s. shMiner s = m) ss)) else None)"
proof -
  obtain r d1 where run: "page_loop n prop_share (\<lambda>a. False) p before True prop_init d = (r, d1)" by fastforce
  have "fst (page_loop n prop_share (\<lambda>a. False) p before True prop_init d) = scan_page prop_share prop_init ss"
    unfolding ss by (rule page_loop_complete [OF dist n faults]) simp
  then have scan: "scan_page prop_share prop_init ss = r" using run by simp
  obtain a where a: "r = Ok a" using scan_prop_Ok [of prop_init ss] scan by auto
  obtain t where t: "d1 = d\<lparr>tick := t\<rparr>" using page_loop_state [OF run] by blast
  have pos: "\<forall>s \<in> set ss. 0 < shCreated s" using times by (simp add: ss)
  have res: "distinct (map fst (minerScores a)) \<and> accumlatedScore a = total_score ss \<and>
      cutoffTime a = Max (insert 0 (shCreated ` set ss)) \<and>
      (\<forall>m. map_of (minerScores a) m = (case filter (\<lambda>s. shMiner s = m) ss of [] \<Rightarrow> None
         | g # gs \<Rightarrow> Some (total_score (g # gs))))"
    using prop_scan_result [OF scan [unfolded a] _ pos] by (simp add: total_score_def cong: list.case_cong)
  have "map_of (minerScores a) m = (if m \<in> shMiner ` set ss then Some (total_score (filter (\<lambda>s. shMiner s = m) ss)) else None)" for m
  proof (cases "m \<in> shMiner ` set ss")
    case True
    then have "filter (\<lambda>s. shMiner s = m) ss \<noteq> []" by (auto simp: filter_empty_conv)
    with True res show ?thesis by (auto simp: neq_Nil_conv)
  next
    case False
    then have "filter (\<lambda>s. shMiner s = m) ss = []" by (auto simp: filter_empty_conv)
    with False res show ?thesis by simp
  qed
  from that [OF run [unfolded a t] _ _ _ this] res show ?thesis by blast
qed

text \<open>C4. A PROP payout that succeeds pays every miner in proportion: if no two eligible shares have the same
  time, no statement fails and Go ranges over maps in any order, each miner's balance grows by the
  decimal of the miner's total score times the reward per score, over all the pool's shares up to the
  block; no other balance changes; and the cutoff returned is the time of the newest share.\<close>

theorem PROP_pays_in_proportion:
  assumes dist: "distinct (map shCreated (filter (eligible p (Created b) True) (shares d)))" and n: "0 < n"
    and faults: "\<forall>m. faults d m = None" and times: "\<forall>s \<in> set (shares d). 0 < shCreated s"
    and keys: "keys_distinct d" and ord: "\<forall>t ks. mset (ord t ks) = mset ks"
    and run: "PROP_UpdateMinerBalances n ord p R b d = (Ok t, d')"
  shows "let ss = sort_key (\<lambda>s. - shCreated s) (filter (eligible p (Created b) True) (shares d));
             rate = div64 R (foldl (\<lambda>x s. add64 x (div64 (shDifficulty s) (shNetworkDifficulty s))) fzero ss) in
    t = Max (insert 0 (shCreated ` set ss)) \<and>
    (\<forall>m \<in> shMiner ` set ss. \<exists>v. decimal_param d (add64 fzero (mul64
        (foldl (\<lambda>x s. add64 x (div64 (shDifficulty s) (shNetworkDifficulty s))) fzero (filter (\<lambda>s. shMiner s = m) ss)) rate)) = Ok v \<and>
        bal d' (p, fChain b, m) = bal d (p, fChain b, m) + v) \<and>
    (\<forall>q c m. q \<noteq> p \<or> c \<noteq> fChain b \<or> m \<notin> shMiner ` set ss \<longrightarrow> bal d' (q, c, m) = bal d (q, c, m))"
proof -
  define ss where "ss = sort_key (\<lambda>s. - shCreated s) (filter (eligible p (Created b) True) (shares d))"
  define rate where "rate = div64 R (total_score ss)"
  obtain a u where a: "page_loop n prop_share (\<lambda>a. False) p (Created b) True prop_init d = (Ok a, d\<lparr>tick := u\<rparr>)"
    and acc: "accumlatedScore a = total_score ss" and cut: "cutoffTime a = Max (insert 0 (shCreated ` set ss))"
    and da: "distinct (map fst (minerScores a))"
    and ma: "\<And>m. map_of (minerScores a) m = (if m \<in> shMiner ` set ss then Some (total_score (filter (\<lambda>s. shMiner s = m) ss)) else None)"
    by (rule PROP_scan [OF dist n faults times ss_def]) blast
  define sc where "sc = in_order (ord u) (minerScores a)"
  obtain ws rem where ws: "prop_rewards R rate sc = (ws, rem)" by fastforce
  have sc: "distinct (map fst sc) \<and> map_of sc = map_of (minerScores a)"
    unfolding sc_def using da ord by (intro map_of_perm in_order_perm) auto
  have dws: "distinct (map fst ws)" and mws: "\<And>m. map_of ws m = map_option (\<lambda>s. add64 fzero (mul64 s rate)) (map_of (minerScores a) m)"
    using prop_rewards_lookup [of sc R rate] sc ws by (auto simp: fun_eq_iff)
  have t: "t = cutoffTime a"
    and aw: "award_all p b (usage_text ''PROP'' b) (in_order (ord (Suc u)) ws) (d\<lparr>tick := u\<rparr>) = (Ok (), d')"
    using run a acc ws
    by (auto simp: PROP_UpdateMinerBalances_def act_bind_Ok_iff act_gets_def ret_def lift_res_def rate_def [symmetric]
        sc_def [symmetric] split: if_splits)
  have "mset (in_order (ord (Suc u)) ws) = mset ws" using dws ord by (intro in_order_perm) auto
  from award_all_ledger [OF _ aw this dws] keys
  have credit: "\<forall>m x. map_of ws m = Some x \<longrightarrow> (\<exists>v. decimal_param d x = Ok v \<and> bal d' (p, fChain b, m) = bal d (p, fChain b, m) + v)"
    and others: "\<forall>q c m. (q, c) \<noteq> (p, fChain b) \<or> map_of ws m = None \<longrightarrow> bal d' (q, c, m) = bal d (q, c, m)"
    by auto
  have score: "(\<lambda>x s. add64 x (div64 (shDifficulty s) (shNetworkDifficulty s))) = (\<lambda>x s. add64 x (share_score s))"
    by (simp add: share_score_def)
  show ?thesis
    unfolding ss_def [symmetric] Let_def score total_score_def [symmetric] rate_def [symmetric]
    using credit others by (auto simp: t cut mws ma)
qed

definition prop_after :: db where
  "prop_after = (db_with_shares [sample_share ''A'' 49 5])\<lparr>tick := 5,
     balances := [\<lparr>bKey = (''p'', ''dogecoin'', ''A''), bAmount = 99999999, bCreated = 1001, bUpdated = 1001\<rparr>],
     balance_changes := [\<lparr>cKey = (''p'', ''dogecoin'', ''A''), cAmount = 99999999, cUsage = ''PROP REWARD FOR BLOCK 9'', cCreated = 1001\<rparr>]\<rparr>"

lemma forty_ninth [simp]:
  "fpack double s (1 / 49) = Fin s (5882252574524729 / 288230376151711744)"
  "fpack double s (288230376151711721 / 288230376151711744) = Fin s (9007199254740991 / 9007199254740992)"
  "fpack double s (9007199254740991 / 9007199254740992) = Fin s (9007199254740991 / 9007199254740992)"
  "fpack double s (1 / 9007199254740992) = Fin s (1 / 9007199254740992)"
  "fpack double s 49 = Fin s 49"
proof -
  have fl: "\<lfloor>288230376151711744 / 49 :: rat\<rfloor> = 5882252574524729"
    "\<lfloor>288230376151711721 / 32 :: rat\<rfloor> = 9007199254740991" by (simp_all add: floor_eq_iff)
  have "flog2 (1 / 49) = - 6" by (rule flog2_unique) (simp_all add: power_int_minus)
  then show "fpack double s (1 / 49) = Fin s (5882252574524729 / 288230376151711744)"
    by (simp add: fpack_def fulp_def double_def round_to_def rhe_def Let_def power_int_minus fl)
  have "flog2 (288230376151711721 / 288230376151711744) = - 1" by (rule flog2_unique) (simp_all add: power_int_minus)
  then show "fpack double s (288230376151711721 / 288230376151711744) = Fin s (9007199254740991 / 9007199254740992)"
    by (simp add: fpack_def fulp_def double_def round_to_def rhe_def Let_def power_int_minus fl)
qed (use fpack_double [of "9007199254740991 / 2 ^ 53" 9007199254740991 "- 53" s] fpack_double [of "1 / 2 ^ 53" 1 "- 53" s]
       fpack_double [of 49 49 0 s] in \<open>simp_all add: power_int_minus\<close>)

lemma prop_sample_run:
  "PROP_UpdateMinerBalances 100000 (\<lambda>t ks. ks) ''p'' (Fin False 1) sample_found (db_with_shares [sample_share ''A'' 49 5]) =
    (Ok 5, prop_after)"
proof -
  let ?d = "db_with_shares [sample_share ''A'' 49 5]"
  have page: "GetSharesBefore ''p'' 7 True 100000 ?d = (Ok [sample_share ''A'' 49 5], ?d\<lparr>tick := 1\<rparr>)"
    by (simp add: GetSharesBefore_Ok eligible_def sample_share_def)
  have scan: "prop_share (sample_share ''A'' 49 5) prop_init =
    Ok \<lparr>minerShares = [(''A'', Fin False 49)], minerScores = [(''A'', Fin False 49)], accumlatedScore = Fin False 49, cutoffTime = 5\<rparr>"
    by (simp add: prop_share_def sample_share_def amount_add_def Let_def)
  have split: "prop_rewards (Fin False 1) (Fin False (5882252574524729 / 288230376151711744)) [(''A'', Fin False 49)] =
      ([(''A'', Fin False (9007199254740991 / 9007199254740992))], Fin False (1 / 9007199254740992))"
    by (simp add: prop_rewards_def amount_add_def fsub_def Let_def)
  have dec: "\<lfloor>3518437208883199609375 / 35184372088832 :: rat\<rfloor> = 99999999" by (simp add: floor_eq_iff)
  have loop: "page_loop 100000 prop_share (\<lambda>a. False) ''p'' 7 True prop_init ?d =
    (Ok \<lparr>minerShares = [(''A'', Fin False 49)], minerScores = [(''A'', Fin False 49)], accumlatedScore = Fin False 49, cutoffTime = 5\<rparr>,
     ?d\<lparr>tick := 1\<rparr>)"
    by (subst page_loop.simps) (simp add: page [simplified] scan)
  have created: "Created sample_found = 7" by (simp add: sample_found_def)
  show ?thesis
    unfolding PROP_UpdateMinerBalances_def
    by (subst act_bind_def, simp add: loop created,
      simp add: act_gets_def act_bind_def in_order_def List.map_filter_def split fle_def,
      simp add: sample_found_def award_all_def usage_text_def dec_9 prop_after_def db_with_shares_def ledger_eval dec)
qed

lemma PROP_pays_in_proportion_witness:
  "\<exists>v. decimal_param (db_with_shares [sample_share ''A'' 49 5]) (add64 fzero (mul64 (add64 fzero (div64 (Fin False 49) (Fin False 1)))
      (div64 (Fin False 1) (add64 fzero (div64 (Fin False 49) (Fin False 1)))))) = Ok v \<and>
    bal prop_after (''p'', ''dogecoin'', ''A'') = v \<and> bal prop_after (''p'', ''dogecoin'', ''B'') = 0"
proof -
  let ?d = "db_with_shares [sample_share ''A'' 49 5]"
  have "filter (eligible ''p'' (Created sample_found) True) (shares ?d) = [sample_share ''A'' 49 5]"
    by (simp add: sample_share_def eligible_def sample_found_def)
  moreover have "bal ?d k = 0" for k by (simp add: bal_def db_with_shares_def sample_db_def)
  ultimately show ?thesis
    using PROP_pays_in_proportion [OF _ _ _ _ _ _ prop_sample_run]
    by (simp add: sample_share_def eligible_def sample_found_def)
qed

text \<open>PROP refuses an exact split: when all eligible shares are one miner's and the miner's award comes
  out as the whole reward (as it does when the scores add up to a power of two), nothing remains, the
  payout is taken for an overflow, and no balance changes.\<close>

theorem PROP_refuses_exact_split:
  assumes dist: "distinct (map shCreated (filter (eligible p (Created b) True) (shares d)))" and n: "0 < n"
    and faults: "\<forall>m. faults d m = None" and times: "\<forall>s \<in> set (shares d). 0 < shCreated s"
    and ord: "\<forall>t ks. mset (ord t ks) = mset ks"
    and ss: "ss = sort_key (\<lambda>s. - shCreated s) (filter (eligible p (Created b) True) (shares d))"
    and one: "ss \<noteq> []" "\<forall>s \<in> set ss. shMiner s = m"
    and exact: "mul64 (foldl (\<lambda>x s. add64 x (div64 (shDifficulty s) (shNetworkDifficulty s))) fzero ss)
      (div64 (Fin False r) (foldl (\<lambda>x s. add64 x (div64 (shDifficulty s) (shNetworkDifficulty s))) fzero ss)) = Fin False r"
  shows "\<exists>t. PROP_UpdateMinerBalances n ord p (Fin False r) b d =
    (Err ''PROP payout overflow! - we awarded more than we have.  Awards not persisted'', d\<lparr>tick := t\<rparr>)"
proof -
  obtain a u where a: "page_loop n prop_share (\<lambda>a. False) p (Created b) True prop_init d = (Ok a, d\<lparr>tick := u\<rparr>)"
    and acc: "accumlatedScore a = total_score ss" and da: "distinct (map fst (minerScores a))"
    and ma: "\<And>m. map_of (minerScores a) m = (if m \<in> shMiner ` set ss then Some (total_score (filter (\<lambda>s. shMiner s = m) ss)) else None)"
    by (rule PROP_scan [OF dist n faults times ss]) blast
  have exact': "mul64 (total_score ss) (div64 (Fin False r) (total_score ss)) = Fin False r"
    using exact by (simp add: total_score_def share_score_def)
  have "filter (\<lambda>s. shMiner s = m) ss = ss" using one(2) by (simp add: filter_id_conv)
  moreover have "shMiner ` set ss = {m}" using one by (auto simp: image_iff neq_Nil_conv)
  ultimately have "map_of (minerScores a) = [m \<mapsto> total_score ss]" by (auto simp: ma fun_eq_iff)
  then have "set (minerScores a) = {(m, total_score ss)}"
    using map_of_inject_set [OF da, of "[(m, total_score ss)]"] by simp
  moreover have "mset (in_order (ord u) (minerScores a)) = mset (minerScores a)"
    using da ord by (intro in_order_perm) auto
  moreover have "minerScores a = [(m, total_score ss)]"
  proof (cases "minerScores a")
    case (Cons x xs)
    then have x: "x = (m, total_score ss)" and xs: "set xs \<subseteq> {(m, total_score ss)}"
      using calculation(1) by auto
    with da Cons have "m \<notin> fst ` set xs" by simp
    with xs have "xs = []" by (cases xs) auto
    with Cons x show ?thesis by simp
  qed (use calculation(1) in simp)
  ultimately have "in_order (ord u) (minerScores a) = [(m, total_score ss)]" by simp
  then have "act_bind (act_gets tick) (\<lambda>t. let (ws, rem) = prop_rewards (Fin False r) (div64 (Fin False r) (accumlatedScore a))
        (in_order (ord t) (minerScores a)) in
      if fle rem fzero then lift_res (Err e) else f t ws) (d\<lparr>tick := u\<rparr>) = (Err e, d\<lparr>tick := u\<rparr>)"
    for e and f :: "nat \<Rightarrow> (string \<times> fl) list \<Rightarrow> ('a db_scheme, int) act"
    by (simp add: act_gets_def act_bind_def prop_rewards_def exact' acc fsub_def fle_def Let_def lift_res_def)
  then show ?thesis
    unfolding PROP_UpdateMinerBalances_def by (intro exI [of _ u], subst act_bind_def) (simp add: a)
qed

lemma PROP_refuses_exact_split_witness:
  "\<exists>t. PROP_UpdateMinerBalances 100000 (\<lambda>t ks. ks) ''p'' (Fin False 3) sample_found
      (db_with_shares [sample_share ''A'' (1 / 2) 5]) =
    (Err ''PROP payout overflow! - we awarded more than we have.  Awards not persisted'',
     (db_with_shares [sample_share ''A'' (1 / 2) 5])\<lparr>tick := t\<rparr>)"
  by (rule PROP_refuses_exact_split [where ss = "[sample_share ''A'' (1 / 2) 5]" and m = "''A''"])
     (simp_all add: sample_share_def eligible_def sample_found_def)

end
