(* ===== verification/PoolProperties.thy ===== *)
theory PoolProperties
  imports PoolInvariant RewardProperties
begin

text \<open>
  Properties of the running server: everything reachable from its start keeps the invariant; what is
  sent to whom; what becomes of shares; and the ways a single client can hurt the pool.
\<close>

section \<open>The start\<close>

definition fresh_server :: "'w server \<Rightarrow> bool" where
  "fresh_server s \<longleftrightarrow> shareBuffer s = [] \<and> flushing s = None \<and> nextConn s = 0 \<and> numberOfConnections s = 0 \<and> sessions s = []"

interpretation starting: work_blind fresh_server
  by unfold_locales (simp_all add: fresh_server_def)

lemma keeps_fatal: "keeps P m \<Longrightarrow> keeps P (fatal_on_error m)"
  unfolding triple_def fatal_on_error_def by (fastforce split: prod.splits res.splits)

lemma fresh_load_node: "keeps fresh_server (load_node out name)"
  unfolding load_node_def Let_def
  by (auto intro!: keeps_bind keeps_fatal keeps_on_nodes triple_gets triple_lift triple_modify
      simp: fresh_server_def split: option.split prod.split)

lemma fresh_Start: "keeps fresh_server (Start out)"
  unfolding Start_def loadBlockchainNodes_def startBufferManager_def
  by (auto intro!: keeps_bind keeps_fatal keeps_for_each fresh_load_node starting.keeps_fetchRpc starting.keeps_generateWorkFromCache
      starting.keeps_broadcastWork triple_gets triple_lift triple_modify triple_ret simp: fresh_server_def)

lemma pool_inv_Start:
  assumes "Start out (NewServer cfg managers s) = (Ok (), s0)"
  shows "pool_inv out s0 s0"
proof -
  have "fresh_server (NewServer cfg managers s)" by (simp add: fresh_server_def NewServer_def)
  from keepsD [OF fresh_Start this assms] show ?thesis
    by (auto simp: fresh_server_def pool_inv_def turn_inv_def held_def)
qed

lemmas pool_inv_run = pool_inv_reachable [OF _ pool_inv_Start, unfolded pool_inv_def turn_inv_def]

section \<open>Safety of the running server\<close>


text \<open>C11. No two miners search the same space: in every reachable state different connections have different
  extranonces, each of eight hexadecimal digits; and the number of connections the server counts is
  the number it has not closed, at most one more than the configured maximum.\<close>

theorem connections_distinct_and_bounded:
  assumes "Start out (NewServer cfg managers s) = (Ok (), s0)" and "(pool_step out)\<^sup>*\<^sup>* s0 s'"
  shows "inj_on (\<lambda>c. scExtranonce1 (conns s' c)) {..<nextConn s'} \<and>
    (\<forall>c < nextConn s'. hex_text_of 8 (scExtranonce1 (conns s' c))) \<and>
    numberOfConnections s' = int (card {c. c < nextConn s' \<and> phases s' c \<noteq> Closed}) \<and>
    numberOfConnections s' \<le> max 0 (MaxConnections (svConfig s0) + 1)"
  using pool_inv_run [OF assms(2,1)] by (auto simp: held_def)

text \<open>C35. The server never records a share, whatever its miners submit: in every reachable state the buffer is
  empty and the table of shares is what it was at the start.  Nothing fills the buffer, and
  \<open>validateAndWeighShare\<close> is not called.\<close>

theorem shares_never_recorded:
  assumes "Start out (NewServer cfg managers s) = (Ok (), s0)" and "(pool_step out)\<^sup>*\<^sup>* s0 s'"
  shows "shares s' = shares s0 \<and> shareBuffer s' = []"
  using pool_inv_run [OF assms(2,1)] by simp

text \<open>C36. Fail-over does not reach the server: in every reachable state, also after a manager has moved to a
  backup, every chain's active node, and with it the client the templates are asked from and blocks
  are submitted to, is the one of the start.\<close>

theorem active_nodes_fixed:
  assumes "Start out (NewServer cfg managers s) = (Ok (), s0)" and "(pool_step out)\<^sup>*\<^sup>* s0 s'"
  shows "node_of s' name = node_of s0 name"
  using pool_inv_run [OF assms(2,1)] by (simp add: node_of_def)

section \<open>Extranonces\<close>

lemma fresh_loop_drawn:
  assumes "fresh_loop digits n used d = Some (x, d')"
  shows "\<exists>j. x = randomHex digits n (d + j * n)"
proof -
  have "case (x, d') of (x, d') \<Rightarrow> \<exists>j. x = randomHex digits n (d + j * n)"
  proof (rule fresh_loop.raw_induct [where P = "\<lambda>digits n used d r. case r of (x, d') \<Rightarrow> \<exists>j. x = randomHex digits n (d + j * n)", OF _ assms])
    fix loop :: "(nat \<Rightarrow> nat) \<Rightarrow> nat \<Rightarrow> string set \<Rightarrow> nat \<Rightarrow> (string \<times> nat) option" and digits n used d r
    assume ih: "\<And>digits n used d r. loop digits n used d = Some r \<Longrightarrow> case r of (x, d') \<Rightarrow> \<exists>j. x = randomHex digits n (d + j * n)"
      and body: "(if randomHex digits n d \<in> used then loop digits n used (d + n) else Some (randomHex digits n d, d + n)) = Some r"
    show "case r of (x, d') \<Rightarrow> \<exists>j. x = randomHex digits n (d + j * n)"
    proof (cases "randomHex digits n d \<in> used")
      case True
      with body ih [of digits n used "d + n" r] obtain j where "fst r = randomHex digits n (d + n + j * n)" by (auto split: prod.splits)
      then show ?thesis by (intro case_prodI2 exI [of _ "Suc j"]) (auto simp: add.assoc)
    qed (use body in \<open>auto intro!: exI [of _ 0]\<close>)
  qed
  then show ?thesis by simp
qed

text \<open>C39. \<open>uniqueExtranonce\<close> returns exactly when the random stream still holds a text that is not in use, and
  then with the first such text, which is in use from then on.\<close>

theorem uniqueExtranonce_returns:
  "uniqueExtranonce digits n s =
     (if \<forall>j. randomHex digits n (draws s + j * n) \<in> extranonces s then None
      else let d = draws s + (LEAST j. randomHex digits n (draws s + j * n) \<notin> extranonces s) * n; x = randomHex digits n d in
        Some (x, s\<lparr>extranonces := insert x (extranonces s), draws := d + n\<rparr>))"
proof -
  let ?x = "\<lambda>j. randomHex digits n (draws s + j * n)" and ?k = "LEAST j. randomHex digits n (draws s + j * n) \<notin> extranonces s"
  show ?thesis
  proof (cases "\<forall>j. ?x j \<in> extranonces s")
    case True
    have "fresh_loop digits n (extranonces s) (draws s) = None"
    proof (cases "fresh_loop digits n (extranonces s) (draws s)")
      case (Some r)
      with True fresh_loop_drawn [of digits n "extranonces s" "draws s" "fst r" "snd r"]
        fresh_loop_Some [of digits n "extranonces s" "draws s" "fst r" "snd r"]
      show ?thesis by auto
    qed
    with True show ?thesis by (simp add: uniqueExtranonce_def)
  next
    case False
    then obtain j where "?x j \<notin> extranonces s" by blast
    then have "?x ?k \<notin> extranonces s" by (rule LeastI [of "\<lambda>j. ?x j \<notin> extranonces s"])
    moreover have "\<forall>j < ?k. ?x j \<in> extranonces s" using not_less_Least by blast
    ultimately show ?thesis
      using False fresh_loop_skip [of ?k digits n "draws s" "extranonces s"]
      by (simp add: uniqueExtranonce_def fresh_loop.simps [of digits n "extranonces s" "draws s + ?k * n"] Let_def)
  qed
qed

section \<open>Floods\<close>

text \<open>No connection is served and the count is above the maximum.\<close>

definition starved :: "'w server \<Rightarrow> bool" where
  "starved s \<longleftrightarrow> (\<forall>c < nextConn s. phases s c \<noteq> Serving) \<and> MaxConnections (svConfig s) < numberOfConnections s"

interpretation starving: work_blind starved
  by unfold_locales (simp_all add: starved_def)

lemma starved_flush: "flush_write ss s = (Ok (), s') \<Longrightarrow> starved s \<Longrightarrow> starved s'"
proof -
  assume run: "flush_write ss s = (Ok (), s')" and st: "starved s"
  have "keeps starved (Shares_InsertBatch ss)"
    unfolding Shares_InsertBatch_def
    by (intro keeps_bind keeps_for_each keeps_silent keeps_sql tripleI) (auto simp: starved_def)
  then have "keeps starved (flush_write ss)"
    unfolding flush_write_def by (intro keeps_bind keeps_attempt triple_modify) (auto simp: starved_def)
  from keepsD [OF this st run] show ?thesis .
qed

lemma starved_step: "pool_step out s s' \<Longrightarrow> starved s \<Longrightarrow> starved s'"
proof (induction rule: pool_step.induct)
  case (accept ip s s')
  then show ?case by (simp add: accept_connection_def starved_def)
next
  case (new_block msg s s')
  then show ?case using keepsD [OF starving.keeps_on_new_block] by metis
next
  case (write_shares s ss s')
  then show ?case by (metis starved_flush)
qed (auto simp: starved_def flush_take_def act_modify_def)

text \<open>C34. A line longer than the buffer costs the server a connection for good: the handler returns without an
  error, so the connection is neither closed nor counted off; once all connections have ended like
  that and the count is above the maximum, no connection is ever accepted again.\<close>

theorem flood_starves_server:
  assumes "\<forall>c < nextConn s. phases s c \<noteq> Serving" and "MaxConnections (svConfig s) < numberOfConnections s"
    and "(pool_step out)\<^sup>*\<^sup>* s s'"
  shows "accept_connection out ip s' = None \<and>
    connection_turn out c LongLine t =
      (Ok (), t\<lparr>sessions := AList.delete (scSessionID (conns t c)) (sessions t), phases := (phases t)(c := Abandoned)\<rparr>)"
proof -
  have "starved s" using assms(1,2) by (simp add: starved_def)
  with assms(3) have "starved s'" by (induction rule: rtranclp_induct) (auto intro: starved_step)
  then show ?thesis
    by (simp add: starved_def accept_connection_def connection_turn_def handle_line_def banClient_def removeSession_def act_bind_def
        act_gets_def act_modify_def attempt_def ret_def)
qed

section \<open>Sessions\<close>

text \<open>A client that subscribes again leaks its session: the new identifier replaces the one the session is
  stored under, so when the client disconnects its connection is closed and the session stays, and
  every broadcast goes on writing to the closed connection.\<close>

theorem resubscribe_leaks_session:
  assumes "map_of (sessions s) sid = Some c" and "newUUID out (uuids s) \<noteq> sid"
    and "sqMethod rq = ''mining.subscribe''" and "handleStratumRequest out rq c s = (Ok p, s1)"
    and "connection_turn out c EndOfFile s1 = (Ok (), s2)"
  shows "phases s2 c = Closed \<and> map_of (sessions s2) sid = Some c"
proof -
  have s1: "sessions s1 = sessions s" "scSessionID (conns s1 c) = newUUID out (uuids s)"
    using assms(3,4)
    by (auto simp: handleStratumRequest_def miningSubscribe_def isBanned_def set_client_def act_bind_def act_gets_def act_modify_def
        ret_def Let_def split: list.splits)
  have "sessions s2 = AList.delete (newUUID out (uuids s)) (AList.delete (newUUID out (uuids s)) (sessions s))" "phases s2 c = Closed"
    using assms(5) s1
    by (auto simp: connection_turn_def handle_line_def close_connection_def removeSession_def act_bind_def act_gets_def act_modify_def
        attempt_def lift_res_def)
  then show ?thesis using assms(1,2) by (simp add: delete_conv)
qed

text \<open>C38. New work reaches every session: when no write fails, a broadcast writes the notification once to the
  connection of each session, and nothing else.\<close>

theorem broadcast_reaches_sessions:
  assumes "\<forall>n. sendFault out n = None" and "\<forall>t ks. mset (mapOrder out t ks) = mset ks"
    and "distinct (map fst (sessions s))"
  shows "\<exists>ps s'. broadcastWork out work s = (Ok (), s') \<and> sent s' = sent s @ ps \<and>
    mset ps = image_mset (\<lambda>(sid, c). (c, Request (miningNotify work))) (mset (sessions s)) \<and> sessions s' = sessions s"
proof -
  let ?send = "\<lambda>(sid :: string, c). act_bind (attempt (sendPacket out (Request (miningNotify work)) c)) (\<lambda>_. ret ())"
  have loop: "for_each ts ?send t = (Ok (), t\<lparr>writes := writes t + length ts,
      sent := sent t @ map (\<lambda>(sid, c). (c, Request (miningNotify work))) ts\<rparr>)" for ts t
    by (induction ts arbitrary: t) (auto simp: act_bind_def attempt_def sendPacket_def ret_def assms(1))
  let ?ts = "in_order (mapOrder out (writes s)) (sessions s)"
  have "mset ?ts = mset (sessions s)" using assms(2,3) by (intro in_order_perm) auto
  then have "mset (map (\<lambda>(sid, c). (c, Request (miningNotify work))) ?ts) =
      image_mset (\<lambda>(sid, c). (c, Request (miningNotify work))) (mset (sessions s))" by simp
  then show ?thesis
    by (intro exI [of _ "map (\<lambda>(sid, c). (c, Request (miningNotify work))) ?ts"])
      (simp add: broadcastWork_def notifyAllSessions_def act_bind_def [of "act_gets _"] act_gets_def loop)
qed

section \<open>The share buffer\<close>

text \<open>A flush loses no share: afterwards the batch is in the table and gone from the buffer, or still in the
  buffer and not in the table, or (when the commit took effect and its answer was lost) in both, to be
  written once more.\<close>

theorem flush_loses_nothing:
  assumes "flush_take s = (Ok (), s1)" and "flush_write (shareBuffer s) s1 = (Ok (), s2)"
  shows "(shares s2 = shares s @ shareBuffer s \<and> shareBuffer s2 = []) \<or>
    (shares s2 = shares s \<and> shareBuffer s2 = shareBuffer s) \<or>
    (shares s2 = shares s @ shareBuffer s \<and> shareBuffer s2 = shareBuffer s)"
proof -
  let ?b = "shareBuffer s"
  have s1: "s1 = s\<lparr>flushing := Some ?b, shareBuffer := []\<rparr>" using assms(1) by (simp add: flush_take_def act_modify_def)
  obtain r s3 where r: "attempt (Shares_InsertBatch ?b) s1 = (Ok r, s3)"
    and s2: "s2 = s3\<lparr>flushing := None, shareBuffer := (if is_ok r then shareBuffer s3 else shareBuffer s3 @ ?b)\<rparr>"
    using assms(2) by (auto simp: flush_write_def act_bind_Ok_iff act_modify_def)
  have q: "Shares_InsertBatch ?b s1 = (r, s3)" using r by (auto simp: attempt_def split: prod.splits res.splits)
  have fields: "shares t = shares u \<and> shareBuffer t = shareBuffer u" if "tick_apart u t" for u t :: "'a server"
  proof -
    have eq: "t\<lparr>tick := 0\<rparr> = u\<lparr>tick := 0\<rparr>" using that by (simp add: tick_apart_def)
    show ?thesis using arg_cong [OF eq, of shares] arg_cong [OF eq, of shareBuffer] by simp
  qed
  show ?thesis
  proof (cases r)
    case (Ok u)
    from triple_OkD [OF InsertBatch_triple [of s1 ?b] _ q [unfolded Ok]] fields [of "s1\<lparr>shares := shares s1 @ ?b\<rparr>" s3]
    show ?thesis by (simp add: s1 s2 Ok)
  next
    case (Err e)
    from triple_failD [OF InsertBatch_triple [of s1 ?b] _ q] fields [of "s1\<lparr>shares := shares s1 @ ?b\<rparr>" s3] fields [of s1 s3]
    show ?thesis by (auto simp: s1 s2 Err)
  qed (use r in \<open>auto simp: attempt_def split: prod.splits res.splits\<close>)
qed

end
