(* ===== verification/ShareWeight.thy ===== *)
theory ShareWeight
  imports Target Block
begin

text \<open>
  \<open>pool/shares.go\<close>: what a solved header is worth.  The statuses are the constants of the iota block
  in their order, the class of linear orders gives the comparison \<open>status > shareInvalid\<close>.  The
  printed texts are left out.
\<close>

datatype share_status = shareInvalid | shareValid | primaryCandidate | aux1Candidate | dualCandidate

fun status_number :: "share_status \<Rightarrow> int" where
  "status_number shareInvalid = 0"
| "status_number shareValid = 1"
| "status_number primaryCandidate = 2"
| "status_number aux1Candidate = 3"
| "status_number dualCandidate = 4"

lemma status_number_inject [simp]: "status_number a = status_number b \<longleftrightarrow> a = b"
  by (cases a; cases b) auto

instantiation share_status :: linorder
begin

definition less_eq_share_status :: "share_status \<Rightarrow> share_status \<Rightarrow> bool" where
  "less_eq_share_status a b \<longleftrightarrow> status_number a \<le> status_number b"

definition less_share_status :: "share_status \<Rightarrow> share_status \<Rightarrow> bool" where
  "less_share_status a b \<longleftrightarrow> status_number a < status_number b"

instance
  by standard (auto simp: less_eq_share_status_def less_share_status_def)

end

lemmas status_order = less_eq_share_status_def less_share_status_def

definition statusMap :: "share_status \<Rightarrow> string option" where
  "statusMap status = (case status of
     primaryCandidate \<Rightarrow> Some ''Primary'' | aux1Candidate \<Rightarrow> Some ''Aux1'' | dualCandidate \<Rightarrow> Some ''Dual'' | _ \<Rightarrow> None)"

section \<open>The code\<close>

text \<open>The status against the pool's own target, the last step.\<close>

definition pool_status :: "int \<Rightarrow> string \<Rightarrow> share_status" where
  "pool_status primarySum poolTarget =
     (case ToBig poolTarget of None \<Rightarrow> shareInvalid
      | Some poolTargetBig \<Rightarrow> if primarySum \<le> poolTargetBig then shareValid else shareInvalid)"

definition weigh_share :: "BitcoinBlock \<Rightarrow> int \<Rightarrow> AuxBlock option \<Rightarrow> fl \<Rightarrow> (share_status \<times> fl) res" where
  "weigh_share primary primarySum aux1 poolDifficulty =
     (case Template primary of None \<Rightarrow> nil_pointer
      | Some t \<Rightarrow>
        (case ToBig (TargetHex t) of None \<Rightarrow> Ok (shareInvalid, fzero)
         | Some primaryTargetBig \<Rightarrow>
           res_bind (block_ShareMultiplier primary) (\<lambda>multiplier.
           res_bind (TargetFromDifficulty (div64 poolDifficulty multiplier)) (\<lambda>(poolTarget, a).
           res_bind (ToDifficulty poolTarget) (\<lambda>(shareDifficulty, a').
             let status = (if primarySum \<le> primaryTargetBig then primaryCandidate else shareInvalid);
                 finish = (\<lambda>status. if shareInvalid < status then Ok (status, shareDifficulty)
                   else Ok (pool_status primarySum poolTarget, shareDifficulty)) in
             case aux1 of None \<Rightarrow> finish status
             | Some aux \<Rightarrow>
               if auxHash aux = [] then finish status
               else res_bind (pool_reverseHexBytes (auxTarget aux)) (\<lambda>reversed.
                 case ToBig reversed of None \<Rightarrow> Ok (status, shareDifficulty)
                 | Some auxTargetBig \<Rightarrow>
                   if primarySum \<le> auxTargetBig
                   then finish (if status = primaryCandidate then dualCandidate else aux1Candidate)
                   else finish status))))))"

text \<open>\<open>primary\<close> and \<open>aux1\<close> are pointers; \<open>Sum\<close> changes the block behind the first.\<close>

definition validateAndWeighShare ::
  "BitcoinBlock option \<Rightarrow> AuxBlock option \<Rightarrow> fl \<Rightarrow> (share_status \<times> fl) res \<times> BitcoinBlock option" where
  "validateAndWeighShare primary aux1 poolDifficulty =
     (case primary of None \<Rightarrow> (Ok (shareInvalid, fzero), None)
      | Some b \<Rightarrow>
        (case block_Sum b of
           (Err e, b1) \<Rightarrow> (Ok (shareInvalid, fzero), Some b1)
         | (Panic m, b1) \<Rightarrow> (Panic m, Some b1)
         | (Ok primarySum, b1) \<Rightarrow> (weigh_share b1 (int primarySum) aux1 poolDifficulty, Some b1)))"

section \<open>Classification\<close>

text \<open>The specification: a hash meets some of three targets; the status says which.\<close>

definition met :: "int \<Rightarrow> int option \<Rightarrow> bool" where
  "met s target \<longleftrightarrow> (case target of None \<Rightarrow> False | Some t \<Rightarrow> s \<le> t)"

definition status_of :: "bool \<Rightarrow> bool \<Rightarrow> bool \<Rightarrow> share_status" where
  "status_of meets_primary meets_aux meets_pool =
     (if meets_primary \<and> meets_aux then dualCandidate else if meets_aux then aux1Candidate
      else if meets_primary then primaryCandidate else if meets_pool then shareValid else shareInvalid)"

lemma status_of_mono:
  "(p' \<longrightarrow> p) \<Longrightarrow> (a' \<longrightarrow> a) \<Longrightarrow> (v' \<longrightarrow> v) \<Longrightarrow> status_of p' a' v' \<le> status_of p a v"
  by (auto simp: status_of_def status_order)

lemma met_mono: "s \<le> s' \<Longrightarrow> met s' t \<Longrightarrow> met s t"
  by (auto simp: met_def split: option.splits)

definition aux_target_of :: "AuxBlock option \<Rightarrow> int option" where
  "aux_target_of aux1 = (case aux1 of None \<Rightarrow> None
     | Some aux \<Rightarrow> if auxHash aux = [] then None
         else (case pool_reverseHexBytes (auxTarget aux) of Ok r \<Rightarrow> ToBig r | _ \<Rightarrow> None))"

definition aux_readable :: "AuxBlock option \<Rightarrow> bool" where
  "aux_readable aux1 \<longleftrightarrow> (case aux1 of None \<Rightarrow> True | Some aux \<Rightarrow> auxHash aux = [] \<or> aux_target_of aux1 \<noteq> None)"

lemma weigh_share_Ok:
  assumes "Template b = Some t" and "chain b = Some c" and "ToBig (TargetHex t) = Some pt"
    and "TargetFromDifficulty (div64 d (ShareMultiplier c)) = Ok (pool, a)" and "ToDifficulty pool = Ok (w, a')"
    and "aux_readable aux1"
  shows "weigh_share b s aux1 d = Ok (status_of (met s (Some pt)) (met s (aux_target_of aux1)) (met s (ToBig pool)), w)"
  using assms
  by (auto simp: weigh_share_def block_ShareMultiplier_def aux_readable_def aux_target_of_def status_of_def met_def pool_status_def
      status_order Let_def split: option.splits res.splits)

lemma block_Sum_keeps: "block_Sum b = (r, b1) \<Longrightarrow> Template b1 = Template b \<and> chain b1 = chain b"
  by (auto simp: block_Sum_def Let_def split: option.splits if_splits res.splits)

lemma weigh_share_cong:
  assumes "Template b1 = Template b" and "chain b1 = chain b"
  shows "weigh_share b1 = weigh_share b"
proof -
  have "block_ShareMultiplier b1 = block_ShareMultiplier b" using assms(2) by (simp add: block_ShareMultiplier_def)
  then show ?thesis by (intro ext) (simp only: weigh_share_def assms(1))
qed

text \<open>C33. A share is classified by the targets its hash meets, and by nothing else: with readable targets, the
  status is dual, auxiliary or primary candidate, valid, or invalid as the hash is at most both
  chains' targets, the auxiliary one, the primary one, the pool's, or none; a larger hash never gets a
  higher status; and the weight is the difficulty of the pool's target, whatever the hash.\<close>

theorem share_classified:
  assumes "Template b = Some t" and "chain b = Some c" and "ToBig (TargetHex t) = Some pt"
    and "TargetFromDifficulty (div64 d (ShareMultiplier c)) = Ok (pool, a)" and "ToDifficulty pool = Ok (w, a')"
    and "aux_readable aux1" and "block_Sum b = (Ok n, b1)"
  shows "validateAndWeighShare (Some b) aux1 d =
      (Ok (status_of (int n \<le> pt) (met (int n) (aux_target_of aux1)) (met (int n) (ToBig pool)), w), Some b1) \<and>
    (\<forall>s'. int n \<le> s' \<longrightarrow> (\<exists>st. weigh_share b1 s' aux1 d = Ok (st, w) \<and>
       st \<le> status_of (int n \<le> pt) (met (int n) (aux_target_of aux1)) (met (int n) (ToBig pool))))"
proof -
  have same: "Template b1 = Template b" "chain b1 = chain b" using block_Sum_keeps [OF assms(7)] by simp_all
  note ok = weigh_share_Ok [OF assms(1-6), folded weigh_share_cong [OF same]]
  have "validateAndWeighShare (Some b) aux1 d =
      (Ok (status_of (int n \<le> pt) (met (int n) (aux_target_of aux1)) (met (int n) (ToBig pool)), w), Some b1)"
    using ok [of "int n"] by (simp add: validateAndWeighShare_def assms(7) met_def)
  moreover have "status_of (met s' (Some pt)) (met s' (aux_target_of aux1)) (met s' (ToBig pool)) \<le>
      status_of (int n \<le> pt) (met (int n) (aux_target_of aux1)) (met (int n) (ToBig pool))" if "int n \<le> s'" for s'
  proof (rule status_of_mono)
    show "met s' (Some pt) \<longrightarrow> int n \<le> pt" using that by (auto simp: met_def)
  qed (use that met_mono in blast)+
  ultimately show ?thesis using ok by blast
qed

text \<open>An unreadable auxiliary target costs the miner a valid share: a hash that meets the pool's target
  and not the primary chain's is valid alone, and invalid as soon as an auxiliary block comes along
  whose target is not a number, as the function returns before it looks at the pool's target.\<close>

theorem unreadable_aux_target_rejects:
  assumes "Template b = Some t" and "chain b = Some c" and "ToBig (TargetHex t) = Some pt"
    and "TargetFromDifficulty (div64 d (ShareMultiplier c)) = Ok (pool, a)" and "ToDifficulty pool = Ok (w, a')"
    and "block_Sum b = (Ok n, b1)" and "pt < int n" and "met (int n) (ToBig pool)"
    and "auxHash aux \<noteq> []" and "pool_reverseHexBytes (auxTarget aux) = Ok r" and "ToBig r = None"
  shows "fst (validateAndWeighShare (Some b) None d) = Ok (shareValid, w) \<and>
    fst (validateAndWeighShare (Some b) (Some aux) d) = Ok (shareInvalid, w)"
proof -
  have same: "Template b1 = Template b" "chain b1 = chain b" using block_Sum_keeps [OF assms(6)] by simp_all
  have "weigh_share b (int n) None d = Ok (shareValid, w)"
    using weigh_share_Ok [OF assms(1-5), of None "int n"] assms(7,8)
    by (simp add: aux_readable_def aux_target_of_def status_of_def met_def)
  moreover have "weigh_share b (int n) (Some aux) d = Ok (shareInvalid, w)"
    using assms by (simp add: weigh_share_def block_ShareMultiplier_def Let_def)
  ultimately show ?thesis
    by (simp add: validateAndWeighShare_def assms(6) weigh_share_cong [OF same])
qed

section \<open>Witnesses\<close>

text \<open>A solved block whose hash is the number 1.\<close>

definition weighed_block :: BitcoinBlock where
  "weighed_block = empty_block\<lparr>Template := Some (sample_template\<lparr>TargetHex := ''0''\<rparr>),
     chain := Some (Dogecoin (\<lambda>b. Some (1 # replicate 31 0))), header := ''00''\<rparr>"

lemma le_value_replicate_zero [simp]: "le_value (replicate n 0) = 0"
  by (induction n) simp_all

lemma weighed_sum: obtains b1 where "block_Sum weighed_block = (Ok 1, b1)"
proof -
  let ?scrypt = "\<lambda>b :: byte list. Some (1 # replicate 31 0 :: byte list)"
  have "GetChain ?scrypt ''dogecoin'' = Ok (Dogecoin ?scrypt)" by (simp add: GetChain_def)
  moreover have "chain weighed_block = Some (Dogecoin ?scrypt)" "header weighed_block \<noteq> []"
    "DecodeString (header weighed_block) = Ok [0]"
    by (simp_all add: weighed_block_def hex_val_def)
  ultimately show ?thesis using that block_Sum_scrypt [OF _ _ _ _ refl] by simp
qed

lemma weighed_fields:
  "Template weighed_block = Some (sample_template\<lparr>TargetHex := ''0''\<rparr>)" "ToBig ''0'' = Some 0"
  "chain weighed_block = Some (Dogecoin (\<lambda>b. Some (1 # replicate 31 0)))" "ShareMultiplier (Dogecoin s) = Fin False 65536"
  "div64 (Fin False 65536) (Fin False 65536) = Fin False 1"
  using fpack_double [of 1 1 0 False] by (simp_all add: weighed_block_def Dogecoin_def ToBig_def split_sign_def hex_val_def)

lemma weighed_target:
  "TargetFromDifficulty (Fin False 1) = Ok (int_hex (65535 * 2 ^ 208), Exact)"
  "ToDifficulty (int_hex (65535 * 2 ^ 208)) = Ok (Fin False 1, Exact)"
  using target_pow2 [of 0] by simp_all

lemma weighed_hyps:
  "ToBig (TargetHex (sample_template\<lparr>TargetHex := ''0''\<rparr>)) = Some 0"
  "TargetFromDifficulty (div64 (Fin False 65536) (ShareMultiplier (Dogecoin s))) = Ok (int_hex (65535 * 2 ^ 208), Exact)"
  by (simp add: ToBig_def split_sign_def hex_val_def) (simp only: weighed_fields weighed_target)

lemma share_classified_witness:
  "\<exists>b1. validateAndWeighShare (Some weighed_block) None (Fin False 65536) = (Ok (shareValid, Fin False 1), Some b1)"
proof -
  obtain b1 where b1: "block_Sum weighed_block = (Ok 1, b1)" by (rule weighed_sum)
  have "aux_readable None" by (simp add: aux_readable_def)
  from share_classified [OF weighed_fields(1) weighed_fields(3) weighed_hyps weighed_target(2) this b1]
  have "validateAndWeighShare (Some weighed_block) None (Fin False 65536) =
      (Ok (status_of (int 1 \<le> 0) (met (int 1) (aux_target_of None)) (met (int 1) (ToBig (int_hex (65535 * 2 ^ 208)))), Fin False 1), Some b1)"
    by blast
  then show ?thesis by (simp add: aux_target_of_def status_of_def met_def)
qed

lemma unreadable_aux_target_rejects_witness:
  "let aux = \<lparr>auxHash = ''ab'', auxChainID = 98, auxPreviousBlockHash = [], auxCoinbaseHash = [], auxCoinbaseValue = 0,
         auxBits = [], auxHeight = 9, auxTarget = ''zz''\<rparr> in
   fst (validateAndWeighShare (Some weighed_block) None (Fin False 65536)) = Ok (shareValid, Fin False 1) \<and>
   fst (validateAndWeighShare (Some weighed_block) (Some aux) (Fin False 65536)) = Ok (shareInvalid, Fin False 1)"
proof -
  let ?aux = "\<lparr>auxHash = ''ab'', auxChainID = 98, auxPreviousBlockHash = [], auxCoinbaseHash = [], auxCoinbaseValue = 0,
         auxBits = [], auxHeight = 9, auxTarget = ''zz''\<rparr>"
  obtain b1 where b1: "block_Sum weighed_block = (Ok 1, b1)" by (rule weighed_sum)
  have aux: "auxHash ?aux \<noteq> []" "pool_reverseHexBytes (auxTarget ?aux) = Ok ''zz''" "ToBig ''zz'' = None"
    by (simp_all add: pool_reverseHexBytes_def revhex_loop.simps ToBig_def split_sign_def hex_val_def)
  have "(0 :: int) < int 1" "met (int 1) (ToBig (int_hex (65535 * 2 ^ 208)))" by (simp_all add: met_def)
  from unreadable_aux_target_rejects [OF weighed_fields(1) weighed_fields(3) weighed_hyps weighed_target(2) b1 this aux]
  show ?thesis by (simp only: Let_def)
qed

end
