(* ===== verification/SubmitProperties.thy ===== *)
theory SubmitProperties
  imports PoolInvariant ShareWeight
begin

text \<open>
  Properties of what miners submit and of the work they get: the check of a submitted header, a
  submission that ends the program, and the work broadcast after a new block.
\<close>

section \<open>The check of a submission\<close>

lemma map_error_Ok_iff [simp]: "map_error g m s = (Ok x, t) \<longleftrightarrow> m s = (Ok x, t)"
  by (auto simp: map_error_def split: prod.splits res.splits)

lemma receiveWork_Ok:
  assumes "receiveWorkFromClient out work s = (Ok u, s')"
  obtains t aux block w hdr h s1 s2 s3 primaryName currentWork where "5 \<le> length work"
    and "generateWorkFromCache out False s = (Ok currentWork, s1)" and "work ! 1 = currentWork ! 0"
    and "fetchAllBlockTemplatesFromRPC out s1 = (Ok (t, aux), s2)" and "GetPrimary (BlockChainOrder (svConfig s2)) = Ok primaryName"
    and "generate_work out t aux primaryName (work ! 2) [] 0 s2 = (Ok (block, w), s3)"
    and "fst (MakeHeader block (work ! 2) (work ! 4) (work ! 3)) = Ok hdr"
    and "fst (block_Sum (snd (MakeHeader block (work ! 2) (work ! 4) (work ! 3)))) = Ok h"
    and "int h \<le> targetInt (PoolDifficulty (svConfig s2))"
  using assms
  by (auto simp: receiveWorkFromClient_def Let_def act_bind_Ok_iff act_gets_def not_less split_def split: if_splits)


lemma targetInt_nonneg:
  assumes "0 \<le> x" and "x < 2 ^ 63"
  shows "targetInt (Fin False x) = \<lfloor>x\<rfloor> * 2 ^ 32"
proof -
  have "- (2 ^ 63) \<le> \<lfloor>x\<rfloor> \<and> \<lfloor>x\<rfloor> < 2 ^ 63" using assms by (simp add: floor_less_iff le_floor_iff)
  then have "float_to_int (- (2 ^ 63)) (2 ^ 63) (Fin False x) = Some \<lfloor>x\<rfloor>" by (simp only: float_to_int_def float_trunc.simps) simp
  then show ?thesis by (simp add: targetInt_def to_int64_def)
qed

text \<open>The check is the wrong way round: a higher pool difficulty accepts every hash a lower one accepts,
  while the target that belongs to it falls.\<close>

theorem pool_difficulty_inverted:
  assumes "0 < m" and "m \<le> n" and "n < 2 ^ 63"
  shows "targetInt (Fin False m) \<le> targetInt (Fin False n) \<and> targetInt (Fin False n) < 2 ^ 95 \<and>
    (\<exists>t t' a a' v v'. TargetFromDifficulty (Fin False m) = Ok (t, a) \<and> TargetFromDifficulty (Fin False n) = Ok (t', a') \<and>
      ToBig t = Some v \<and> ToBig t' = Some v' \<and> v' \<le> v)"
proof -
  have "targetInt (Fin False m) = \<lfloor>m\<rfloor> * 2 ^ 32" "targetInt (Fin False n) = \<lfloor>n\<rfloor> * 2 ^ 32"
    using assms by (simp_all add: targetInt_nonneg)
  moreover have "\<lfloor>m\<rfloor> \<le> \<lfloor>n\<rfloor>" "\<lfloor>n\<rfloor> < 2 ^ 63" using assms(2,3) by (simp_all add: floor_mono floor_less_iff)
  moreover obtain a where "TargetFromDifficulty (Fin False m) = Ok (int_hex (target_value m), a)"
    using TargetFromDifficulty_pos assms(1) by blast
  moreover obtain a' where "TargetFromDifficulty (Fin False n) = Ok (int_hex (target_value n), a')"
    using TargetFromDifficulty_pos assms(1,2) by (metis less_le_trans)
  moreover have "target_value n \<le> target_value m" using target_value_antitone assms(1,2) .
  ultimately show ?thesis by auto
qed

lemma pool_difficulty_inverted_witness:
  "targetInt (Fin False 1) \<le> targetInt (Fin False 1000) \<and> targetInt (Fin False 1000) < 2 ^ 95"
  using pool_difficulty_inverted [of 1 1000] by simp

section \<open>A submission that ends the program\<close>

interpretation configured: work_blind "\<lambda>s. svConfig s = cfg" for cfg
  by unfold_locales simp_all

text \<open>C37. Any client that knows the current job can end the program: if its second extranonce has the length
  that makes the input script of the regenerated coinbase 253 bytes long, far below the size of a
  request, work generation panics in the handler of \<open>mining.submit\<close>.\<close>

theorem submit_ends_program:
  assumes "workCache s = job # entries" and "fetchAllBlockTemplatesFromRPC out s = (Ok (t, aux), s1)"
    and "BlockChainOrder (svConfig s) = primaryName # names" and "GetChain (scryptFn out) primaryName = Ok c"
    and "template_ok t prev bits ids w" and "length w < 2 ^ 64"
    and "sqMethod rq = ''mining.submit''"
    and "sqParams rq = Some (JArr [JStr worker, JStr job, JStr extranonce2, JStr ntime, JStr nonce])"
    and "length extranonce2 + length (height_bytes t) = 251"
  shows "handleStratumRequest out rq client s = (Panic ''Too large to stream'', s1)"
proof -
  have cfg: "svConfig s1 = svConfig s" using keepsD [OF configured.keeps_fetchAll refl assms(2)] .
  have "length (input_script t extranonce2 []) = 253" using assms(9) by (simp add: length_input_script)
  then have 253: "253 \<in> script_lengths t extranonce2 [] w []" by (simp add: script_lengths_def)
  have "\<forall>n \<in> script_lengths t extranonce2 [] w []. n < 2 ^ 64"
    using assms(6,9) by (auto simp: script_lengths_def expected_outputs_def length_input_script)
  then have "GenerateWork (scryptFn out) jobs (Some t) xs primaryName extranonce2 [] 0 = Panic ''Too large to stream''" for jobs xs
    by (cases rule: GenerateWork_cases [OF assms(4,5), of extranonce2 "[]" "[]" jobs xs]) (use 253 in simp_all)
  then have gen: "generate_work out t aux primaryName extranonce2 [] 0 s1 = (Panic ''Too large to stream'', s1)"
    by (simp add: generate_work_def)
  have "receiveWorkFromClient out [worker, job, extranonce2, ntime, nonce] s = (Panic ''Too large to stream'', s1)"
    using assms(1-3) cfg gen
    by (simp add: receiveWorkFromClient_def generateWorkFromCache_def act_bind_def act_gets_def map_error_def ret_def lift_res_def
        GetPrimary_def Let_def numeral_eq_Suc)
  then show ?thesis
    using assms(7,8)
    by (simp add: handleStratumRequest_def miningSubmit_def Unmarshal_def or_else_def act_bind_def attempt_def lift_res_def)
qed

section \<open>Work that pays nobody\<close>

lemma CoinbaseFinal_unpaid:
  assumes "res_bind (CoinbaseFinal t []) CoinbaseFinal_Serialize = Ok cf"
  shows "\<exists>pre. cf = pre @ reward_amount (CoinBaseValue t) @ ''00'' @ ''00000000''"
proof -
  have "varUint 0 = Ok ''00''" by (simp add: varUint_def digit_char_def)
  then show ?thesis
    using assms by (auto simp: CoinbaseFinal_def CoinbaseFinal_Serialize_def coinbaseTransactionOutputs_def TransactionOut_def outcome_simps
        split: if_splits)
qed

lemma GenerateWork_unpaid:
  assumes "GenerateWork scrypt jobs (Some t) aux name arbitrary [] n = Ok (b, w, jobs')"
  shows "8 \<le> length w \<and> (\<exists>pre. work_text (w ! 3) = pre @ reward_amount (CoinBaseValue t) @ ''00'' @ ''00000000'')"
proof -
  obtain cf where cf: "res_bind (CoinbaseFinal t []) CoinbaseFinal_Serialize = Ok cf"
    and w: "\<exists>pre. work_text (w ! 3) = pre @ cf" "8 \<le> length w"
    using assms by (auto simp: GenerateWork_def outcome_simps Let_def numeral_eq_Suc)
  with CoinbaseFinal_unpaid [OF cf] show ?thesis by (metis append_assoc)
qed

text \<open>The work broadcast after a new block pays the reward to nobody: the work made by
  \<open>generateWorkFromCache(true)\<close> ends its coinbase with one output of the full value whose script is
  empty, so anyone can spend it; neither the pool's script nor the auxiliary chains are committed to.\<close>

theorem forced_work_pays_nobody:
  assumes "fetchAllBlockTemplatesFromRPC out s = (Ok (t, aux), s1)" and "generateWorkFromCache out True s = (Ok work, s')"
  shows "workCache s' = work \<and> 8 \<le> length work \<and>
    (\<exists>pre. work ! 3 = pre @ reward_amount (CoinBaseValue t) @ ''00'' @ ''00000000'')"
proof -
  obtain block w s2 name where gen: "generate_work out t aux name [] [] 0 s1 = (Ok (block, w), s2)"
    and work: "work = convertWorkToStringSlice w" and s': "workCache s' = work"
    using assms by (auto simp: generateWorkFromCache_def act_bind_Ok_iff act_gets_def act_modify_def split: prod.splits)
  from gen obtain jobs' xs where "GenerateWork (scryptFn out) (jobCounter s1) (Some t) xs name [] [] 0 = Ok (block, w, jobs')"
    by (auto simp: generate_work_def split: res.splits prod.splits)
  from GenerateWork_unpaid [OF this] show ?thesis by (auto simp: work s' convertWorkToStringSlice_def)
qed

end
