(* ===== verification/PoolExamples.thy ===== *)
theory PoolExamples
  imports PoolProperties SubmitProperties
begin

text \<open>
  A server on a concrete configuration and node, started, with one miner who authorises: the inputs at
  which the properties of the running server are applied.
\<close>

definition tiny_template :: template where
  "tiny_template = zero_template\<lparr>PrevBlockHash := EncodeToString (replicate 32 7), Height := 300,
     CoinBaseValue := 5000000000, Bits := EncodeToString [30, 15, 255, 255]\<rparr>"

definition pool_answer :: "json \<Rightarrow> http_reply" where
  "pool_answer j = Reply 200 \<lparr>Result = Some j, ErrorField = \<lparr>Code = 0, Message = []\<rparr>, rsID = 1219\<rparr>"

definition pool_node :: "nat transport" where
  "pool_node url rq w =
     (if Method rq = ''getblockchaininfo'' then (pool_answer (JObj [(''chain'', JStr ''regtest'')]), w)
      else if Method rq = ''validateaddress'' then (pool_answer (JObj [(''scriptPubKey'', JStr ''51'')]), w)
      else if Method rq = ''getblocktemplate'' then
        (pool_answer (JObj [(''previousblockhash'', JStr (PrevBlockHash tiny_template)), (''height'', JInt 300),
           (''coinbasevalue'', JInt 5000000000), (''bits'', JStr (Bits tiny_template))]), w)
      else if Method rq = ''submitblock'' then (pool_answer JNull, Suc w)
      else (NoReply ''connection refused'', w))"

definition pool_outside :: "nat outside" where
  "pool_outside = \<lparr>scryptFn = (\<lambda>b. Some (replicate 32 0)), httpT = pool_node, mapOrder = (\<lambda>t ks. ks), digitsR = (\<lambda>i. i div 8),
     newUUID = (\<lambda>n. replicate n CHR ''u''), sendFault = (\<lambda>n. None),
     parseJson = (\<lambda>p. if p = ''auth'' then Some (JObj [(''method'', JStr ''mining.authorize''), (''params'', JArr [JStr ''D1.rig''])]) else None),
     renderJson = (\<lambda>j. [])\<rparr>"

definition base_server :: "nat server" where
  "base_server = \<lparr>shares = [], blocks = [], balances = [], balance_changes = [], payments = [], miner_settings = [], poolstats = [],
     minerstats = [], block_seq = 2, tick = 0, faults = (\<lambda>n. None), clock = (\<lambda>n. 1000 + int n), to_decimal = sample_decimal,
     of_decimal = (\<lambda>v. Fin (v < 0) (of_int \<bar>v\<bar> / 10 ^ 8)), nodes = 0, svConfig = sample_config, activeNodes = Map.empty,
     svManagers = Map.empty, recoveries = [], templates = \<lparr>pairBlock = empty_block, AuxBlocks = []\<rparr>, workCache = [], shareBuffer = [],
     flushing = None, sessions = [], conns = (\<lambda>n. \<lparr>scIp = [], scLogin = [], scExtranonce1 = [], scUserAgent = [], scSessionID = []\<rparr>),
     phases = (\<lambda>n. Closed), nextConn = 0, extranonces = {}, numberOfConnections = 0, jobCounter = 0, draws = 0, uuids = 0, writes = 0,
     sent = [], hashblockCounter = (\<lambda>n. 0)\<rparr>"

definition pool_client :: RPCClient where
  "pool_client = \<lparr>NodeUrl = ''http://u:w@d'', cName = ''d0''\<rparr>"

definition dogecoin_node :: blockChainNode where
  "dogecoin_node = \<lparr>bnNotifyURL = ''tcp://d:1'', bnRPC = Some pool_client, bnChainName = ''dogecoin'', bnNetwork = ''regtest'',
     bnRewardPubScriptKey = ''51'', bnRewardTo = ''Dpool'', bnNetworkDifficulty = fzero\<rparr>"

definition loaded_server :: "nat server" where
  "loaded_server = (NewServer sample_config [''dogecoin'' \<mapsto> sample_manager] base_server)\<lparr>
     activeNodes := [''dogecoin'' \<mapsto> dogecoin_node], templates := \<lparr>pairBlock = empty_block, AuxBlocks = []\<rparr>\<rparr>"

lemmas pool_eval = pool_outside_def pool_node_def pool_answer_def on_nodes_def via_rpc_def act_bind_def act_gets_def act_modify_def
  lift_res_def ret_def map_error_def fatal_on_error_def attempt_def

lemma sample_config_fields:
  "BlockChainOrder sample_config = [''dogecoin'']" "PoolDifficulty sample_config = Fin False 1" "MaxConnections sample_config = 2"
  "BlockSignature sample_config = ''/sig/''" "ShareFlushInterval sample_config = ''5s''" "ConnectionTimeout sample_config = ''1m''"
  "configured_nodes sample_config ''dogecoin'' = [\<lparr>nName = ''d0'', RPC_URL = ''http://d'', RPC_Username = ''u'', RPC_Password = ''w'',
     nTimeout = ''5s'', NotifyURL = ''tcp://d:1'', RewardTo = ''Dpool''\<rparr>]"
  by (simp_all add: sample_config_def configured_nodes_def)

lemma load_sample:
  "loadBlockchainNodes pool_outside (NewServer sample_config [''dogecoin'' \<mapsto> sample_manager] base_server) =
     (Ok (), loaded_server)"
proof -
  have info: "GetBlockChainInfo pool_node c w = (Ok \<lparr>ciChain = ''regtest'', ciNetworkDifficulty = fzero\<rparr>, w)" for c w
    by (simp add: GetBlockChainInfo_def doRequest_def Unmarshal_def dec_at_def fold_eq_def lower_char_def or_else_def pool_eval Let_def)
  have addr: "ValidateAddress pool_node c a w = (Ok ''51'', w)" for c a w
    by (simp add: ValidateAddress_def doRequest_def Unmarshal_def dec_at_def fold_eq_def lower_char_def or_else_def pool_eval Let_def)
  have http: "httpT pool_outside = pool_node" by (simp add: pool_outside_def)
  show ?thesis
    by (simp add: loadBlockchainNodes_def load_node_def http NewServer_def base_server_def loaded_server_def sample_manager_def
        GetActiveClient_def GetIndex_def sample_config_fields on_nodes_def info addr act_bind_def act_gets_def act_modify_def lift_res_def
        ret_def fatal_on_error_def dogecoin_node_def pool_client_def Let_def)
qed

lemma tiny_ok: "template_ok tiny_template (replicate 32 7) [30, 15, 255, 255] [] []"
  by (simp add: template_ok_def tiny_template_def zero_template_def)

lemma tiny_work:
  fixes extranonce pk :: "byte list"
  assumes "length extranonce + length arbitrary < 200" and "length pk < 200"
  obtains b w where "GenerateWork (\<lambda>b. Some (replicate 32 0)) jobs (Some tiny_template) [] ''dogecoin'' arbitrary (EncodeToString pk)
      (int (length extranonce)) = Ok (b, w, jobs + 1)" and "8 \<le> length w"
proof -
  let ?L = "script_lengths tiny_template arbitrary extranonce [] pk"
  have small: "n < 253" if "n \<in> ?L" for n
    using that assms height_bytes_length [of tiny_template] by (auto simp: script_lengths_def expected_outputs_def length_input_script)
  then have bound: "\<forall>n \<in> ?L. n < 2 ^ 64" by fastforce
  have dogecoin: "GetChain (\<lambda>b. Some (replicate 32 0)) ''dogecoin'' = Ok (Dogecoin (\<lambda>b. Some (replicate 32 0)))" by (simp add: GetChain_def)
  show thesis
  proof (cases rule: GenerateWork_cases [OF dogecoin tiny_ok bound, of jobs "[]", case_names ok panic])
    case (ok b w ib fb)
    have "8 \<le> length w" using ok(1) by (auto simp: GenerateWork_def outcome_simps Let_def)
    with ok(1) that show thesis by blast
  qed (use small in fastforce)
qed

definition loaded :: "nat server \<Rightarrow> bool" where
  "loaded s \<longleftrightarrow> activeNodes s = [''dogecoin'' \<mapsto> dogecoin_node] \<and> svConfig s = sample_config"

lemma fetch_sample:
  assumes "loaded s"
  shows "fetchAllBlockTemplatesFromRPC pool_outside s = (Ok (tiny_template, []), s)"
proof -
  have tmpl: "GetBlockTemplate pool_node c w = (Ok (Some (JObj [(''previousblockhash'', JStr (PrevBlockHash tiny_template)),
      (''height'', JInt 300), (''coinbasevalue'', JInt 5000000000), (''bits'', JStr (Bits tiny_template))])), w)" for c w
    by (simp add: GetBlockTemplate_def call_def doRequest_def pool_eval Let_def)
  have dec: "unmarshal_or_fail (dec_struct template_fields) zero_template (Some (JObj [(''previousblockhash'', JStr (PrevBlockHash tiny_template)),
      (''height'', JInt 300), (''coinbasevalue'', JInt 5000000000), (''bits'', JStr (Bits tiny_template))])) = ret tiny_template"
    by (simp add: unmarshal_or_fail_def Unmarshal_def template_fields_def dec_at_def fold_eq_def lower_char_def or_else_def tiny_template_def)
  have node: "bnRPC dogecoin_node = Some pool_client" by (simp add: dogecoin_node_def)
  have http: "httpT pool_outside = pool_node" by (simp add: pool_outside_def)
  show ?thesis
    using assms
    by (simp add: fetchAllBlockTemplatesFromRPC_def GetPrimaryNode_def GetPrimary_def loaded_def node_of_def sample_config_fields node http tmpl dec
        act_bind_def act_gets_def via_rpc_def on_nodes_def map_error_def lift_res_def ret_def)
qed

text \<open>The server after its start.\<close>

lemma start_sample:
  obtains b w where "Start pool_outside (NewServer sample_config [''dogecoin'' \<mapsto> sample_manager] base_server) =
      (Ok (), loaded_server\<lparr>jobCounter := 1, workCache := convertWorkToStringSlice w,
        templates := \<lparr>pairBlock = b, AuxBlocks = []\<rparr>\<rparr>)" and "8 \<le> length w"
proof -
  obtain b w where gw: "GenerateWork (\<lambda>b. Some (replicate 32 0)) 0 (Some tiny_template) [] ''dogecoin'' ''/sig/'' (EncodeToString [0x51])
      (int (length (replicate 8 (0 :: byte)))) = Ok (b, w, 0 + 1)" and w: "8 \<le> length w"
    by (rule tiny_work [of "replicate 8 0" "''/sig/''" "[0x51]" 0]) simp_all
  have gw': "GenerateWork (\<lambda>b. Some (replicate 32 0)) 0 (Some tiny_template) [] ''dogecoin'' ''/sig/'' ''51'' 8 = Ok (b, w, 1)"
    using gw by (simp add: digit_char_def)
  have ne: "convertWorkToStringSlice w \<noteq> []" using w by (auto simp: convertWorkToStringSlice_def)
  have dur: "mustParseDuration ''5s'' = Ok 5000000000" "mustParseDuration ''1m'' = Ok 60000000000"
    by (simp_all add: mustParseDuration_def ParseDuration_def duration_loop.simps duration_part_def is_digit_def digit_of_def
        duration_unit_def Let_def)
  have loaded: "loaded loaded_server" by (simp add: loaded_def loaded_server_def NewServer_def)
  note fetched = fetch_sample [OF loaded]
  have fields: "scryptFn pool_outside = (\<lambda>b. Some (replicate 32 0))" "mapOrder pool_outside = (\<lambda>t ks. ks)"
    "bnRewardPubScriptKey dogecoin_node = ''51''" by (simp_all add: pool_outside_def dogecoin_node_def)
  have server: "activeNodes loaded_server = [''dogecoin'' \<mapsto> dogecoin_node]" "svConfig loaded_server = sample_config"
    "jobCounter loaded_server = 0" "templates loaded_server = \<lparr>pairBlock = empty_block, AuxBlocks = []\<rparr>"
    "sessions loaded_server = []"
    by (simp_all add: loaded_server_def NewServer_def base_server_def)
  let ?s0 = "loaded_server\<lparr>jobCounter := 1, workCache := convertWorkToStringSlice w, templates := \<lparr>pairBlock = b, AuxBlocks = []\<rparr>\<rparr>"
  have fetch: "fetchRpcBlockTemplatesAndCacheWork pool_outside loaded_server = (Ok (), ?s0)"
    by (simp add: fetchRpcBlockTemplatesAndCacheWork_def fetched GetPrimaryNode_def GetPrimary_def node_of_def sample_config_fields server
        fields auxillary_text_def generate_work_def gw' in_order_def List.map_filter_def act_bind_def act_gets_def act_modify_def attempt_def
        lift_res_def ret_def)
  have same: "loaded_server\<lparr>templates := \<lparr>pairBlock = empty_block, AuxBlocks = []\<rparr>\<rparr> = loaded_server"
    by (simp add: loaded_server_def)
  have base: "(NewServer sample_config [''dogecoin'' \<mapsto> sample_manager] base_server)\<lparr>sessions := []\<rparr> =
      NewServer sample_config [''dogecoin'' \<mapsto> sample_manager] base_server" by (simp add: NewServer_def)
  have "Start pool_outside (NewServer sample_config [''dogecoin'' \<mapsto> sample_manager] base_server) = (Ok (), ?s0)"
    by (simp add: Start_def base load_sample startBufferManager_def dur server sample_config_fields same fetch ne fatal_on_error_def
        generateWorkFromCache_def broadcastWork_def notifyAllSessions_def in_order_def fields List.map_filter_def
        act_bind_def act_gets_def act_modify_def lift_res_def ret_def)
  with w that show thesis by blast
qed

section \<open>A miner connects\<close>

lemma accept_sample:
  assumes "numberOfConnections s = 0" and "svConfig s = sample_config" and "extranonces s = {}" and "draws s = 0" and "nextConn s = 0"
  shows "accept_connection pool_outside ip s = Some (s\<lparr>extranonces := {''00000000''}, draws := 8,
    conns := (conns s)(0 := \<lparr>scIp = ip, scLogin = [], scExtranonce1 = ''00000000'', scUserAgent = [], scSessionID = []\<rparr>),
    phases := (phases s)(0 := Serving), nextConn := 1, numberOfConnections := 1\<rparr>)"
proof -
  have "randomHex (\<lambda>i. i div 8) 8 0 = ''00000000''" by code_simp
  then have "randomHex (digitsR pool_outside) 8 0 = ''00000000''" by (simp add: pool_outside_def)
  then have "uniqueExtranonce (digitsR pool_outside) 8 s = Some (''00000000'', s\<lparr>extranonces := {''00000000''}, draws := 8\<rparr>)"
    using assms by (simp add: uniqueExtranonce_def fresh_loop.simps)
  then show ?thesis using assms by (simp add: accept_connection_def isBanned_def extranonce1Length_def sample_config_fields)
qed

lemma login_sample: "check_login (\<lambda>b. Some (replicate 32 0)) (\<lambda>name. bnNetwork (node_of s name)) [''dogecoin''] ip ''D1.rig'' = Ok ()"
  if "loaded s"
  using that by (simp add: check_login_def GetChain_def loaded_def node_of_def dogecoin_node_def Let_def)

lemma authorise_sample:
  assumes "loaded s" and "workCache s \<noteq> []"
  shows "connection_turn pool_outside 0 (Line ''auth'') s = (Ok (), s\<lparr>
    conns := (conns s)(0 := (conns s 0)\<lparr>scLogin := ''D1.rig''\<rparr>), sessions := AList.update (scSessionID (conns s 0)) 0 (sessions s),
    writes := writes s + 3, sent := sent s @ [(0, Response (zero_response\<lparr>spResult := JBool True\<rparr>)),
      (0, Request (miningSetDifficulty (Fin False 1))), (0, Request (miningNotify (workCache s)))]\<rparr>)"
proof -
  have rq: "dec_struct request_fields (JObj [(''method'', JStr ''mining.authorize''), (''params'', JArr [JStr ''D1.rig''])]) zero_request =
      (None, zero_request\<lparr>sqMethod := ''mining.authorize'', sqParams := Some (JArr [JStr ''D1.rig''])\<rparr>)"
    by (simp add: request_fields_def dec_at_def dec_raw_def fold_eq_def lower_char_def or_else_def zero_request_def)
  have out: "scryptFn pool_outside = (\<lambda>b. Some (replicate 32 0))" "sendFault pool_outside n = None"
    "parseJson pool_outside ''auth'' = Some (JObj [(''method'', JStr ''mining.authorize''), (''params'', JArr [JStr ''D1.rig''])])" for n
    by (simp_all add: pool_outside_def)
  have cfg: "svConfig s = sample_config" using assms(1) by (simp add: loaded_def)
  have auth: "miningAuthorize pool_outside (zero_request\<lparr>sqMethod := ''mining.authorize'', sqParams := Some (JArr [JStr ''D1.rig''])\<rparr>) 0 s =
    (Ok (Request (miningNotify (workCache s))), s\<lparr>
      conns := (conns s)(0 := (conns s 0)\<lparr>scLogin := ''D1.rig''\<rparr>), sessions := AList.update (scSessionID (conns s 0)) 0 (sessions s),
      writes := writes s + 2, sent := sent s @ [(0, Response (zero_response\<lparr>spResult := JBool True\<rparr>)),
        (0, Request (miningSetDifficulty (Fin False 1)))]\<rparr>)"
    using assms login_sample [OF assms(1)]
    by (simp add: miningAuthorize_def isBanned_def Unmarshal_def or_else_def out cfg sample_config_fields set_client_def addSession_def
        sendPacket_def generateWorkFromCache_def zero_request_def zero_response_def act_bind_def act_gets_def act_modify_def lift_res_def ret_def)
  have "respondToStratumClient pool_outside 0 ''auth'' = act_bind (miningAuthorize pool_outside
      (zero_request\<lparr>sqMethod := ''mining.authorize'', sqParams := Some (JArr [JStr ''D1.rig''])\<rparr>) 0) (\<lambda>response. sendPacket pool_outside response 0)"
    by (simp only: respondToStratumClient_def out rq option.case prod.case) (simp add: handleStratumRequest_def)
  then show ?thesis
    by (simp add: connection_turn_def handle_line_def auth sendPacket_def out act_bind_def attempt_def ret_def)
qed

lemma run_sample:
  obtains s0 s where "Start pool_outside (NewServer sample_config [''dogecoin'' \<mapsto> sample_manager] base_server) = (Ok (), s0)"
    and "(pool_step pool_outside)\<^sup>*\<^sup>* s0 s" and "loaded s" and "loaded s0" and "sessions s = [([], 0)]" and "nextConn s = 1"
    and "scLogin (conns s 0) = ''D1.rig''" and "numberOfConnections s = 1"
proof -
  obtain b w where start: "Start pool_outside (NewServer sample_config [''dogecoin'' \<mapsto> sample_manager] base_server) =
      (Ok (), loaded_server\<lparr>jobCounter := 1, workCache := convertWorkToStringSlice w, templates := \<lparr>pairBlock = b, AuxBlocks = []\<rparr>\<rparr>)"
    and w: "8 \<le> length w" by (rule start_sample)
  let ?s0 = "loaded_server\<lparr>jobCounter := 1, workCache := convertWorkToStringSlice w, templates := \<lparr>pairBlock = b, AuxBlocks = []\<rparr>\<rparr>"
  let ?s1 = "?s0\<lparr>extranonces := {''00000000''}, draws := 8,
    conns := (conns ?s0)(0 := \<lparr>scIp = ''::1'', scLogin = [], scExtranonce1 = ''00000000'', scUserAgent = [], scSessionID = []\<rparr>),
    phases := (phases ?s0)(0 := Serving), nextConn := 1, numberOfConnections := 1\<rparr>"
  have loaded: "loaded ?s0" "loaded ?s1" by (simp_all add: loaded_def loaded_server_def NewServer_def)
  have "accept_connection pool_outside ''::1'' ?s0 = Some ?s1"
    by (intro accept_sample) (simp_all add: loaded_server_def NewServer_def base_server_def)
  then have one: "pool_step pool_outside ?s0 ?s1" by (rule pool_step.accept)
  have "workCache ?s1 \<noteq> []" using w by (auto simp: convertWorkToStringSlice_def)
  note auth = authorise_sample [OF loaded(2) this]
  obtain s2 where s2: "connection_turn pool_outside 0 (Line ''auth'') ?s1 = (Ok (), s2)" and f: "loaded s2" "sessions s2 = [([], 0)]"
    "nextConn s2 = 1" "scLogin (conns s2 0) = ''D1.rig''" "numberOfConnections s2 = 1"
    using auth by (simp add: loaded_def loaded_server_def NewServer_def)
  have "pool_step pool_outside ?s1 s2" by (rule pool_step.turn [OF _ _ s2]) simp_all
  with one have "(pool_step pool_outside)\<^sup>*\<^sup>* ?s0 s2" by (meson r_into_rtranclp rtranclp_trans)
  from that [OF start this f(1) loaded(1) f(2-5)] show thesis .
qed

section \<open>Witnesses\<close>


lemma connections_distinct_and_bounded_witness:
  "\<exists>s0 s. Start pool_outside (NewServer sample_config [''dogecoin'' \<mapsto> sample_manager] base_server) = (Ok (), s0) \<and>
    (pool_step pool_outside)\<^sup>*\<^sup>* s0 s \<and> hex_text_of 8 (scExtranonce1 (conns s 0)) \<and>
    1 = int (card {c. c < 1 \<and> phases s c \<noteq> Closed}) \<and> numberOfConnections s \<le> 3"
proof (rule run_sample)
  fix s0 s :: "nat server"
  assume run: "Start pool_outside (NewServer sample_config [''dogecoin'' \<mapsto> sample_manager] base_server) = (Ok (), s0)"
    "(pool_step pool_outside)\<^sup>*\<^sup>* s0 s" and f: "loaded s0" "nextConn s = 1" "numberOfConnections s = 1"
  from connections_distinct_and_bounded [OF run] f run show ?thesis
    by (intro exI [of _ s0] exI [of _ s]) (auto simp: loaded_def sample_config_fields)
qed

lemma shares_never_recorded_witness:
  "\<exists>s0 s. Start pool_outside (NewServer sample_config [''dogecoin'' \<mapsto> sample_manager] base_server) = (Ok (), s0) \<and>
    (pool_step pool_outside)\<^sup>*\<^sup>* s0 s \<and> sessions s = [([], 0)] \<and> shares s = shares s0 \<and> shareBuffer s = []"
proof (rule run_sample)
  fix s0 s :: "nat server"
  assume run: "Start pool_outside (NewServer sample_config [''dogecoin'' \<mapsto> sample_manager] base_server) = (Ok (), s0)"
    "(pool_step pool_outside)\<^sup>*\<^sup>* s0 s" "sessions s = [([], 0)]"
  from shares_never_recorded [OF run(1,2)] run show ?thesis by blast
qed

lemma active_nodes_fixed_witness:
  "\<exists>s0 s. Start pool_outside (NewServer sample_config [''dogecoin'' \<mapsto> sample_manager] base_server) = (Ok (), s0) \<and>
    (pool_step pool_outside)\<^sup>*\<^sup>* s0 s \<and> sessions s = [([], 0)] \<and> node_of s ''dogecoin'' = dogecoin_node"
proof (rule run_sample)
  fix s0 s :: "nat server"
  assume run: "Start pool_outside (NewServer sample_config [''dogecoin'' \<mapsto> sample_manager] base_server) = (Ok (), s0)"
    "(pool_step pool_outside)\<^sup>*\<^sup>* s0 s" "sessions s = [([], 0)]" and l: "loaded s0"
  from active_nodes_fixed [OF run(1,2), of "''dogecoin''"] l have "node_of s ''dogecoin'' = dogecoin_node"
    by (simp add: node_of_def loaded_def)
  with run show ?thesis by blast
qed

text \<open>All three connections have ended in a flood.\<close>

lemma flood_starves_server_witness:
  "let s = base_server\<lparr>nextConn := 3, phases := (\<lambda>n. Abandoned), numberOfConnections := 3\<rparr> in
   accept_connection pool_outside ''::1'' s = None \<and>
   connection_turn pool_outside 2 LongLine (base_server\<lparr>phases := (\<lambda>n. Serving)\<rparr>) =
     (Ok (), base_server\<lparr>phases := (\<lambda>n. Serving)(2 := Abandoned)\<rparr>)"
proof -
  let ?s = "base_server\<lparr>nextConn := 3, phases := (\<lambda>n. Abandoned), numberOfConnections := 3\<rparr>"
  have "\<forall>c < nextConn ?s. phases ?s c \<noteq> Serving" "MaxConnections (svConfig ?s) < numberOfConnections ?s"
    by (simp_all add: base_server_def sample_config_def)
  from flood_starves_server [OF this rtranclp.rtrancl_refl, of pool_outside "''::1''" 2 "base_server\<lparr>phases := (\<lambda>n. Serving)\<rparr>"]
  show ?thesis by (simp add: base_server_def)
qed

definition subscribed :: "nat server" where
  "subscribed = base_server\<lparr>nextConn := 1, phases := (\<lambda>n. Serving), numberOfConnections := 1, sessions := [([], 0)]\<rparr>"

lemma resubscribe_leaks_session_witness:
  "\<exists>p s1 s2. handleStratumRequest pool_outside (zero_request\<lparr>sqMethod := ''mining.subscribe''\<rparr>) 0 (subscribed\<lparr>uuids := 1\<rparr>) = (Ok p, s1) \<and>
    connection_turn pool_outside 0 EndOfFile s1 = (Ok (), s2) \<and> phases s2 0 = Closed \<and> map_of (sessions s2) [] = Some 0"
proof -
  let ?s = "subscribed\<lparr>uuids := 1\<rparr>" and ?rq = "zero_request\<lparr>sqMethod := ''mining.subscribe''\<rparr>"
  obtain p s1 where one: "handleStratumRequest pool_outside ?rq 0 ?s = (Ok p, s1)"
    by (simp add: handleStratumRequest_def miningSubscribe_def isBanned_def zero_request_def Unmarshal_def set_client_def
        act_bind_def act_gets_def act_modify_def ret_def Let_def)
  obtain s2 where two: "connection_turn pool_outside 0 EndOfFile s1 = (Ok (), s2)"
    by (simp add: connection_turn_def handle_line_def close_connection_def removeSession_def act_bind_def act_gets_def act_modify_def
        attempt_def lift_res_def)
  have "map_of (sessions ?s) [] = Some 0" "newUUID pool_outside (uuids ?s) \<noteq> []" by (simp_all add: subscribed_def pool_outside_def)
  from resubscribe_leaks_session [OF this _ one two] one two show ?thesis by auto
qed

lemma broadcast_reaches_sessions_witness:
  "\<exists>ps s'. broadcastWork pool_outside [''job''] (base_server\<lparr>sessions := [(''a'', 0), (''b'', 4)]\<rparr>) = (Ok (), s') \<and>
    sent s' = ps \<and> mset ps = {# (0, Request (miningNotify [''job''])), (4, Request (miningNotify [''job''])) #}"
  using broadcast_reaches_sessions [of pool_outside "base_server\<lparr>sessions := [(''a'', 0), (''b'', 4)]\<rparr>" "[''job'']"]
  by (auto simp: pool_outside_def base_server_def)

lemma flush_loses_nothing_witness:
  "\<exists>s1 s2. flush_take (base_server\<lparr>shareBuffer := [sample_share ''A'' 49 5]\<rparr>) = (Ok (), s1) \<and>
    flush_write [sample_share ''A'' 49 5] s1 = (Ok (), s2) \<and>
    (shares s2 = [sample_share ''A'' 49 5] \<or> shareBuffer s2 = [sample_share ''A'' 49 5])"
proof -
  let ?s = "base_server\<lparr>shareBuffer := [sample_share ''A'' 49 5]\<rparr>"
  obtain s1 where one: "flush_take ?s = (Ok (), s1)" by (simp add: flush_take_def act_modify_def)
  then have "s1 = ?s\<lparr>flushing := Some [sample_share ''A'' 49 5], shareBuffer := []\<rparr>" by (simp add: flush_take_def act_modify_def)
  then obtain s2 where two: "flush_write [sample_share ''A'' 49 5] s1 = (Ok (), s2)"
    by (simp add: flush_write_def Shares_InsertBatch_def silent_def query_def sql_def act_bind_def act_modify_def attempt_def ret_def base_server_def)
  from flush_loses_nothing [of ?s s1 s2] one two show ?thesis by (auto simp: base_server_def)
qed

lemma submit_ends_program_witness:
  "handleStratumRequest pool_outside (zero_request\<lparr>sqMethod := ''mining.submit'', sqParams := Some (JArr [JStr ''D1.rig'', JStr ''00000000'',
      JStr (replicate (251 - length (height_bytes tiny_template)) CHR ''0''), JStr [], JStr []])\<rparr>) 0 (loaded_server\<lparr>workCache := [''00000000'']\<rparr>) =
    (Panic ''Too large to stream'', loaded_server\<lparr>workCache := [''00000000'']\<rparr>)"
proof -
  let ?s = "loaded_server\<lparr>workCache := [''00000000'']\<rparr>"
  have loaded: "loaded ?s" by (simp add: loaded_def loaded_server_def NewServer_def)
  then have order: "BlockChainOrder (svConfig ?s) = [''dogecoin'']" by (simp add: loaded_def sample_config_fields)
  have chain: "GetChain (scryptFn pool_outside) ''dogecoin'' = Ok (Dogecoin (scryptFn pool_outside))" by (simp add: GetChain_def)
  have size: "length (replicate (251 - length (height_bytes tiny_template)) CHR ''0'') + length (height_bytes tiny_template) = 251"
    using height_bytes_length [of tiny_template] by (simp only: length_replicate)
  show ?thesis
    by (rule submit_ends_program [OF _ fetch_sample [OF loaded] order chain tiny_ok _ _ _ size]) simp_all
qed

lemma forced_work_pays_nobody_witness:
  "\<exists>work s'. generateWorkFromCache pool_outside True loaded_server = (Ok work, s') \<and> 8 \<le> length work \<and>
    (\<exists>pre. work ! 3 = pre @ reward_amount (CoinBaseValue tiny_template) @ ''00'' @ ''00000000'')"
proof -
  have loaded: "loaded loaded_server" by (simp add: loaded_def loaded_server_def NewServer_def)
  obtain b w where "GenerateWork (\<lambda>b. Some (replicate 32 0)) 0 (Some tiny_template) [] ''dogecoin'' [] (EncodeToString [])
      (int (length ([] :: byte list))) = Ok (b, w, 0 + 1)" by (rule tiny_work [of "[]" "[]" "[]" 0]) simp_all
  then have gw: "GenerateWork (\<lambda>b. Some (replicate 32 0)) 0 (Some tiny_template) [] ''dogecoin'' [] [] 0 = Ok (b, w, 1)" by simp
  have "generate_work pool_outside tiny_template [] ''dogecoin'' [] [] 0 loaded_server = (Ok (b, w), loaded_server\<lparr>jobCounter := 1\<rparr>)"
    by (simp add: generate_work_def pool_outside_def in_order_def List.map_filter_def gw loaded_server_def NewServer_def base_server_def)
  then obtain work s' where run: "generateWorkFromCache pool_outside True loaded_server = (Ok work, s')"
    using loaded by (simp add: generateWorkFromCache_def fetch_sample GetPrimary_def loaded_def sample_config_fields act_bind_def act_gets_def
        act_modify_def lift_res_def)
  from forced_work_pays_nobody [OF fetch_sample [OF loaded] run] run show ?thesis by blast
qed


end
