(* ===== verification/MinerRepo.thy ===== *)
theory MinerRepo
  imports FoundBlocks "HOL-Library.Product_Lexorder"
begin

text \<open>
  \<open>persistence/miner.go\<close> and \<open>persistence/pool.go\<close>: the statistics of miners and of the pool, the
  settings of miners and the reports on them.  Durations are in nanoseconds, times in microseconds
  (the resolution of the database).  A session of the database is in UTC.  A statement that selects
  rows without \<open>ORDER BY\<close> returns them in the order of the table, groups in the order of their first
  row.
\<close>

section \<open>Queries\<close>

definition distinct_keys :: "('a \<Rightarrow> 'k) \<Rightarrow> 'a list \<Rightarrow> 'k list" where
  "distinct_keys f xs = rev (remdups (rev (map f xs)))"

text \<open>\<open>AVG\<close> of a group, which is never empty.\<close>

definition pg_avg :: "fl list \<Rightarrow> fl res" where
  "pg_avg xs = res_bind (pg_sum_from fzero xs) (\<lambda>s. Ok (div64 s (float_of_int double (int (length xs)))))"

text \<open>The order of \<open>double precision\<close>: a NaN is above everything, zeros are equal.\<close>

definition pg_key :: "fl \<Rightarrow> int \<times> rat" where
  "pg_key x = (case x of NaN \<Rightarrow> (2, 0) | Inf s \<Rightarrow> (if s then (- 1, 0) else (1, 0)) | Fin s m \<Rightarrow> (0, fval x))"

definition pg_less :: "fl \<Rightarrow> fl \<Rightarrow> bool" where
  "pg_less x y = (pg_key x < pg_key y)"

text \<open>The text of a decimal read into a \<open>float32\<close>.\<close>

definition decimal32 :: "int \<Rightarrow> fl" where
  "decimal32 v = fpack single (v < 0) (of_int \<bar>v\<bar> / 10 ^ 8)"

definition no_rows :: "'a res" where
  "no_rows = Err ''sql: no rows in result set''"

definition day :: int where "day = 24 * hour"

definition date_trunc :: "int \<Rightarrow> int \<Rightarrow> int" where
  "date_trunc u t = t div u * u"

text \<open>\<open>x, err := m; if err != nil { return h(err) }\<close>, when the return is not just the error.\<close>

definition on_error :: "('s, 'a) act \<Rightarrow> (string \<Rightarrow> ('s, 'b) act) \<Rightarrow> ('a \<Rightarrow> ('s, 'b) act) \<Rightarrow> ('s, 'b) act" where
  "on_error m h f = act_bind (attempt m) (\<lambda>r. case r of Ok x \<Rightarrow> f x | Err e \<Rightarrow> h e | Panic p \<Rightarrow> lift_res (Panic p))"

section \<open>Time\<close>

text \<open>\<open>Time.Add\<close> and \<open>Time.Sub\<close> (which saturates), \<open>Seconds\<close> and \<open>Minutes\<close> of a duration.\<close>

definition time_Add :: "int \<Rightarrow> int \<Rightarrow> int" where
  "time_Add t d = t + d div 1000"

definition time_Sub :: "int \<Rightarrow> int \<Rightarrow> int" where
  "time_Sub t u = max (- (2 ^ 63)) (min (2 ^ 63 - 1) (1000 * (t - u)))"

definition go_quot :: "int \<Rightarrow> int \<Rightarrow> int" where
  "go_quot a b = sgn a * sgn b * (\<bar>a\<bar> div \<bar>b\<bar>)"

definition go_rem :: "int \<Rightarrow> int \<Rightarrow> int" where
  "go_rem a b = a - b * go_quot a b"

definition duration_in :: "int \<Rightarrow> int \<Rightarrow> fl" where
  "duration_in u d = add64 (float_of_int double (go_quot d u))
     (div64 (float_of_int double (go_rem d u)) (float_of_int double u))"

definition duration_Seconds :: "int \<Rightarrow> fl" where
  "duration_Seconds d = duration_in (10 ^ 9) d"

definition duration_Minutes :: "int \<Rightarrow> fl" where
  "duration_Minutes d = duration_in (60 * 10 ^ 9) d"

section \<open>Settings\<close>

definition settings_match :: "string \<Rightarrow> string \<Rightarrow> settings_row \<Rightarrow> bool" where
  "settings_match poolID miner row \<longleftrightarrow> sPoolID (row_settings row) = poolID \<and> sMiner (row_settings row) = miner"

definition GetSettings :: "string \<Rightarrow> string \<Rightarrow> ('z db_scheme, MinerSettings) act" where
  "GetSettings poolID miner = query (\<lambda>d.
     case filter (settings_match poolID miner) (miner_settings d) of
       [] \<Rightarrow> no_rows
     | row # rows \<Rightarrow> Ok ((row_settings row)\<lparr>sPaymentThreshold := decimal32 (row_threshold row)\<rparr>))"

text \<open>An insert that updates the row with the same primary key, by the server's clock.\<close>

definition UpdateSettings :: "MinerSettings \<Rightarrow> ('z db_scheme, unit) act" where
  "UpdateSettings settings = sql (\<lambda>d.
     case decimal_param d (sPaymentThreshold settings) of
       Ok v \<Rightarrow>
         (let hit = settings_match (sPoolID settings) (sMiner settings); now = clock d (tick d) in
          (Ok (), d\<lparr>miner_settings :=
             (if list_ex hit (miner_settings d)
              then map (\<lambda>row. if hit row then row\<lparr>row_threshold := v, row_settings := (row_settings row)\<lparr>sUpdated := now\<rparr>\<rparr> else row)
                     (miner_settings d)
              else miner_settings d @ [\<lparr>row_settings = settings\<lparr>sCreated := now, sUpdated := now\<rparr>, row_threshold = v\<rparr>])\<rparr>))
     | Err e \<Rightarrow> (Err e, d) | Panic p \<Rightarrow> (Panic p, d))"

section \<open>Statistics of miners\<close>

definition InsertMinerWorkerPerformanceStats :: "MinerStat \<Rightarrow> ('z db_scheme, unit) act" where
  "InsertMinerWorkerPerformanceStats stat = sql (\<lambda>d. (Ok (), d\<lparr>minerstats := minerstats d @ [stat]\<rparr>))"

definition stat_match :: "string \<Rightarrow> string \<Rightarrow> MinerStat \<Rightarrow> bool" where
  "stat_match poolID miner stat \<longleftrightarrow> msPoolID stat = poolID \<and> msMiner stat = miner"

definition stats_between :: "'z db_scheme \<Rightarrow> string \<Rightarrow> string \<Rightarrow> int \<Rightarrow> int \<Rightarrow> MinerStat list" where
  "stats_between d poolID miner start stop =
     filter (\<lambda>s. stat_match poolID miner s \<and> start \<le> msCreated s \<and> msCreated s \<le> stop) (minerstats d)"

record WorkerStat =
  wsPoolID :: string
  wsMiner :: string
  wsWorker :: string
  wsHashrate :: fl
  wsSharesPerSecond :: fl
  wsStatus :: string
  wsLastSeen :: int
  wsRating :: int
  wsCreated :: int
  wsPartition :: int

definition zero_worker :: WorkerStat where
  "zero_worker = \<lparr>wsPoolID = [], wsMiner = [], wsWorker = [], wsHashrate = fzero, wsSharesPerSecond = fzero, wsStatus = [],
     wsLastSeen = 0, wsRating = 0, wsCreated = 0, wsPartition = 0\<rparr>"

record WorkersReport =
  PendingShares :: fl
  wrCreated :: int
  Workers :: "(string \<times> WorkerStat) list"

definition newWorkerReport :: WorkersReport where
  "newWorkerReport = \<lparr>PendingShares = fzero, wrCreated = 0, Workers = []\<rparr>"

record MinerAccount =
  PendingBalance :: fl
  TotalPaid :: fl
  TodayPaid :: fl
  LastPayment :: Payment

definition zero_payment :: Payment where
  "zero_payment = \<lparr>pPoolID = [], pChain = [], pAddress = [], pAmount = fzero, pTransactionConfirmationData = [], pCreated = 0\<rparr>"

definition zero_account :: MinerAccount where
  "zero_account = \<lparr>PendingBalance = fzero, TotalPaid = fzero, TodayPaid = fzero, LastPayment = zero_payment\<rparr>"

type_synonym ChainAccounts = "(string \<times> MinerAccount) list"

definition GetPendingAmounts :: "ChainAccounts \<Rightarrow> (string \<times> fl) list" where
  "GetPendingAmounts accounts = map (\<lambda>(chain, account). (chain, PendingBalance account)) accounts"

text \<open>As written: the amounts of today.\<close>

definition GetTotalPaidAmounts :: "ChainAccounts \<Rightarrow> (string \<times> fl) list" where
  "GetTotalPaidAmounts accounts = map (\<lambda>(chain, account). (chain, TodayPaid account)) accounts"

record MinerReport =
  mrCreated :: int
  mrAccounts :: ChainAccounts
  mrWorkers :: WorkersReport

definition put_account :: "string \<Rightarrow> (MinerAccount \<Rightarrow> MinerAccount) \<Rightarrow> ChainAccounts \<Rightarrow> ChainAccounts" where
  "put_account chain f accounts =
     AList.update chain (f (case map_of accounts chain of None \<Rightarrow> zero_account | Some a \<Rightarrow> a)) accounts"

definition put_accounts :: "('a \<Rightarrow> MinerAccount \<Rightarrow> MinerAccount) \<Rightarrow> (string \<times> 'a) list \<Rightarrow> ChainAccounts \<Rightarrow> ChainAccounts" where
  "put_accounts f rows accounts = foldl (\<lambda>acc (chain, x). put_account chain (f x) acc) accounts rows"

definition LastStatUpdate :: "string \<Rightarrow> string \<Rightarrow> ('z db_scheme, int) act" where
  "LastStatUpdate poolID miner = query (\<lambda>d.
     case sort_key (\<lambda>s. - msCreated s) (filter (stat_match poolID miner) (minerstats d)) of
       [] \<Rightarrow> no_rows | s # ss \<Rightarrow> Ok (msCreated s))"

definition GetMinerStatsByCreatedTime :: "string \<Rightarrow> string \<Rightarrow> int \<Rightarrow> ('z db_scheme, MinerStat list) act" where
  "GetMinerStatsByCreatedTime poolID address created = query (\<lambda>d.
     Ok (filter (\<lambda>s. stat_match poolID address s \<and> msCreated s = created) (minerstats d)))"

definition GetMinerStatsBetweenTimes :: "string \<Rightarrow> string \<Rightarrow> int \<Rightarrow> int \<Rightarrow> ('z db_scheme, MinerStat list) act" where
  "GetMinerStatsBetweenTimes poolID address start stop = ret []"

text \<open>The three queries of \<open>GetMinerStatsReport\<close> by chain, and its pending shares.\<close>

definition pending_shares :: "string \<Rightarrow> string \<Rightarrow> ('z db_scheme, fl) act" where
  "pending_shares poolID address = query (\<lambda>d.
     res_bind (pg_sum (map shDifficulty (filter (\<lambda>s. shPoolID s = poolID \<and> shMiner s = address) (shares d)))) scan_float)"

definition pending_balances :: "string \<Rightarrow> string \<Rightarrow> ('z db_scheme, (string \<times> fl) list) act" where
  "pending_balances poolID address = query (\<lambda>d.
     Ok (map (\<lambda>row. (fst (snd (bKey row)), decimal32 (bAmount row)))
       (filter (\<lambda>row. fst (bKey row) = poolID \<and> snd (snd (bKey row)) = address) (balances d))))"

definition paid_by_chain :: "string \<Rightarrow> string \<Rightarrow> ('z db_scheme \<Rightarrow> int \<Rightarrow> bool) \<Rightarrow> ('z db_scheme, (string \<times> fl) list) act" where
  "paid_by_chain poolID address counted = query (\<lambda>d.
     let ps = filter (\<lambda>row. pPoolID (row_payment row) = poolID \<and> pAddress (row_payment row) = address \<and>
           counted d (pCreated (row_payment row))) (payments d);
         chain = (\<lambda>row. pChain (row_payment row)) in
     Ok (map (\<lambda>c. (c, decimal32 (sum_list (map row_amount (filter (\<lambda>row. chain row = c) ps))))) (distinct_keys chain ps)))"

definition minerStatWindow :: int where "minerStatWindow = 20"

text \<open>The worker rows of a report; a failure returns no report or the unfinished one, with the error.\<close>

definition fill_workers :: "MinerStat list \<Rightarrow> (string \<times> WorkerStat) list" where
  "fill_workers stats = foldl (\<lambda>ws stat. AList.update (msWorker stat)
     (zero_worker\<lparr>wsWorker := msWorker stat, wsHashrate := msHashrate stat, wsSharesPerSecond := msSharesPerSecond stat\<rparr>) ws) [] stats"

definition report_workers :: "string \<Rightarrow> string \<Rightarrow> MinerReport \<Rightarrow> ('z db_scheme, MinerReport option \<times> string option) act" where
  "report_workers poolID address report =
     on_error (LastStatUpdate poolID address) (\<lambda>e. ret (None, Some e)) (\<lambda>lastUpdate.
     act_bind Now (\<lambda>now.
     if lastUpdate < time_Add now (- 1 * minerStatWindow * (60 * 10 ^ 9)) then ret (Some report, None)
     else on_error (GetMinerStatsByCreatedTime poolID address lastUpdate) (\<lambda>e. ret (None, Some e)) (\<lambda>stats.
       ret (Some (report\<lparr>mrCreated := lastUpdate, mrWorkers := newWorkerReport\<lparr>Workers := fill_workers stats\<rparr>\<rparr>), None))))"

definition GetMinerStatsReport :: "string \<Rightarrow> string \<Rightarrow> ('z db_scheme, MinerReport option \<times> string option) act" where
  "GetMinerStatsReport poolID address =
     (let report = \<lparr>mrCreated = 0, mrAccounts = [], mrWorkers = newWorkerReport\<rparr> in
      on_error (pending_shares poolID address) (\<lambda>e. ret (Some report, Some e)) (\<lambda>pending.
      on_error (pending_balances poolID address) (\<lambda>e. ret (None, Some e)) (\<lambda>owed.
      on_error (paid_by_chain poolID address (\<lambda>d t. True)) (\<lambda>e. ret (None, Some e)) (\<lambda>paid.
      on_error (paid_by_chain poolID address (\<lambda>d t. date_trunc day (clock d (tick d)) \<le> t)) (\<lambda>e. ret (None, Some e)) (\<lambda>today.
      on_error (MinerLastPayments poolID address) (\<lambda>e. ret (None, Some e)) (\<lambda>lastPayments.
        let accounts = put_accounts (\<lambda>p a. a\<lparr>LastPayment := p\<rparr>) lastPayments
              (put_accounts (\<lambda>x a. a\<lparr>TodayPaid := x\<rparr>) today
              (put_accounts (\<lambda>x a. a\<lparr>TotalPaid := x\<rparr>) paid
              (put_accounts (\<lambda>x a. a\<lparr>PendingBalance := x\<rparr>) owed []))) in
        report_workers poolID address (report\<lparr>mrAccounts := accounts, mrWorkers := newWorkerReport\<lparr>PendingShares := pending\<rparr>\<rparr>)))))))"

section \<open>Averages and performance\<close>

record MinerAverage =
  maWorker :: string
  maCreated :: int
  AverageHashrate :: fl
  AverageSharesPerSecond :: fl

text \<open>One group of statistics: the averages of hash rate and shares per second.\<close>

definition averages_of :: "MinerStat list \<Rightarrow> (fl \<times> fl) res" where
  "averages_of g = res_bind (pg_avg (map msHashrate g)) (\<lambda>h. res_bind (pg_avg (map msSharesPerSecond g)) (\<lambda>s. Ok (h, s)))"

text \<open>\<open>GROUP BY\<close> and \<open>ORDER BY\<close> a period; the order of the workers of a period is not observed.\<close>

definition period_groups :: "(MinerStat \<Rightarrow> 'p :: linorder) \<Rightarrow> MinerStat list \<Rightarrow> (('p \<times> string) \<times> fl \<times> fl) list res" where
  "period_groups period ss =
     (let key = (\<lambda>s. (period s, msWorker s)) in
      res_map (\<lambda>k. res_bind (averages_of (filter (\<lambda>s. key s = k) ss)) (\<lambda>a. Ok (k, a))) (sort_key fst (distinct_keys key ss)))"

definition append_average :: "(string \<times> MinerAverage list) list \<Rightarrow> MinerAverage \<Rightarrow> (string \<times> MinerAverage list) list" where
  "append_average m a =
     AList.update (maWorker a) ((case map_of m (maWorker a) of None \<Rightarrow> [] | Some as \<Rightarrow> as) @ [a]) m"

definition GetMinerHourlyAveragesBetween ::
  "string \<Rightarrow> string \<Rightarrow> int \<Rightarrow> int \<Rightarrow> ('z db_scheme, (string \<times> MinerAverage list) list) act" where
  "GetMinerHourlyAveragesBetween poolID miner start stop = query (\<lambda>d.
     res_bind (period_groups (\<lambda>s. date_trunc hour (msCreated s)) (stats_between d poolID miner start stop)) (\<lambda>rows.
       Ok (foldl append_average [] (map (\<lambda>((t, worker), h, s).
         \<lparr>maWorker = worker, maCreated = t, AverageHashrate = h, AverageSharesPerSecond = s\<rparr>) rows))))"

text \<open>The average of the shares per second is scanned into the hash rate, over the one just read; a later
  period replaces an earlier one.  \<open>extract(minute FROM created)::int / n\<close> divides by zero for 0.\<close>

definition minute_of :: "int \<Rightarrow> int" where
  "minute_of t = t mod hour div (60 * 10 ^ 6)"

definition GetMinerPerformanceBetweenTimeAtXMinuteIntervals ::
  "string \<Rightarrow> string \<Rightarrow> int \<Rightarrow> int \<Rightarrow> int \<Rightarrow> ('z db_scheme, WorkersReport) act" where
  "GetMinerPerformanceBetweenTimeAtXMinuteIntervals poolID address start stop xMinutes = query (\<lambda>d.
     let ss = stats_between d poolID address start stop in
     if ss \<noteq> [] \<and> xMinutes = 0 then Err ''pq: division by zero''
     else res_bind (period_groups (\<lambda>s. (date_trunc hour (msCreated s), go_quot (minute_of (msCreated s)) xMinutes)) ss) (\<lambda>rows.
       Ok (newWorkerReport\<lparr>Workers := foldl (\<lambda>ws (((t, partition), worker), h, s). AList.update worker
         (zero_worker\<lparr>wsCreated := t, wsPartition := partition, wsWorker := worker, wsHashrate := s\<rparr>) ws) [] rows\<rparr>)))"

text \<open>\<open>poolid\<close> and \<open>miner\<close> are selected without being grouped: the server rejects the query.\<close>

definition GetMinerPerformanceBetweenTimesAtInterval ::
  "string \<Rightarrow> string \<Rightarrow> int \<Rightarrow> int \<Rightarrow> int \<Rightarrow> ('z db_scheme, WorkersReport) act" where
  "GetMinerPerformanceBetweenTimesAtInterval poolID address start stop interval =
     (if interval \<notin> {60 * 10 ^ 9, 3600 * 10 ^ 9, 24 * 3600 * 10 ^ 9} then lift_res (Err ''invalid input interval'')
      else query (\<lambda>d. Err ''pq: column minerstats.poolid must appear in the GROUP BY clause''))"

text \<open>\<open>PageMinerHashrates\<close>: the sums of a miner at one time; for each miner the best of them; the miners by
  their best, from the highest.\<close>

definition miner_sums :: "MinerStat list \<Rightarrow> (string \<times> fl \<times> fl) list res" where
  "miner_sums ss =
     (let key = (\<lambda>s. (msMiner s, msCreated s)) in
      res_map (\<lambda>k. let g = filter (\<lambda>s. key s = k) ss in
        res_bind (res_bind (pg_sum (map msHashrate g)) scan_float) (\<lambda>h.
        res_bind (res_bind (pg_sum (map msSharesPerSecond g)) scan_float) (\<lambda>s. Ok (fst k, h, s)))) (distinct_keys key ss))"

definition by_hashrate :: "(string \<times> fl \<times> fl) list \<Rightarrow> (string \<times> fl \<times> fl) list" where
  "by_hashrate rows = rev (sort_key (\<lambda>(miner, h, s). pg_key h) (rev rows))"

definition best_of :: "(string \<times> fl \<times> fl) list \<Rightarrow> string \<Rightarrow> string \<times> fl \<times> fl" where
  "best_of rows miner = hd (by_hashrate (filter (\<lambda>row. fst row = miner) rows))"

definition PageMinerHashrates :: "string \<Rightarrow> int \<Rightarrow> nat \<Rightarrow> nat \<Rightarrow> ('z db_scheme, (string \<times> MinerStat) list) act" where
  "PageMinerHashrates poolID start page pageSize = query (\<lambda>d.
     res_bind (miner_sums (filter (\<lambda>s. msPoolID s = poolID \<and> start \<le> msCreated s) (minerstats d))) (\<lambda>rows.
       Ok (foldl (\<lambda>m (miner, h, s). AList.update miner
           \<lparr>msPoolID = [], msMiner = miner, msWorker = [], msHashrate = h, msSharesPerSecond = s, msCreated = 0\<rparr> m) []
         (take pageSize (drop page (by_hashrate (map (best_of rows) (distinct_keys fst rows))))))))"

definition DeleteMinerStatsBefore :: "int \<Rightarrow> ('z db_scheme, unit) act" where
  "DeleteMinerStatsBefore date = sql (\<lambda>d. (Ok (), d\<lparr>minerstats := filter (\<lambda>s. \<not> msCreated s < date) (minerstats d)\<rparr>))"

definition Miner_GetRecentyUsedIpAddresses :: "string \<Rightarrow> string \<Rightarrow> ('z db_scheme, string list) act" where
  "Miner_GetRecentyUsedIpAddresses poolID minerAddress = query (\<lambda>d.
     Ok (distinct_keys shIpAddress (take 100 (sort_key (\<lambda>s. - shCreated s)
       (filter (\<lambda>s. shPoolID s = poolID \<and> shMiner s = minerAddress) (shares d))))))"

text \<open>The pool is not part of the query.  A failed query leaves nil rows, which are closed.\<close>

definition worker_status :: "int \<Rightarrow> int \<Rightarrow> string" where
  "worker_status now lastSeen = (if fle (Fin False 10) (duration_Minutes (time_Sub now lastSeen)) then ''Inactive'' else ''Active'')"

definition GetWorkersLastSeen :: "string \<Rightarrow> string \<Rightarrow> ('z db_scheme, WorkersReport) act" where
  "GetWorkersLastSeen poolID miner =
     on_error (query (\<lambda>d.
         let ss = filter (\<lambda>s. shMiner s = miner) (shares d);
             seen = (\<lambda>w. Max (set (map shCreated (filter (\<lambda>s. shWorker s = w) ss)))) in
         Ok (filter (\<lambda>(w, t). clock d (tick d) - 7 * day \<le> t) (map (\<lambda>w. (w, seen w)) (distinct_keys shWorker ss)))))
       (\<lambda>e. lift_res (Panic ''invalid memory address or nil pointer dereference''))
       (\<lambda>rows. act_bind Now (\<lambda>now.
         ret (newWorkerReport\<lparr>Workers := foldl (\<lambda>ws (w, t). AList.update w
           (zero_worker\<lparr>wsStatus := worker_status now t, wsLastSeen := t\<rparr>) ws) [] rows\<rparr>)))"

section \<open>Statistics of the pool\<close>

text \<open>The two counts are stored as \<open>INT\<close>.\<close>

definition InsertPoolStat :: "PoolStat \<Rightarrow> ('z db_scheme, unit) act" where
  "InsertPoolStat stat = sql (\<lambda>d.
     if ConnectedMiners stat < 2 ^ 31 \<and> ConnectedWorkers stat < 2 ^ 31 \<and> ConnectedPeers stat < 2 ^ 31
     then (Ok (), d\<lparr>poolstats := poolstats d @ [stat]\<rparr>)
     else (Err ''pq: value out of range for type integer'', d))"

definition GetLastStat :: "string \<Rightarrow> ('z db_scheme, PoolStat) act" where
  "GetLastStat poolID = query (\<lambda>d.
     case sort_key (\<lambda>s. - psCreated s) (filter (\<lambda>s. psPoolID s = poolID) (poolstats d)) of
       [] \<Rightarrow> no_rows | s # ss \<Rightarrow> Ok s)"

definition TotalPoolPayments :: "string \<Rightarrow> ('z db_scheme, fl) act" where
  "TotalPoolPayments poolID = query (\<lambda>d.
     case filter (\<lambda>row. pPoolID (row_payment row) = poolID) (payments d) of
       [] \<Rightarrow> null_error
     | rows \<Rightarrow> Ok (decimal32 (sum_list (map row_amount rows))))"

text \<open>The unit of time is appended to the text (\<open>fmt.Sprint\<close>), which is no SQL then.\<close>

definition PoolPerformanceBetween :: "string \<Rightarrow> int \<Rightarrow> int \<Rightarrow> int \<Rightarrow> ('z db_scheme, PoolStat list) act" where
  "PoolPerformanceBetween poolID start stop sampleInterval =
     (if sampleInterval \<noteq> 3600 * 10 ^ 9 \<and> sampleInterval \<noteq> 24 * 3600 * 10 ^ 9 then lift_res (Err ''unknown sample interval'')
      else query (\<lambda>d. Err ''pq: syntax error''))"

type_synonym MinerWorkerHashrates = "(string \<times> (string \<times> fl) list) list"

definition Hashrates_GroupByMiner :: "MinerWorkerHashrates \<Rightarrow> (string \<times> fl list) list" where
  "Hashrates_GroupByMiner results = map (\<lambda>(miner, workers). (miner, map snd workers)) results"

text \<open>The newest statistic of every miner and worker, where its hash rate is positive.  The map is looked
  up before the row is scanned, so under the empty name; a miner's own map is nil when it is written.\<close>

definition newest_rates :: "'z db_scheme \<Rightarrow> string \<Rightarrow> (string \<times> string \<times> fl) list" where
  "newest_rates d poolID =
     (let ss = filter (\<lambda>s. msPoolID s = poolID) (minerstats d);
          newest = (\<lambda>k. hd (sort_key (\<lambda>s. - msCreated s) (filter (\<lambda>s. (msMiner s, msWorker s) = k) ss))) in
      filter (\<lambda>(m, w, h). pg_less fzero h)
        (map (\<lambda>k. (fst k, snd k, msHashrate (newest k))) (distinct_keys (\<lambda>s. (msMiner s, msWorker s)) ss)))"

fun hashrates_loop :: "MinerWorkerHashrates \<Rightarrow> (string \<times> string \<times> fl) list \<Rightarrow> MinerWorkerHashrates res" where
  "hashrates_loop m [] = Ok m"
| "hashrates_loop m ((miner, worker, h) # rows) =
     (let m' = (if map_of m [] = None then AList.update [] [] m else m) in
      case map_of m' miner of
        None \<Rightarrow> Panic ''assignment to entry in nil map''
      | Some workers \<Rightarrow> hashrates_loop (AList.update miner (AList.update worker h workers) m') rows)"

definition MinerWorkerHashrates :: "string \<Rightarrow> ('z db_scheme, MinerWorkerHashrates) act" where
  "MinerWorkerHashrates poolID = act_bind (query (\<lambda>d. Ok (newest_rates d poolID))) (\<lambda>rows. lift_res (hashrates_loop [] rows))"

definition DeletePoolStatsBefore :: "int \<Rightarrow> ('z db_scheme, unit) act" where
  "DeletePoolStatsBefore date = sql (\<lambda>d. (Ok (), d\<lparr>poolstats := filter (\<lambda>s. \<not> psCreated s < date) (poolstats d)\<rparr>))"

end
