(* ===== verification/Statistics.thy ===== *)
theory Statistics
  imports Rewards MinerRepo
begin

text \<open>
  \<open>persistence/stats.go\<close>: one round of the statistics.  The shares of a window are summed by miner and
  worker; one row is stored for the pool and one for every worker.  The order in which Go ranges
  over the miners is the parameter \<open>ord\<close>.
\<close>

section \<open>Windows\<close>

record StatsCalcWindow =
  startDifference :: int
  endDifference :: int

fun window_loop :: "int \<Rightarrow> int \<Rightarrow> MinerWorkerHashAccumulation list \<Rightarrow> int \<times> int" where
  "window_loop earliest latest [] = (earliest, latest)"
| "window_loop earliest latest (worker # rest) =
     window_loop (if FirstShare worker < earliest then FirstShare worker else earliest)
       (if latest < LastShare worker then LastShare worker else latest) rest"

definition getWindowDifferences :: "int \<Rightarrow> int \<Rightarrow> MinerWorkerHashAccumulation list \<Rightarrow> StatsCalcWindow res" where
  "getWindowDifferences now timeFrom workers = (case workers of
     [] \<Rightarrow> Panic ''index out of range''
   | worker # rest \<Rightarrow>
     (case window_loop (FirstShare worker) 0 workers of (earliest, latest) \<Rightarrow>
       Ok \<lparr>startDifference = time_Sub earliest timeFrom, endDifference = time_Sub now latest\<rparr>))"

definition adjustHashWindow :: "StatsCalcWindow \<Rightarrow> int \<Rightarrow> fl" where
  "adjustHashWindow window hashRateCalculationWindow =
     (let w = duration_Seconds hashRateCalculationWindow;
          s = duration_Seconds (startDifference window);
          e = duration_Seconds (endDifference window);
          tenth = mul64 w (fpack double False (1 / 10));
          startedAfter = fle tenth s;
          endedBefore = fle tenth e;
          minerHashTimeFrame = math_Floor
            (if startedAfter \<and> endedBefore then add64 (sub64 w s) e
             else if startedAfter then sub64 w s
             else if endedBefore then add64 w e else w) in
      if flt minerHashTimeFrame (Fin False 1) then Fin False 1 else minerHashTimeFrame)"

section \<open>Rates\<close>

definition hashrateFromShares :: "fl \<Rightarrow> fl \<Rightarrow> fl" where
  "hashrateFromShares shareSum interval = div64 (mul64 shareSum (Fin False (2 ^ 32))) interval"

definition share_count :: "MinerWorkerHashAccumulation \<Rightarrow> fl" where
  "share_count w = float_of_int double (int (ShareCount w))"

text \<open>The shares per second are divided by the nanoseconds of the window.\<close>

definition getHashrateAndSharesPerSecond :: "MinerWorkerHashAccumulation list \<Rightarrow> int \<Rightarrow> fl \<times> fl" where
  "getHashrateAndSharesPerSecond hashSummaries hashRateCalculationWindow =
     (let sumShares = foldl (\<lambda>acc w. add64 acc (SumDifficulty w)) fzero hashSummaries;
          sharesPerSecond = foldl (\<lambda>acc w. add64 acc (share_count w)) fzero hashSummaries in
      (math_Floor (hashrateFromShares sumShares (duration_Seconds hashRateCalculationWindow)),
       div64 sharesPerSecond (float_of_int double hashRateCalculationWindow)))"

section \<open>A round\<close>

definition pool_stat :: "string \<Rightarrow> int \<Rightarrow> MinerWorkerHashAccumulation list \<Rightarrow> nat \<Rightarrow> int \<Rightarrow> PoolStat" where
  "pool_stat poolID hashRateCalculationWindow workers minerCount now =
     (let zero = \<lparr>psPoolID = poolID, ConnectedMiners = 0, ConnectedWorkers = 0, PoolHashrate = fzero, NetworkHashrate = fzero,
            psNetworkDifficulty = fzero, LastNetworkBlockTime = 0, psBlockHeight = 0, ConnectedPeers = 0,
            psSharesPerSecond = fzero, psCreated = now\<rparr> in
      if workers = [] then zero
      else case getHashrateAndSharesPerSecond workers hashRateCalculationWindow of (hashrate, sharesPerSecond) \<Rightarrow>
        zero\<lparr>ConnectedMiners := minerCount, ConnectedWorkers := length workers, PoolHashrate := math_Floor hashrate,
          psSharesPerSecond := roundToThreeDigits sharesPerSecond\<rparr>)"

definition makeNewPoolStat :: "string \<Rightarrow> int \<Rightarrow> MinerWorkerHashAccumulation list \<Rightarrow> nat \<Rightarrow> int \<Rightarrow> ('z db_scheme, unit) act" where
  "makeNewPoolStat poolID hashRateCalculationWindow workers minerCount now =
     InsertPoolStat (pool_stat poolID hashRateCalculationWindow workers minerCount now)"

definition miner_stat :: "string \<Rightarrow> int \<Rightarrow> fl \<Rightarrow> string \<Rightarrow> MinerWorkerHashAccumulation \<Rightarrow> MinerStat" where
  "miner_stat poolID now adjustedWindow miner worker =
     \<lparr>msPoolID = poolID, msMiner = miner, msWorker = accWorker worker,
      msHashrate = math_Floor (hashrateFromShares (SumDifficulty worker) adjustedWindow),
      msSharesPerSecond = roundToThreeDigits (div64 (share_count worker) adjustedWindow), msCreated = now\<rparr>"

text \<open>A failed insertion is logged and not counted.\<close>

fun insert_stats :: "nat \<Rightarrow> MinerStat list \<Rightarrow> ('z db_scheme, nat) act" where
  "insert_stats successCount [] = ret successCount"
| "insert_stats successCount (stat # rest) =
     act_bind (attempt (InsertMinerWorkerPerformanceStats stat)) (\<lambda>r.
       insert_stats (if is_ok r then successCount + 1 else successCount) rest)"

fun miners_loop :: "string \<Rightarrow> int \<Rightarrow> int \<Rightarrow> int \<Rightarrow> nat \<Rightarrow> (string \<times> MinerWorkerHashAccumulation list) list \<Rightarrow> ('z db_scheme, nat) act" where
  "miners_loop poolID now timeFrom window successCount [] = ret successCount"
| "miners_loop poolID now timeFrom window successCount ((miner, workers) # rest) =
     act_bind (lift_res (getWindowDifferences now timeFrom workers)) (\<lambda>differences.
     let adjustedWindow = adjustHashWindow differences window in
     act_bind (insert_stats successCount (map (miner_stat poolID now adjustedWindow miner) workers)) (\<lambda>n.
       miners_loop poolID now timeFrom window n rest))"

definition makeMinerStats :: "(string list \<Rightarrow> string list) \<Rightarrow> string \<Rightarrow> (string \<times> MinerWorkerHashAccumulation list) list \<Rightarrow>
    int \<Rightarrow> int \<Rightarrow> int \<Rightarrow> ('z db_scheme, nat) act" where
  "makeMinerStats ord poolID miners now timeFrom hashRateCalculationWindow =
     miners_loop poolID now timeFrom hashRateCalculationWindow 0 (in_order ord miners)"

definition insertManyNewMinerStatsAndOnePoolStat :: "(string list \<Rightarrow> string list) \<Rightarrow> string \<Rightarrow> int \<Rightarrow> ('z db_scheme, unit) act" where
  "insertManyNewMinerStatsAndOnePoolStat ord poolID hashRateCalculationWindow =
     act_bind Now (\<lambda>now.
     act_bind Now (\<lambda>now'.
     let timeFrom = time_Add now' (- hashRateCalculationWindow) in
     act_bind (GetWorkerHashAccumulationBetween poolID timeFrom now) (\<lambda>workers.
     let miners = GroupByMiner workers in
     act_bind (attempt (makeNewPoolStat poolID hashRateCalculationWindow workers (length miners) now)) (\<lambda>_.
     act_bind (makeMinerStats ord poolID miners now timeFrom hashRateCalculationWindow) (\<lambda>_. ret ())))))"

text \<open>The loop of \<open>UpdateStatsOnInterval\<close> after its sleep: an error is logged.\<close>

definition stats_round :: "(string list \<Rightarrow> string list) \<Rightarrow> string \<Rightarrow> int \<Rightarrow> ('z db_scheme, unit) act" where
  "stats_round ord poolID hashRateCalculationWindow =
     act_bind (attempt (insertManyNewMinerStatsAndOnePoolStat ord poolID hashRateCalculationWindow)) (\<lambda>_. ret ())"

end
