(* ===== verification/StatsProperties.thy ===== *)
theory StatsProperties
  imports Statistics RewardProperties
begin

text \<open>
  Properties of a round of the statistics: what it stores, that the rates of workers are finite, and
  that the pool's rate of shares is zero.
\<close>

section \<open>Durations\<close>

lemma go_quot_rem:
  assumes "0 < b"
  shows "\<bar>go_quot a b\<bar> \<le> \<bar>a\<bar>" and "\<bar>go_rem a b\<bar> \<le> \<bar>a\<bar>"
proof -
  have eq: "b * (\<bar>a\<bar> div b) + \<bar>a\<bar> mod b = \<bar>a\<bar>" by simp
  have pos: "0 \<le> \<bar>a\<bar> mod b" "0 \<le> \<bar>a\<bar> div b" using assms by (simp_all add: pos_imp_zdiv_nonneg_iff)
  have "1 * (\<bar>a\<bar> div b) \<le> b * (\<bar>a\<bar> div b)" using assms pos(2) by (intro mult_right_mono) auto
  then have "\<bar>a\<bar> div b \<le> \<bar>a\<bar>" using eq pos(1) by linarith
  with pos show "\<bar>go_quot a b\<bar> \<le> \<bar>a\<bar>" using assms by (cases "a = 0") (auto simp: go_quot_def abs_mult)
  define q where "q = \<bar>a\<bar> div b"
  have "0 \<le> b * q" using pos assms by (simp add: q_def)
  moreover have "b * q \<le> \<bar>a\<bar>" unfolding q_def using eq pos(1) by linarith
  moreover have "go_rem a b = a - sgn a * (b * q)" using assms by (simp add: go_rem_def go_quot_def q_def)
  ultimately show "\<bar>go_rem a b\<bar> \<le> \<bar>a\<bar>" by (auto simp: sgn_if)
qed

lemma duration_small: "\<bar>d\<bar> \<le> 2 ^ 63 \<Longrightarrow> fsmall 64 (duration_Seconds d)"
proof -
  assume d: "\<bar>d\<bar> \<le> 2 ^ 63"
  have "fsmall 63 (float_of_int double (go_quot d (10 ^ 9)))" "fsmall 63 (float_of_int double (go_rem d (10 ^ 9)))"
    using go_quot_rem [of "10 ^ 9" d] d by (auto intro!: fsmall_int)
  moreover have "float_of_int double (10 ^ 9) = Fin False (of_int (10 ^ 9))" by (rule float_int_exact) simp_all
  ultimately have "fsmall (Suc 63) (duration_Seconds d)"
    unfolding duration_Seconds_def duration_in_def by (intro fsmall_add) (simp_all add: fsmall_div)
  then show ?thesis by simp
qed

lemma time_Sub_range: "\<bar>time_Sub t u\<bar> \<le> 2 ^ 63"
  by (auto simp: time_Sub_def)

lemma window_range:
  "getWindowDifferences now timeFrom workers = Ok w \<Longrightarrow> \<bar>startDifference w\<bar> \<le> 2 ^ 63 \<and> \<bar>endDifference w\<bar> \<le> 2 ^ 63"
  using time_Sub_range by (auto simp: getWindowDifferences_def split: list.splits prod.splits)

text \<open>The frame a hash rate is divided by is a whole number of seconds, at least one.\<close>

lemma adjusted_whole:
  assumes "\<bar>window\<bar> \<le> 2 ^ 63" and "getWindowDifferences now timeFrom workers = Ok w"
  obtains n where "adjustHashWindow w window = Fin False (of_int n)" and "1 \<le> n"
proof -
  let ?w = "duration_Seconds window" and ?s = "duration_Seconds (startDifference w)" and ?e = "duration_Seconds (endDifference w)"
  have small: "fsmall 64 ?w" "fsmall 64 ?s" "fsmall 64 ?e"
    using assms(1) window_range [OF assms(2)] by (simp_all add: duration_small)
  have ws: "fsmall 65 (sub64 ?w ?s)" using fsmall_sub [OF small(1,2)] by simp
  have we: "fsmall 65 (add64 ?w ?e)" using fsmall_add [OF small(1,3)] by simp
  have wse: "fsmall 66 (add64 (sub64 ?w ?s) ?e)" using fsmall_add [OF ws fsmall_mono [OF small(3), of 65]] by simp
  note frames = wse fsmall_mono [OF ws, of 66] fsmall_mono [OF we, of 66] fsmall_mono [OF small(1), of 66]
  have floor: "\<exists>n. (if flt (math_Floor x) (Fin False 1) then Fin False 1 else math_Floor x) = Fin False (of_int n) \<and> 1 \<le> n"
    if small: "fsmall 66 x" for x
  proof -
    obtain s m where x: "x = Fin s m" "0 \<le> m" using small by (auto simp: fsmall_def)
    show ?thesis
    proof (cases "flt (math_Floor x) (Fin False 1)")
      case True
      then show ?thesis by (auto intro!: exI [of _ 1])
    next
      case False
      moreover have "0 \<le> rat_of_int \<lceil>m\<rceil>" using x(2) by simp
      ultimately show ?thesis using x by (cases s) (auto simp: not_less)
    qed
  qed
  have "\<exists>n. adjustHashWindow w window = Fin False (of_int n) \<and> 1 \<le> n"
    unfolding adjustHashWindow_def Let_def by (rule floor) (use frames in simp)
  with that show ?thesis by blast
qed

section \<open>Rates of workers\<close>

lemma round_three_nonneg:
  assumes "0 \<le> m" and "m \<le> 2 ^ k" and "k \<le> 900"
  obtains r where "roundToThreeDigits (Fin False m) = Fin False r" and "0 \<le> r"
proof -
  have thousand: "m * 1000 \<le> 2 ^ (k + 10)" unfolding power_add using assms(1,2) by (intro mult_mono) auto
  obtain a where a: "fpack double False (m * 1000) = Fin False a" "0 \<le> a" "a \<le> 2 ^ (k + 10)"
    using fpack_small [of "m * 1000" "k + 10" False] assms thousand by auto
  define b where "b = (of_int \<lfloor>a + 1 / 2\<rfloor> :: rat)"
  have b: "0 \<le> b" using a(2) by (simp add: b_def)
  have "b \<le> a + 1 / 2" by (simp add: b_def)
  also have "\<dots> \<le> 2 ^ (k + 11)"
  proof -
    have "(2 :: rat) ^ (k + 11) = 2 * 2 ^ (k + 10)" by (simp flip: power_Suc)
    moreover have "(1 :: rat) \<le> 2 ^ (k + 10)" by simp
    ultimately show ?thesis using a(3) by linarith
  qed
  finally have "b / 1000 \<le> 2 ^ (k + 11)" using b by simp
  then obtain r where "fpack double False (b / 1000) = Fin False r" "0 \<le> r"
    using fpack_small [of "b / 1000" "k + 11" False] assms(3) b by auto
  with that show ?thesis by (simp add: roundToThreeDigits_def a(1) b_def)
qed

text \<open>C28. The statistics stored for a worker are finite and not negative, whatever the window: the frame the
  rates are divided by is a whole number of seconds and at least one, also for a window that is zero
  or negative or times that are out of order; the hash rate is a whole number.\<close>

theorem worker_rates_finite:
  assumes "\<bar>window\<bar> \<le> 2 ^ 63" and "getWindowDifferences now timeFrom workers = Ok w"
    and "SumDifficulty worker = Fin False x" and "0 \<le> x" and "x \<le> 2 ^ 900" and "ShareCount worker < 2 ^ 63"
  shows "\<exists>n k r. adjustHashWindow w window = Fin False (of_int n) \<and> 1 \<le> n \<and>
    msHashrate (miner_stat poolID now (adjustHashWindow w window) miner worker) = Fin False (of_int k) \<and> 0 \<le> k \<and>
    msSharesPerSecond (miner_stat poolID now (adjustHashWindow w window) miner worker) = Fin False r \<and> 0 \<le> r"
proof -
  obtain n where n: "adjustHashWindow w window = Fin False (of_int n)" "1 \<le> n" by (rule adjusted_whole [OF assms(1,2)])
  have n1: "(1 :: rat) \<le> of_int n" using n(2) by simp
  have "x * 2 ^ 32 \<le> 2 ^ 932" using assms(5) power_add [of "2 :: rat" 900 32] by simp
  then obtain y where y: "fpack double False (x * 2 ^ 32) = Fin False y" "0 \<le> y" "y \<le> 2 ^ 932"
    using fpack_small [of "x * 2 ^ 32" 932 False] assms(4) by auto
  have "y / of_int n \<le> y" using n1 y(2) mult_left_mono [OF n1 y(2)] by (simp add: divide_le_eq)
  then obtain z where z: "fpack double False (y / of_int n) = Fin False z" "0 \<le> z"
    using fpack_small [of "y / of_int n" 932 False] y n1 by auto
  have "\<bar>int (ShareCount worker)\<bar> \<le> 2 ^ 63" using assms(6) by simp
  then obtain c where c: "share_count worker = Fin False c" "0 \<le> c" "c \<le> 2 ^ 63"
    using fsmall_int [of "int (ShareCount worker)" 63] fpack_small [of "of_int \<bar>int (ShareCount worker)\<bar>" 63 False]
    by (auto simp: share_count_def float_of_int_def fsmall_def)
  have "c / of_int n \<le> c" using n1 c(2) mult_left_mono [OF n1 c(2)] by (simp add: divide_le_eq)
  then obtain q where q: "fpack double False (c / of_int n) = Fin False q" "0 \<le> q" "q \<le> 2 ^ 63"
    using fpack_small [of "c / of_int n" 63 False] c n1 by auto
  obtain r where r: "roundToThreeDigits (Fin False q) = Fin False r" "0 \<le> r" using round_three_nonneg [OF q(2,3)] by auto
  show ?thesis
    using n n1 y(1) z q(1) r assms(3) c(1) by (auto simp: miner_stat_def hashrateFromShares_def)
qed

section \<open>The pool's rate of shares\<close>

lemma float_nat_exact: "n < 2 ^ 53 \<Longrightarrow> float_of_int double (int n) = Fin False (of_nat n)"
  using float_int_exact [of "int n"] by simp

lemma sum_counts:
  "a + sum_list (map ShareCount ws) < 2 ^ 53 \<Longrightarrow>
   foldl (\<lambda>acc w. add64 acc (share_count w)) (Fin False (of_nat a)) ws = Fin False (of_nat (a + sum_list (map ShareCount ws)))"
proof (induction ws arbitrary: a)
  case (Cons w ws)
  have "fpack double False (of_nat (a + ShareCount w)) = Fin False (of_nat (a + ShareCount w))"
    using float_nat_exact [of "a + ShareCount w"] Cons.prems by (simp add: float_of_int_def)
  then have "add64 (Fin False (of_nat a)) (share_count w) = Fin False (of_nat (a + ShareCount w))"
    using float_nat_exact [of "ShareCount w"] Cons.prems by (auto simp: share_count_def Let_def)
  then show ?case using Cons.IH [of "a + ShareCount w"] Cons.prems by (simp add: add.assoc)
qed simp

lemma round_three_small:
  assumes "0 \<le> q" and "q \<le> 1 / 2048"
  shows "roundToThreeDigits (fpack double False q) = fzero"
proof -
  have exact: "fpack double False (1 / 2048) = Fin False (1 / 2048)" "fpack double False (125 / 256) = Fin False (125 / 256)"
    using fpack_double [of "1 / 2048" 1 "- 11" False] fpack_double [of "125 / 256" 125 "- 8" False]
    by (simp_all add: power_int_def power_one_over)
  obtain a where a: "fpack double False q = Fin False a" "0 \<le> a" "a \<le> 1 / 2048"
    using fpack_mono [OF assms _ exact(1)] by (auto simp: double_def)
  obtain b where b: "fpack double False (a * 1000) = Fin False b" "0 \<le> b" "b \<le> 125 / 256"
    using fpack_mono [OF _ _ _ exact(2), of "a * 1000"] a by (auto simp: double_def)
  have "\<lfloor>b + 1 / 2\<rfloor> = 0" using b(2,3) by (simp add: floor_eq_iff)
  moreover have "fpack double False 0 = fzero" by (simp add: fpack_def)
  ultimately show ?thesis unfolding a(1) roundToThreeDigits_def by (simp add: b(1))
qed

text \<open>The pool's shares per second are stored as zero: the number of shares is divided by the nanoseconds
  of the window, and the quotient is rounded to three digits, which leaves nothing unless there is a
  share for every 2048 nanoseconds.  With the usual ten minutes that takes 293 million shares.\<close>

theorem pool_share_rate_lost:
  assumes "2048 * int (sum_list (map ShareCount workers)) \<le> window" and "0 < window" and "window < 2 ^ 63"
  shows "psSharesPerSecond (pool_stat poolID window workers minerCount now) = fzero"
proof -
  let ?n = "sum_list (map ShareCount workers)"
  have n: "?n < 2 ^ 53" using assms(1,3) by simp
  obtain v where v: "float_of_int double window = Fin False v" "v \<le> 2 ^ 63"
    using fpack_small [of "of_int \<bar>window\<bar>" 63 False] assms(2,3) by (auto simp: float_of_int_def)
  have vpack: "fpack double False (of_int window) = Fin False v" using v(1) assms(2) by (simp add: float_of_int_def)
  have "(of_nat (2048 * ?n) :: rat) < 2 powi 1024"
  proof -
    have "2048 * ?n < 2048 * 2 ^ 53" using n by (simp only: mult_less_cancel1) simp
    then have "(of_nat (2048 * ?n) :: rat) < of_nat (2048 * 2 ^ 53)" by (simp only: of_nat_less_iff)
    also have "\<dots> \<le> 2 powi 1024" by (simp add: power_int_def)
    finally show ?thesis .
  qed
  then have "fpack double False (of_nat (2048 * ?n)) = Fin False (of_nat (2048 * ?n))"
    using fpack_double [of "of_nat (2048 * ?n)" "int ?n" 11 False] n by simp
  moreover have "(of_nat (2048 * ?n) :: rat) \<le> of_int window" using assms(1) by (metis of_int_le_iff of_int_of_nat_eq of_nat_mult of_nat_numeral)
  ultimately have low: "of_nat (2048 * ?n) \<le> v" using fpack_mono [OF _ _ _ vpack, of "of_nat (2048 * ?n)"] by (auto simp: double_def)
  have "fpack double False 1 = Fin False 1" using fpack_double [of 1 1 0 False] by simp
  then have one: "1 \<le> v" using fpack_mono [OF _ _ _ vpack, of 1] assms(2) by (auto simp: double_def)
  have "of_nat ?n / v \<le> 1 / 2048" using low one by (simp add: divide_le_eq)
  then have "roundToThreeDigits (fpack double False (of_nat ?n / v)) = fzero" using one by (intro round_three_small) auto
  moreover have "foldl (\<lambda>acc w. add64 acc (share_count w)) fzero workers = Fin False (of_nat ?n)" using sum_counts [of 0 workers] n by simp
  ultimately show ?thesis using one by (simp add: pool_stat_def getHashrateAndSharesPerSecond_def Let_def v(1))
qed

section \<open>What a round stores\<close>

lemma mset_concat_update:
  "mset (concat (map snd (AList.update k v m))) + mset (case map_of m k of None \<Rightarrow> [] | Some xs \<Rightarrow> xs) =
   mset (concat (map snd m)) + mset v"
  by (induction m) (auto simp: add_ac)

lemma group_loop_all:
  "mset (concat (map snd (group_loop m rs))) = mset (concat (map snd m)) + mset rs"
proof (induction rs arbitrary: m)
  case (Cons r rs)
  let ?old = "case map_of m (accMiner r) of None \<Rightarrow> [] | Some xs \<Rightarrow> xs"
  have "mset (concat (map snd (AList.update (accMiner r) (?old @ [r]) m))) = mset (concat (map snd m)) + {#r#}"
    using mset_concat_update [of "accMiner r" "?old @ [r]" m] by simp
  then show ?case using Cons.IH by simp
qed simp

lemma GroupByMiner_groups:
  "mset (concat (map snd (GroupByMiner rs))) = mset rs"
  "(m, ws) \<in> set (GroupByMiner rs) \<Longrightarrow> ws \<noteq> [] \<and> (\<forall>w \<in> set ws. accMiner w = m)"
  "length (GroupByMiner rs) = card (accMiner ` set rs)"
proof -
  show "mset (concat (map snd (GroupByMiner rs))) = mset rs" by (simp add: GroupByMiner_def group_loop_all)
  have dist: "distinct (map fst (GroupByMiner rs))"
    and look: "map_of (GroupByMiner rs) m = (if m \<in> accMiner ` set rs then Some (filter (\<lambda>r. accMiner r = m) rs) else None)" for m
    using GroupByMiner_partitions [of rs] by simp_all
  show "ws \<noteq> [] \<and> (\<forall>w \<in> set ws. accMiner w = m)" if "(m, ws) \<in> set (GroupByMiner rs)"
  proof -
    have "map_of (GroupByMiner rs) m = Some ws" using that dist by (simp add: map_of_eq_Some_iff)
    with look [of m] have "m \<in> accMiner ` set rs" "ws = filter (\<lambda>r. accMiner r = m) rs" by (simp_all split: if_splits)
    then show ?thesis by (auto simp: filter_empty_conv)
  qed
  have "set (map fst (GroupByMiner rs)) = dom (map_of (GroupByMiner rs))" by (simp add: dom_map_of_conv_image_fst)
  also have "\<dots> = accMiner ` set rs" using look by (auto simp: dom_def split: if_splits)
  finally have "card (set (map fst (GroupByMiner rs))) = card (accMiner ` set rs)" by simp
  then show "length (GroupByMiner rs) = card (accMiner ` set rs)" using distinct_card [OF dist] by simp
qed

lemma insert_stats_run:
  "\<forall>n. faults d n = None \<Longrightarrow>
   insert_stats c stats d = (Ok (c + length stats), d\<lparr>minerstats := minerstats d @ stats, tick := tick d + length stats\<rparr>)"
proof (induction stats arbitrary: c d)
  case (Cons stat rest)
  then show ?case
    by (simp add: act_bind_def attempt_def InsertMinerWorkerPerformanceStats_def sql_def Let_def)
qed (simp add: ret_def)

lemma miners_loop_run:
  assumes "\<forall>n. faults d n = None" and "\<forall>(m, ws) \<in> set ms. ws \<noteq> [] \<and> (\<forall>w \<in> set ws. accMiner w = m)"
  shows "\<exists>n new. miners_loop poolID now timeFrom window c ms d = (Ok n, d\<lparr>minerstats := minerstats d @ new, tick := tick d + length new\<rparr>) \<and>
    map (\<lambda>s. (msMiner s, msWorker s)) new = map (\<lambda>w. (accMiner w, accWorker w)) (concat (map snd ms)) \<and>
    (\<forall>s \<in> set new. msPoolID s = poolID \<and> msCreated s = now)"
  using assms
proof (induction ms arbitrary: c d)
  case Nil
  then show ?case by (auto simp: ret_def intro: exI [of _ "[]"])
next
  case (Cons p ms)
  obtain m ws where p: "p = (m, ws)" by (cases p)
  with Cons.prems(2) have ws: "ws \<noteq> []" "\<forall>w \<in> set ws. accMiner w = m" by auto
  then have "\<exists>diff. getWindowDifferences now timeFrom ws = Ok diff"
    by (auto simp: getWindowDifferences_def split: list.split prod.split)
  then obtain diff where diff: "getWindowDifferences now timeFrom ws = Ok diff" ..
  let ?stats = "map (miner_stat poolID now (adjustHashWindow diff window) m) ws"
  let ?d = "d\<lparr>minerstats := minerstats d @ ?stats, tick := tick d + length ?stats\<rparr>"
  obtain n new where rest: "miners_loop poolID now timeFrom window (c + length ?stats) ms ?d =
      (Ok n, ?d\<lparr>minerstats := minerstats ?d @ new, tick := tick ?d + length new\<rparr>)"
      "map (\<lambda>s. (msMiner s, msWorker s)) new = map (\<lambda>w. (accMiner w, accWorker w)) (concat (map snd ms))"
      "\<forall>s \<in> set new. msPoolID s = poolID \<and> msCreated s = now"
    using Cons.IH [of ?d "c + length ?stats"] Cons.prems by auto
  have "miners_loop poolID now timeFrom window c (p # ms) d =
      (Ok n, d\<lparr>minerstats := minerstats d @ ?stats @ new, tick := tick d + length (?stats @ new)\<rparr>)"
    using insert_stats_run [OF Cons.prems(1), of c ?stats] rest(1) by (simp add: p diff act_bind_def Let_def add.assoc)
  moreover have "map (\<lambda>s. (msMiner s, msWorker s)) ?stats = map (\<lambda>w. (accMiner w, accWorker w)) ws"
    using ws(2) by (simp add: miner_stat_def)
  moreover have "\<forall>s \<in> set ?stats. msPoolID s = poolID \<and> msCreated s = now" by (auto simp: miner_stat_def)
  ultimately show ?case using rest(2,3) by (intro exI [of _ n] exI [of _ "?stats @ new"]) (auto simp: p)
qed

text \<open>C23. A round of the statistics accounts for every worker of the window exactly once: when no statement
  fails, one row is stored for the pool, with the number of miners and of workers, and one for every
  worker with shares in the window, all with the time of the round; nothing else changes.\<close>

theorem statistics_complete:
  assumes "\<forall>n. faults d n = None" and "\<forall>ks. mset (ord ks) = mset ks" and "length workers < 2 ^ 31"
    and "GetWorkerHashAccumulationBetween poolID (time_Add (clock d (tick d + 1)) (- window)) (clock d (tick d)) (d\<lparr>tick := tick d + 2\<rparr>) =
      (Ok workers, d1)"
  shows "\<exists>stat new n. insertManyNewMinerStatsAndOnePoolStat ord poolID window d =
      (Ok (), d\<lparr>poolstats := poolstats d @ [stat], minerstats := minerstats d @ new, tick := n\<rparr>) \<and>
    psPoolID stat = poolID \<and> psCreated stat = clock d (tick d) \<and>
    ConnectedMiners stat = card (accMiner ` set workers) \<and> ConnectedWorkers stat = length workers \<and>
    mset (map (\<lambda>s. (msMiner s, msWorker s)) new) = mset (map (\<lambda>w. (accMiner w, accWorker w)) workers) \<and>
    (\<forall>s \<in> set new. msPoolID s = poolID \<and> msCreated s = clock d (tick d))"
proof -
  let ?now = "clock d (tick d)" and ?from = "time_Add (clock d (tick d + 1)) (- window)" and ?ms = "GroupByMiner workers"
  let ?stat = "pool_stat poolID window workers (length ?ms) ?now"
  have d1: "d1 = d\<lparr>tick := tick d + 3\<rparr>"
    using assms(4) by (auto simp: GetWorkerHashAccumulationBetween_def query_Ok)
  have stat: "psPoolID ?stat = poolID" "psCreated ?stat = ?now" "ConnectedMiners ?stat = card (accMiner ` set workers)"
      "ConnectedWorkers ?stat = length workers" "ConnectedPeers ?stat = 0"
    using GroupByMiner_groups(3) [of workers] by (auto simp: pool_stat_def Let_def split: prod.splits)
  have "card (accMiner ` set workers) \<le> length workers" by (metis card_image_le card_length finite_set le_trans)
  then have pool: "attempt (makeNewPoolStat poolID window workers (length ?ms) ?now) d1 =
      (Ok (Ok ()), d\<lparr>poolstats := poolstats d @ [?stat], tick := tick d + 4\<rparr>)"
    using assms(1,3) stat by (simp add: attempt_def makeNewPoolStat_def InsertPoolStat_def sql_def d1 Let_def)
  let ?d2 = "d\<lparr>poolstats := poolstats d @ [?stat], tick := tick d + 4\<rparr>"
  have perm: "mset (in_order ord ?ms) = mset ?ms"
    using GroupByMiner_partitions [of workers] assms(2) by (intro in_order_perm) auto
  then have "\<forall>(m, ws) \<in> set (in_order ord ?ms). ws \<noteq> [] \<and> (\<forall>w \<in> set ws. accMiner w = m)"
    using GroupByMiner_groups(2) [of _ _ workers] by (fastforce dest: mset_eq_setD)
  from miners_loop_run [OF _ this, of ?d2 poolID ?now ?from window 0] assms(1) obtain n new where
      loop: "makeMinerStats ord poolID ?ms ?now ?from window ?d2 = (Ok n, ?d2\<lparr>minerstats := minerstats ?d2 @ new, tick := tick ?d2 + length new\<rparr>)"
      and keys: "map (\<lambda>s. (msMiner s, msWorker s)) new = map (\<lambda>w. (accMiner w, accWorker w)) (concat (map snd (in_order ord ?ms)))"
      and made: "\<forall>s \<in> set new. msPoolID s = poolID \<and> msCreated s = ?now"
    by (auto simp: makeMinerStats_def)
  have "mset (concat (map snd (in_order ord ?ms))) = mset workers"
    using perm GroupByMiner_groups(1) [of workers] by (metis mset_concat mset_map sum_mset_sum_list)
  then have "mset (map (\<lambda>s. (msMiner s, msWorker s)) new) = mset (map (\<lambda>w. (accMiner w, accWorker w)) workers)"
    by (simp only: keys mset_map)
  moreover have "insertManyNewMinerStatsAndOnePoolStat ord poolID window d =
      (Ok (), d\<lparr>poolstats := poolstats d @ [?stat], minerstats := minerstats d @ new, tick := tick d + 4 + length new\<rparr>)"
    using assms(4) pool loop
    by (simp add: insertManyNewMinerStatsAndOnePoolStat_def act_bind_def Now_def ret_def Let_def numeral_eq_Suc)
  ultimately show ?thesis using stat made by blast
qed

section \<open>Witnesses\<close>

definition sample_work :: MinerWorkerHashAccumulation where
  "sample_work = \<lparr>accMiner = ''D1'', accWorker = ''rig'', SumDifficulty = Fin False 1, ShareCount = 1, FirstShare = 5, LastShare = 5\<rparr>"

definition sample_share :: Share where
  "sample_share = \<lparr>shPoolID = ''p'', shBlockHeight = 7, shMiner = ''D1'', shWorker = ''rig'', shUserAgent = [],
     shDifficulty = Fin False 1, shNetworkDifficulty = Fin False 2, shIpAddress = ''::1'', shCreated = 5\<rparr>"

lemma worker_rates_finite_witness:
  "\<exists>n k r. adjustHashWindow \<lparr>startDifference = 5000, endDifference = 995000\<rparr> 0 = Fin False (of_int n) \<and> 1 \<le> n \<and>
    msHashrate (miner_stat ''p'' 1000 (adjustHashWindow \<lparr>startDifference = 5000, endDifference = 995000\<rparr> 0) ''D1'' sample_work) =
      Fin False (of_int k) \<and> 0 \<le> k \<and>
    msSharesPerSecond (miner_stat ''p'' 1000 (adjustHashWindow \<lparr>startDifference = 5000, endDifference = 995000\<rparr> 0) ''D1'' sample_work) =
      Fin False r \<and> 0 \<le> r"
proof -
  have "getWindowDifferences 1000 0 [sample_work] = Ok \<lparr>startDifference = 5000, endDifference = 995000\<rparr>"
    by (simp add: getWindowDifferences_def sample_work_def time_Sub_def)
  moreover have "SumDifficulty sample_work = Fin False 1" "ShareCount sample_work < 2 ^ 63" by (simp_all add: sample_work_def)
  ultimately show ?thesis
    using worker_rates_finite [of 0 1000 0 "[sample_work]" "\<lparr>startDifference = 5000, endDifference = 995000\<rparr>" sample_work 1 "''p''" "''D1''"]
    by simp
qed

lemma pool_share_rate_lost_witness:
  "psSharesPerSecond (pool_stat ''p'' 600000000000 [sample_work\<lparr>ShareCount := 1000000\<rparr>] 1 1000) = fzero"
  by (rule pool_share_rate_lost) (simp_all add: sample_work_def)

lemma statistics_complete_witness:
  "\<exists>stat new n. insertManyNewMinerStatsAndOnePoolStat (\<lambda>ks. ks) ''p'' 1000000000 (sample_db\<lparr>shares := [sample_share]\<rparr>) =
      (Ok (), sample_db\<lparr>shares := [sample_share], poolstats := [stat], minerstats := new, tick := n\<rparr>) \<and>
    ConnectedMiners stat = 1 \<and> ConnectedWorkers stat = 1 \<and> mset (map (\<lambda>s. (msMiner s, msWorker s)) new) = {#(''D1'', ''rig'')#}"
proof -
  let ?d = "sample_db\<lparr>shares := [sample_share]\<rparr>"
  have run: "GetWorkerHashAccumulationBetween ''p'' (time_Add (clock ?d (tick ?d + 1)) (- 1000000000)) (clock ?d (tick ?d)) (?d\<lparr>tick := tick ?d + 2\<rparr>) =
      (Ok [sample_work], ?d\<lparr>tick := 3\<rparr>)"
    by (simp add: GetWorkerHashAccumulationBetween_def query_def sql_def worker_group_def pg_sum_def scan_float_def
        sample_db_def sample_share_def sample_work_def time_Add_def Let_def)
  have "\<forall>n. faults ?d n = None" by (simp add: sample_db_def)
  from statistics_complete [OF this _ _ run, of "\<lambda>ks. ks"] obtain stat new n where
      "insertManyNewMinerStatsAndOnePoolStat (\<lambda>ks. ks) ''p'' 1000000000 ?d =
        (Ok (), ?d\<lparr>poolstats := poolstats ?d @ [stat], minerstats := minerstats ?d @ new, tick := n\<rparr>)"
      "ConnectedMiners stat = card (accMiner ` set [sample_work])" "ConnectedWorkers stat = length [sample_work]"
      "mset (map (\<lambda>s. (msMiner s, msWorker s)) new) = mset (map (\<lambda>w. (accMiner w, accWorker w)) [sample_work])"
    by auto
  then show ?thesis
    by (intro exI [of _ stat] exI [of _ new] exI [of _ n]) (simp add: sample_db_def sample_work_def)
qed

end
