(* ===== verification/MinerReports.thy ===== *)
theory MinerReports
  imports MinerRepo Balances
begin

text \<open>
  Properties of the reports on miners: the amounts of a report agree with the ledger, which miners have
  no report, the workers seen, and the hash rates by worker.
\<close>

section \<open>Statements that succeed\<close>

definition faultless :: "'z db_scheme \<Rightarrow> bool" where
  "faultless d \<longleftrightarrow> (\<forall>n. faults d n = None)"

lemma faultless_tick [simp]: "faultless (d\<lparr>tick := n\<rparr>) = faultless d"
  by (simp add: faultless_def)

lemma query_run: "faultless d \<Longrightarrow> query f d = (f (d\<lparr>tick := Suc (tick d)\<rparr>), d\<lparr>tick := Suc (tick d)\<rparr>)"
  by (simp add: faultless_def query_def sql_def Let_def)

lemma on_error_query:
  "faultless d \<Longrightarrow> f (d\<lparr>tick := Suc (tick d)\<rparr>) = Ok x \<Longrightarrow> on_error (query f) h g d = g x (d\<lparr>tick := Suc (tick d)\<rparr>)"
  "faultless d \<Longrightarrow> f (d\<lparr>tick := Suc (tick d)\<rparr>) = Err e \<Longrightarrow> on_error (query f) h g d = h e (d\<lparr>tick := Suc (tick d)\<rparr>)"
  by (simp_all add: on_error_def act_bind_def attempt_def query_run)

lemma on_error_ok: "m d = (Ok x, d') \<Longrightarrow> on_error m h g d = g x d'"
  by (simp add: on_error_def act_bind_def attempt_def)

lemma MinerLastPayments_run: "faultless d \<Longrightarrow> \<exists>ps. MinerLastPayments p a d = (Ok ps, d\<lparr>tick := Suc (tick d)\<rparr>)"
  by (simp add: MinerLastPayments_def act_bind_def attempt_def query_run ret_def Let_def)

section \<open>Accounts\<close>

definition account :: "ChainAccounts \<Rightarrow> string \<Rightarrow> MinerAccount" where
  "account accounts c = (case map_of accounts c of None \<Rightarrow> zero_account | Some a \<Rightarrow> a)"

lemma put_accounts_simps:
  "put_accounts f [] acc = acc" "put_accounts f ((c, x) # rows) acc = put_accounts f rows (put_account c (f x) acc)"
  by (simp_all add: put_accounts_def)

lemma account_put: "account (put_account c f acc) c' = (if c' = c then f (account acc c) else account acc c')"
  by (simp add: account_def put_account_def update_conv')

lemma put_accounts_other:
  "(\<And>x a. sel (f x a) = sel a) \<Longrightarrow> sel (account (put_accounts f rows acc) c) = sel (account acc c)"
  by (induction rows arbitrary: acc) (auto simp: put_accounts_simps account_put)

lemma put_accounts_own:
  assumes "\<And>x a. sel (f x a) = x" and "distinct (map fst rows)"
  shows "sel (account (put_accounts f rows acc) c) = (case map_of rows c of None \<Rightarrow> sel (account acc c) | Some x \<Rightarrow> x)"
  using assms(2)
proof (induction rows arbitrary: acc)
  case (Cons row rows)
  obtain c' x where row: "row = (c', x)" by (cases row)
  have "c \<noteq> c'" if "map_of rows c = Some y" for y
    using that Cons.prems by (auto simp: row dest: map_of_SomeD) (metis fst_conv image_eqI map_of_SomeD)
  then show ?case using Cons by (auto simp: row put_accounts_simps account_put assms(1) split: option.split)
qed (simp add: put_accounts_simps)

lemma decimal32_zero [simp]: "decimal32 0 = fzero"
  by (simp add: decimal32_def fpack_def)

lemma set_distinct_keys [simp]: "set (distinct_keys f xs) = f ` set xs" "distinct (distinct_keys f xs)"
  by (simp_all add: distinct_keys_def)

text \<open>What was paid to an address on a chain, at the times counted.\<close>

definition paid :: "'z db_scheme \<Rightarrow> string \<Rightarrow> string \<Rightarrow> string \<Rightarrow> (int \<Rightarrow> bool) \<Rightarrow> int" where
  "paid d p c a counted = sum_list (map row_amount (filter (\<lambda>row. pPoolID (row_payment row) = p \<and> pChain (row_payment row) = c \<and>
     pAddress (row_payment row) = a \<and> counted (pCreated (row_payment row))) (payments d)))"

definition owed_rows :: "'z db_scheme \<Rightarrow> string \<Rightarrow> string \<Rightarrow> (string \<times> fl) list" where
  "owed_rows d p a = map (\<lambda>row. (fst (snd (bKey row)), decimal32 (bAmount row)))
     (filter (\<lambda>row. fst (bKey row) = p \<and> snd (snd (bKey row)) = a) (balances d))"

definition paid_rows :: "'z db_scheme \<Rightarrow> string \<Rightarrow> string \<Rightarrow> (int \<Rightarrow> bool) \<Rightarrow> (string \<times> fl) list" where
  "paid_rows d p a counted =
     (let ps = filter (\<lambda>row. pPoolID (row_payment row) = p \<and> pAddress (row_payment row) = a \<and> counted (pCreated (row_payment row))) (payments d);
          chain = (\<lambda>row. pChain (row_payment row)) in
      map (\<lambda>c. (c, decimal32 (sum_list (map row_amount (filter (\<lambda>row. chain row = c) ps))))) (distinct_keys chain ps))"

lemma owed_rows_lookup:
  assumes "keys_distinct d"
  shows "distinct (map fst (owed_rows d p a))"
    and "(case map_of (owed_rows d p a) c of None \<Rightarrow> fzero | Some x \<Rightarrow> x) = decimal32 (bal d (p, c, a))"
proof -
  let ?rows = "filter (\<lambda>row. fst (bKey row) = p \<and> snd (snd (bKey row)) = a) (balances d)"
  have keys: "bKey row = (p, fst (snd (bKey row)), a)" if "row \<in> set ?rows" for row using that by (cases "bKey row") auto
  have "distinct (map bKey ?rows)" using assms by (simp add: keys_distinct_def distinct_map_filter)
  also have "map bKey ?rows = map (\<lambda>c. (p, c, a)) (map (\<lambda>row. fst (snd (bKey row))) ?rows)"
    unfolding map_map comp_def by (rule map_cong [OF refl]) (rule keys)
  finally have dist: "distinct (map (\<lambda>row. fst (snd (bKey row))) ?rows)" by (simp only: distinct_map)
  then show "distinct (map fst (owed_rows d p a))" by (simp add: owed_rows_def comp_def)
  have eq: "filter (\<lambda>row. bKey row = (p, c, a)) (balances d) = filter (\<lambda>row. fst (snd (bKey row)) = c) ?rows"
    unfolding filter_filter by (rule filter_cong [OF refl]) (auto simp: prod_eq_iff)
  have look: "(case map_of (map (\<lambda>row. (k row, decimal32 (bAmount row))) rows) c of None \<Rightarrow> fzero | Some x \<Rightarrow> x) =
      decimal32 (sum_list (map bAmount (filter (\<lambda>row. k row = c) rows)))"
    if "distinct (map k rows)" for k :: "balance_row \<Rightarrow> string" and rows
    using that
  proof (induction rows)
    case (Cons r rows)
    show ?case
    proof (cases "k r = c")
      case True
      with Cons.prems have "c \<notin> k ` set rows" by auto
      then have "filter (\<lambda>row. k row = c) rows = []" by (auto simp: filter_empty_conv)
      with True show ?thesis by simp
    qed (use Cons in simp)
  qed simp
  show "(case map_of (owed_rows d p a) c of None \<Rightarrow> fzero | Some x \<Rightarrow> x) = decimal32 (bal d (p, c, a))"
    unfolding owed_rows_def bal_def eq by (rule look [OF dist])
qed

lemma paid_rows_lookup:
  "distinct (map fst (paid_rows d p a counted))"
  "(case map_of (paid_rows d p a counted) c of None \<Rightarrow> fzero | Some x \<Rightarrow> x) = decimal32 (paid d p c a counted)"
proof -
  show "distinct (map fst (paid_rows d p a counted))" by (simp add: paid_rows_def Let_def comp_def)
  let ?ps = "filter (\<lambda>row. pPoolID (row_payment row) = p \<and> pAddress (row_payment row) = a \<and> counted (pCreated (row_payment row))) (payments d)"
  have "paid d p c a counted = sum_list (map row_amount (filter (\<lambda>row. pChain (row_payment row) = c) ?ps))"
    by (auto simp: paid_def filter_filter intro!: arg_cong [where f = sum_list] arg_cong [where f = "map row_amount"] filter_cong)
  moreover have "filter (\<lambda>row. pChain (row_payment row) = c) ?ps = []" if "c \<notin> (\<lambda>row. pChain (row_payment row)) ` set ?ps"
    using that by (auto simp: filter_empty_conv)
  ultimately show "(case map_of (paid_rows d p a counted) c of None \<Rightarrow> fzero | Some x \<Rightarrow> x) = decimal32 (paid d p c a counted)"
    by (auto simp: paid_rows_def Let_def map_of_map_restrict restrict_map_def)
qed

section \<open>The report\<close>

lemma report_queries:
  "pending_balances p a = query (\<lambda>d. Ok (owed_rows d p a))"
  "paid_by_chain p a counted = query (\<lambda>d. Ok (paid_rows d p a (counted d)))"
  by (simp_all add: pending_balances_def paid_by_chain_def owed_rows_def paid_rows_def Let_def)

lemma owed_rows_tick [simp]: "owed_rows (d\<lparr>tick := n\<rparr>) p a = owed_rows d p a" "paid_rows (d\<lparr>tick := n\<rparr>) p a counted = paid_rows d p a counted"
  by (simp_all add: owed_rows_def paid_rows_def)

definition pending_sum :: "'z db_scheme \<Rightarrow> string \<Rightarrow> string \<Rightarrow> fl option res" where
  "pending_sum d p a = pg_sum (map shDifficulty (filter (\<lambda>s. shPoolID s = p \<and> shMiner s = a) (shares d)))"

definition last_update :: "'z db_scheme \<Rightarrow> string \<Rightarrow> string \<Rightarrow> int" where
  "last_update d p a = msCreated (hd (sort_key (\<lambda>s. - msCreated s) (filter (stat_match p a) (minerstats d))))"

definition the_accounts :: "'z db_scheme \<Rightarrow> string \<Rightarrow> string \<Rightarrow> (string \<times> Payment) list \<Rightarrow> ChainAccounts" where
  "the_accounts d p a lastPayments = put_accounts (\<lambda>x acc. acc\<lparr>LastPayment := x\<rparr>) lastPayments
     (put_accounts (\<lambda>x acc. acc\<lparr>TodayPaid := x\<rparr>) (paid_rows d p a (\<lambda>t. date_trunc day (clock d (tick d + 4)) \<le> t))
     (put_accounts (\<lambda>x acc. acc\<lparr>TotalPaid := x\<rparr>) (paid_rows d p a (\<lambda>t. True))
     (put_accounts (\<lambda>x acc. acc\<lparr>PendingBalance := x\<rparr>) (owed_rows d p a) [])))"

lemma account_Nil [simp]: "account [] c = zero_account"
  by (simp add: account_def)

lemma zero_account_simps [simp]:
  "PendingBalance zero_account = fzero" "TotalPaid zero_account = fzero" "TodayPaid zero_account = fzero"
  by (simp_all add: zero_account_def)

lemma the_accounts_amounts:
  assumes "keys_distinct d"
  shows "PendingBalance (account (the_accounts d p a ps) c) = decimal32 (bal d (p, c, a))"
    and "TotalPaid (account (the_accounts d p a ps) c) = decimal32 (paid d p c a (\<lambda>t. True))"
    and "TodayPaid (account (the_accounts d p a ps) c) = decimal32 (paid d p c a (\<lambda>t. date_trunc day (clock d (tick d + 4)) \<le> t))"
proof -
  note other = put_accounts_other [of PendingBalance] put_accounts_other [of TotalPaid] put_accounts_other [of TodayPaid]
  note own = put_accounts_own [of PendingBalance] put_accounts_own [of TotalPaid] put_accounts_own [of TodayPaid]
  show "PendingBalance (account (the_accounts d p a ps) c) = decimal32 (bal d (p, c, a))"
    using owed_rows_lookup [OF assms, of p a] by (simp add: the_accounts_def other own cong: option.case_cong)
  show "TotalPaid (account (the_accounts d p a ps) c) = decimal32 (paid d p c a (\<lambda>t. True))"
    using paid_rows_lookup [of d p a "\<lambda>t. True"] by (simp add: the_accounts_def other own cong: option.case_cong)
  show "TodayPaid (account (the_accounts d p a ps) c) = decimal32 (paid d p c a (\<lambda>t. date_trunc day (clock d (tick d + 4)) \<le> t))"
    using paid_rows_lookup [of d p a "\<lambda>t. date_trunc day (clock d (tick d + 4)) \<le> t"] by (simp add: the_accounts_def other own cong: option.case_cong)
qed

lemma LastStatUpdate_run:
  "LastStatUpdate p a = query (\<lambda>d. if filter (stat_match p a) (minerstats d) = [] then no_rows else Ok (last_update d p a))"
proof -
  have "(case sort_key (\<lambda>s. - msCreated s) xs of [] \<Rightarrow> no_rows | s # ss \<Rightarrow> Ok (msCreated s)) =
      (if xs = [] then no_rows else Ok (msCreated (hd (sort_key (\<lambda>s. - msCreated s) xs))))" for xs :: "MinerStat list"
    by (cases "sort_key (\<lambda>s. - msCreated s) xs") (auto dest: arg_cong [of _ _ length])
  then show ?thesis unfolding LastStatUpdate_def last_update_def by simp
qed

lemma report_run:
  assumes "faultless d" and "pending_sum d p a = Ok (Some x)"
  shows "\<exists>ps. GetMinerStatsReport p a d = report_workers p a
    \<lparr>mrCreated = 0, mrAccounts = the_accounts d p a ps, mrWorkers = newWorkerReport\<lparr>PendingShares := x\<rparr>\<rparr> (d\<lparr>tick := tick d + 5\<rparr>)"
proof -
  let ?d = "d\<lparr>tick := tick d + 4\<rparr>"
  obtain ps where "MinerLastPayments p a ?d = (Ok ps, ?d\<lparr>tick := Suc (tick ?d)\<rparr>)"
    using MinerLastPayments_run [of ?d p a] assms(1) by auto
  from on_error_ok [of "MinerLastPayments p a" ?d, OF this] have last: "on_error (MinerLastPayments p a) h g ?d = g ps (d\<lparr>tick := tick d + 5\<rparr>)"
    for h and g :: "(string \<times> Payment) list \<Rightarrow> ('a db_scheme, MinerReport option \<times> string option) act" by (simp add: add.commute)
  have pending: "pending_shares p a = query (\<lambda>d. res_bind (pending_sum d p a) scan_float)"
    by (simp add: pending_shares_def pending_sum_def)
  have sum: "pending_sum (d\<lparr>tick := n\<rparr>) p a = Ok (Some x)" for n using assms(2) by (simp add: pending_sum_def)
  have "GetMinerStatsReport p a d = report_workers p a
    \<lparr>mrCreated = 0, mrAccounts = the_accounts d p a ps, mrWorkers = newWorkerReport\<lparr>PendingShares := x\<rparr>\<rparr> (d\<lparr>tick := tick d + 5\<rparr>)"
    using assms(1) last
    by (simp add: GetMinerStatsReport_def pending report_queries on_error_query sum scan_float_def the_accounts_def Let_def numeral_eq_Suc)
  then show ?thesis ..
qed

lemma report_complete:
  assumes "faultless d" and "pending_sum d p a = Ok (Some x)" and "filter (stat_match p a) (minerstats d) \<noteq> []"
    and "stale = (last_update d p a < time_Add (clock d (tick d + 6)) (- 1200000000000))"
  shows "\<exists>r ps n. GetMinerStatsReport p a d = (Ok (Some r, None), d\<lparr>tick := n\<rparr>) \<and> mrAccounts r = the_accounts d p a ps \<and>
      PendingShares (mrWorkers r) = (if stale then x else fzero) \<and> mrCreated r = (if stale then 0 else last_update d p a)"
proof -
  obtain ps where run: "GetMinerStatsReport p a d = report_workers p a
    \<lparr>mrCreated = 0, mrAccounts = the_accounts d p a ps, mrWorkers = newWorkerReport\<lparr>PendingShares := x\<rparr>\<rparr> (d\<lparr>tick := tick d + 5\<rparr>)"
    using report_run [OF assms(1,2)] by blast
  have upd: "last_update (d\<lparr>tick := n\<rparr>) p a = last_update d p a" for n by (simp add: last_update_def)
  show ?thesis
    using assms(1,3,4)
    by (simp add: run report_workers_def LastStatUpdate_run on_error_query upd act_bind_def [of Now] Now_def ret_def minerStatWindow_def
        GetMinerStatsByCreatedTime_def newWorkerReport_def numeral_eq_Suc) blast
qed

text \<open>C24. The report on a miner agrees with the ledger: when no statement fails and the miner has shares and
  statistics, for every chain the pending balance is the balance of the miner's address, the total
  and today's payments are the sums of its payments, each as the nearest \<open>float32\<close>.  But the pending
  shares are reported only when the statistics are older than twenty minutes: a report with workers
  says that there are none.\<close>

theorem report_agrees_with_ledger:
  assumes "\<forall>n. faults d n = None" and "keys_distinct d" and "pending_sum d p a = Ok (Some x)"
    and "filter (stat_match p a) (minerstats d) \<noteq> []"
  shows "\<exists>r d'. GetMinerStatsReport p a d = (Ok (Some r, None), d') \<and>
    (\<forall>c. PendingBalance (account (mrAccounts r) c) = decimal32 (bal d (p, c, a)) \<and>
      TotalPaid (account (mrAccounts r) c) = decimal32 (paid d p c a (\<lambda>t. True)) \<and>
      TodayPaid (account (mrAccounts r) c) = decimal32 (paid d p c a (\<lambda>t. date_trunc day (clock d (tick d + 4)) \<le> t))) \<and>
    PendingShares (mrWorkers r) = (if last_update d p a < time_Add (clock d (tick d + 6)) (- 1200000000000) then x else fzero) \<and>
    mrCreated r = (if last_update d p a < time_Add (clock d (tick d + 6)) (- 1200000000000) then 0 else last_update d p a)"
proof -
  have "faultless d" using assms(1) by (simp add: faultless_def)
  from report_complete [OF this assms(3,4) refl] the_accounts_amounts [OF assms(2)] show ?thesis by metis
qed

section \<open>Miners without a report\<close>

text \<open>A miner with balances whose shares are all gone: the sum is NULL, and the unfinished report is all there is.\<close>

lemma report_without_shares:
  assumes "faultless d" and "filter (\<lambda>s. shPoolID s = p \<and> shMiner s = a) (shares d) = []"
  shows "\<exists>e. GetMinerStatsReport p a d = (Ok (Some \<lparr>mrCreated = 0, mrAccounts = [], mrWorkers = newWorkerReport\<rparr>, Some e), d\<lparr>tick := Suc (tick d)\<rparr>)"
  using assms by (auto simp: GetMinerStatsReport_def pending_shares_def pg_sum_def scan_float_def null_error_def on_error_query ret_def Let_def)

text \<open>A miner without statistics: \<open>QueryRow\<close> is never nil, the missing row is an error.\<close>

lemma report_without_stats:
  assumes "faultless d" and "pending_sum d p a = Ok (Some x)" and "filter (stat_match p a) (minerstats d) = []"
  shows "\<exists>e d'. GetMinerStatsReport p a d = (Ok (None, Some e), d')"
proof -
  obtain ps where "GetMinerStatsReport p a d = report_workers p a
    \<lparr>mrCreated = 0, mrAccounts = the_accounts d p a ps, mrWorkers = newWorkerReport\<lparr>PendingShares := x\<rparr>\<rparr> (d\<lparr>tick := tick d + 5\<rparr>)"
    using report_run [OF assms(1,2)] by blast
  then show ?thesis using assms(1,3) by (simp add: report_workers_def LastStatUpdate_run on_error_query no_rows_def ret_def)
qed

section \<open>Hash rates by worker\<close>

text \<open>The hash rates by worker cannot be read: as soon as any worker of the pool has a positive hash rate
  (and no miner has the empty name), the assignment to the map of its miner panics, because the map
  was made under the name the variable held before the row was scanned.\<close>

theorem hashrates_never_read:
  assumes "faults d (tick d) = None" and "\<forall>s \<in> set (minerstats d). msMiner s \<noteq> []"
  shows "MinerWorkerHashrates p d =
    (if newest_rates d p = [] then Ok [] else Panic ''assignment to entry in nil map'', d\<lparr>tick := Suc (tick d)\<rparr>)"
proof -
  have "m \<noteq> []" if "(m, w, h) \<in> set (newest_rates d p)" for m w h
    using that assms(2) by (auto simp: newest_rates_def Let_def)
  then have "hashrates_loop [] (newest_rates d p) = (if newest_rates d p = [] then Ok [] else Panic ''assignment to entry in nil map'')"
    by (cases "newest_rates d p") (fastforce simp: Let_def)+
  moreover have "newest_rates (d\<lparr>tick := n\<rparr>) p = newest_rates d p" for n by (simp add: newest_rates_def)
  ultimately show ?thesis
    using assms(1) by (simp add: MinerWorkerHashrates_def query_def sql_def act_bind_def lift_res_def)
qed

section \<open>Workers seen\<close>

lemma worker_status_minutes:
  assumes "t \<le> now" and "now - t < 2 ^ 53"
  shows "worker_status now t = (if 600000000 \<le> now - t then ''Inactive'' else ''Active'')"
proof -
  define e where "e = now - t"
  define q where "q = e div 60000000"
  define r where "r = 1000 * (e mod 60000000)"
  have e: "0 \<le> e" "e < 2 ^ 53" using assms by (simp_all add: e_def)
  have sub: "time_Sub now t = 1000 * e" using e by (simp add: time_Sub_def e_def)
  have "1000 * e div 60000000000 = q" using div_mult_mult1 [of 1000 e 60000000] by (simp add: q_def)
  then have quot: "go_quot (1000 * e) 60000000000 = q"
    using e(1) by (auto simp: go_quot_def sgn_if)
  have "e - 60000000 * q = e mod 60000000" by (simp add: q_def minus_mult_div_eq_mod)
  with quot have rem: "go_rem (1000 * e) 60000000000 = r" by (simp add: go_rem_def r_def)
  have q: "0 \<le> q" "q < 2 ^ 53" using e by (simp_all add: q_def pos_imp_zdiv_nonneg_iff div_less_iff_less_mult [of _ "2 ^ 53"])
  have r: "0 \<le> r" "r \<le> 59999999000" using pos_mod_bound [of 60000000 e] by (simp_all add: r_def)
  have exact: "float_of_int double q = Fin False (of_int q)" "float_of_int double r = Fin False (of_int r)"
      "float_of_int double 60000000000 = Fin False 60000000000"
    using q r float_int_exact [of q] float_int_exact [of r] float_int_exact [of 60000000000] by simp_all
  define b where "b = (1 - 1 / 2 ^ 26 :: rat)"
  have packed: "fpack double False b = Fin False b" "fpack double False (9 + b) = Fin False (9 + b)" "fpack double False 10 = Fin False 10"
    using fpack_double [of b "2 ^ 26 - 1" "- 26" False] fpack_double [of "9 + b" "10 * 2 ^ 26 - 1" "- 26" False] fpack_double [of 10 10 0 False]
    by (simp_all add: b_def power_int_def power_one_over)
  have "(of_int r :: rat) \<le> of_int 59999999000" using r(2) by (simp only: of_int_le_iff)
  then have "of_int r / 60000000000 \<le> b" by (simp add: b_def)
  then obtain f where f: "fpack double False (of_int r / 60000000000) = Fin False f" "0 \<le> f" "f \<le> b"
    using fpack_mono [of "of_int r / 60000000000" b double False b] packed(1) r(1) by (auto simp: double_def)
  let ?v = "of_int q + f"
  have "b \<le> 1" by (simp add: b_def)
  have "(of_int q :: rat) \<le> 2 ^ 53" using q(2) by (metis less_imp_le of_int_le_iff of_int_numeral of_int_power)
  then have "?v \<le> 2 ^ 54" using f(3) \<open>b \<le> 1\<close> by simp
  then obtain y where y: "fpack double False ?v = Fin False y"
    using fpack_small [of ?v 54 False] q(1) f(2) by auto
  have div: "div64 (Fin False (of_int r)) (Fin False 60000000000) = Fin False f" by (simp add: f(1))
  have "fpack double False 0 = fzero" by (simp add: fpack_def)
  then have sum: "add64 (Fin False (of_int q)) (Fin False f) = Fin False y"
    using y q(1) f(2) by (cases "?v = 0") (auto simp: Let_def)
  have minutes: "duration_Minutes (time_Sub now t) = Fin False y"
    unfolding sub duration_Minutes_def duration_in_def using quot rem exact div sum by simp
  have "fle (Fin False 10) (Fin False y) \<longleftrightarrow> 10 \<le> q"
  proof (cases "10 \<le> q")
    case True
    then have "10 \<le> ?v" using f(2) by (metis add_increasing2 of_int_le_iff of_int_numeral)
    then have "10 \<le> y" using fpack_mono [OF _ _ _ y, of 10] packed(3) by (auto simp: double_def)
    with True show ?thesis by (auto simp: fle_def)
  next
    case False
    then have "(of_int q :: rat) \<le> of_int 9" by (simp only: of_int_le_iff)
    then have "?v \<le> 9 + b" using f(3) by simp
    then have "y \<le> 9 + b" using fpack_mono [OF _ _ _ packed(2), of ?v] q(1) f(2) y by (auto simp: double_def)
    then have "y < 10" by (simp add: b_def)
    with False show ?thesis by (auto simp: fle_def)
  qed
  moreover have "10 \<le> q \<longleftrightarrow> 600000000 \<le> e" unfolding q_def by auto
  ultimately show ?thesis by (simp add: worker_status_def minutes e_def)
qed

lemma foldl_update_lookup:
  "distinct (map fst rows) \<Longrightarrow>
   map_of (foldl (\<lambda>ws (w, t). AList.update w (g t) ws) m rows) w =
     (case map_of rows w of None \<Rightarrow> map_of m w | Some t \<Rightarrow> Some (g t))"
proof (induction rows arbitrary: m)
  case (Cons row rows)
  obtain k t where row: "row = (k, t)" by (cases row)
  have "map_of rows w = None" if "w = k" using that Cons.prems by (simp add: row map_of_eq_None_iff)
  then show ?case using Cons by (auto simp: row update_conv' split: option.split)
qed simp

lemma map_of_filter_pairs:
  "map_of (filter (\<lambda>(w, t). P t) (map (\<lambda>w. (w, f w)) ks)) w = (if w \<in> set ks \<and> P (f w) then Some (f w) else None)"
  by (induction ks) auto

lemma workers_seen_run: "faults d (tick d) = None \<Longrightarrow> \<exists>r. GetWorkersLastSeen p a d = (Ok r, d\<lparr>tick := tick d + 2\<rparr>)"
  by (simp add: GetWorkersLastSeen_def on_error_def act_bind_def attempt_def query_def sql_def Now_def ret_def)

text \<open>C27. Every worker seen within a week is listed, and is active if its last share is less than ten minutes
  old; the shares of all pools count, whichever pool is asked about.\<close>

theorem workers_last_seen:
  assumes "faults d (tick d) = None" and "now = clock d (tick d + 1)"
    and "\<forall>s \<in> set (shares d). shCreated s \<le> now \<and> now - shCreated s < 2 ^ 53"
    and "of_worker = (\<lambda>w. filter (\<lambda>s. shMiner s = miner \<and> shWorker s = w) (shares d))"
  shows "\<exists>r d'. GetWorkersLastSeen poolID miner d = (Ok r, d') \<and>
    (\<forall>w. map_of (Workers r) w =
      (if of_worker w = [] then None
       else let seen = Max (shCreated ` set (of_worker w)) in
         if seen < now - 604800000000 then None
         else Some (zero_worker\<lparr>wsStatus := (if now - seen < 600000000 then ''Active'' else ''Inactive''), wsLastSeen := seen\<rparr>)))"
proof -
  let ?ss = "filter (\<lambda>s. shMiner s = miner) (shares d)"
  let ?seen = "\<lambda>w. Max (set (map shCreated (filter (\<lambda>s. shWorker s = w) ?ss)))"
  let ?rows = "filter (\<lambda>(w, t). now - 7 * day \<le> t) (map (\<lambda>w. (w, ?seen w)) (distinct_keys shWorker ?ss))"
  let ?r = "newWorkerReport\<lparr>Workers := foldl (\<lambda>ws (w, t). AList.update w
      (zero_worker\<lparr>wsStatus := worker_status now t, wsLastSeen := t\<rparr>) ws) [] ?rows\<rparr>"
  have run: "GetWorkersLastSeen poolID miner d = (Ok ?r, d\<lparr>tick := tick d + 2\<rparr>)"
    using assms(1) by (simp add: GetWorkersLastSeen_def on_error_def act_bind_def attempt_def query_def sql_def Now_def ret_def assms(2))
  have of: "of_worker w = filter (\<lambda>s. shWorker s = w) ?ss" for w
    unfolding assms(4) by (simp add: conj_commute)
  have "distinct (map fst ?rows)" by (simp add: distinct_map_filter comp_def)
  note look = foldl_update_lookup [OF this, of "\<lambda>t. zero_worker\<lparr>wsStatus := worker_status now t, wsLastSeen := t\<rparr>" "[]"]
  have member: "w \<in> set (distinct_keys shWorker ?ss) \<longleftrightarrow> of_worker w \<noteq> []" for w
    unfolding of by (auto simp: filter_empty_conv)
  have rows: "map_of ?rows w = (if of_worker w \<noteq> [] \<and> now - 7 * day \<le> ?seen w then Some (?seen w) else None)" for w
    by (simp only: map_of_filter_pairs member)
  have "Workers ?r = foldl (\<lambda>ws (w, t). AList.update w (zero_worker\<lparr>wsStatus := worker_status now t, wsLastSeen := t\<rparr>) ws) [] ?rows"
    by (simp only: WorkersReport.simps newWorkerReport_def)
  note entry = arg_cong [OF this, of map_of, THEN fun_cong, unfolded look rows]
  have status: "worker_status now (?seen w) = (if now - ?seen w < 600000000 then ''Active'' else ''Inactive'')" if "of_worker w \<noteq> []" for w
  proof -
    have "?seen w \<in> set (map shCreated (filter (\<lambda>s. shWorker s = w) ?ss))"
      using that unfolding of by (intro Max_in) (simp_all only: finite_set set_empty map_is_Nil_conv not_False_eq_True)
    then obtain s where "s \<in> set (shares d)" "?seen w = shCreated s" by auto
    with assms(3) worker_status_minutes [of "?seen w" now] show ?thesis by auto
  qed
  have week: "7 * day = 604800000000" by (simp add: day_def hour_def)
  have "map_of (Workers ?r) w = (if of_worker w = [] then None
       else let seen = Max (shCreated ` set (of_worker w)) in
         if seen < now - 604800000000 then None
         else Some (zero_worker\<lparr>wsStatus := (if now - seen < 600000000 then ''Active'' else ''Inactive''), wsLastSeen := seen\<rparr>))" for w
  proof -
    have seen: "Max (shCreated ` set (of_worker w)) = ?seen w" by (simp only: of set_map)
    have "map_of (Workers ?r) w = (case if of_worker w \<noteq> [] \<and> now - 7 * day \<le> ?seen w then Some (?seen w) else None of
        None \<Rightarrow> map_of [] w | Some t \<Rightarrow> Some (zero_worker\<lparr>wsStatus := worker_status now t, wsLastSeen := t\<rparr>))"
      by (rule entry)
    then show ?thesis
      unfolding seen Let_def week using status [of w] by (cases "of_worker w = []"; cases "?seen w < now - 604800000000") simp_all
  qed
  with run show ?thesis by blast
qed

section \<open>Witnesses\<close>

text \<open>A miner with a share, a balance and statistics that are fresh.\<close>

definition reported_db :: db where
  "reported_db = sample_db\<lparr>
     shares := [\<lparr>shPoolID = ''p'', shBlockHeight = 7, shMiner = ''D1'', shWorker = ''rig'', shUserAgent = [],
       shDifficulty = Fin False 1, shNetworkDifficulty = Fin False 2, shIpAddress = ''::1'', shCreated = 5\<rparr>],
     balances := [\<lparr>bKey = (''p'', ''dogecoin'', ''D1''), bAmount = 500000000, bCreated = 1, bUpdated = 1\<rparr>],
     minerstats := [\<lparr>msPoolID = ''p'', msMiner = ''D1'', msWorker = ''rig'', msHashrate = Fin False 7, msSharesPerSecond = Fin False 1,
       msCreated = 900\<rparr>]\<rparr>"

lemma report_agrees_with_ledger_witness:
  "\<exists>r d'. GetMinerStatsReport ''p'' ''D1'' reported_db = (Ok (Some r, None), d') \<and>
    PendingBalance (account (mrAccounts r) ''dogecoin'') = decimal32 500000000 \<and>
    TotalPaid (account (mrAccounts r) ''dogecoin'') = decimal32 0 \<and> PendingShares (mrWorkers r) = fzero \<and> mrCreated r = 900"
proof -
  have hyps: "\<forall>n. faults reported_db n = None" "keys_distinct reported_db" "pending_sum reported_db ''p'' ''D1'' = Ok (Some (Fin False 1))"
      "filter (stat_match ''p'' ''D1'') (minerstats reported_db) \<noteq> []"
    by (simp_all add: reported_db_def sample_db_def keys_distinct_def pending_sum_def pg_sum_def stat_match_def)
  have fields: "bal reported_db (''p'', ''dogecoin'', ''D1'') = 500000000" "paid reported_db ''p'' ''dogecoin'' ''D1'' (\<lambda>t. True) = 0"
      "last_update reported_db ''p'' ''D1'' = 900" "\<not> 900 < time_Add (clock reported_db (tick reported_db + 6)) (- 1200000000000)"
    by (simp_all add: reported_db_def sample_db_def bal_def paid_def last_update_def stat_match_def time_Add_def)
  from report_agrees_with_ledger [OF hyps] obtain r d' where
    "GetMinerStatsReport ''p'' ''D1'' reported_db = (Ok (Some r, None), d')"
    "PendingBalance (account (mrAccounts r) ''dogecoin'') = decimal32 (bal reported_db (''p'', ''dogecoin'', ''D1''))"
    "TotalPaid (account (mrAccounts r) ''dogecoin'') = decimal32 (paid reported_db ''p'' ''dogecoin'' ''D1'' (\<lambda>t. True))"
    "PendingShares (mrWorkers r) = (if last_update reported_db ''p'' ''D1'' < time_Add (clock reported_db (tick reported_db + 6)) (- 1200000000000)
      then Fin False 1 else fzero)"
    "mrCreated r = (if last_update reported_db ''p'' ''D1'' < time_Add (clock reported_db (tick reported_db + 6)) (- 1200000000000)
      then 0 else last_update reported_db ''p'' ''D1'')"
    by blast
  then show ?thesis unfolding fields using fields(4) by (intro exI [of _ r] exI [of _ d']) simp
qed

lemma hashrates_never_read_witness:
  "MinerWorkerHashrates ''p'' reported_db = (Panic ''assignment to entry in nil map'', reported_db\<lparr>tick := 1\<rparr>)"
proof -
  have "faults reported_db (tick reported_db) = None" "\<forall>s \<in> set (minerstats reported_db). msMiner s \<noteq> []"
      "newest_rates reported_db ''p'' = [(''D1'', ''rig'', Fin False 7)]" "tick reported_db = 0"
    by (simp_all add: reported_db_def sample_db_def newest_rates_def distinct_keys_def pg_less_def pg_key_def)
  with hashrates_never_read [of reported_db "''p''"] show ?thesis by simp
qed

lemma workers_last_seen_witness:
  "\<exists>r d'. GetWorkersLastSeen ''another pool'' ''D1'' reported_db = (Ok r, d') \<and>
    map_of (Workers r) ''rig'' = Some (zero_worker\<lparr>wsStatus := ''Active'', wsLastSeen := 5\<rparr>)"
proof -
  let ?of = "\<lambda>w. filter (\<lambda>s. shMiner s = ''D1'' \<and> shWorker s = w) (shares reported_db)"
  have "faults reported_db (tick reported_db) = None"
      "\<forall>s \<in> set (shares reported_db). shCreated s \<le> 1001 \<and> 1001 - shCreated s < 2 ^ 53" "1001 = clock reported_db (tick reported_db + 1)"
    by (simp_all add: reported_db_def sample_db_def)
  from workers_last_seen [OF this(1,3,2) refl, of "''another pool''" "''D1''"] obtain r d' where
      run: "GetWorkersLastSeen ''another pool'' ''D1'' reported_db = (Ok r, d')"
      and row: "map_of (Workers r) ''rig'' = (if ?of ''rig'' = [] then None
       else let seen = Max (shCreated ` set (?of ''rig'')) in
         if seen < 1001 - 604800000000 then None
         else Some (zero_worker\<lparr>wsStatus := (if 1001 - seen < 600000000 then ''Active'' else ''Inactive''), wsLastSeen := seen\<rparr>))"
    by blast
  have "map_of (Workers r) ''rig'' = Some (zero_worker\<lparr>wsStatus := ''Active'', wsLastSeen := 5\<rparr>)"
    unfolding row by (simp add: reported_db_def sample_db_def)
  with run show ?thesis by blast
qed

end
