(* ===== verification/Dashboard.thy ===== *)
theory Dashboard
  imports Rewards MinerReports
begin

text \<open>
  Package \<open>api\<close>: hash rates with their units (\<open>hashrate.go\<close>), the dashboard of a miner
  (\<open>dashboard.go\<close>), its history (\<open>miner.go\<close>), the page of the pool (\<open>pool.go\<close>) and the handlers
  (\<open>server.go\<close>).  The encoding of a response as JSON is not modelled.  The order in which Go ranges
  over a map is the parameter \<open>ord\<close>, a function of the tick and the keys; the text of a time, which
  depends on the time zone, is the parameter \<open>timeText\<close>.
\<close>

section \<open>Logarithms and texts of numbers\<close>

text \<open>\<open>math.Frexp\<close> of a positive number: a fraction in \<open>[1/2, 1)\<close> and an exponent.\<close>

definition math_Frexp :: "rat \<Rightarrow> rat \<times> int" where
  "math_Frexp m = (let e = flog2 m + 1 in (m / 2 powi e, e))"

text \<open>\<open>math.Log\<close>, with the constants of the library: the logarithm of two in two parts and the
  coefficients of the series.\<close>

definition Ln2Hi :: fl where "Ln2Hi = Fin False (0x162e42fee00000 / 2 ^ 53)"
definition Ln2Lo :: fl where "Ln2Lo = Fin False (0x1a39ef35793c76 / 2 ^ 85)"
definition LogL1 :: fl where "LogL1 = Fin False (0x15555555555593 / 2 ^ 53)"
definition LogL2 :: fl where "LogL2 = Fin False (0x1999999997fa04 / 2 ^ 54)"
definition LogL3 :: fl where "LogL3 = Fin False (0x12492494229359 / 2 ^ 54)"
definition LogL4 :: fl where "LogL4 = Fin False (0x1c71c51d8e78af / 2 ^ 55)"
definition LogL5 :: fl where "LogL5 = Fin False (0x17466496cb03de / 2 ^ 55)"
definition LogL6 :: fl where "LogL6 = Fin False (0x139a09d078c69f / 2 ^ 55)"
definition LogL7 :: fl where "LogL7 = Fin False (0x12f112df3e5244 / 2 ^ 55)"
definition HalfSqrt2 :: rat where "HalfSqrt2 = 0x16a09e667f3bcd / 2 ^ 53"

definition log_series :: "fl \<Rightarrow> fl \<Rightarrow> fl" where
  "log_series f k =
     (let s = div64 f (add64 (Fin False 2) f);
          s2 = mul64 s s;
          s4 = mul64 s2 s2;
          t1 = mul64 s2 (add64 LogL1 (mul64 s4 (add64 LogL3 (mul64 s4 (add64 LogL5 (mul64 s4 LogL7))))));
          t2 = mul64 s4 (add64 LogL2 (mul64 s4 (add64 LogL4 (mul64 s4 LogL6))));
          R = add64 t1 t2;
          hfsq = mul64 (mul64 (Fin False (1 / 2)) f) f in
      sub64 (mul64 k Ln2Hi) (sub64 (sub64 hfsq (add64 (mul64 s (add64 hfsq R)) (mul64 k Ln2Lo))) f))"

definition math_Log :: "fl \<Rightarrow> fl" where
  "math_Log x = (case x of
     NaN \<Rightarrow> NaN
   | Inf s \<Rightarrow> if s then NaN else Inf False
   | Fin s m \<Rightarrow>
       if m = 0 then Inf True else if s then NaN
       else (case math_Frexp m of (f1, ki) \<Rightarrow>
         if f1 < HalfSqrt2 then log_series (sub64 (Fin False (f1 * 2)) (Fin False 1)) (float_of_int double (ki - 1))
         else log_series (sub64 (Fin False f1) (Fin False 1)) (float_of_int double ki)))"

text \<open>\<open>math.Pow(1000, x)\<close> for the whole numbers from 0 to 8; the code panics for the others right after.\<close>

definition pow_thousand :: "fl \<Rightarrow> fl" where
  "pow_thousand x = (case float_trunc x of None \<Rightarrow> NaN | Some i \<Rightarrow> fpack double False (1000 powi i))"

text \<open>\<open>%.2f\<close>\<close>

definition fixed2 :: "fl \<Rightarrow> string" where
  "fixed2 x = (case x of
     NaN \<Rightarrow> ''NaN''
   | Inf s \<Rightarrow> if s then ''-Inf'' else ''+Inf''
   | Fin s m \<Rightarrow>
       (let c = nat (rhe (m * 100)) in
        (if s then ''-'' else []) @ dec_text (c div 100) @ ''.'' @ dec_text (c mod 100 div 10) @ dec_text (c mod 10)))"

section \<open>Hash rates\<close>

record HashRate =
  Rate :: string
  Denomination :: string
  Raw :: fl

definition zero_rate :: HashRate where
  "zero_rate = \<lparr>Rate = [], Denomination = [], Raw = fzero\<rparr>"

definition rate_sizes :: "string list" where
  "rate_sizes = [''Hashes'', ''KH'', ''MH'', ''GH'', ''TH'', ''PH'', ''EH'', ''ZH'', ''YH'']"

definition floatToHashrate :: "fl \<Rightarrow> HashRate res" where
  "floatToHashrate hashrate =
     (if flt hashrate fzero then Panic ''Hashrate must be higher than 0''
      else if feq hashrate fzero then Ok (zero_rate\<lparr>Rate := ''0''\<rparr>)
      else let thousanth = math_Floor (div64 (math_Log hashrate) (math_Log (Fin False 1000)));
               reducedAmount = div64 hashrate (pow_thousand thousanth) in
        (case float_to_int (- (2 ^ 63)) (2 ^ 63) thousanth of
           None \<Rightarrow> Panic ''index out of range''
         | Some i \<Rightarrow>
             if i < 0 \<or> int (length rate_sizes) \<le> i then Panic ''index out of range''
             else Ok \<lparr>Rate = fixed2 reducedAmount, Denomination = rate_sizes ! nat i @ ''/s'', Raw = hashrate\<rparr>))"

section \<open>The dashboard of a miner\<close>

record Worker =
  RigID :: string
  wkStatus :: string
  CurrentHashrate :: HashRate
  wkRating :: int
  wkLastSeen :: int

record MinerDashboard =
  dbBalances :: "(string \<times> fl) list"
  dbHashrate :: HashRate
  ActiveWorkers :: nat
  InactiveWorkers :: nat
  WorkerList :: "Worker list"

definition padZeros :: "(string \<times> fl) list \<Rightarrow> string list \<Rightarrow> (string \<times> fl) list" where
  "padZeros amounts chainNames = foldl (\<lambda>b chain. if map_of b chain = None then AList.update chain fzero b else b) amounts chainNames"

fun count_workers :: "nat \<times> nat \<Rightarrow> WorkerStat list \<Rightarrow> nat \<times> nat" where
  "count_workers (active, inactive) [] = (active, inactive)"
| "count_workers (active, inactive) (worker # rest) =
     (if wsStatus worker = ''Active'' then count_workers (active + 1, inactive) rest
      else if wsStatus worker = ''Inactive'' then count_workers (active, inactive + 1) rest
      else count_workers (active, inactive) rest)"

text \<open>The order of the workers is of no consequence for the counts.\<close>

definition getWorkerCounts :: "string \<Rightarrow> string \<Rightarrow> ('z db_scheme, nat \<times> nat) act" where
  "getWorkerCounts poolId minerId = act_bind (GetWorkersLastSeen poolId minerId) (\<lambda>report.
     ret (count_workers (0, 0) (map snd (Workers report))))"

fun worker_rows :: "(string \<times> WorkerStat) list \<Rightarrow> (string \<times> WorkerStat) list \<Rightarrow> Worker list res" where
  "worker_rows workerHashRates [] = Ok []"
| "worker_rows workerHashRates ((rigID, worker) # rest) =
     (let stat = (case map_of workerHashRates rigID of None \<Rightarrow> zero_worker | Some s \<Rightarrow> s) in
      res_bind (floatToHashrate (wsHashrate stat)) (\<lambda>rate.
      res_bind (worker_rows workerHashRates rest) (\<lambda>rows.
        Ok (\<lparr>RigID = rigID, wkStatus = wsStatus worker, CurrentHashrate = rate, wkRating = 0, wkLastSeen = wsLastSeen worker\<rparr> # rows))))"

definition minerWorkers :: "(nat \<Rightarrow> string list \<Rightarrow> string list) \<Rightarrow> string \<Rightarrow> string \<Rightarrow> ('z db_scheme, Worker list) act" where
  "minerWorkers ord poolId minerId =
     act_bind (GetMinerStatsReport poolId minerId) (\<lambda>(minerStats, err).
     case minerStats of
       None \<Rightarrow> lift_res (Panic ''invalid memory address or nil pointer dereference'')
     | Some report \<Rightarrow>
       act_bind (GetWorkersLastSeen poolId minerId) (\<lambda>workerStats.
       act_bind (act_gets (\<lambda>d. in_order (ord (tick d)) (Workers workerStats))) (\<lambda>ws.
         lift_res (worker_rows (Workers (mrWorkers report)) ws))))"

text \<open>\<open>None\<close> is the empty map.\<close>

definition getDashboardStats ::
  "(nat \<Rightarrow> string list \<Rightarrow> string list) \<Rightarrow> string \<Rightarrow> string \<Rightarrow> string list \<Rightarrow> ('z db_scheme, MinerDashboard option) act" where
  "getDashboardStats ord poolId minerId chainNames =
     (if minerId = [] then ret None
      else act_bind (GetMinerStatsReport poolId minerId) (\<lambda>(report, err).
        case report of
          None \<Rightarrow> ret None
        | Some r \<Rightarrow>
          act_bind (act_gets (\<lambda>d. in_order (ord (tick d)) (Workers (mrWorkers r)))) (\<lambda>ws.
          let hashrateFloat = foldl (\<lambda>acc (rig, stat). add64 acc (wsHashrate stat)) fzero ws in
          act_bind (getWorkerCounts poolId minerId) (\<lambda>(active, inactive).
          let amounts = padZeros (GetPendingAmounts (mrAccounts r)) chainNames in
          act_bind (lift_res (floatToHashrate hashrateFloat)) (\<lambda>rate.
          act_bind (minerWorkers ord poolId minerId) (\<lambda>workers.
            ret (Some \<lparr>dbBalances = amounts, dbHashrate = rate, ActiveWorkers = active, InactiveWorkers = inactive,
              WorkerList = workers\<rparr>)))))))"

section \<open>The history of a miner\<close>

record HourWorker =
  hwRate :: HashRate
  hwSharesPerSecond :: fl

record HourStat =
  hsCreated :: int
  hsRate :: HashRate
  hsSharesPerSecond :: fl
  hsWorkers :: "(string \<times> HourWorker) list"

definition empty_hours :: "int \<Rightarrow> HourStat list" where
  "empty_hours now = map (\<lambda>i. \<lparr>hsCreated = time_Add now (- 1 * (3600 * 10 ^ 9 * int i)), hsRate = zero_rate,
     hsSharesPerSecond = fzero, hsWorkers = []\<rparr>) [0..<24]"

definition hours_between :: "int \<Rightarrow> int \<Rightarrow> int option" where
  "hours_between now created = float_to_int (- (2 ^ 63)) (2 ^ 63) (duration_in (3600 * 10 ^ 9) (time_Sub now created))"

definition add_average :: "string \<Rightarrow> MinerAverage \<Rightarrow> HourStat \<Rightarrow> HashRate \<Rightarrow> HourStat" where
  "add_average rigID average stat rate =
     \<lparr>hsCreated = maCreated average,
      hsRate = (hsRate stat)\<lparr>Raw := add64 (Raw (hsRate stat)) (AverageHashrate average)\<rparr>,
      hsSharesPerSecond = add64 (hsSharesPerSecond stat) (AverageSharesPerSecond average),
      hsWorkers = AList.update rigID \<lparr>hwRate = rate, hwSharesPerSecond = AverageSharesPerSecond average\<rparr> (hsWorkers stat)\<rparr>"

definition fill_hour :: "int \<Rightarrow> string \<Rightarrow> HourStat list \<Rightarrow> MinerAverage \<Rightarrow> HourStat list res" where
  "fill_hour now rigID hourStats average =
     (case hours_between now (maCreated average) of
        None \<Rightarrow> Panic ''index out of range''
      | Some i \<Rightarrow>
          if 23 < i then Ok hourStats
          else if i < 0 then Panic ''index out of range''
          else res_bind (floatToHashrate (AverageHashrate average)) (\<lambda>rate.
            Ok (hourStats[nat i := add_average rigID average (hourStats ! nat i) rate])))"

fun fill_hours :: "int \<Rightarrow> HourStat list \<Rightarrow> (string \<times> MinerAverage) list \<Rightarrow> HourStat list res" where
  "fill_hours now hourStats [] = Ok hourStats"
| "fill_hours now hourStats ((rigID, average) # rest) =
     res_bind (fill_hour now rigID hourStats average) (\<lambda>hs. fill_hours now hs rest)"

definition rig_averages :: "(string \<times> MinerAverage list) list \<Rightarrow> (string \<times> MinerAverage) list" where
  "rig_averages rigs = concat (map (\<lambda>(rigID, averages). map (Pair rigID) averages) rigs)"

text \<open>\<open>None\<close> is the nil slice.  The hour is cut off in UTC.\<close>

definition getMinerHistory :: "(nat \<Rightarrow> string list \<Rightarrow> string list) \<Rightarrow> string \<Rightarrow> string \<Rightarrow> ('z db_scheme, HourStat list option) act" where
  "getMinerHistory ord poolId minerId =
     act_bind Now (\<lambda>t.
     let oneDayAgo = time_Add t (- 1 * (3600 * 10 ^ 9) * 24) in
     act_bind Now (\<lambda>now.
     on_error (GetMinerHourlyAveragesBetween poolId minerId oneDayAgo now) (\<lambda>e. ret None) (\<lambda>rigs.
     let hourNow = date_trunc hour now in
     act_bind (act_gets (\<lambda>d. in_order (ord (tick d)) rigs)) (\<lambda>rs.
     act_bind (lift_res (fill_hours hourNow (empty_hours hourNow) (rig_averages rs))) (\<lambda>hourStats.
       ret (Some (rev hourStats)))))))"

section \<open>The page of the pool\<close>

record api_Block =
  abChain :: string
  abHeight :: int
  HashHeader :: string
  abCreated :: string
  MinutesAgo :: int

record PoolIndex =
  PoolHashRate :: HashRate
  ActiveMiners :: nat
  piWorkers :: nat
  BlocksPerHour :: nat
  LatestBlocks :: "api_Block list"

definition blocksPerHour :: "string \<Rightarrow> ('z db_scheme, nat) act" where
  "blocksPerHour poolID = on_error (PoolBlocksPerHour poolID) (\<lambda>e. ret 0) ret"

text \<open>The first byte of the name of the chain is capitalised.\<close>

definition api_block :: "(int \<Rightarrow> string) \<Rightarrow> int \<Rightarrow> Found \<Rightarrow> api_Block res" where
  "api_block timeText now block = (case fChain block of
     [] \<Rightarrow> Panic ''slice bounds out of range''
   | c # cs \<Rightarrow> Ok \<lparr>abChain = upper_char c # cs, abHeight = int (BlockHeight block), HashHeader = Hash block,
       abCreated = timeText (Created block),
       MinutesAgo = (case float_trunc (duration_Minutes (time_Sub now (Created block))) of None \<Rightarrow> 0 | Some i \<Rightarrow> i)\<rparr>)"

fun all_chains :: "string \<Rightarrow> string list \<Rightarrow> ('z db_scheme, Found list) act" where
  "all_chains poolId [] = ret []"
| "all_chains poolId (chain # rest) =
     on_error (PageBlocks poolId chain [StatusConfirmed] 0 5) (\<lambda>e. all_chains poolId rest) (\<lambda>found.
       act_bind (all_chains poolId rest) (\<lambda>fs. ret (found @ fs)))"

definition recentBlocks :: "(int \<Rightarrow> string) \<Rightarrow> string \<Rightarrow> string list \<Rightarrow> ('z db_scheme, api_Block list) act" where
  "recentBlocks timeText poolId chainNames =
     act_bind (all_chains poolId chainNames) (\<lambda>allChains.
     act_bind Now (\<lambda>now. lift_res (res_map (api_block timeText now) allChains)))"

definition getPoolIndex :: "(int \<Rightarrow> string) \<Rightarrow> string \<Rightarrow> string list \<Rightarrow> ('z db_scheme, PoolIndex) act" where
  "getPoolIndex timeText poolID chainNames =
     act_bind (attempt (GetLastStat poolID)) (\<lambda>r.
     let (poolHashrate, connectedMiners, connectedWorkers) = (case r of
           Ok stat \<Rightarrow> (PoolHashrate stat, ConnectedMiners stat, ConnectedWorkers stat) | _ \<Rightarrow> (fzero, 0, 0)) in
     act_bind (lift_res (floatToHashrate poolHashrate)) (\<lambda>rate.
     act_bind (blocksPerHour poolID) (\<lambda>perHour.
     act_bind (recentBlocks timeText poolID chainNames) (\<lambda>latest.
       ret \<lparr>PoolHashRate = rate, ActiveMiners = connectedMiners, piWorkers = connectedWorkers, BlocksPerHour = perHour,
         LatestBlocks = latest\<rparr>))))"

section \<open>Handlers\<close>

datatype 'a http_answer = MethodNotAllowed string | Answer 'a

definition only_get :: "string \<Rightarrow> ('s, 'a) act \<Rightarrow> ('s, 'a http_answer) act" where
  "only_get httpMethod body =
     (if httpMethod \<noteq> ''GET'' then ret (MethodNotAllowed (''method '' @ httpMethod @ '' is not allowed''))
      else act_bind body (\<lambda>x. ret (Answer x)))"

definition minerIndex :: "(nat \<Rightarrow> string list \<Rightarrow> string list) \<Rightarrow> pool_config \<Rightarrow> string \<Rightarrow> string \<Rightarrow>
    ('z db_scheme, MinerDashboard option http_answer) act" where
  "minerIndex ord serverConfig httpMethod minerId =
     only_get httpMethod (getDashboardStats ord (PoolName serverConfig) minerId (BlockChainOrder serverConfig))"

definition minerHistory :: "(nat \<Rightarrow> string list \<Rightarrow> string list) \<Rightarrow> pool_config \<Rightarrow> string \<Rightarrow> string \<Rightarrow>
    ('z db_scheme, HourStat list option http_answer) act" where
  "minerHistory ord serverConfig httpMethod minerId =
     only_get httpMethod (getMinerHistory ord (PoolName serverConfig) minerId)"

definition poolIndex :: "(int \<Rightarrow> string) \<Rightarrow> pool_config \<Rightarrow> string \<Rightarrow> ('z db_scheme, PoolIndex http_answer) act" where
  "poolIndex timeText serverConfig httpMethod =
     only_get httpMethod (getPoolIndex timeText (PoolName serverConfig) (BlockChainOrder serverConfig))"

end
