(* ===== verification/DashboardProperties.thy ===== *)
theory DashboardProperties
  imports Dashboard
begin

text \<open>
  Properties of the pages of package \<open>api\<close>: the history of a miner has one entry for every hour of the
  last day, and the dashboard shows the amounts of the ledger, but only to a miner with shares.
\<close>

section \<open>Hours\<close>

lemma whole_hours:
  assumes "0 \<le> k" and "k \<le> 2562047"
  shows "hours_between t (t - k * hour) = Some k"
proof -
  have sub: "time_Sub t (t - k * hour) = k * 3600000000000" using assms by (simp add: time_Sub_def hour_def)
  have quot: "go_quot (k * 3600000000000) 3600000000000 = k" using assms(1) by (cases "k = 0") (auto simp: go_quot_def)
  have exact: "float_of_int double k = Fin False (of_int k)" "float_of_int double 0 = Fin False 0"
      "float_of_int double 3600000000000 = Fin False 3600000000000"
    using assms float_int_exact [of k] float_int_exact [of 0] float_int_exact [of 3600000000000] by simp_all
  have packed: "fpack double False (of_int k) = Fin False (of_int k)" "fpack double False 0 = Fin False 0"
    using exact(1,2) assms(1) by (simp_all add: float_of_int_def)
  have "duration_in 3600000000000 (k * 3600000000000) = Fin False (of_int k)"
    using assms(1) packed by (simp only: duration_in_def quot go_rem_def diff_self mult.commute exact) (simp add: Let_def)
  then show ?thesis using assms by (simp add: hours_between_def sub float_to_int_def)
qed

lemma saturated_hours: "2562047 < k \<Longrightarrow> \<exists>i > 23. hours_between t (t - k * hour) = Some i"
proof -
  assume k: "2562047 < k"
  then have sub: "time_Sub t (t - k * hour) = 9223372036854775807" by (simp add: time_Sub_def hour_def)
  have exact: "float_of_int double 2562047 = Fin False 2562047" "float_of_int double 2836854775807 = Fin False 2836854775807"
      "float_of_int double 3600000000000 = Fin False 3600000000000"
    using float_int_exact [of 2562047] float_int_exact [of 2836854775807] float_int_exact [of 3600000000000] by simp_all
  have quot: "go_quot 9223372036854775807 3600000000000 = 2562047" by (simp add: go_quot_def)
  obtain f where f: "fpack double False (2836854775807 / 3600000000000) = Fin False f" "0 \<le> f" "f \<le> 1"
    using fpack_small [of "2836854775807 / 3600000000000" 0 False] by auto
  obtain y where y: "fpack double False (2562047 + f) = Fin False y" "0 \<le> y" "y \<le> 2 ^ 22"
    using fpack_small [of "2562047 + f" 22 False] f(2,3) by auto
  have "fpack double False 24 = Fin False 24" using fpack_double [of 24 24 0 False] by (simp add: power_int_def)
  with fpack_mono [OF _ _ _ y(1), of 24] f(2) have low: "24 \<le> y" by (auto simp: double_def)
  have "duration_in 3600000000000 9223372036854775807 = Fin False y"
    using f(1,2) y(1) by (simp add: duration_in_def quot go_rem_def exact)
  moreover have "\<lfloor>y\<rfloor> < 2 ^ 63" "24 \<le> \<lfloor>y\<rfloor>" using low y(3) by (simp_all add: floor_less_iff le_floor_iff)
  ultimately show ?thesis by (simp add: hours_between_def sub float_to_int_def)
qed

text \<open>The entry an average belongs to.\<close>

lemma hours_index:
  assumes "0 \<le> k"
  obtains i where "hours_between t (t - k * hour) = Some i" and "0 \<le> i" and "i = k \<or> 23 < i \<and> 23 < k"
  using assms whole_hours [of k t] saturated_hours [of k t] by (cases "k \<le> 2562047") force+

section \<open>The history\<close>

definition hour_slots :: "int \<Rightarrow> HourStat list \<Rightarrow> bool" where
  "hour_slots t hs \<longleftrightarrow> length hs = 24 \<and> (\<forall>i < 24. hsCreated (hs ! i) = t - int i * hour)"

text \<open>The averages of an hour, in the order they are read.\<close>

definition of_hour :: "int \<Rightarrow> (string \<times> MinerAverage) list \<Rightarrow> MinerAverage list" where
  "of_hour t averages = filter (\<lambda>a. maCreated a = t) (map snd averages)"

definition total_rate :: "HourStat \<Rightarrow> MinerAverage list \<Rightarrow> fl" where
  "total_rate stat as = foldl add64 (Raw (hsRate stat)) (map AverageHashrate as)"

definition total_shares :: "HourStat \<Rightarrow> MinerAverage list \<Rightarrow> fl" where
  "total_shares stat as = foldl add64 (hsSharesPerSecond stat) (map AverageSharesPerSecond as)"

lemma fill_hour_slot:
  assumes "hour_slots t hs" and "maCreated a = t - k * hour" and "0 \<le> k" and "is_ok (floatToHashrate (AverageHashrate a))"
  shows "\<exists>hs'. fill_hour t rig hs a = Ok hs' \<and> hour_slots t hs' \<and>
    (\<forall>i < 24. total_rate (hs ! i) (of_hour (t - int i * hour) ((rig, a) # rest)) = total_rate (hs' ! i) (of_hour (t - int i * hour) rest) \<and>
      total_shares (hs ! i) (of_hour (t - int i * hour) ((rig, a) # rest)) = total_shares (hs' ! i) (of_hour (t - int i * hour) rest))"
proof -
  have hour: "0 < hour" by (simp add: hour_def)
  then have same: "t - k * hour = t - int i * hour \<longleftrightarrow> k = int i" for i by simp
  obtain j where j: "hours_between t (t - k * hour) = Some j" "0 \<le> j" "j = k \<or> 23 < j \<and> 23 < k" by (rule hours_index [OF assms(3)])
  obtain r where r: "floatToHashrate (AverageHashrate a) = Ok r" using assms(4) by (auto simp: is_ok_iff)
  show ?thesis
  proof (cases "23 < j")
    case True
    then have "k \<noteq> int i" if "i < 24" for i using j(3) that by auto
    with True assms(1,2) j same hour show ?thesis by (simp add: fill_hour_def of_hour_def)
  next
    case False
    then have k: "j = k" "nat k < 24" "int (nat k) = k" using j by auto
    have len: "length hs = 24" using assms(1) by (simp add: hour_slots_def)
    have run: "fill_hour t rig hs a = Ok (hs[nat k := add_average rig a (hs ! nat k) r])"
      using False j(1,2) k(1) assms(2) r by (simp add: fill_hour_def)
    have slots: "hour_slots t (hs[nat k := add_average rig a (hs ! nat k) r])"
      using assms(1,2) len k by (auto simp: hour_slots_def nth_list_update add_average_def)
    show ?thesis unfolding run using slots same k len
      by (auto simp: nth_list_update add_average_def of_hour_def total_rate_def total_shares_def assms(2))
  qed
qed

lemma fill_hours_slots:
  "hour_slots t hs \<Longrightarrow> (\<And>rig a. (rig, a) \<in> set averages \<Longrightarrow> is_ok (floatToHashrate (AverageHashrate a)) \<and> (\<exists>k \<ge> 0. maCreated a = t - k * hour)) \<Longrightarrow>
   \<exists>hs'. fill_hours t hs averages = Ok hs' \<and> hour_slots t hs' \<and>
     (\<forall>i < 24. Raw (hsRate (hs' ! i)) = total_rate (hs ! i) (of_hour (t - int i * hour) averages) \<and>
       hsSharesPerSecond (hs' ! i) = total_shares (hs ! i) (of_hour (t - int i * hour) averages))"
proof (induction averages arbitrary: hs)
  case Nil
  then show ?case by (simp add: of_hour_def total_rate_def total_shares_def)
next
  case (Cons average averages)
  obtain rig a where average: "average = (rig, a)" by (cases average)
  obtain k where "0 \<le> k" "maCreated a = t - k * hour" "is_ok (floatToHashrate (AverageHashrate a))"
    using Cons.prems(2) [of rig a] by (auto simp: average)
  with fill_hour_slot [OF Cons.prems(1), of a k rig averages] obtain hs' where hs': "fill_hour t rig hs a = Ok hs'" "hour_slots t hs'"
      "\<forall>i < 24. total_rate (hs ! i) (of_hour (t - int i * hour) ((rig, a) # averages)) = total_rate (hs' ! i) (of_hour (t - int i * hour) averages) \<and>
        total_shares (hs ! i) (of_hour (t - int i * hour) ((rig, a) # averages)) = total_shares (hs' ! i) (of_hour (t - int i * hour) averages)"
    by blast
  obtain hs'' where hs'': "fill_hours t hs' averages = Ok hs''" "hour_slots t hs''"
      "\<forall>i < 24. Raw (hsRate (hs'' ! i)) = total_rate (hs' ! i) (of_hour (t - int i * hour) averages) \<and>
        hsSharesPerSecond (hs'' ! i) = total_shares (hs' ! i) (of_hour (t - int i * hour) averages)"
    using Cons.IH [OF hs'(2)] Cons.prems(2) by (metis list.set_intros(2))
  with hs'(1,3) show ?case unfolding average by simp
qed


text \<open>The averages read start no later than the hour of the last moment asked for.\<close>

lemma foldl_append_average:
  "(rig, as) \<in> set (foldl append_average m rows) \<Longrightarrow> distinct (map fst m) \<Longrightarrow> a \<in> set as \<Longrightarrow>
   a \<in> set rows \<or> (\<exists>as'. (rig, as') \<in> set m \<and> a \<in> set as')"
proof (induction rows arbitrary: m)
  case (Cons row rows)
  have step: "\<exists>as'. (rig, as') \<in> set m \<and> a \<in> set as' \<or> a = row" if "(rig, as') \<in> set (append_average m row)" "a \<in> set as'" for as'
  proof -
    have "map_of (append_average m row) rig = Some as'" using that(1) Cons.prems(2) by (simp add: append_average_def distinct_update)
    with that(2) show ?thesis by (auto simp: append_average_def update_conv' split: if_splits option.splits dest: map_of_SomeD)
  qed
  have "distinct (map fst (append_average m row))" using Cons.prems(2) by (simp add: append_average_def distinct_update)
  with Cons.IH [of "append_average m row"] Cons.prems(1,3) step show ?case by fastforce
qed auto

lemma res_map_set: "res_map f xs = Ok ys \<Longrightarrow> y \<in> set ys \<Longrightarrow> \<exists>x \<in> set xs. f x = Ok y"
  by (induction xs arbitrary: ys) (auto simp: outcome_simps)

lemma hourly_averages:
  assumes "GetMinerHourlyAveragesBetween p m start stop d = (Ok rigs, d')" and "(rig, as) \<in> set rigs" and "a \<in> set as"
  shows "\<exists>k \<ge> 0. maCreated a = date_trunc hour stop - k * hour"
proof -
  let ?avg = "\<lambda>((t, worker), h, s). \<lparr>maWorker = worker, maCreated = t, AverageHashrate = h, AverageSharesPerSecond = s\<rparr>"
  obtain n rows where rows: "period_groups (\<lambda>s. date_trunc hour (msCreated s)) (stats_between (d\<lparr>tick := n\<rparr>) p m start stop) = Ok rows"
      and rigs: "rigs = foldl append_average [] (map ?avg rows)"
    using assms(1) by (auto simp: GetMinerHourlyAveragesBetween_def outcome_simps query_Ok)
  have "a \<in> set (map ?avg rows)" using foldl_append_average [of rig as "[]" "map ?avg rows" a] assms(2,3) by (simp add: rigs)
  then obtain t w h s where row: "((t, w), h, s) \<in> set rows" "maCreated a = t" by auto
  from res_map_set [OF rows [unfolded period_groups_def Let_def] row(1)]
  obtain st where "st \<in> set (minerstats d)" "msCreated st \<le> stop" "t = date_trunc hour (msCreated st)"
    by (auto simp: distinct_keys_def stats_between_def outcome_simps)
  then have "t = msCreated st div hour * hour" "msCreated st div hour \<le> stop div hour" by (auto simp: date_trunc_def hour_def intro: zdiv_mono1)
  then show ?thesis unfolding row(2)
    by (intro exI [of _ "stop div hour - msCreated st div hour"]) (simp add: date_trunc_def left_diff_distrib)
qed

text \<open>C25. The history of a miner: whatever was stored and in whatever order Go ranges over the workers, the
  index of an average never leaves the table, and the answer has one entry for each of the last 24
  hours, the oldest first.  The entry of an hour carries the time of its beginning and the sums, in
  floating point, of the hash rates and of the shares per second averaged for that hour, over all
  workers; averages that are older are left out.  The one thing it depends on is that each average
  can be displayed.\<close>

theorem history_of_hours:
  assumes "GetMinerHourlyAveragesBetween p m (time_Add (clock d (tick d)) (- 86400000000000)) now (d\<lparr>tick := tick d + 2\<rparr>) = (Ok rigs, d')"
    and "now = clock d (tick d + 1)"
    and "\<forall>(rig, as) \<in> set rigs. \<forall>a \<in> set as. is_ok (floatToHashrate (AverageHashrate a))"
    and "averages = rig_averages (in_order (ord (tick d')) rigs)"
  shows "\<exists>hs. getMinerHistory ord p m d = (Ok (Some hs), d') \<and> length hs = 24 \<and>
    (\<forall>j < 24. let t = date_trunc hour now - (23 - int j) * hour; as = of_hour t averages in
      hsCreated (hs ! j) = t \<and>
      Raw (hsRate (hs ! j)) = foldl add64 fzero (map AverageHashrate as) \<and>
      hsSharesPerSecond (hs ! j) = foldl add64 fzero (map AverageSharesPerSecond as))"
proof -
  let ?H = "date_trunc hour now"
  have "- (3600000000000 * i) div 1000 = - (i * 3600000000)" for i :: int
    using nonzero_mult_div_cancel_left [of 1000 "- (i * 3600000000)"] by simp
  then have slots: "hour_slots ?H (empty_hours ?H)" by (simp add: hour_slots_def empty_hours_def time_Add_def hour_def)
  have good: "is_ok (floatToHashrate (AverageHashrate a)) \<and> (\<exists>k \<ge> 0. maCreated a = ?H - k * hour)" if "(rig, a) \<in> set averages" for rig a
  proof -
    from that assms(4) obtain as where "(rig, as) \<in> set (in_order (ord (tick d')) rigs)" "a \<in> set as" by (auto simp: rig_averages_def)
    then have "(rig, as) \<in> set rigs" "a \<in> set as" using set_in_order [of "ord (tick d')" rigs] by (auto dest: map_of_SomeD)
    with hourly_averages [OF assms(1)] assms(3) show ?thesis by blast
  qed
  obtain hs where hs: "fill_hours ?H (empty_hours ?H) averages = Ok hs" "hour_slots ?H hs"
      "\<And>i. i < 24 \<Longrightarrow> Raw (hsRate (hs ! i)) = total_rate (empty_hours ?H ! i) (of_hour (?H - int i * hour) averages) \<and>
        hsSharesPerSecond (hs ! i) = total_shares (empty_hours ?H ! i) (of_hour (?H - int i * hour) averages)"
    using fill_hours_slots [OF slots, of averages] good by blast
  have zero: "total_rate (empty_hours ?H ! i) as = foldl add64 fzero (map AverageHashrate as)"
      "total_shares (empty_hours ?H ! i) as = foldl add64 fzero (map AverageSharesPerSecond as)" if "i < 24" for i as
    using that by (simp_all add: total_rate_def total_shares_def empty_hours_def zero_rate_def)
  have run: "getMinerHistory ord p m d = (Ok (Some (rev hs)), d')"
    using assms(1,4) hs(1) assms(2)
    by (simp add: getMinerHistory_def act_bind_def [of Now] Now_eq on_error_ok act_bind_def [of "act_gets _"] act_gets_def ret_def Let_def)
  have "rev hs ! j = hs ! (23 - j)" "int (23 - j) = 23 - int j" if "j < 24" for j
    using that hs(2) by (simp_all add: rev_nth hour_slots_def)
  with run hs(2,3) zero show ?thesis by (intro exI [of _ "rev hs"]) (auto simp: Let_def hour_slots_def)
qed


section \<open>The dashboard\<close>

lemma padZeros_lookup:
  "map_of (padZeros m names) c = (case map_of m c of None \<Rightarrow> if c \<in> set names then Some fzero else None | Some x \<Rightarrow> Some x)"
proof (induction names arbitrary: m)
  case (Cons n names)
  have "padZeros m (n # names) = padZeros (if map_of m n = None then AList.update n fzero m else m) names"
    by (simp add: padZeros_def)
  then show ?case by (auto simp: Cons update_conv' split: option.splits)
qed (simp add: padZeros_def split: option.split)

lemma pending_amounts: "map_of (GetPendingAmounts accounts) c = map_option PendingBalance (map_of accounts c)"
  by (induction accounts) (auto simp: GetPendingAmounts_def)

lemma padded_amounts:
  "c \<in> set names \<Longrightarrow> map_of (padZeros (GetPendingAmounts accounts) names) c = Some (PendingBalance (account accounts c))"
  by (simp add: padZeros_lookup pending_amounts account_def split: option.split)

lemma zero_displayed: "floatToHashrate fzero = Ok (zero_rate\<lparr>Rate := ''0''\<rparr>)"
  by (simp add: floatToHashrate_def)

text \<open>The two ways in which a hash rate is not displayed.\<close>

definition rate_panics :: "string set" where
  "rate_panics = {''index out of range'', ''Hashrate must be higher than 0''}"

lemma rate_fails: "floatToHashrate h \<noteq> Err e" "floatToHashrate h = Panic m \<Longrightarrow> m \<in> rate_panics"
  by (auto simp: floatToHashrate_def rate_panics_def Let_def split: option.splits if_splits)

lemma worker_rows_fails: "worker_rows rates ws \<noteq> Err e" "worker_rows rates ws = Panic m \<Longrightarrow> m \<in> rate_panics"
proof -
  have "worker_rows rates ws \<noteq> Err e \<and> (worker_rows rates ws = Panic m \<longrightarrow> m \<in> rate_panics)"
    by (induction ws) (auto simp: Let_def res_bind_eq_Err res_bind_eq_Panic rate_fails(1) dest: rate_fails(2) split: option.splits)
  then show "worker_rows rates ws \<noteq> Err e" "worker_rows rates ws = Panic m \<Longrightarrow> m \<in> rate_panics" by auto
qed

lemma worker_rows_zero: "is_ok (worker_rows [] ws)"
  by (induction ws) (auto simp: zero_worker_def zero_displayed is_ok_iff)

lemma dashboard_run:
  assumes "a \<noteq> []" and "GetMinerStatsReport p a d = (Ok (Some r, e), d1)" and "GetWorkersLastSeen p a d1 = (Ok seen, d2)"
    and "GetMinerStatsReport p a d2 = (Ok (Some r', e'), d3)" and "GetWorkersLastSeen p a d3 = (Ok seen', d4)"
  shows "getDashboardStats ord p a names d =
    (let total = foldl (\<lambda>acc (rig, stat). add64 acc (wsHashrate stat)) fzero (in_order (ord (tick d1)) (Workers (mrWorkers r)));
         counts = count_workers (0, 0) (map snd (Workers seen)) in
     case floatToHashrate total of
       Ok rate \<Rightarrow>
         (res_bind (worker_rows (Workers (mrWorkers r')) (in_order (ord (tick d4)) (Workers seen'))) (\<lambda>rows.
            Ok (Some \<lparr>dbBalances = padZeros (GetPendingAmounts (mrAccounts r)) names, dbHashrate = rate, ActiveWorkers = fst counts,
              InactiveWorkers = snd counts, WorkerList = rows\<rparr>)), d4)
     | Err m \<Rightarrow> (Err m, d2) | Panic m \<Rightarrow> (Panic m, d2))"
proof -
  have workers: "minerWorkers ord p a d2 = (worker_rows (Workers (mrWorkers r')) (in_order (ord (tick d4)) (Workers seen')), d4)"
    using assms(4,5) by (simp add: minerWorkers_def act_bind_def act_gets_def lift_res_def)
  have counts: "getWorkerCounts p a d1 = (Ok (count_workers (0, 0) (map snd (Workers seen))), d2)"
    using assms(3) by (simp add: getWorkerCounts_def act_bind_def ret_def)
  show ?thesis
    using assms(1,2) workers counts
    by (simp add: getDashboardStats_def act_bind_def act_gets_def lift_res_def ret_def Let_def split: res.split prod.split)
qed


text \<open>C26. The dashboard shows the ledger: for a miner with shares and statistics, when no statement fails, the
  page carries for each configured chain the balance of the miner's address in the ledger, as the
  nearest \<open>float32\<close>, zero where there is none; and the only other way out is a panic of
  \<open>floatToHashrate\<close>, for a rate it cannot display.\<close>

theorem dashboard_shows_ledger:
  assumes "a \<noteq> []" and "\<forall>n. faults d n = None" and "keys_distinct d" and "pending_sum d p a = Ok (Some x)"
    and "filter (stat_match p a) (minerstats d) \<noteq> []"
  shows "case fst (getDashboardStats ord p a names d) of
      Ok None \<Rightarrow> False
    | Ok (Some page) \<Rightarrow> \<forall>c \<in> set names. map_of (dbBalances page) c = Some (decimal32 (bal d (p, c, a)))
    | Err e \<Rightarrow> False
    | Panic m \<Rightarrow> m \<in> rate_panics"
proof -
  have run: "\<exists>r ps m. GetMinerStatsReport p a (d\<lparr>tick := n\<rparr>) = (Ok (Some r, None), d\<lparr>tick := m\<rparr>) \<and>
      mrAccounts r = the_accounts (d\<lparr>tick := n\<rparr>) p a ps" for n
  proof -
    have "faultless (d\<lparr>tick := n\<rparr>)" "pending_sum (d\<lparr>tick := n\<rparr>) p a = Ok (Some x)"
        "filter (stat_match p a) (minerstats (d\<lparr>tick := n\<rparr>)) \<noteq> []"
      using assms(2,4,5) by (simp_all add: faultless_def pending_sum_def)
    from report_complete [OF this refl] show ?thesis by fastforce
  qed
  have seen: "\<exists>r. GetWorkersLastSeen p a (d\<lparr>tick := n\<rparr>) = (Ok r, d\<lparr>tick := n + 2\<rparr>)" for n
    using workers_seen_run [of "d\<lparr>tick := n\<rparr>" p a] assms(2) by simp
  obtain r ps n1 where r: "GetMinerStatsReport p a d = (Ok (Some r, None), d\<lparr>tick := n1\<rparr>)" "mrAccounts r = the_accounts d p a ps"
    using run [of "tick d"] by auto
  obtain s where s: "GetWorkersLastSeen p a (d\<lparr>tick := n1\<rparr>) = (Ok s, d\<lparr>tick := n1 + 2\<rparr>)" using seen by blast
  obtain r' n2 where r': "GetMinerStatsReport p a (d\<lparr>tick := n1 + 2\<rparr>) = (Ok (Some r', None), d\<lparr>tick := n2\<rparr>)" using run by blast
  obtain s' where s': "GetWorkersLastSeen p a (d\<lparr>tick := n2\<rparr>) = (Ok s', d\<lparr>tick := n2 + 2\<rparr>)" using seen by blast
  have amounts: "map_of (padZeros (GetPendingAmounts (mrAccounts r)) names) c = Some (decimal32 (bal d (p, c, a)))" if "c \<in> set names" for c
    using that by (simp add: padded_amounts r(2) the_accounts_amounts [OF assms(3)])
  show ?thesis
    unfolding dashboard_run [OF assms(1) r(1) s r' s'] Let_def using rate_fails worker_rows_fails amounts
    by (auto split: res.splits simp: res_bind_eq_Err res_bind_eq_Panic outcome_simps)
qed

text \<open>C29. A miner without shares, for instance after its shares were paid and deleted, sees no money: whatever
  the ledger owes it, the dashboard answers with a balance of zero for every configured chain and no
  other, and a hash rate of zero.\<close>

theorem dashboard_without_shares:
  assumes "a \<noteq> []" and "\<forall>n. faults d n = None" and "filter (\<lambda>s. shPoolID s = p \<and> shMiner s = a) (shares d) = []"
  shows "\<exists>page d'. getDashboardStats ord p a names d = (Ok (Some page), d') \<and> Rate (dbHashrate page) = ''0'' \<and>
    (\<forall>c. map_of (dbBalances page) c = (if c \<in> set names then Some fzero else None))"
proof -
  let ?r = "\<lparr>mrCreated = 0, mrAccounts = [], mrWorkers = newWorkerReport\<rparr>"
  have run: "\<exists>e. GetMinerStatsReport p a (d\<lparr>tick := n\<rparr>) = (Ok (Some ?r, Some e), d\<lparr>tick := Suc n\<rparr>)" for n
    using report_without_shares [of "d\<lparr>tick := n\<rparr>" p a] assms(2,3) by (simp add: faultless_def)
  have seen: "\<exists>r. GetWorkersLastSeen p a (d\<lparr>tick := n\<rparr>) = (Ok r, d\<lparr>tick := n + 2\<rparr>)" for n
    using workers_seen_run [of "d\<lparr>tick := n\<rparr>" p a] assms(2) by simp
  obtain e where r: "GetMinerStatsReport p a d = (Ok (Some ?r, Some e), d\<lparr>tick := Suc (tick d)\<rparr>)" using run [of "tick d"] by auto
  obtain s where s: "GetWorkersLastSeen p a (d\<lparr>tick := Suc (tick d)\<rparr>) = (Ok s, d\<lparr>tick := Suc (tick d) + 2\<rparr>)" using seen by blast
  obtain e' where r': "GetMinerStatsReport p a (d\<lparr>tick := Suc (tick d) + 2\<rparr>) = (Ok (Some ?r, Some e'), d\<lparr>tick := Suc (Suc (tick d) + 2)\<rparr>)"
    using run by blast
  obtain s' where s': "GetWorkersLastSeen p a (d\<lparr>tick := Suc (Suc (tick d) + 2)\<rparr>) = (Ok s', d\<lparr>tick := Suc (Suc (tick d) + 2) + 2\<rparr>)"
    using seen by blast
  have none: "in_order o' [] = []" for o' :: "string list \<Rightarrow> string list" and v :: WorkerStat
    by (simp add: in_order_def List.map_filter_def)
  have "Workers newWorkerReport = []" by (simp add: newWorkerReport_def)
  moreover obtain rows where "worker_rows [] (in_order (ord (Suc (Suc (tick d) + 2) + 2)) (Workers s')) = Ok rows"
    using worker_rows_zero by (auto simp: is_ok_iff)
  moreover have "map_of (padZeros (GetPendingAmounts []) names) c = (if c \<in> set names then Some fzero else None)" for c
    by (simp add: padZeros_lookup GetPendingAmounts_def)
  ultimately show ?thesis
    unfolding dashboard_run [OF assms(1) r s r' s'] by (simp add: none zero_displayed Let_def)
qed

section \<open>Witnesses\<close>

text \<open>A miner whose worker found shares but has no hash rate yet.\<close>

definition idle_db :: db where
  "idle_db = reported_db\<lparr>minerstats := [\<lparr>msPoolID = ''p'', msMiner = ''D1'', msWorker = ''rig'', msHashrate = fzero,
     msSharesPerSecond = Fin False 1, msCreated = 900\<rparr>]\<rparr>"

lemmas idle_simps = idle_db_def reported_db_def sample_db_def query_def sql_def Let_def time_Add_def stat_match_def distinct_keys_def

lemma small_floats: "float_of_int double 1 = Fin False 1" "fpack double False 1 = Fin False 1" "fpack double False 0 = fzero"
  using float_int_exact [of 1] fpack_double [of 1 1 0 False] by (simp_all add: fpack_def)

lemma idle_averages:
  "GetMinerHourlyAveragesBetween ''p'' ''D1'' (time_Add 1000 (- 86400000000000)) 1001 (idle_db\<lparr>tick := 2\<rparr>) =
     (Ok [(''rig'', [\<lparr>maWorker = ''rig'', maCreated = 0, AverageHashrate = fzero, AverageSharesPerSecond = Fin False 1\<rparr>])], idle_db\<lparr>tick := 3\<rparr>)"
proof -
  have "pg_add fzero fzero = Ok fzero" "pg_add fzero (Fin False 1) = Ok (Fin False 1)" "div64 fzero (Fin False 1) = fzero"
      "div64 (Fin False 1) (Fin False 1) = Fin False 1"
    by (simp_all add: pg_add_def small_floats Let_def)
  then show ?thesis
    by (simp add: idle_simps GetMinerHourlyAveragesBetween_def period_groups_def stats_between_def small_floats
        averages_of_def pg_avg_def append_average_def date_trunc_def hour_def)
qed

lemma history_of_hours_witness:
  "\<exists>hs. getMinerHistory (\<lambda>n. id) ''p'' ''D1'' idle_db = (Ok (Some hs), idle_db\<lparr>tick := 3\<rparr>) \<and> length hs = 24 \<and>
     hsCreated (hs ! 23) = 0 \<and> hsSharesPerSecond (hs ! 23) = Fin False 1 \<and> hsSharesPerSecond (hs ! 22) = fzero"
proof -
  let ?a = "\<lparr>maWorker = ''rig'', maCreated = 0, AverageHashrate = fzero, AverageSharesPerSecond = Fin False 1\<rparr>"
  have clock: "clock idle_db (tick idle_db) = 1000" "1001 = clock idle_db (tick idle_db + 1)" "tick idle_db + 2 = 2" by (simp_all add: idle_simps)
  have averages: "[(''rig'', ?a)] = rig_averages (in_order ((\<lambda>n. id) (tick (idle_db\<lparr>tick := 3\<rparr>))) [(''rig'', [?a])])"
    by (simp add: rig_averages_def in_order_def List.map_filter_def)
  have shown: "\<forall>(rig, as) \<in> set [(''rig'', [?a])]. \<forall>a \<in> set as. is_ok (floatToHashrate (AverageHashrate a))"
    by (simp add: zero_displayed)
  note history = history_of_hours [of "''p'' :: string" "''D1''" idle_db 1001, unfolded clock(1,3), OF idle_averages clock(2) shown averages]
  then obtain hs where "getMinerHistory (\<lambda>n. id) ''p'' ''D1'' idle_db = (Ok (Some hs), idle_db\<lparr>tick := 3\<rparr>)" "length hs = 24"
      and slots: "\<And>j. j < 24 \<Longrightarrow> let t = date_trunc hour 1001 - (23 - int j) * hour; as = of_hour t [(''rig'', ?a)] in
      hsCreated (hs ! j) = t \<and> Raw (hsRate (hs ! j)) = foldl add64 fzero (map AverageHashrate as) \<and>
      hsSharesPerSecond (hs ! j) = foldl add64 fzero (map AverageSharesPerSecond as)"
    by blast
  with slots [of 22] slots [of 23] show ?thesis
    by (intro exI [of _ hs]) (simp add: of_hour_def date_trunc_def hour_def Let_def small_floats)
qed

lemma idle_report:
  assumes "n < 100"
  shows "GetMinerStatsReport ''p'' ''D1'' (idle_db\<lparr>tick := n\<rparr>) = (Ok (Some \<lparr>mrCreated = 900,
      mrAccounts = [(''dogecoin'', zero_account\<lparr>PendingBalance := decimal32 500000000, LastPayment := zero_payment\<rparr>)],
      mrWorkers = newWorkerReport\<lparr>Workers := [(''rig'', zero_worker\<lparr>wsWorker := ''rig'', wsSharesPerSecond := Fin False 1\<rparr>)]\<rparr>\<rparr>, None),
    idle_db\<lparr>tick := n + 8\<rparr>)"
  using assms
  by (simp add: idle_simps GetMinerStatsReport_def act_bind_def pending_shares_def report_queries report_workers_def MinerLastPayments_def
      on_error_def ret_def attempt_def pg_sum_def scan_float_def LastStatUpdate_def GetMinerStatsByCreatedTime_def owed_rows_def
      paid_rows_def put_accounts_def put_account_def Now_def minerStatWindow_def fill_workers_def newWorkerReport_def zero_worker_def
      zero_account_def)

lemma idle_dashboard:
  "\<exists>page d'. getDashboardStats (\<lambda>n. id) ''p'' ''D1'' [''dogecoin''] idle_db = (Ok (Some page), d') \<and> ActiveWorkers page = 1"
proof -
  obtain seen where seen: "GetWorkersLastSeen ''p'' ''D1'' (idle_db\<lparr>tick := 8\<rparr>) = (Ok seen, idle_db\<lparr>tick := 10\<rparr>)"
      "Workers seen = [(''rig'', zero_worker\<lparr>wsStatus := worker_status 1009 5, wsLastSeen := 5\<rparr>)]"
    by (simp add: idle_simps GetWorkersLastSeen_def on_error_def act_bind_def attempt_def Now_def ret_def newWorkerReport_def day_def hour_def)
  obtain seen' where seen': "GetWorkersLastSeen ''p'' ''D1'' (idle_db\<lparr>tick := 18\<rparr>) = (Ok seen', idle_db\<lparr>tick := 20\<rparr>)"
      "Workers seen' = [(''rig'', zero_worker\<lparr>wsStatus := worker_status 1019 5, wsLastSeen := 5\<rparr>)]"
    by (simp add: idle_simps GetWorkersLastSeen_def on_error_def act_bind_def attempt_def Now_def ret_def newWorkerReport_def day_def hour_def)
  have report: "GetMinerStatsReport ''p'' ''D1'' idle_db = (Ok (Some \<lparr>mrCreated = 900,
      mrAccounts = [(''dogecoin'', zero_account\<lparr>PendingBalance := decimal32 500000000, LastPayment := zero_payment\<rparr>)],
      mrWorkers = newWorkerReport\<lparr>Workers := [(''rig'', zero_worker\<lparr>wsWorker := ''rig'', wsSharesPerSecond := Fin False 1\<rparr>)]\<rparr>\<rparr>, None),
    idle_db\<lparr>tick := 8\<rparr>)"
    using idle_report [of 0] by (simp add: idle_simps)
  have status: "worker_status 1009 5 = ''Active''" using worker_status_minutes [of 5 1009] by simp
  show ?thesis
    using dashboard_run [OF _ report seen(1) idle_report [of 10, simplified] seen'(1), of "\<lambda>n. id" "[''dogecoin'']"]
    by (simp add: seen(2) seen'(2) in_order_def List.map_filter_def zero_worker_def zero_displayed small_floats status Let_def newWorkerReport_def)
qed

lemma dashboard_shows_ledger_witness:
  "\<exists>page d'. getDashboardStats (\<lambda>n. id) ''p'' ''D1'' [''dogecoin''] idle_db = (Ok (Some page), d') \<and>
     map_of (dbBalances page) ''dogecoin'' = Some (decimal32 500000000) \<and> ActiveWorkers page = 1"
proof -
  have "\<forall>n. faults idle_db n = None" "keys_distinct idle_db" "pending_sum idle_db ''p'' ''D1'' = Ok (Some (Fin False 1))"
      "filter (stat_match ''p'' ''D1'') (minerstats idle_db) \<noteq> []" "bal idle_db (''p'', ''dogecoin'', ''D1'') = 500000000"
    by (simp_all add: idle_simps keys_distinct_def pending_sum_def pg_sum_def bal_def)
  with dashboard_shows_ledger [of "''D1''" idle_db "''p''" _ "[''dogecoin'']" "\<lambda>n. id"] idle_dashboard show ?thesis by fastforce
qed

lemma dashboard_without_shares_witness:
  "bal (idle_db\<lparr>shares := []\<rparr>) (''p'', ''dogecoin'', ''D1'') = 500000000 \<and>
   (\<exists>page d'. getDashboardStats (\<lambda>n. id) ''p'' ''D1'' [''dogecoin''] (idle_db\<lparr>shares := []\<rparr>) = (Ok (Some page), d') \<and>
     map_of (dbBalances page) ''dogecoin'' = Some fzero)"
proof -
  have "\<forall>n. faults (idle_db\<lparr>shares := []\<rparr>) n = None" by (simp add: idle_simps)
  moreover have "bal (idle_db\<lparr>shares := []\<rparr>) (''p'', ''dogecoin'', ''D1'') = 500000000" by (simp add: idle_simps bal_def)
  ultimately show ?thesis
    using dashboard_without_shares [of "''D1''" "idle_db\<lparr>shares := []\<rparr>" "''p''" "\<lambda>n. id" "[''dogecoin'']"] by fastforce
qed

end
