(* ===== verification/NodeHelper.thy ===== *)
theory NodeHelper
  imports Stratum
begin

text \<open>
  Calls of nodes that no other package uses: the older client of \<open>bitcoin/rpc.go\<close>, which is made once and
  kept in a variable of the package, and the receipts of \<open>rpc/transactions.go\<close>.  The HTTP client is a
  parameter, a function of the URL, the time-out, the request and the outside world.
\<close>

section \<open>The older client\<close>

record helper_client =
  hcURL :: string
  sickRate :: int
  hcTimeout :: int

record 'w helper =
  helperClient :: "helper_client option"
  helperWorld :: 'w

text \<open>A URL that cannot be used, no answer, or a status and a body, which may not be JSON.\<close>

datatype helper_reply = BadRequest string | NoAnswer string | Body nat "string + json"

type_synonym 'w helper_http = "string \<Rightarrow> int \<Rightarrow> rpcRequest \<Rightarrow> 'w \<Rightarrow> helper_reply \<times> 'w"

definition makeRPCClient :: "string \<Rightarrow> string \<Rightarrow> helper_client res" where
  "makeRPCClient url timeout = (case ParseDuration timeout of
     Ok timeOut \<Rightarrow> Ok \<lparr>hcURL = url, sickRate = 0, hcTimeout = timeOut\<rparr>
   | Err e \<Rightarrow> Panic (''util: Can'' @ [CHR 0x27] @ ''blockTemplate parse duration `'' @ timeout @ ''`: '' @ e)
   | Panic m \<Rightarrow> Panic m)"

text \<open>The reply is decoded into a value the caller passes; the result is the error, the status and that value.\<close>

definition helper_Call :: "'w helper_http \<Rightarrow> string \<Rightarrow> rpc_param list \<Rightarrow> 'r decoder \<Rightarrow> 'r \<Rightarrow> ('w helper, string option \<times> nat \<times> 'r) act" where
  "helper_Call http method args decode reply s =
     (case helperClient s of
        None \<Rightarrow> (nil_pointer, s)
      | Some r \<Rightarrow>
        let jsonStr = \<lparr>rqID = 1219, JsonRPCVersion = ''2.0'', Method = method, Parameters = Some args\<rparr> in
        if \<not> list_all param_ok args then (Ok (Some ''json: unsupported value'', 0, reply), s)
        else case http (hcURL r) (hcTimeout r) jsonStr (helperWorld s) of
          (BadRequest e, w) \<Rightarrow> (Ok (Some e, 0, reply), s\<lparr>helperWorld := w\<rparr>)
        | (NoAnswer e, w) \<Rightarrow> (Ok (Some e, 0, reply), s\<lparr>helperClient := Some (r\<lparr>sickRate := sickRate r + 1\<rparr>), helperWorld := w\<rparr>)
        | (Body status (Inl e), w) \<Rightarrow> (Ok (Some e, status, reply), s\<lparr>helperWorld := w\<rparr>)
        | (Body status (Inr j), w) \<Rightarrow>
            (case decode j reply of (e, v) \<Rightarrow> (Ok (e, status, v), s\<lparr>helperWorld := w\<rparr>)))"

definition zero_response :: rpcResponse where
  "zero_response = \<lparr>Result = None, ErrorField = \<lparr>Code = 0, Message = []\<rparr>, rsID = 0\<rparr>"

definition response_fields :: "rpcResponse fields" where
  "response_fields = (let i64 = dec_int (- (2 ^ 63)) (2 ^ 63) in [
     (''result'', \<lambda>j x. (None, x\<lparr>Result := Some j\<rparr>)),
     (''error'', dec_at ErrorField (\<lambda>v x. x\<lparr>ErrorField := v\<rparr>) (dec_struct [
        (''code'', dec_at Code (\<lambda>v x. x\<lparr>Code := v\<rparr>) i64),
        (''message'', dec_at Message (\<lambda>v x. x\<lparr>Message := v\<rparr>) dec_string)])),
     (''id'', dec_at rsID (\<lambda>v x. x\<lparr>rsID := v\<rparr>) i64)])"

text \<open>The client is made by the first call, with the URL and the time-out of that call.\<close>

definition ensure_client :: "string \<Rightarrow> string \<Rightarrow> ('w helper, unit) act" where
  "ensure_client rpcURL timeout s = (case helperClient s of
     Some r \<Rightarrow> (Ok (), s)
   | None \<Rightarrow> (case makeRPCClient rpcURL timeout of
       Ok r \<Rightarrow> (Ok (), s\<lparr>helperClient := Some r\<rparr>) | Err e \<Rightarrow> (Err e, s) | Panic m \<Rightarrow> (Panic m, s)))"

definition RpcTemplate :: "'w helper_http \<Rightarrow> string \<Rightarrow> string \<Rightarrow> ('w helper, template) act" where
  "RpcTemplate http rpcURL timeout =
     act_bind (ensure_client rpcURL timeout) (\<lambda>_.
     act_bind (helper_Call http ''getblocktemplate'' [PRules [(''rules'', [''mweb'', ''segwit''])]]
         (dec_struct response_fields) zero_response) (\<lambda>(err, status, resp).
     case err of
       Some e \<Rightarrow> lift_res (Panic e)
     | None \<Rightarrow> (case Unmarshal (dec_struct template_fields) (Result resp) zero_template of
         (Some e, t) \<Rightarrow> lift_res (Panic e) | (None, t) \<Rightarrow> ret t)))"

text \<open>The reply is passed by value: the decoder refuses what is not a pointer.\<close>

definition not_a_pointer :: "rpcResponse decoder" where
  "not_a_pointer j x = (Some ''json: Unmarshal(non-pointer bitcoin.rpcResponse)'', x)"

definition raw_text :: "(json \<Rightarrow> string) \<Rightarrow> json option \<Rightarrow> string" where
  "raw_text show r = (case r of None \<Rightarrow> [] | Some j \<Rightarrow> show j)"

definition RpcSubmit :: "'w helper_http \<Rightarrow> (json \<Rightarrow> string) \<Rightarrow> string \<Rightarrow> string \<Rightarrow> string \<Rightarrow> ('w helper, unit) act" where
  "RpcSubmit http show rpcURL timeout submission =
     act_bind (ensure_client rpcURL timeout) (\<lambda>_.
     act_bind (helper_Call http ''submitblock'' [PStr submission] not_a_pointer zero_response) (\<lambda>(err, status, resp).
     case err of
       Some e \<Rightarrow> lift_res (Err e)
     | None \<Rightarrow>
         if status \<noteq> 200 then lift_res (Err (''http status: '' @ dec_text status @ '', '' @ raw_text show (Result resp)))
         else ret ()))"

text \<open>No submission succeeds: also when the node has accepted the block, the caller gets an error.\<close>

lemma RpcSubmit_never_Ok: "fst (RpcSubmit http show rpcURL timeout submission s) \<noteq> Ok ()"
  by (auto simp: RpcSubmit_def act_bind_def helper_Call_def not_a_pointer_def lift_res_def nil_pointer_def Let_def
      split: res.splits option.splits prod.splits helper_reply.splits sum.splits)

text \<open>The node is chosen once: after the first call the URL stays, whatever later calls ask for.\<close>

lemma helper_Call_client:
  "helper_Call http m args decode reply s = (r, s') \<Longrightarrow> map_option hcURL (helperClient s') = map_option hcURL (helperClient s)"
  by (auto simp: helper_Call_def Let_def split: option.splits if_splits prod.splits helper_reply.splits sum.splits)

lemma ensure_client_keeps: "helperClient s = Some c \<Longrightarrow> ensure_client url t s = (Ok (), s)"
  by (simp add: ensure_client_def)

lemma node_chosen_once:
  assumes "helperClient s = Some c" and "RpcTemplate http url t s = (r, s') \<or> RpcSubmit http show url t sub s = (r', s')"
  shows "map_option hcURL (helperClient s') = Some (hcURL c)"
  using assms(2) helper_Call_client
  by (fastforce simp: RpcTemplate_def RpcSubmit_def act_bind_def [of "ensure_client _ _"] ensure_client_keeps [OF assms(1)] act_bind_def lift_res_def
      ret_def assms(1) split: res.splits prod.splits option.splits if_splits)

section \<open>Receipts\<close>

record TxReceipt =
  trBlockHeight :: int
  trBlockHash :: string
  trBlockTime :: int
  trFee :: fl
  ConfirmedCount :: int
  TxId :: string

definition Confirmed :: "TxReceipt \<Rightarrow> bool" where
  "Confirmed r \<longleftrightarrow> 1 < ConfirmedCount r"

definition Successful :: "TxReceipt \<Rightarrow> bool" where
  "Successful r \<longleftrightarrow> Confirmed r"

definition zero_receipt :: TxReceipt where
  "zero_receipt = \<lparr>trBlockHeight = 0, trBlockHash = [], trBlockTime = 0, trFee = fzero, ConfirmedCount = 0, TxId = []\<rparr>"

text \<open>A time is read from a text only, by \<open>parseTime\<close>; anything else ends the decoding at that member.\<close>

definition receipt_fields :: "(string \<Rightarrow> int option) \<Rightarrow> TxReceipt fields" where
  "receipt_fields parseTime = [
     (''BlockHeight'', dec_at trBlockHeight (\<lambda>v x. x\<lparr>trBlockHeight := v\<rparr>) (dec_int 0 (2 ^ 64))),
     (''blockhash'', dec_at trBlockHash (\<lambda>v x. x\<lparr>trBlockHash := v\<rparr>) dec_string),
     (''blocktime'', \<lambda>j x. case j of JStr s \<Rightarrow> (case parseTime s of Some t \<Rightarrow> (None, x\<lparr>trBlockTime := t\<rparr>) | None \<Rightarrow> (None, x)) | _ \<Rightarrow> (None, x)),
     (''fee'', dec_at trFee (\<lambda>v x. x\<lparr>trFee := v\<rparr>) (dec_float single)),
     (''confirmations'', dec_at ConfirmedCount (\<lambda>v x. x\<lparr>ConfirmedCount := v\<rparr>) (dec_int (- (2 ^ 63)) (2 ^ 63))),
     (''txid'', dec_at TxId (\<lambda>v x. x\<lparr>TxId := v\<rparr>) dec_string)]"

definition bad_time :: "(string \<Rightarrow> int option) \<Rightarrow> string \<times> json \<Rightarrow> bool" where
  "bad_time parseTime = (\<lambda>(k, j). fold_eq ''blocktime'' k \<and> j \<noteq> JNull \<and> (case j of JStr s \<Rightarrow> parseTime s = None | _ \<Rightarrow> True))"

definition read_receipt :: "(string \<Rightarrow> int option) \<Rightarrow> json option \<Rightarrow> TxReceipt" where
  "read_receipt parseTime result = (case result of
     Some (JObj members) \<Rightarrow>
       snd (dec_members (receipt_fields parseTime) (takeWhile (\<lambda>m. \<not> bad_time parseTime m) members) zero_receipt)
   | _ \<Rightarrow> zero_receipt)"

definition GetTxReceipt :: "'w transport \<Rightarrow> (string \<Rightarrow> int option) \<Rightarrow> RPCClient \<Rightarrow> string \<Rightarrow> ('w, TxReceipt) act" where
  "GetTxReceipt http parseTime r txId = call http r ''gettransaction'' (Some [PStr txId]) (\<lambda>result.
     let rcpt = read_receipt parseTime result in
     act_bind (GetBlockByHash http r (trBlockHash rcpt)) (\<lambda>block. ret (rcpt\<lparr>trBlockHeight := gbHeight block\<rparr>)))"

text \<open>A node that reports the time of a block as a number, as bitcoind does, hides every member after it.\<close>

lemma number_ends_receipt:
  "\<forall>m \<in> set before. \<not> bad_time parseTime m \<Longrightarrow>
   read_receipt parseTime (Some (JObj (before @ (''blocktime'', JInt t) # after))) = read_receipt parseTime (Some (JObj before))"
proof -
  assume before: "\<forall>m \<in> set before. \<not> bad_time parseTime m"
  have "bad_time parseTime (''blocktime'', JInt t)" by (simp add: bad_time_def fold_eq_def)
  moreover have same: "takeWhile (\<lambda>m. \<not> bad_time parseTime m) before = before" using before by (simp add: takeWhile_eq_all_conv)
  ultimately have "takeWhile (\<lambda>m. \<not> bad_time parseTime m) (before @ (''blocktime'', JInt t) # after) = before"
    using before by simp
  then show ?thesis unfolding read_receipt_def by (simp only: option.case json.case same)
qed

end
