(* ===== verification/Unlock.thy ===== *)
theory Unlock
  imports Rewards Chains
begin

text \<open>
  \<open>payouts/unlock.go\<close>: the confirmation of the pool's pending blocks.  The nodes are asked for each
  block and its coinbase transaction; the category of the coinbase decides the state of the block.
\<close>

text \<open>\<open>payouts/encoding.go\<close>: the \<open>float32\<close> version.\<close>

definition roundToThreeDigits32 :: "fl \<Rightarrow> fl" where
  "roundToThreeDigits32 x =
     float_convert single (div64 (math_Round (mul64 x (Fin False 1000))) (Fin False 1000))"

definition newline :: string where "newline = [CHR 0x0a]"

text \<open>\<open>errors.Join\<close> of two errors.\<close>

definition join_errors :: "string \<Rightarrow> string \<Rightarrow> string" where
  "join_errors a b = a @ newline @ b"

definition block_label :: "Found \<Rightarrow> string" where
  "block_label b = fChain b @ '' block '' @ dec_text (BlockHeight b) @ '', '' @ Hash b"

definition active_client :: "Manager \<Rightarrow> ('w world, RPCClient) act" where
  "active_client m = lift_res (GetActiveClient m)"

text \<open>The confirmation data of the block, after the comparison with the node's coinbase.  The local
  copy gets the node's value when it had none; it is not written back.\<close>

definition confirmation_data :: "Found \<Rightarrow> string \<Rightarrow> string res" where
  "confirmation_data localBlock remote =
     (if TransactionConfirmationData localBlock \<noteq> [] then
        (if TransactionConfirmationData localBlock \<noteq> remote
         then Err ([CHR 0xE2, CHR 0x9A, CHR 0xA0, CHR 0xEF, CHR 0xB8, CHR 0x8F] @ ''  Our confirmation data for '' @ fChain localBlock @
           '' height '' @ dec_text (BlockHeight localBlock) @ '' does not match the blockchains: (local) '' @
           TransactionConfirmationData localBlock @ '' <> (remote) '' @ remote)
         else Ok (TransactionConfirmationData localBlock))
      else Ok remote)"

text \<open>The switch on the category.\<close>

definition classified :: "scrypt_fn \<Rightarrow> Found \<Rightarrow> Transaction \<Rightarrow> Found res" where
  "classified scrypt b tx =
     (case Details tx of
        [] \<Rightarrow> Panic ''index out of range''
      | details # rest \<Rightarrow>
        if tdCategory details = ''immature'' then
          res_bind (GetChain scrypt (fChain b)) (\<lambda>chain.
            Ok (b\<lparr>ConfirmationProgress := roundToThreeDigits32 (fdiv single (float_of_int single (Confirmations tx))
                    (float_of_int single (int (MinimumConfirmations chain)))),
                  Reward := txAmount tx\<rparr>))
        else if tdCategory details = ''generate'' then
          Ok (b\<lparr>Status := StatusConfirmed, ConfirmationProgress := Fin False 1, Reward := txAmount tx\<rparr>)
        else Ok (b\<lparr>Status := StatusOrphaned, Reward := fzero\<rparr>))"

definition classify_block :: "scrypt_fn \<Rightarrow> 'w transport \<Rightarrow> (string \<Rightarrow> Manager option) \<Rightarrow> Found \<Rightarrow> ('w world, Found) act" where
  "classify_block scrypt http rpcManagers localBlock =
     (case rpcManagers (fChain localBlock) of
        None \<Rightarrow> lift_res (Err (''unlocker failed to find node for: '' @ fChain localBlock))
      | Some rpcManager \<Rightarrow>
        act_bind (active_client rpcManager) (\<lambda>client.
        act_bind (map_error (join_errors (''unlocker failed to find remote block for '' @ block_label localBlock))
          (on_nodes (GetBlockByHash http client (Hash localBlock)))) (\<lambda>remoteBlock.
        case gbTransactions remoteBlock of
          [] \<Rightarrow> lift_res (Err (''unlocker failed to fetch transaction confirmation for '' @ block_label localBlock))
        | first # rest \<Rightarrow>
          act_bind (lift_res (payouts_reverseHexBytes first)) (\<lambda>remote.
          act_bind (lift_res (confirmation_data localBlock remote)) (\<lambda>confirmation.
          act_bind (lift_res (payouts_reverseHexBytes confirmation)) (\<lambda>littleEndian.
          act_bind (map_error (join_errors (fChain localBlock @ '' Block '' @ dec_text (BlockHeight localBlock) @
              '': (confirmation) '' @ confirmation))
            (on_nodes (GetTransaction http client littleEndian))) (\<lambda>coinbaseTransaction.
          lift_res (classified scrypt localBlock coinbaseTransaction))))))))"

definition classifyBlocks :: "scrypt_fn \<Rightarrow> 'w transport \<Rightarrow> (string \<Rightarrow> Manager option) \<Rightarrow> Found list \<Rightarrow> ('w world, Found list) act" where
  "classifyBlocks scrypt http rpcManagers found = map_each found (classify_block scrypt http rpcManagers)"

text \<open>The effort: \<open>from\<close> keeps the value of the previous round of the loop when no block precedes.\<close>

fun effort_loop :: "string \<Rightarrow> int \<Rightarrow> Found list \<Rightarrow> ('z db_scheme, Found list) act" where
  "effort_loop poolID from_time [] = ret []"
| "effort_loop poolID from_time (block # rest) =
     act_bind (map_error (\<lambda>e. ''blockEffort BlockBefore: '' @ e)
       (BlockBefore poolID [StatusConfirmed, StatusOrphaned, StatusPending] (Created block))) (\<lambda>lastBlock.
     let from' = (case lastBlock of None \<Rightarrow> from_time | Some b \<Rightarrow> Created b) in
     act_bind (map_error (\<lambda>e. ''blockEffort GetEffectiveAccumulatedShareDifficultyBetween: '' @ e)
       (GetEffectiveAccumulatedShareDifficultyBetween poolID from' (Created block))) (\<lambda>effort.
     act_bind (effort_loop poolID from' rest) (\<lambda>bs. ret (block\<lparr>Effort := effort\<rparr> # bs))))"

definition calculateBlockEffort :: "Found list \<Rightarrow> string \<Rightarrow> ('z db_scheme, Found list) act" where
  "calculateBlockEffort found poolID = effort_loop poolID 0 found"

definition unlockBlocks :: "scrypt_fn \<Rightarrow> 'w transport \<Rightarrow> string \<Rightarrow> (string \<Rightarrow> Manager option) \<Rightarrow> ('w world, Found list) act" where
  "unlockBlocks scrypt http poolID rpcManagers =
     act_bind (PendingBlocksForPool poolID) (\<lambda>pending.
     act_bind (classifyBlocks scrypt http rpcManagers pending) (\<lambda>found.
       calculateBlockEffort found poolID))"

section \<open>Properties\<close>

text \<open>The columns unlocking may change.\<close>

definition same_block :: "Found \<Rightarrow> Found \<Rightarrow> bool" where
  "same_block b c \<longleftrightarrow>
     c\<lparr>Status := [], ConfirmationProgress := fzero, Reward := fzero, Effort := fzero\<rparr> =
     b\<lparr>Status := [], ConfirmationProgress := fzero, Reward := fzero, Effort := fzero\<rparr>"

lemma same_block_refl [simp]: "same_block b b"
  by (simp add: same_block_def)

lemma same_block_trans: "same_block a b \<Longrightarrow> same_block b c \<Longrightarrow> same_block a c"
  by (simp add: same_block_def)

lemma same_block_fields: "same_block b c \<Longrightarrow> ID c = ID b \<and> fPoolID c = fPoolID b \<and> fChain c = fChain b \<and>
    BlockHeight c = BlockHeight b \<and> Hash c = Hash b \<and> Miner c = Miner b \<and> Created c = Created b \<and> Type c = Type b \<and>
    TransactionConfirmationData c = TransactionConfirmationData b"
  by (cases b, cases c) (simp add: same_block_def)

lemma same_block_update: "same_block b (b\<lparr>ConfirmationProgress := p, Reward := r\<rparr>)"
  "same_block b (b\<lparr>Status := s, ConfirmationProgress := p, Reward := r\<rparr>)" "same_block b (b\<lparr>Status := s, Reward := r\<rparr>)"
  "same_block b (b\<lparr>Effort := e\<rparr>)"
  by (simp_all add: same_block_def)

text \<open>What one category does to a block.\<close>

definition verdict :: "Found \<Rightarrow> Found \<Rightarrow> bool" where
  "verdict b c \<longleftrightarrow> same_block b c \<and>
     (Status c = Status b \<or>
      Status c = StatusConfirmed \<and> ConfirmationProgress c = Fin False 1 \<or>
      Status c = StatusOrphaned \<and> Reward c = fzero \<and> ConfirmationProgress c = ConfirmationProgress b)"

lemma classified_verdict: "classified scrypt b tx = Ok c \<Longrightarrow> verdict b c"
  unfolding classified_def verdict_def
  by (auto simp: outcome_simps same_block_update split: list.splits if_splits)

text \<open>The nodes and the clock may move, the tables do not.\<close>

definition tables_same :: "'w world \<Rightarrow> 'w world \<Rightarrow> bool" where
  "tables_same s t \<longleftrightarrow> t\<lparr>tick := 0, nodes := nodes s\<rparr> = s\<lparr>tick := 0\<rparr> \<and> tick s \<le> tick t"

lemma tables_same_refl [simp]: "tables_same s s"
  by (cases s) (simp add: tables_same_def)

lemma tables_same_trans: "tables_same a b \<Longrightarrow> tables_same b c \<Longrightarrow> tables_same a c"
  by (cases a, cases b, cases c) (simp add: tables_same_def)

lemma tables_same_step: "tables_same a b \<Longrightarrow> tick b \<le> n \<Longrightarrow> tables_same a (b\<lparr>tick := n\<rparr>)"
  "tables_same a b \<Longrightarrow> tables_same a (b\<lparr>nodes := w\<rparr>)"
  by (cases a, cases b, simp add: tables_same_def)+

lemma tables_same_fields: "tables_same s t \<Longrightarrow> shares t = shares s \<and> blocks t = blocks s \<and> balances t = balances s \<and>
    balance_changes t = balance_changes s \<and> payments t = payments s \<and> miner_settings t = miner_settings s \<and>
    poolstats t = poolstats s \<and> minerstats t = minerstats s \<and> block_seq t = block_seq s \<and>
    faults t = faults s \<and> clock t = clock s \<and> to_decimal t = to_decimal s \<and> of_decimal t = of_decimal s"
  by (cases s, cases t) (simp add: tables_same_def)

lemma keeps_tables_query: "keeps (tables_same s) (query f)"
  by (rule keeps_query) (simp add: tables_same_step)

lemma keeps_tables_nodes: "keeps (tables_same s) (on_nodes f)"
  by (rule keeps_on_nodes) (simp add: tables_same_step)

lemmas tables_rules = keeps_tables_query keeps_tables_nodes keeps_bind keeps_map_error triple_ret triple_lift triple_gets

lemma classify_block_tables: "keeps (tables_same s) (classify_block scrypt http ms b)"
  unfolding classify_block_def active_client_def
  by (auto intro!: tables_rules split: option.splits list.splits)

lemma effort_loop_tables: "keeps (tables_same s) (effort_loop p t bs)"
  by (induction bs arbitrary: t)
     (auto simp: BlockBefore_def GetEffectiveAccumulatedShareDifficultyBetween_def Let_def intro!: tables_rules)

lemma unlockBlocks_tables: "keeps (tables_same s) (unlockBlocks scrypt http p ms)"
  unfolding unlockBlocks_def classifyBlocks_def calculateBlockEffort_def PendingBlocksForPool_def
  by (intro keeps_bind keeps_tables_query keeps_map_each classify_block_tables effort_loop_tables)

lemma map_each_all2:
  "map_each xs f s = (Ok ys, s') \<Longrightarrow> (\<And>x y t t'. x \<in> set xs \<Longrightarrow> f x t = (Ok y, t') \<Longrightarrow> R x y) \<Longrightarrow> list_all2 R xs ys"
proof (induction xs arbitrary: ys s)
  case Nil
  then show ?case by (simp add: ret_def)
next
  case (Cons x xs)
  then obtain y t zs where "f x s = (Ok y, t)" "map_each xs f t = (Ok zs, s')" "ys = y # zs"
    by (auto simp: act_bind_Ok_iff ret_def)
  with Cons show ?case by (auto intro!: Cons.IH)
qed

text \<open>What an action returns, when only the last step of a composition matters.\<close>

abbreviation returns :: "('s, 'a) act \<Rightarrow> ('a \<Rightarrow> bool) \<Rightarrow> bool" where
  "returns m Q \<equiv> triple (\<lambda>_. True) m (\<lambda>x _. Q x) (\<lambda>_. True)"

lemma returns_bind: "(\<And>x. returns (f x) Q) \<Longrightarrow> returns (act_bind m f) Q"
  by (rule triple_bind [where R = "\<lambda>_ _. True"]) (auto simp: triple_def split: res.splits)

lemma classify_block_verdict: "classify_block scrypt http ms b s = (Ok c, s') \<Longrightarrow> verdict b c"
proof -
  have "returns (classify_block scrypt http ms b) (verdict b)"
    unfolding classify_block_def
    by (auto intro!: returns_bind triple_lift split: option.split list.split dest: classified_verdict)
  then show "classify_block scrypt http ms b s = (Ok c, s') \<Longrightarrow> verdict b c"
    by (rule triple_OkD) simp
qed

lemma effort_loop_all2: "effort_loop p t bs s = (Ok cs, s') \<Longrightarrow> list_all2 (\<lambda>b c. c = b\<lparr>Effort := Effort c\<rparr>) bs cs"
proof (induction bs arbitrary: t s cs)
  case Nil
  then show ?case by (simp add: ret_def)
next
  case (Cons b bs)
  then obtain e t' u ds where "effort_loop p t' bs u = (Ok ds, s')" "cs = b\<lparr>Effort := e\<rparr> # ds"
    by (auto simp: act_bind_Ok_iff ret_def Let_def)
  with Cons.IH show ?case by auto
qed

lemma unlock_found:
  assumes "unlockBlocks scrypt http p ms s = (Ok bs, s')"
  shows "list_all2 (\<lambda>row c. ID c = ID (row_block row) \<and> fPoolID c = p \<and> fChain c = fChain (row_block row) \<and>
        BlockHeight c = BlockHeight (row_block row) \<and> Hash c = Hash (row_block row) \<and> Miner c = Miner (row_block row) \<and>
        Created c = Created (row_block row) \<and>
        (Status c = StatusPending \<or> Status c = StatusConfirmed \<and> ConfirmationProgress c = Fin False 1 \<or>
         Status c = StatusOrphaned \<and> Reward c = fzero))
      (filter (\<lambda>row. fPoolID (row_block row) = p \<and> Status (row_block row) = StatusPending) (blocks s)) bs"
proof -
  let ?rows = "filter (\<lambda>row. fPoolID (row_block row) = p \<and> Status (row_block row) = StatusPending) (blocks s)"
  have row: "block_of_row (s\<lparr>tick := n\<rparr>) = block_of_row s" for n by (simp add: fun_eq_iff block_of_row_def)
  obtain s1 s2 cs where pend: "PendingBlocksForPool p s = (Ok (map (block_of_row s) ?rows), s1)"
    and cl: "map_each (map (block_of_row s) ?rows) (classify_block scrypt http ms) s1 = (Ok cs, s2)"
    and ef: "effort_loop p 0 cs s2 = (Ok bs, s')"
    using assms by (auto simp: unlockBlocks_def classifyBlocks_def calculateBlockEffort_def act_bind_Ok_iff
        PendingBlocksForPool_def query_Ok row)
  have v: "list_all2 verdict (map (block_of_row s) ?rows) cs"
    by (rule map_each_all2 [OF cl classify_block_verdict])
  have e: "list_all2 (\<lambda>b c. c = b\<lparr>Effort := Effort c\<rparr>) cs bs" by (rule effort_loop_all2 [OF ef])
  let ?R = "\<lambda>b c. \<exists>d. verdict b d \<and> c = d\<lparr>Effort := Effort c\<rparr>"
  have "list_all2 ?R (map (block_of_row s) ?rows) bs"
    by (rule list_all2_trans [OF _ v e]) blast
  then have "list_all2 (\<lambda>row c. ?R (block_of_row s row) c) ?rows bs" by (simp add: list_all2_map1)
  then show "list_all2 (\<lambda>row c. ID c = ID (row_block row) \<and> fPoolID c = p \<and> fChain c = fChain (row_block row) \<and>
        BlockHeight c = BlockHeight (row_block row) \<and> Hash c = Hash (row_block row) \<and> Miner c = Miner (row_block row) \<and>
        Created c = Created (row_block row) \<and>
        (Status c = StatusPending \<or> Status c = StatusConfirmed \<and> ConfirmationProgress c = Fin False 1 \<or>
         Status c = StatusOrphaned \<and> Reward c = fzero)) ?rows bs"
  proof (rule list.rel_mono_strong)
    fix row c
    assume row: "row \<in> set ?rows" and "?R (block_of_row s row) c"
    then obtain d e where d: "verdict (block_of_row s row) d" and c: "c = d\<lparr>Effort := e\<rparr>" by blast
    show "ID c = ID (row_block row) \<and> fPoolID c = p \<and> fChain c = fChain (row_block row) \<and>
        BlockHeight c = BlockHeight (row_block row) \<and> Hash c = Hash (row_block row) \<and> Miner c = Miner (row_block row) \<and>
        Created c = Created (row_block row) \<and>
        (Status c = StatusPending \<or> Status c = StatusConfirmed \<and> ConfirmationProgress c = Fin False 1 \<or>
         Status c = StatusOrphaned \<and> Reward c = fzero)"
      using d row by (auto simp: c verdict_def block_of_row_def dest: same_block_fields)
  qed
qed


section \<open>A node for the witnesses\<close>

definition node_answer :: "json \<Rightarrow> http_reply" where
  "node_answer j = Reply 200 \<lparr>Result = Some j, ErrorField = \<lparr>Code = 0, Message = []\<rparr>, rsID = 1219\<rparr>"

text \<open>The block is mature; the world counts the payments the node was asked to send.\<close>

definition sample_node :: "nat transport" where
  "sample_node url rq w =
     (if Method rq = ''getblock'' then (node_answer (JObj [(''tx'', JArr [JStr ''cdab''])]), w)
      else if Method rq = ''gettransaction'' then
        (node_answer (JObj [(''amount'', JInt 3), (''details'', JArr [JObj [(''category'', JStr ''generate'')]])]), w)
      else if Method rq = ''sendmany'' then (node_answer (JStr ''txid''), Suc w)
      else (NoReply ''connection refused'', w))"

definition sample_world :: "nat world" where
  "sample_world = \<lparr>shares = [], blocks = [\<lparr>row_block = sample_found, row_reward = 300000000\<rparr>], balances = [],
     balance_changes = [], payments = [], miner_settings = [], poolstats = [], minerstats = [], block_seq = 2, tick = 0,
     faults = (\<lambda>n. None), clock = (\<lambda>n. 1000 + int n), to_decimal = sample_decimal,
     of_decimal = (\<lambda>v. Fin (v < 0) (of_int \<bar>v\<bar> / 10 ^ 8)), nodes = 0\<rparr>"

definition sample_confirmed :: Found where
  "sample_confirmed = sample_found\<lparr>Status := StatusConfirmed, ConfirmationProgress := Fin False 1\<rparr>"

lemmas node_eval = sample_node_def node_answer_def on_nodes_def GetBlockByHash_def GetTransaction_def call_def doRequest_def
  Unmarshal_def unmarshal_or_fail_def block_reply_fields_def transaction_fields_def zero_block_reply_def zero_transaction_def
  details_fields_def zero_details_def dec_at_def fold_eq_def lower_char_def or_else_def rat_float_def

lemma fpack_3: "fpack double s 3 = Fin s 3"
  using fpack_double [of 3 3 0 s] by simp

lemma sample_getblock:
  "GetBlockByHash sample_node c h w = (Ok (zero_block_reply\<lparr>gbTransactions := [''cdab'']\<rparr>), w)"
  by (simp add: node_eval act_bind_def ret_def Let_def)

lemma sample_gettransaction:
  "GetTransaction sample_node c h w = (Ok (zero_transaction\<lparr>txAmount := Fin False 3,
     Details := [zero_details\<lparr>tdCategory := ''generate''\<rparr>]\<rparr>), w)"
  by (simp add: node_eval act_bind_def ret_def Let_def fpack_3)

lemma sample_reverse: "payouts_reverseHexBytes ''cdab'' = Ok ''abcd''" "payouts_reverseHexBytes ''abcd'' = Ok ''cdab''"
  by (simp_all add: payouts_reverseHexBytes_def revhex_loop.simps)

lemma sample_unlock:
  "unlockBlocks (\<lambda>b. None) sample_node ''p'' [''dogecoin'' \<mapsto> sample_manager] sample_world =
    (Ok [sample_confirmed], sample_world\<lparr>tick := 3\<rparr>)"
proof -
  have "classify_block (\<lambda>b. None) sample_node [''dogecoin'' \<mapsto> sample_manager] sample_found s = (Ok sample_confirmed, s)" for s
    by (simp add: classify_block_def sample_found_def sample_confirmed_def active_client_def GetActiveClient_def sample_manager_def
        act_bind_def lift_res_def map_error_def on_nodes_def sample_getblock sample_gettransaction confirmation_data_def
        sample_reverse classified_def zero_block_reply_def zero_transaction_def zero_details_def)
  then show ?thesis
    by (simp add: unlockBlocks_def classifyBlocks_def calculateBlockEffort_def act_bind_def PendingBlocksForPool_def query_def sql_def
        sample_world_def block_of_row_def sample_found_def sample_confirmed_def ret_def BlockBefore_def newest_first_def map_error_def
        GetEffectiveAccumulatedShareDifficultyBetween_def pg_sum_def status_any_def StatusPending_def StatusConfirmed_def Let_def)
qed


end
