(* ===== verification/Payer.thy ===== *)
theory Payer
  imports Unlock
begin

text \<open>
  \<open>payouts/payer.go\<close>: the balances over their threshold are grouped by chain, sent in one
  transaction per chain, recorded as payments and taken off the ledger.  Go maps are association
  lists; the order in which the chains are sent is the parameter \<open>ord\<close>.
\<close>

section \<open>Addresses\<close>

fun chain_position :: "string \<Rightarrow> string list \<Rightarrow> nat \<Rightarrow> nat option" where
  "chain_position chain [] i = None"
| "chain_position chain (c # order) i = (if c = chain then Some i else chain_position chain order (i + 1))"

definition findBalanceAddress :: "Balance \<Rightarrow> pool_config \<Rightarrow> string res" where
  "findBalanceAddress balance config =
     (let mergedMining = 1 < length (BlockChainOrder config) in
      if mergedMining then
        (let addresses = Split CHR ''-'' (Address balance) in
         if length addresses = 1 then Ok (hd addresses)
         else (case chain_position (Chain balance) (BlockChainOrder config) 0 of
             None \<Rightarrow> Err (''chain address not found: '' @ Chain balance)
           | Some i \<Rightarrow> if i < length addresses then Ok (addresses ! i) else Panic ''index out of range''))
      else Ok (Address balance))"

section \<open>Sending\<close>

type_synonym grouped = "(string \<times> (string \<times> fl) list) list"

fun group_payments :: "pool_config \<Rightarrow> grouped \<Rightarrow> Balance list \<Rightarrow> grouped res" where
  "group_payments config grouped [] = Ok grouped"
| "group_payments config grouped (balance # rest) =
     (let chainBalances = (case map_of grouped (Chain balance) of None \<Rightarrow> [] | Some m \<Rightarrow> m) in
      res_bind (findBalanceAddress balance config) (\<lambda>address.
        group_payments config
          (AList.update (Chain balance) (AList.update address (Amount balance) chainBalances) grouped) rest))"

fun send_all :: "'w transport \<Rightarrow> (string \<Rightarrow> Manager option) \<Rightarrow> (string \<times> string) list \<Rightarrow> grouped \<Rightarrow>
    ('w world, (string \<times> string) list) act" where
  "send_all http rpcManagers confirmations [] = ret confirmations"
| "send_all http rpcManagers confirmations ((chain, transactions) # rest) =
     (case rpcManagers chain of
        None \<Rightarrow> lift_res (Err (''payouts.bitcoinTryManyPayments() - failed to find chain rpc: '' @ chain))
      | Some manager \<Rightarrow>
        act_bind (active_client manager) (\<lambda>node.
        act_bind (map_error (join_errors (''failed to send '' @ chain @ '' payments''))
          (on_nodes (SendMany http node transactions))) (\<lambda>transactionID.
        send_all http rpcManagers (AList.update chain transactionID confirmations) rest)))"

definition bitcoinTryManyPayments :: "'w transport \<Rightarrow> (nat \<Rightarrow> string list \<Rightarrow> string list) \<Rightarrow> Balance list \<Rightarrow> pool_config \<Rightarrow>
    (string \<Rightarrow> Manager option) \<Rightarrow> ('w world, (string \<times> string) list) act" where
  "bitcoinTryManyPayments http ord due_balances config rpcManagers =
     act_bind (lift_res (group_payments config [] due_balances)) (\<lambda>grouped.
     act_bind (act_gets tick) (\<lambda>t.
       send_all http rpcManagers [] (in_order (ord t) grouped)))"

section \<open>Recording\<close>

fun collect_due :: "pool_config \<Rightarrow> string list \<Rightarrow> ('z db_scheme, Balance list) act" where
  "collect_due config [] = ret []"
| "collect_due config (chain # rest) =
     (case Chains (Payouts config) chain of
        None \<Rightarrow> lift_res (Err (''payouts.payoutBalances() - failed to find chain payout config: '' @ chain))
      | Some payoutConfig \<Rightarrow>
        act_bind (GetPoolBalancesOverThreshold (PoolName config) chain (MinerMinimumPayment payoutConfig)) (\<lambda>b.
        act_bind (collect_due config rest) (\<lambda>bs. ret (b @ bs))))"

text \<open>A missing confirmation is reported with the address as the format (here: one without verbs).\<close>

definition record_payment :: "pool_config \<Rightarrow> (string \<times> string) list \<Rightarrow> Balance \<Rightarrow> ('z db_scheme, unit) act" where
  "record_payment config transactionConfirmation balance =
     (case map_of transactionConfirmation (Chain balance) of
        None \<Rightarrow> lift_res (Err (Address balance @ ''%!(EXTRA string='' @ Chain balance @ '')''))
      | Some confirmation \<Rightarrow>
        act_bind (lift_res (findBalanceAddress balance config)) (\<lambda>address.
        act_bind Now (\<lambda>now.
        act_bind (Payments_Insert \<lparr>pPoolID = PoolID balance, pChain = Chain balance, pAddress = address,
            pAmount = Amount balance, pTransactionConfirmationData = confirmation, pCreated = now\<rparr>) (\<lambda>_.
        AddAmount (PoolName config) (Chain balance) (Address balance) ''Paid balance to miner''
          (mul64 (Amount balance) (Fin True 1))))))"

definition payoutBalances :: "'w transport \<Rightarrow> (nat \<Rightarrow> string list \<Rightarrow> string list) \<Rightarrow> pool_config \<Rightarrow>
    (string \<Rightarrow> Manager option) \<Rightarrow> ('w world, unit) act" where
  "payoutBalances http ord config rpcManagers =
     act_bind (collect_due config (BlockChainOrder config)) (\<lambda>due_balances.
     act_bind (bitcoinTryManyPayments http ord due_balances config rpcManagers) (\<lambda>transactionConfirmation.
       for_each due_balances (record_payment config transactionConfirmation)))"

section \<open>Addresses: properties\<close>

lemma chain_position_nth:
  "distinct order \<Longrightarrow> i < length order \<Longrightarrow> chain_position (order ! i) order k = Some (k + i)"
proof (induction order arbitrary: i k)
  case (Cons c order)
  then show ?case by (cases i) (auto simp: nth_Cons')
qed simp

lemma Split_length_1: "length (Split c s) = 1 \<longleftrightarrow> c \<notin> set s"
  by (induction s) (auto split: list.splits)

text \<open>The address paid is the miner's address on the chain of the balance: a login joins one address per
  chain with \<open>-\<close> in the merge order, and for every chain of the order \<open>findBalanceAddress\<close> returns that
  chain's address.\<close>

theorem findBalanceAddress_selects:
  assumes "distinct (BlockChainOrder config)" and "1 < length (BlockChainOrder config)"
    and "length addresses = length (BlockChainOrder config)" and "\<forall>a \<in> set addresses. CHR ''-'' \<notin> set a"
    and "i < length (BlockChainOrder config)"
    and "Address balance = Join ''-'' addresses" and "Chain balance = BlockChainOrder config ! i"
  shows "findBalanceAddress balance config = Ok (addresses ! i)"
proof -
  have "addresses \<noteq> []" using assms(2,3) by auto
  then have "Split CHR ''-'' (Address balance) = addresses"
    using assms(4) by (simp add: assms(6) Split_Join)
  with assms chain_position_nth [of "BlockChainOrder config" i 0] show ?thesis
    by (auto simp: findBalanceAddress_def Let_def)
qed

definition merged_config :: pool_config where
  "merged_config = sample_config\<lparr>BlockChainOrder := [''litecoin'', ''dogecoin'']\<rparr>"

lemma findBalanceAddress_selects_witness:
  "findBalanceAddress \<lparr>PoolID = ''p'', Chain = ''dogecoin'', Address = ''L1-D1'', Amount = Fin False 1, balCreated = 0, balUpdated = 0\<rparr>
    merged_config = Ok ([''L1'', ''D1''] ! 1)"
  by (rule findBalanceAddress_selects) (simp_all add: merged_config_def)

section \<open>Grouping: properties\<close>

text \<open>The balances of a chain that are paid to an address, in order.\<close>

definition paid_to :: "pool_config \<Rightarrow> Balance list \<Rightarrow> string \<Rightarrow> string \<Rightarrow> Balance list" where
  "paid_to config bs chain address = filter (\<lambda>b. Chain b = chain \<and> findBalanceAddress b config = Ok address) bs"

definition lookup_payment :: "grouped \<Rightarrow> string \<Rightarrow> string \<Rightarrow> fl option" where
  "lookup_payment grouped chain address = (case map_of grouped chain of None \<Rightarrow> None | Some m \<Rightarrow> map_of m address)"

definition grouped_wf :: "grouped \<Rightarrow> bool" where
  "grouped_wf g \<longleftrightarrow> distinct (map fst g) \<and> (\<forall>(c, m) \<in> set g. distinct (map fst m) \<and> m \<noteq> [])"

lemma update_set: "set (AList.update k v xs) \<subseteq> insert (k, v) (set xs)" "AList.update k v xs \<noteq> []"
  by (induction xs) auto

lemma grouped_wf_update:
  "grouped_wf g \<Longrightarrow> distinct (map fst m) \<Longrightarrow> m \<noteq> [] \<Longrightarrow> grouped_wf (AList.update c m g)"
  using update_set(1) [of c m g] by (auto simp: grouped_wf_def distinct_update)

lemma group_payments_lookup:
  "grouped_wf g \<Longrightarrow> group_payments config g bs = Ok g' \<Longrightarrow> grouped_wf g' \<and>
   (\<forall>b \<in> set bs. is_ok (findBalanceAddress b config)) \<and>
   lookup_payment g' chain address =
     (case paid_to config bs chain address of [] \<Rightarrow> lookup_payment g chain address | x # xs \<Rightarrow> Some (Amount (last (x # xs)))) \<and>
   fst ` set g' = fst ` set g \<union> Chain ` set bs"
proof (induction bs arbitrary: g)
  case Nil
  then show ?case by (simp add: paid_to_def)
next
  case (Cons b bs)
  let ?m = "case map_of g (Chain b) of None \<Rightarrow> [] | Some m \<Rightarrow> m"
  from Cons.prems(2) obtain a where a: "findBalanceAddress b config = Ok a"
    and rest: "group_payments config (AList.update (Chain b) (AList.update a (Amount b) ?m) g) bs = Ok g'"
    by (auto simp: Let_def outcome_simps)
  let ?g = "AList.update (Chain b) (AList.update a (Amount b) ?m) g"
  have m: "distinct (map fst ?m)"
    using Cons.prems(1) by (auto simp: grouped_wf_def dest!: map_of_SomeD split: option.splits)
  have "grouped_wf ?g"
    using Cons.prems(1) m by (intro grouped_wf_update) (simp_all add: distinct_update update_set)
  note ih = Cons.IH [OF this rest]
  have upd: "lookup_payment ?g chain address =
      (if Chain b = chain \<and> a = address then Some (Amount b) else lookup_payment g chain address)"
    by (simp add: lookup_payment_def update_conv' split: option.split)
  have paid: "paid_to config (b # bs) chain address =
      (if Chain b = chain \<and> a = address then b # paid_to config bs chain address else paid_to config bs chain address)"
    by (simp add: paid_to_def a)
  have "lookup_payment g' chain address = (case paid_to config (b # bs) chain address of
      [] \<Rightarrow> lookup_payment g chain address | x # xs \<Rightarrow> Some (Amount (last (x # xs))))"
    using ih unfolding upd paid by (cases "paid_to config bs chain address") simp_all
  moreover have "fst ` set g' = fst ` set g \<union> Chain ` set (b # bs)" using ih by (simp add: dom_update)
  ultimately show ?case using ih a by simp
qed



section \<open>Settling\<close>

definition minimum_of :: "pool_config \<Rightarrow> 'z db_scheme \<Rightarrow> string \<Rightarrow> int" where
  "minimum_of config d chain = (case Chains (Payouts config) chain of None \<Rightarrow> 0
     | Some pc \<Rightarrow> (case decimal_param d (MinerMinimumPayment pc) of Ok m \<Rightarrow> m | _ \<Rightarrow> 0))"

definition due_rows :: "pool_config \<Rightarrow> 'z db_scheme \<Rightarrow> string list \<Rightarrow> balance_row list" where
  "due_rows config d order =
     concat (map (\<lambda>c. filter (due d (PoolName config) c (minimum_of config d c)) (balances d)) order)"

lemma tick_reads [simp]:
  "balance_of_row (d\<lparr>tick := n\<rparr>) = balance_of_row d" "due (d\<lparr>tick := n\<rparr>) = due d"
  "minimum_of config (d\<lparr>tick := n\<rparr>) = minimum_of config d" "due_rows config (d\<lparr>tick := n\<rparr>) order = due_rows config d order"
proof -
  show row: "balance_of_row (d\<lparr>tick := n\<rparr>) = balance_of_row d" by (simp add: fun_eq_iff balance_of_row_def)
  show due: "due (d\<lparr>tick := n\<rparr>) = due d" by (simp add: fun_eq_iff due_def threshold_of_def)
  show m: "minimum_of config (d\<lparr>tick := n\<rparr>) = minimum_of config d" by (simp add: fun_eq_iff minimum_of_def split: option.split)
  show "due_rows config (d\<lparr>tick := n\<rparr>) order = due_rows config d order" by (simp add: due_rows_def due m)
qed

lemma collect_due_Ok:
  "collect_due config order d = (Ok bs, d') \<Longrightarrow>
   bs = map (balance_of_row d) (due_rows config d order) \<and> (\<exists>n \<ge> tick d. d' = d\<lparr>tick := n\<rparr>)"
proof (induction order arbitrary: bs d)
  case Nil
  then show ?case by (auto simp: ret_def due_rows_def)
next
  case (Cons c order)
  then obtain pc b cs where pc: "Chains (Payouts config) c = Some pc"
    and b: "GetPoolBalancesOverThreshold (PoolName config) c (MinerMinimumPayment pc) d = (Ok b, d\<lparr>tick := Suc (tick d)\<rparr>)"
    and rest: "collect_due config order (d\<lparr>tick := Suc (tick d)\<rparr>) = (Ok cs, d')" and bs: "bs = b @ cs"
    by (auto simp: act_bind_Ok_iff ret_def GetPoolBalancesOverThreshold_def query_Ok split: option.splits)
  have "b = map (balance_of_row d) (filter (due d (PoolName config) c (minimum_of config d c)) (balances d))"
    using b by (auto simp: GetPoolBalancesOverThreshold_def query_Ok outcome_simps minimum_of_def pc)
  with Cons.IH [OF rest] bs show ?case by (auto simp: due_rows_def dest: Suc_leD)
qed

lemma due_rows_iff:
  "row \<in> set (due_rows config d order) \<longleftrightarrow> row \<in> set (balances d) \<and>
     (\<exists>c a. bKey row = (PoolName config, c, a) \<and> c \<in> set order \<and>
        threshold_of d (PoolName config) a (minimum_of config d c) \<le> bAmount row)"
  by (cases "bKey row") (auto simp: due_rows_def due_def)

lemma disjoint_images: "(\<And>x y. x \<in> A \<Longrightarrow> y \<in> B \<Longrightarrow> f x \<noteq> f y) \<Longrightarrow> f ` A \<inter> f ` B = {}"
  by fastforce

lemma due_rows_distinct:
  assumes "keys_distinct d" and "distinct order"
  shows "distinct (map bKey (due_rows config d order))"
  using assms(2)
proof (induction order)
  case (Cons c order)
  have "distinct (map bKey (filter (due d (PoolName config) c m) (balances d)))" for m
    using assms(1) by (simp add: keys_distinct_def distinct_map_filter)
  moreover have "bKey r \<noteq> bKey r'"
    if "r \<in> set (filter (due d (PoolName config) c m) (balances d))" "r' \<in> set (due_rows config d order)" for r r' m
    using that Cons.prems by (auto simp: due_rows_iff due_def)
  moreover have "due_rows config d (c # order) =
      filter (due d (PoolName config) c (minimum_of config d c)) (balances d) @ due_rows config d order"
    by (simp add: due_rows_def)
  ultimately show ?case using Cons by (simp only: map_append distinct_append set_map disjoint_images distinct.simps simp_thms)
qed (simp add: due_rows_def)

lemma beside_ledger_payments: "beside_ledger d e \<Longrightarrow> payments e = payments d"
proof -
  assume "beside_ledger d e"
  then have eq: "d\<lparr>balances := [], balance_changes := [], tick := 0\<rparr> = e\<lparr>balances := [], balance_changes := [], tick := 0\<rparr>"
    by (simp add: beside_ledger_def)
  show ?thesis using arg_cong [OF eq, of payments] by simp
qed

text \<open>The payment a balance turns into.\<close>

definition payment_for :: "pool_config \<Rightarrow> (string \<times> string) list \<Rightarrow> Balance \<Rightarrow> int \<Rightarrow> payment_row \<Rightarrow> bool" where
  "payment_for config conf b v row \<longleftrightarrow> row_amount row = v \<and> pPoolID (row_payment row) = PoolID b \<and>
     pChain (row_payment row) = Chain b \<and> findBalanceAddress b config = Ok (pAddress (row_payment row)) \<and>
     map_of conf (Chain b) = Some (pTransactionConfirmationData (row_payment row))"

lemma record_payment_Ok:
  assumes "keys_distinct d" and "record_payment config conf b d = (Ok (), d')"
  obtains v w row where "decimal_param d (Amount b) = Ok v" and "decimal_param d (mul64 (Amount b) (Fin True 1)) = Ok w"
    and "payments d' = payments d @ [row]" and "payment_for config conf b v row"
    and "bal d' = (bal d)((PoolName config, Chain b, Address b) := bal d (PoolName config, Chain b, Address b) + w)"
    and "keys_distinct d'" and "to_decimal d' = to_decimal d"
proof -
  obtain c a d1 d2 now where c: "map_of conf (Chain b) = Some c" and a: "findBalanceAddress b config = Ok a"
    and d1: "d1 = d\<lparr>tick := Suc (tick d)\<rparr>"
    and pay: "Payments_Insert \<lparr>pPoolID = PoolID b, pChain = Chain b, pAddress = a, pAmount = Amount b,
      pTransactionConfirmationData = c, pCreated = now\<rparr> d1 = (Ok (), d2)"
    and add: "AddAmount (PoolName config) (Chain b) (Address b) ''Paid balance to miner'' (mul64 (Amount b) (Fin True 1)) d2 = (Ok (), d')"
    using assms(2) by (auto simp: record_payment_def act_bind_Ok_iff lift_res_def Now_def split: option.splits)
  let ?row = "\<lambda>v. \<lparr>row_payment = \<lparr>pPoolID = PoolID b, pChain = Chain b, pAddress = a, pAmount = Amount b,
      pTransactionConfirmationData = c, pCreated = now\<rparr>, row_amount = v\<rparr>"
  obtain v where v: "decimal_param d (Amount b) = Ok v" and d2: "d2 = d\<lparr>payments := payments d @ [?row v], tick := tick d2\<rparr>"
    using pay by (auto simp: Payments_Insert_def sql_Ok d1 decimal_param_def split: res.splits option.splits if_splits)
  have same: "keys_distinct d2 = keys_distinct d" "bal d2 = bal d" "decimal_param d2 = decimal_param d" "payments d2 = payments d @ [?row v]"
    "to_decimal d2 = to_decimal d"
    by (subst d2, simp add: keys_distinct_def bal_def fun_eq_iff decimal_param_def)+
  from AddAmount_outcome [OF _ add] same assms(1) obtain w where w: "decimal_param d (mul64 (Amount b) (Fin True 1)) = Ok w"
    "bal d' = adds (bal d) (PoolName config, Chain b, Address b) w" "keys_distinct d'" "beside_ledger d2 d'" by auto
  then show ?thesis
    using v c a same beside_ledger_payments [OF w(4)] beside_ledger_env [OF w(4)]
    by (intro that [of v w "?row v"]) (auto simp: adds_def payment_for_def)
qed

lemma record_all:
  assumes "for_each (map (balance_of_row d0) rows) (record_payment config conf) d = (Ok (), d')"
    and "keys_distinct d" and "distinct (map bKey rows)"
    and "\<forall>row \<in> set rows. fst (bKey row) = PoolName config \<and>
      decimal_param d (of_decimal d0 (bAmount row)) = Ok (bAmount row) \<and>
      decimal_param d (mul64 (of_decimal d0 (bAmount row)) (Fin True 1)) = Ok (- bAmount row)"
  shows "\<exists>ps. payments d' = payments d @ ps \<and>
    list_all2 (\<lambda>row p. payment_for config conf (balance_of_row d0 row) (bAmount row) p) rows ps \<and>
    (\<forall>k. bal d' k = bal d k - (case find (\<lambda>row. bKey row = k) rows of None \<Rightarrow> 0 | Some row \<Rightarrow> bAmount row))"
  using assms
proof (induction rows arbitrary: d)
  case Nil
  then show ?case by (auto simp: ret_def)
next
  case (Cons row rows)
  let ?b = "balance_of_row d0 row"
  obtain d1 where step: "record_payment config conf ?b d = (Ok (), d1)"
    and rest: "for_each (map (balance_of_row d0) rows) (record_payment config conf) d1 = (Ok (), d')"
    using Cons.prems(1) by (auto simp: act_bind_Ok_iff)
  obtain p c a where key: "bKey row = (p, c, a)" by (cases "bKey row")
  have b: "Amount ?b = of_decimal d0 (bAmount row)" "Chain ?b = c" "Address ?b = a" by (simp_all add: balance_of_row_def key)
  have pool: "p = PoolName config" using Cons.prems(4) key by simp
  from record_payment_Ok [OF Cons.prems(2) step] obtain v w pay where
    v: "decimal_param d (Amount ?b) = Ok v" "decimal_param d (mul64 (Amount ?b) (Fin True 1)) = Ok w"
    and pay: "payments d1 = payments d @ [pay]" "payment_for config conf ?b v pay"
    and bal1: "bal d1 = (bal d)((PoolName config, c, a) := bal d (PoolName config, c, a) + w)"
    and d1: "keys_distinct d1" "to_decimal d1 = to_decimal d" by (metis b(2,3))
  have vw: "v = bAmount row" "w = - bAmount row" using v Cons.prems(4) b by auto
  have dp: "decimal_param d1 = decimal_param d" using d1(2) by (simp add: decimal_param_def fun_eq_iff)
  have "\<forall>row \<in> set rows. fst (bKey row) = PoolName config \<and>
      decimal_param d1 (of_decimal d0 (bAmount row)) = Ok (bAmount row) \<and>
      decimal_param d1 (mul64 (of_decimal d0 (bAmount row)) (Fin True 1)) = Ok (- bAmount row)"
    using Cons.prems(4) by (simp add: dp)
  from Cons.IH [OF rest d1(1) _ this] Cons.prems(3) obtain ps where ps: "payments d' = payments d1 @ ps"
    "list_all2 (\<lambda>row p. payment_for config conf (balance_of_row d0 row) (bAmount row) p) rows ps"
    "\<forall>k. bal d' k = bal d1 k - (case find (\<lambda>row. bKey row = k) rows of None \<Rightarrow> 0 | Some row \<Rightarrow> bAmount row)" by auto
  have fresh: "find (\<lambda>r. bKey r = bKey row) rows = None" using Cons.prems(3) by (simp add: find_None_iff) (metis image_eqI)
  have "bal d' k = bal d k - (case find (\<lambda>row. bKey row = k) (row # rows) of None \<Rightarrow> 0 | Some row \<Rightarrow> bAmount row)" for k
    using ps(3) [rule_format, of k] fresh by (simp add: bal1 vw key pool)
  with pay ps vw show ?case by (intro exI [of _ "pay # ps"]) auto
qed

lemma send_all_tables: "keeps (tables_same s) (send_all http ms conf g)"
  by (induction http ms conf g rule: send_all.induct)
     (auto simp: active_client_def intro!: tables_rules split: option.split)

lemma tryMany_tables: "keeps (tables_same s) (bitcoinTryManyPayments http ord bs config ms)"
  unfolding bitcoinTryManyPayments_def by (intro tables_rules send_all_tables) auto

lemma tables_same_tick: "tick s \<le> n \<Longrightarrow> tables_same s (s\<lparr>tick := n\<rparr>)"
  by (simp add: tables_same_step)

lemma find_key: "distinct (map bKey rows) \<Longrightarrow> row \<in> set rows \<Longrightarrow> find (\<lambda>r. bKey r = bKey row) rows = Some row"
proof (induction rows)
  case (Cons r rows)
  then show ?case by (cases "r = row") (simp_all, metis image_eqI)
qed simp

lemma bal_row: "keys_distinct d \<Longrightarrow> row \<in> set (balances d) \<Longrightarrow> bal d (bKey row) = bAmount row"
  using filter_key_distinct [of "balances d" "bKey row"] find_key [of "balances d" row]
  by (simp add: bal_def keys_distinct_def)


text \<open>C15. A payment that fails on one chain is not recorded on any: if sending fails, the round fails and
  balances, changes and payments are what they were, also for the chains whose transaction the node
  has already sent; they are due again in the next round.\<close>

theorem failed_send_records_nothing:
  assumes "collect_due config (BlockChainOrder config) s = (Ok due_balances, s1)"
    and "bitcoinTryManyPayments http ord due_balances config ms s1 = (Err e, s2)"
  shows "payoutBalances http ord config ms s = (Err e, s2) \<and>
    balances s2 = balances s \<and> balance_changes s2 = balance_changes s \<and> payments s2 = payments s"
proof -
  obtain n where n: "tick s \<le> n" "s1 = s\<lparr>tick := n\<rparr>" using collect_due_Ok [OF assms(1)] by blast
  have "tables_same s s2"
    using keepsD [OF tryMany_tables [of s] _ assms(2)] tables_same_tick [OF n(1)] n(2) by blast
  from tables_same_fields [OF this] assms show ?thesis
    by (simp add: payoutBalances_def act_bind_def)
qed

section \<open>Witnesses\<close>

definition owing_row :: balance_row where
  "owing_row = \<lparr>bKey = (''p'', ''dogecoin'', ''D1''), bAmount = 250000000, bCreated = 1, bUpdated = 1\<rparr>"

definition owing_world :: "nat world" where
  "owing_world = sample_world\<lparr>balances := [owing_row]\<rparr>"

definition paid_world :: "nat world" where
  "paid_world = owing_world\<lparr>nodes := 1, tick := 7, balances := [owing_row\<lparr>bAmount := 0, bUpdated := 1007\<rparr>],
     balance_changes := [\<lparr>cKey = (''p'', ''dogecoin'', ''D1''), cAmount = - 250000000, cUsage = ''Paid balance to miner'', cCreated = 1003\<rparr>],
     payments := [\<lparr>row_payment = \<lparr>pPoolID = ''p'', pChain = ''dogecoin'', pAddress = ''D1'', pAmount = Fin False (5 / 2),
       pTransactionConfirmationData = ''txid'', pCreated = 1001\<rparr>, row_amount = 250000000\<rparr>]\<rparr>"

lemma fpack_5_2 [simp]: "fpack double s (5 / 2) = Fin s (5 / 2)"
  using fpack_double [of "5 / 2" 5 "- 1" s] by (simp add: power_int_minus)

lemma sample_send: "is_fin x \<Longrightarrow> SendMany sample_node c [(a, x)] w = (Ok ''txid'', Suc w)"
  by (simp add: SendMany_def sample_node_def node_answer_def call_def doRequest_def act_bind_def Unmarshal_def
      unmarshal_or_fail_def ret_def Let_def)

lemma sample_payout:
  "payoutBalances sample_node (\<lambda>t ks. ks) sample_config [''dogecoin'' \<mapsto> sample_manager] owing_world = (Ok (), paid_world)"
proof -
  let ?b = "\<lparr>PoolID = ''p'', Chain = ''dogecoin'', Address = ''D1'', Amount = Fin False (5 / 2), balCreated = 1, balUpdated = 1\<rparr>"
  have due: "collect_due sample_config [''dogecoin''] owing_world = (Ok [?b], owing_world\<lparr>tick := 1\<rparr>)"
    by (simp add: sample_config_def owing_world_def owing_row_def sample_world_def GetPoolBalancesOverThreshold_def query_def sql_def
        act_bind_def ret_def decimal_param_def sample_decimal_def decimal_overflow_def due_def threshold_of_def balance_of_row_def Let_def)
  have send: "bitcoinTryManyPayments sample_node (\<lambda>t ks. ks) [?b] sample_config [''dogecoin'' \<mapsto> sample_manager] (owing_world\<lparr>tick := 1\<rparr>) =
    (Ok [(''dogecoin'', ''txid'')], owing_world\<lparr>tick := 1, nodes := 1\<rparr>)"
    by (simp add: bitcoinTryManyPayments_def findBalanceAddress_def sample_config_def lift_res_def act_bind_def act_gets_def
        in_order_def List.map_filter_def active_client_def GetActiveClient_def sample_manager_def map_error_def on_nodes_def
        sample_send ret_def owing_world_def sample_world_def Let_def)
  have rec: "record_payment sample_config [(''dogecoin'', ''txid'')] ?b (owing_world\<lparr>tick := 1, nodes := 1\<rparr>) = (Ok (), paid_world)"
    by (simp add: record_payment_def findBalanceAddress_def sample_config_def paid_world_def owing_world_def owing_row_def sample_world_def
        Payments_Insert_def act_bind_def lift_res_def Now_def ret_def AddAmount_def insert_change_def GetBalance_def query_def sql_def
        Balances_Update_def balance_key_of_def decimal_param_def sample_decimal_def decimal_overflow_def Let_def)
  have order: "BlockChainOrder sample_config = [''dogecoin'']" by (simp add: sample_config_def)
  show ?thesis
    by (simp add: payoutBalances_def order due send rec act_bind_def ret_def del: collect_due.simps One_nat_def)
qed


definition two_chains :: pool_config where
  "two_chains = sample_config\<lparr>BlockChainOrder := [''dogecoin'', ''litecoin''],
     Payouts := \<lparr>Interval = ''1m'', Scheme = ''solo'',
       Chains = (\<lambda>c. Some \<lparr>pcName = [], RewardFrom = [], MinerMinimumPayment = Fin False 2, PoolRewardRecipients = []\<rparr>)\<rparr>\<rparr>"

definition owing_two :: "nat world" where
  "owing_two = sample_world\<lparr>balances := [owing_row, owing_row\<lparr>bKey := (''p'', ''litecoin'', ''L1'')\<rparr>]\<rparr>"

text \<open>The transaction of the first chain is sent, the second chain has no manager.\<close>

lemma failed_send_records_nothing_witness:
  "let s2 = owing_two\<lparr>tick := 2, nodes := 1\<rparr>;
       e = ''payouts.bitcoinTryManyPayments() - failed to find chain rpc: litecoin'' in
   (payoutBalances sample_node (\<lambda>t ks. ks) two_chains [''dogecoin'' \<mapsto> sample_manager] owing_two = (Err e, s2) \<and>
    balances s2 = balances owing_two \<and> balance_changes s2 = balance_changes owing_two \<and> payments s2 = payments owing_two) \<and>
   nodes owing_two = 0 \<and> nodes s2 = 1"
proof -
  let ?b = "\<lambda>c a. \<lparr>PoolID = ''p'', Chain = c, Address = a, Amount = Fin False (5 / 2), balCreated = 1, balUpdated = 1\<rparr>"
  let ?bs = "[?b ''dogecoin'' ''D1'', ?b ''litecoin'' ''L1'']"
  have due: "collect_due two_chains (BlockChainOrder two_chains) owing_two = (Ok ?bs, owing_two\<lparr>tick := 2\<rparr>)"
    by (simp add: two_chains_def sample_config_def owing_two_def owing_row_def sample_world_def GetPoolBalancesOverThreshold_def query_def
        sql_def act_bind_def ret_def decimal_param_def sample_decimal_def decimal_overflow_def due_def threshold_of_def
        balance_of_row_def numeral_2_eq_2 Let_def)
  have send: "bitcoinTryManyPayments sample_node (\<lambda>t ks. ks) ?bs two_chains [''dogecoin'' \<mapsto> sample_manager] (owing_two\<lparr>tick := 2\<rparr>) =
    (Err ''payouts.bitcoinTryManyPayments() - failed to find chain rpc: litecoin'', owing_two\<lparr>tick := 2, nodes := 1\<rparr>)"
    by (simp add: bitcoinTryManyPayments_def findBalanceAddress_def two_chains_def lift_res_def act_bind_def act_gets_def
        in_order_def List.map_filter_def active_client_def GetActiveClient_def sample_manager_def map_error_def on_nodes_def
        sample_send ret_def owing_two_def sample_world_def Let_def)
  show ?thesis
    using failed_send_records_nothing [OF due send] by (simp add: owing_two_def sample_world_def)
qed

end
