(* ===== verification/PayoutManager.thy ===== *)
theory PayoutManager
  imports Payer RewardProperties
begin

text \<open>
  \<open>payouts/manager.go\<close>: one round of the payout loop.  Errors are logged and the loop goes on; a
  panic ends the program.  The managers of the nodes are as they are during the round.
\<close>

text \<open>\<open>if err != nil { log.Println(err) }\<close>\<close>

definition logged :: "('s, 'a) act \<Rightarrow> ('s, unit) act" where
  "logged m = act_bind (attempt m) (\<lambda>_. ret ())"

definition reward_confirmed :: "nat \<Rightarrow> (nat \<Rightarrow> string list \<Rightarrow> string list) \<Rightarrow> pool_config \<Rightarrow> (string \<Rightarrow> Manager option) \<Rightarrow>
    Found \<Rightarrow> ('z db_scheme, unit) act" where
  "reward_confirmed pageSize ord config rpcManagers confirmed =
     (case rpcManagers (fChain confirmed) of
        None \<Rightarrow> lift_res (Panic (''payouts.Manager: Blockchain not found - '' @ fChain confirmed))
      | Some rpcManager \<Rightarrow>
        act_bind (attempt (calculateBlockRewards pageSize ord confirmed config rpcManager)) (\<lambda>r.
          case r of
            Ok cutoff \<Rightarrow> logged (DeleteSharesBefore (PoolName config) cutoff)
          | _ \<Rightarrow> ret ()))"

text \<open>\<open>pageSize\<close> is the constant of the schemes.\<close>

definition manager_round :: "scrypt_fn \<Rightarrow> 'w transport \<Rightarrow> nat \<Rightarrow> (nat \<Rightarrow> string list \<Rightarrow> string list) \<Rightarrow> pool_config \<Rightarrow>
    (string \<Rightarrow> Manager option) \<Rightarrow> ('w world, unit) act" where
  "manager_round scrypt http pageSize ord config rpcManagers =
     act_bind (attempt (unlockBlocks scrypt http (PoolName config) rpcManagers)) (\<lambda>r.
       case r of
         Ok found \<Rightarrow>
           act_bind (for_each (GetConfirmed found) (reward_confirmed pageSize ord config rpcManagers)) (\<lambda>_.
           act_bind (for_each found (\<lambda>block. logged (Blocks_Update block))) (\<lambda>_.
             logged (payoutBalances http ord config rpcManagers)))
       | _ \<Rightarrow> ret ())"

section \<open>Invariants of a round\<close>

text \<open>What a round keeps, from the state \<open>d0\<close> on: the two tables are well-formed, blocks that are settled
  stay as they are, and payments and balance changes are only appended.\<close>

definition settled_kept :: "'z db_scheme \<Rightarrow> 'z db_scheme \<Rightarrow> bool" where
  "settled_kept d0 d \<longleftrightarrow> blocks_wf d \<and> keys_distinct d \<and> map (ID \<circ> row_block) (blocks d) = map (ID \<circ> row_block) (blocks d0) \<and>
     (\<forall>row \<in> set (blocks d0). Status (row_block row) \<noteq> StatusPending \<longrightarrow> row \<in> set (blocks d)) \<and>
     prefix (payments d0) (payments d) \<and> prefix (balance_changes d0) (balance_changes d)"

lemma settled_kept_refl: "blocks_wf d \<Longrightarrow> keys_distinct d \<Longrightarrow> settled_kept d d"
  by (simp add: settled_kept_def)

lemma settled_kept_trans: "settled_kept a b \<Longrightarrow> settled_kept b c \<Longrightarrow> settled_kept a c"
  by (auto simp: settled_kept_def intro: prefix_order.trans)

lemma settled_kept_tick [simp]:
  "settled_kept old (d\<lparr>tick := n\<rparr>) = settled_kept old d" "settled_kept old (d\<lparr>shares := ss\<rparr>) = settled_kept old d"
  "settled_kept old (d\<lparr>minerstats := ms\<rparr>) = settled_kept old d" "settled_kept old (d\<lparr>poolstats := qs\<rparr>) = settled_kept old d"
  by (simp_all add: settled_kept_def blocks_wf_def keys_distinct_def)

lemma settled_kept_payment: "settled_kept old d \<Longrightarrow> settled_kept old (d\<lparr>payments := payments d @ ps\<rparr>)"
  unfolding settled_kept_def blocks_wf_def keys_distinct_def by (elim conjE) (intro conjI; simp)

lemma settled_kept_nodes [simp]: "settled_kept old (s\<lparr>nodes := w\<rparr>) = settled_kept old s"
  by (simp add: settled_kept_def blocks_wf_def keys_distinct_def)

lemma keeps_logged: "keeps P m \<Longrightarrow> keeps P (logged m)"
  unfolding logged_def by (intro keeps_bind keeps_attempt triple_ret)

lemma beside_ledger_blocks: "beside_ledger d e \<Longrightarrow> blocks e = blocks d \<and> block_seq e = block_seq d \<and> payments e = payments d"
proof -
  assume "beside_ledger d e"
  then have eq: "d\<lparr>balances := [], balance_changes := [], tick := 0\<rparr> = e\<lparr>balances := [], balance_changes := [], tick := 0\<rparr>"
    by (simp add: beside_ledger_def)
  show ?thesis using arg_cong [OF eq, of blocks] arg_cong [OF eq, of block_seq] arg_cong [OF eq, of payments] by simp
qed

lemma settled_kept_ledger: "settled_kept old d \<Longrightarrow> beside_ledger d e \<Longrightarrow> keys_distinct e \<Longrightarrow> settled_kept old e"
  by (auto simp: settled_kept_def blocks_wf_def beside_ledger_blocks) (auto simp: beside_ledger_def intro: prefix_order.trans)

lemma settled_kept_AddAmount: "keeps (settled_kept old) (AddAmount p c a u x)"
proof -
  have "settled_kept old e" if "settled_kept old d" "AddAmount p c a u x d = (r, e)" for d e and r :: "unit res"
    using AddAmount_outcome [of d p c a u x r e] that settled_kept_ledger [OF that(1)] by (auto simp: settled_kept_def)
  then show ?thesis by (intro tripleI) auto
qed

lemma settled_kept_rewards: "keeps (settled_kept old) (calculateBlockRewards n ord b config m)"
proof -
  have "settled_kept old e" if d: "settled_kept old d" and run: "calculateBlockRewards n ord b config m d = (r, e)" for d e r
  proof -
    have "keys_distinct d" using d by (simp add: settled_kept_def)
    from calculateBlockRewards_framed [OF this run] settled_kept_ledger [OF d] show ?thesis by simp
  qed
  then show ?thesis by (intro tripleI) auto
qed

lemma settled_kept_delete: "keeps (settled_kept old) (DeleteSharesBefore p t)"
proof -
  have "keeps (settled_kept old) (\<lambda>d. (Ok (), d\<lparr>shares := filter (\<lambda>s. \<not> (shPoolID s = p \<and> shCreated s < t)) (shares d)\<rparr>))"
    by (rule tripleI) auto
  then show ?thesis unfolding DeleteSharesBefore_def by (intro keeps_sql) auto
qed

lemma settled_kept_reward_confirmed: "keeps (settled_kept old) (reward_confirmed n ord config ms b)"
  unfolding reward_confirmed_def
  by (auto intro!: keeps_bind keeps_attempt settled_kept_rewards keeps_logged settled_kept_delete triple_ret triple_lift
      split: option.split res.split)

text \<open>An update of a block that is pending in the table leaves settled rows alone: ids are unique.\<close>

lemma settled_kept_update:
  fixes old :: "'z db_scheme"
  assumes old: "distinct (map (ID \<circ> row_block) (blocks old))"
    and pending: "\<exists>row \<in> set (blocks old). ID (row_block row) = ID b \<and> Status (row_block row) = StatusPending"
  shows "keeps (settled_kept old) (Blocks_Update b)"
proof -
  have rows: "settled_kept old (d\<lparr>blocks := map (\<lambda>row. if ID (row_block row) = ID b then updated_row b v row else row) (blocks d)\<rparr>)"
    if d: "settled_kept old d" and u: "heights_unique (map (\<lambda>row. if ID (row_block row) = ID b then updated_row b v row else row) (blocks d))"
    for d :: "'z db_scheme" and v
  proof -
    let ?f = "\<lambda>row. if ID (row_block row) = ID b then updated_row b v row else row"
    have ids: "map (ID \<circ> row_block) (map ?f rs) = map (ID \<circ> row_block) rs" for rs by simp
    have "row \<in> set (map ?f (blocks d))" if "row \<in> set (blocks old)" "Status (row_block row) \<noteq> StatusPending" for row
    proof -
      have "ID (row_block row) \<noteq> ID b"
        using pending that old by (metis (no_types, lifting) comp_apply distinct_map inj_onD)
      moreover have "row \<in> set (blocks d)" using that d by (simp add: settled_kept_def)
      ultimately show ?thesis by (force simp: image_iff)
    qed
    with d u show ?thesis by (auto simp: settled_kept_def blocks_wf_def keys_distinct_def ids simp del: map_map)
  qed
  have "keeps (settled_kept old) (\<lambda>d :: 'z db_scheme. case decimal_param d (Reward b) of
       Ok v \<Rightarrow>
         (let hit = (\<lambda>row. ID (row_block row) = ID b);
              rs = map (\<lambda>row. if hit row then updated_row b v row else row) (blocks d) in
          case write_blocks d rs of
            (Ok u, d') \<Rightarrow> (Ok (length (filter hit (blocks d))), d')
          | (Err e, d') \<Rightarrow> (Err e, d') | (Panic p, d') \<Rightarrow> (Panic p, d'))
     | Err e \<Rightarrow> (Err e, d) | Panic p \<Rightarrow> (Panic p, d))"
    by (rule tripleI) (auto simp: write_blocks_def unique_error_def Let_def intro: rows split: res.splits if_splits)
  then show ?thesis unfolding Blocks_Update_def
    by (intro keeps_bind keeps_sql) (auto intro!: act_rules)
qed

lemma settled_kept_record: "keeps (settled_kept old) (record_payment config conf b)"
proof -
  have "keeps (settled_kept old) (Payments_Insert p)" for p
  proof -
    have "keeps (settled_kept old) (\<lambda>d. case decimal_param d (pAmount p) of
       Ok v \<Rightarrow> (Ok (), d\<lparr>payments := payments d @ [\<lparr>row_payment = p, row_amount = v\<rparr>]\<rparr>)
     | Err e \<Rightarrow> (Err e, d) | Panic q \<Rightarrow> (Panic q, d))"
      by (rule tripleI) (auto intro: settled_kept_payment split: res.splits)
    then show ?thesis unfolding Payments_Insert_def by (intro keeps_sql) auto
  qed
  then show ?thesis
    unfolding record_payment_def
    by (auto intro!: keeps_bind keeps_Now settled_kept_AddAmount triple_lift split: option.split)
qed

lemma settled_kept_tables: "settled_kept old s \<Longrightarrow> tables_same s t \<Longrightarrow> settled_kept old t"
  using tables_same_fields [of s t] by (auto simp: settled_kept_def blocks_wf_def keys_distinct_def)

lemma settled_kept_payout: "keeps (settled_kept old) (payoutBalances http ord config ms)"
proof -
  have collect: "keeps (settled_kept old) (collect_due config order)" for order
    by (induction order) (auto simp: GetPoolBalancesOverThreshold_def intro!: keeps_bind keeps_query triple_ret triple_lift split: option.split)
  have many: "keeps (settled_kept old) (bitcoinTryManyPayments http ord bs config ms)" for bs
  proof -
    have "settled_kept old t" if "settled_kept old s" "bitcoinTryManyPayments http ord bs config ms s = (r, t)" for s t r
      using keepsD [OF tryMany_tables tables_same_refl that(2)] that(1) by (rule settled_kept_tables [rotated])
    then show ?thesis by (intro tripleI) auto
  qed
  show ?thesis unfolding payoutBalances_def
    by (intro keeps_bind collect many keeps_for_each settled_kept_record)
qed

lemma list_all2_right: "list_all2 R xs ys \<Longrightarrow> y \<in> set ys \<Longrightarrow> \<exists>x \<in> set xs. R x y"
  by (induction rule: list_all2_induct) auto

lemma found_known:
  assumes "unlockBlocks scrypt http p ms s = (Ok found, s1)" and "b \<in> set found"
  shows "\<exists>row \<in> set (blocks s). ID (row_block row) = ID b \<and> Status (row_block row) = StatusPending \<and>
    BlockHeight (row_block row) = BlockHeight b"
proof -
  let ?R = "\<lambda>row c. ID c = ID (row_block row) \<and> BlockHeight c = BlockHeight (row_block row)"
  have "list_all2 ?R (filter (\<lambda>row. fPoolID (row_block row) = p \<and> Status (row_block row) = StatusPending) (blocks s)) found"
    using unlock_found [OF assms(1)] by (rule list.rel_mono_strong) blast
  from list_all2_right [OF this assms(2)] show ?thesis by auto
qed

lemma found_ids:
  assumes "blocks_wf s" and "unlockBlocks scrypt http p ms s = (Ok found, s1)"
  shows "distinct (map ID found)"
proof -
  have "map ID found = map (ID \<circ> row_block) (filter (\<lambda>row. fPoolID (row_block row) = p \<and> Status (row_block row) = StatusPending) (blocks s))"
    using unlock_found [OF assms(2)] by (auto simp: list_all2_conv_all_nth intro!: nth_equalityI)
  then show ?thesis using assms(1) by (simp add: blocks_wf_def distinct_map_filter)
qed

text \<open>A round keeps history, whatever fails in it.\<close>

lemma manager_round_kept:
  assumes "blocks_wf s" and "keys_distinct s" and "manager_round scrypt http n ord config ms s = (r, s')"
  shows "settled_kept s s'"
proof -
  let ?P = "settled_kept s"
  have start: "?P s" using assms(1,2) by (rule settled_kept_refl)
  obtain q s1 where q: "unlockBlocks scrypt http (PoolName config) ms s = (q, s1)" by fastforce
  have "tables_same s s1" using keepsD [OF unlockBlocks_tables tables_same_refl q] .
  with start have s1: "?P s1" by (rule settled_kept_tables)
  have "?P s'"
  proof (cases q)
    case (Ok found)
    have ids: "distinct (map (ID \<circ> row_block) (blocks s))" using assms(1) by (simp add: blocks_wf_def)
    have "\<forall>b \<in> set found. \<exists>row \<in> set (blocks s). ID (row_block row) = ID b \<and> Status (row_block row) = StatusPending"
      using found_known [OF q [unfolded Ok]] by blast
    then have "keeps ?P (act_bind (for_each (GetConfirmed found) (reward_confirmed n ord config ms)) (\<lambda>_.
        act_bind (for_each found (\<lambda>block. logged (Blocks_Update block))) (\<lambda>_. logged (payoutBalances http ord config ms))))"
      by (intro keeps_bind keeps_for_each settled_kept_reward_confirmed keeps_logged settled_kept_payout
        settled_kept_update [OF ids]) auto
    from keepsD [OF this s1] assms(3) q Ok show ?thesis
      by (simp add: manager_round_def act_bind_def [where m = "attempt x" for x] attempt_def)
  qed (use assms(3) q s1 in \<open>simp_all add: manager_round_def act_bind_def attempt_def ret_def\<close>)
  then show ?thesis .
qed

section \<open>Confirmed is saved whether paid or not\<close>

lemma Blocks_Update_effect:
  assumes "blocks_wf d" and "\<forall>m. faults d m = None" and "decimal_param d (Reward b) = Ok v"
    and "\<exists>row \<in> set (blocks d). ID (row_block row) = ID b \<and> BlockHeight (row_block row) = BlockHeight b"
  shows "Blocks_Update b d = (Ok (), d\<lparr>blocks := map (\<lambda>row. if ID (row_block row) = ID b then updated_row b v row else row) (blocks d),
    tick := Suc (tick d)\<rparr>)"
proof -
  let ?f = "\<lambda>row. if ID (row_block row) = ID b then updated_row b v row else row"
  obtain r where r: "r \<in> set (blocks d)" "ID (row_block r) = ID b" "BlockHeight (row_block r) = BlockHeight b" using assms(4) by blast
  have "height_key (?f row) = height_key row" if "row \<in> set (blocks d)" for row
  proof (cases "ID (row_block row) = ID b")
    case True
    then have "row = r" using r that assms(1) unfolding blocks_wf_def
      by (metis (no_types, lifting) comp_apply distinct_map inj_onD)
    with r show ?thesis by (simp add: height_key_def updated_row_def)
  qed simp
  then have "heights_unique (map ?f (blocks d))"
    using assms(1) by (simp add: blocks_wf_def heights_unique_def comp_def cong: map_cong)
  moreover have "filter (\<lambda>row. ID (row_block row) = ID b) (blocks d) \<noteq> []" using r by (auto simp: filter_empty_conv)
  ultimately show ?thesis
    using assms(2,3) by (simp add: Blocks_Update_def act_bind_def sql_no_fault write_blocks_def Let_def lift_res_def ret_def Suc_le_eq)
qed

definition has_status :: "'z db_scheme \<Rightarrow> nat \<Rightarrow> string \<Rightarrow> bool" where
  "has_status d i st \<longleftrightarrow> (\<exists>row \<in> set (blocks d). ID (row_block row) = i \<and> Status (row_block row) = st)"

definition in_table :: "'z db_scheme \<Rightarrow> Found \<Rightarrow> bool" where
  "in_table d b \<longleftrightarrow> (\<exists>row \<in> set (blocks d). ID (row_block row) = ID b \<and> BlockHeight (row_block row) = BlockHeight b)"

lemma decimal_param_blocks [simp]: "decimal_param (d\<lparr>blocks := rs\<rparr>) = decimal_param d"
  by (simp add: decimal_param_def fun_eq_iff)

lemma update_loop:
  assumes "blocks_wf d" and "\<forall>m. faults d m = None" and "\<forall>b \<in> set bs. in_table d b \<and> (\<exists>v. decimal_param d (Reward b) = Ok v)"
    and "distinct (map ID bs)" and "for_each bs (\<lambda>block. logged (Blocks_Update block)) d = (Ok (), d')"
  shows "(\<forall>b \<in> set bs. has_status d' (ID b) (Status b)) \<and>
    (\<forall>i st. i \<notin> ID ` set bs \<longrightarrow> has_status d i st \<longrightarrow> has_status d' i st)"
  using assms
proof (induction bs arbitrary: d)
  case (Cons b bs)
  obtain v where v: "decimal_param d (Reward b) = Ok v" using Cons.prems(3) by auto
  let ?f = "\<lambda>row. if ID (row_block row) = ID b then updated_row b v row else row"
  let ?d = "d\<lparr>blocks := map ?f (blocks d), tick := Suc (tick d)\<rparr>"
  have upd: "Blocks_Update b d = (Ok (), ?d)"
    using Cons.prems(1-3) by (intro Blocks_Update_effect [OF _ _ v]) (auto simp: in_table_def)
  then have "logged (Blocks_Update b) d = (Ok (), ?d)" by (simp add: logged_def act_bind_def attempt_def ret_def)
  then have rest: "for_each bs (\<lambda>block. logged (Blocks_Update block)) ?d = (Ok (), d')"
    using Cons.prems(5) by (simp add: act_bind_Ok_iff)
  have wf: "blocks_wf ?d" using keepsD [OF keeps_Blocks_Update Cons.prems(1) upd] .
  have tab: "in_table ?d c" if "c \<in> set bs" for c
  proof -
    have "ID c \<noteq> ID b" using that Cons.prems(4) by (metis distinct.simps(2) image_eqI list.map(2) set_map)
    then show ?thesis using Cons.prems(3) that by (force simp: in_table_def)
  qed
  have "\<forall>c \<in> set bs. in_table ?d c \<and> (\<exists>v. decimal_param ?d (Reward c) = Ok v)" using tab Cons.prems(3) by simp
  from Cons.IH [OF wf _ this _ rest] Cons.prems(2,4)
  have ih: "\<forall>c \<in> set bs. has_status d' (ID c) (Status c)" "\<forall>i st. i \<notin> ID ` set bs \<longrightarrow> has_status ?d i st \<longrightarrow> has_status d' i st"
    by auto
  obtain r where "r \<in> set (blocks d)" "ID (row_block r) = ID b" using Cons.prems(3) by (auto simp: in_table_def)
  then have "?f r \<in> set (blocks ?d)" "ID (row_block (?f r)) = ID b \<and> Status (row_block (?f r)) = Status b"
    by (simp_all add: updated_row_def)
  then have "has_status ?d (ID b) (Status b)" unfolding has_status_def by blast
  moreover have "has_status ?d i st" if old: "has_status d i st" and other: "i \<noteq> ID b" for i st
  proof -
    obtain q where q: "q \<in> set (blocks d)" "ID (row_block q) = i" "Status (row_block q) = st" using old by (auto simp: has_status_def)
    have "q = ?f q" using q(2) other by simp
    then have "q \<in> ?f ` set (blocks d)" using q(1) by (rule image_eqI)
    then have "q \<in> set (blocks ?d)" by simp
    with q(2,3) show ?thesis unfolding has_status_def by blast
  qed
  ultimately show ?case using ih Cons.prems(4) by auto
qed (simp add: ret_def)

lemma for_each_rewards_kept:
  assumes "settled_kept old s" and "for_each bs (reward_confirmed n ord config ms) s = (r, t)"
  shows "blocks t = blocks s \<and> block_seq t = block_seq s \<and> faults t = faults s \<and> to_decimal t = to_decimal s"
proof -
  let ?Q = "\<lambda>t. keys_distinct t \<and> blocks t = blocks s \<and> block_seq t = block_seq s \<and> faults t = faults s \<and> to_decimal t = to_decimal s"
  have "keeps ?Q (calculateBlockRewards n ord b config m)" for b m
  proof -
    have "?Q e" if "?Q d" "calculateBlockRewards n ord b config m d = (q, e)" for d e q
      using calculateBlockRewards_framed [of d n ord b config m q e] beside_ledger_blocks [of d e] beside_ledger_env [of d e] that by auto
    then show ?thesis by (intro tripleI) auto
  qed
  moreover have "keeps ?Q (DeleteSharesBefore p c)" for p c
  proof -
    have "keeps ?Q (\<lambda>d. (Ok (), d\<lparr>shares := filter (\<lambda>s. \<not> (shPoolID s = p \<and> shCreated s < c)) (shares d)\<rparr>))"
      by (rule tripleI) (auto simp: keys_distinct_def)
    then show ?thesis unfolding DeleteSharesBefore_def by (intro keeps_sql) (auto simp: keys_distinct_def)
  qed
  ultimately have "keeps ?Q (reward_confirmed n ord config ms b)" for b
    unfolding reward_confirmed_def
    by (auto intro!: keeps_bind keeps_attempt keeps_logged triple_ret triple_lift split: option.split res.split)
  then have "keeps ?Q (for_each bs (reward_confirmed n ord config ms))" by (intro keeps_for_each)
  from keepsD [OF this _ assms(2)] assms(1) show ?thesis by (simp add: settled_kept_def)
qed

text \<open>The payout leaves the blocks table alone.\<close>

definition same_blocks :: "block_row list \<Rightarrow> 'z db_scheme \<Rightarrow> bool" where
  "same_blocks old d \<longleftrightarrow> keys_distinct d \<and> blocks d = old"

lemma same_blocks_simps [simp]:
  "same_blocks old (d\<lparr>tick := n\<rparr>) = same_blocks old d" "same_blocks old (d\<lparr>payments := ps\<rparr>) = same_blocks old d"
  by (simp_all add: same_blocks_def keys_distinct_def)

lemma same_blocks_record: "keeps (same_blocks old) (record_payment config conf b)"
proof -
  have "keeps (same_blocks old) (Payments_Insert p)" for p
  proof -
    have "keeps (same_blocks old) (\<lambda>d. case decimal_param d (pAmount p) of
       Ok v \<Rightarrow> (Ok (), d\<lparr>payments := payments d @ [\<lparr>row_payment = p, row_amount = v\<rparr>]\<rparr>)
     | Err e \<Rightarrow> (Err e, d) | Panic q \<Rightarrow> (Panic q, d))"
      by (rule tripleI) (auto intro: settled_kept_payment split: res.splits)
    then show ?thesis unfolding Payments_Insert_def by (intro keeps_sql) auto
  qed
  moreover have "keeps (same_blocks old) (AddAmount p c a u x)" for p c a u x
  proof -
    have "same_blocks old e" if "same_blocks old d" "AddAmount p c a u x d = (q, e)" for d e and q :: "unit res"
      using AddAmount_outcome [of d p c a u x q e] beside_ledger_blocks [of d e] that by (auto simp: same_blocks_def)
    then show ?thesis by (intro tripleI) auto
  qed
  ultimately show ?thesis
    unfolding record_payment_def by (auto intro!: keeps_bind keeps_Now triple_lift split: option.split)
qed

lemma payout_blocks:
  assumes "payoutBalances http ord config ms s = (r, t)" and "keys_distinct s"
  shows "blocks t = blocks s"
proof -
  have collect: "keeps (same_blocks old) (collect_due config order)" for order old
    by (induction order) (auto simp: GetPoolBalancesOverThreshold_def intro!: keeps_bind keeps_query triple_ret triple_lift split: option.split)
  have many: "keeps (same_blocks old) (bitcoinTryManyPayments http ord bs config ms)" for bs old
  proof -
    have "same_blocks old t" if "same_blocks old s" "bitcoinTryManyPayments http ord bs config ms s = (r, t)" for s t r
      using keepsD [OF tryMany_tables tables_same_refl that(2)] that(1)
      by (auto dest!: tables_same_fields simp: same_blocks_def keys_distinct_def)
    then show ?thesis by (intro tripleI) auto
  qed
  have "keeps (same_blocks (blocks s)) (payoutBalances http ord config ms)" unfolding payoutBalances_def
    by (intro keeps_bind collect many keeps_for_each same_blocks_record)
  from keepsD [OF this _ assms(1)] assms(2) show ?thesis by (simp add: same_blocks_def)
qed


section \<open>Witnesses\<close>

text \<open>No reward can be calculated: the payout section names no chain.\<close>

definition no_reward_config :: pool_config where
  "no_reward_config = sample_config\<lparr>Payouts := \<lparr>Interval = ''1m'', Scheme = ''solo'', Chains = Map.empty\<rparr>\<rparr>"

definition after_round :: "nat world" where
  "after_round = sample_world\<lparr>tick := 4, blocks := [\<lparr>row_block = sample_confirmed, row_reward = 300000000\<rparr>]\<rparr>"

lemma no_reward_fields: "PoolName no_reward_config = ''p''" "BlockChainOrder no_reward_config = [''dogecoin'']"
  by (simp_all add: no_reward_config_def sample_config_def)

lemma sample_world_wf: "blocks_wf sample_world" "keys_distinct sample_world"
  by (simp_all add: blocks_wf_def heights_unique_def keys_distinct_def sample_world_def sample_found_def)

lemma sample_round:
  "manager_round (\<lambda>b. None) sample_node n ord no_reward_config [''dogecoin'' \<mapsto> sample_manager] sample_world = (Ok (), after_round)"
proof -
  let ?s = "sample_world\<lparr>tick := 3\<rparr>"
  have reward: "calculateBlockRewards n ord sample_confirmed no_reward_config sample_manager ?s =
      (fst (calculateBlockRewards n ord sample_confirmed no_reward_config sample_manager ?s), ?s) \<and>
      (\<exists>e. fst (calculateBlockRewards n ord sample_confirmed no_reward_config sample_manager ?s) = Err e)"
    by (simp add: calculateBlockRewards_def calculatePoolReward_def no_reward_config_def sample_config_def act_bind_def lift_res_def
        sample_confirmed_def sample_found_def)
  then obtain e where e: "calculateBlockRewards n ord sample_confirmed no_reward_config sample_manager ?s = (Err e, ?s)" by auto
  have conf: "GetConfirmed [sample_confirmed] = [sample_confirmed]" by (simp add: sample_confirmed_def)
  have rew: "reward_confirmed n ord no_reward_config [''dogecoin'' \<mapsto> sample_manager] sample_confirmed ?s = (Ok (), ?s)"
    using e by (simp add: reward_confirmed_def act_bind_def attempt_def ret_def sample_confirmed_def sample_found_def)
  have upd: "logged (Blocks_Update sample_confirmed) ?s = (Ok (), after_round)"
    by (simp add: logged_def act_bind_def attempt_def ret_def Blocks_Update_def sql_def sample_world_def after_round_def write_blocks_def
        decimal_param_def sample_decimal_def decimal_overflow_def updated_row_def sample_confirmed_def sample_found_def
        heights_unique_def lift_res_def Let_def)
  have pay: "logged (payoutBalances sample_node ord no_reward_config [''dogecoin'' \<mapsto> sample_manager]) after_round = (Ok (), after_round)"
    by (simp add: logged_def act_bind_def attempt_def ret_def payoutBalances_def no_reward_fields)
      (simp add: no_reward_config_def lift_res_def ret_def)
  show ?thesis
    using sample_unlock rew upd pay by (simp add: manager_round_def no_reward_fields act_bind_def attempt_def ret_def conf)
qed


end
