(* ===== verification/Program.thy ===== *)
theory Program
  imports PayoutManager Statistics
begin

text \<open>
  The program as a whole: \<open>config.LoadConfig\<close>, \<open>persistence.MakePersister\<close> and the start of the services
  in \<open>main.go\<close>, and the rounds of the background services on the database they share.  The file system
  with the JSON parser and \<open>sql.Open\<close> are parameters.
\<close>

section \<open>The configuration file\<close>

record sqlConfig =
  Host :: string
  sqlPort :: int
  User :: string
  sqlPassword :: string
  Database :: string
  SSLMode :: string

record apiConfig =
  apiPort :: string

text \<open>The whole \<open>Config\<close>; \<open>NodeNames\<close> are the keys of the map \<open>BlockchainNodes\<close>.\<close>

record file_config = pool_config +
  NodeNames :: "string list"
  Persister :: sqlConfig
  API :: apiConfig

text \<open>A Go map: every value is decoded into a new zero value, a later key replaces an earlier one.\<close>

fun dec_entries :: "'a decoder \<Rightarrow> 'a \<Rightarrow> (string \<times> json) list \<Rightarrow> (string \<Rightarrow> 'a option) \<Rightarrow> string option \<times> (string \<Rightarrow> 'a option)" where
  "dec_entries d z [] m = (None, m)"
| "dec_entries d z ((k, j) # kvs) m =
     (case d j z of (e, x) \<Rightarrow> case dec_entries d z kvs (m(k \<mapsto> x)) of (e', m') \<Rightarrow> (or_else e e', m'))"

fun dec_map :: "'a decoder \<Rightarrow> 'a \<Rightarrow> (string \<Rightarrow> 'a option) decoder" where
  "dec_map d z (JObj kvs) m = dec_entries d z kvs m"
| "dec_map d z JNull m = (None, Map.empty)"
| "dec_map d z j m = (type_error ''map'', m)"

definition zero_node_config :: coinNodeConfig where
  "zero_node_config = \<lparr>nName = [], RPC_URL = [], RPC_Username = [], RPC_Password = [], nTimeout = [], NotifyURL = [], RewardTo = []\<rparr>"

definition node_fields :: "coinNodeConfig fields" where
  "node_fields = [
     (''name'', dec_at nName (\<lambda>v x. x\<lparr>nName := v\<rparr>) dec_string),
     (''rpc_url'', dec_at RPC_URL (\<lambda>v x. x\<lparr>RPC_URL := v\<rparr>) dec_string),
     (''rpc_username'', dec_at RPC_Username (\<lambda>v x. x\<lparr>RPC_Username := v\<rparr>) dec_string),
     (''rpc_password'', dec_at RPC_Password (\<lambda>v x. x\<lparr>RPC_Password := v\<rparr>) dec_string),
     (''timeout'', dec_at nTimeout (\<lambda>v x. x\<lparr>nTimeout := v\<rparr>) dec_string),
     (''block_notify_url'', dec_at NotifyURL (\<lambda>v x. x\<lparr>NotifyURL := v\<rparr>) dec_string),
     (''reward_to'', dec_at RewardTo (\<lambda>v x. x\<lparr>RewardTo := v\<rparr>) dec_string)]"

definition recipient_fields :: "recipient fields" where
  "recipient_fields = [
     (''address'', dec_at rAddress (\<lambda>v x. x\<lparr>rAddress := v\<rparr>) dec_string),
     (''percentage'', dec_at Percentage (\<lambda>v x. x\<lparr>Percentage := v\<rparr>) (dec_float double))]"

definition zero_chain :: payout_chain where
  "zero_chain = \<lparr>pcName = [], RewardFrom = [], MinerMinimumPayment = fzero, PoolRewardRecipients = []\<rparr>"

definition chain_fields :: "payout_chain fields" where
  "chain_fields = [
     (''Name'', dec_at pcName (\<lambda>v x. x\<lparr>pcName := v\<rparr>) dec_string),
     (''reward_from'', dec_at RewardFrom (\<lambda>v x. x\<lparr>RewardFrom := v\<rparr>) dec_string),
     (''miner_min_payment'', dec_at MinerMinimumPayment (\<lambda>v x. x\<lparr>MinerMinimumPayment := v\<rparr>) (dec_float single)),
     (''pool_rewards'', dec_at PoolRewardRecipients (\<lambda>v x. x\<lparr>PoolRewardRecipients := v\<rparr>)
        (dec_list (dec_struct recipient_fields) \<lparr>rAddress = [], Percentage = fzero\<rparr>))]"

definition payouts_fields :: "PayoutsConfig fields" where
  "payouts_fields = [
     (''interval'', dec_at Interval (\<lambda>v x. x\<lparr>Interval := v\<rparr>) dec_string),
     (''scheme'', dec_at Scheme (\<lambda>v x. x\<lparr>Scheme := v\<rparr>) dec_string),
     (''chains'', dec_at Chains (\<lambda>v x. x\<lparr>Chains := v\<rparr>) (dec_map (dec_struct chain_fields) zero_chain))]"

definition sql_fields :: "sqlConfig fields" where
  "sql_fields = [
     (''host'', dec_at Host (\<lambda>v x. x\<lparr>Host := v\<rparr>) dec_string),
     (''port'', dec_at sqlPort (\<lambda>v x. x\<lparr>sqlPort := v\<rparr>) (dec_int 0 (2 ^ 64))),
     (''user'', dec_at User (\<lambda>v x. x\<lparr>User := v\<rparr>) dec_string),
     (''password'', dec_at sqlPassword (\<lambda>v x. x\<lparr>sqlPassword := v\<rparr>) dec_string),
     (''database'', dec_at Database (\<lambda>v x. x\<lparr>Database := v\<rparr>) dec_string),
     (''sslmode'', dec_at SSLMode (\<lambda>v x. x\<lparr>SSLMode := v\<rparr>) dec_string)]"

definition dec_chains :: "file_config decoder" where
  "dec_chains j x =
     (case dec_map (dec_list (dec_struct node_fields) zero_node_config) [] j (BlockchainNodes x) of
        (e, m) \<Rightarrow> (e, x\<lparr>BlockchainNodes := m,
          NodeNames := (case j of JObj kvs \<Rightarrow> NodeNames x @ map fst kvs | JNull \<Rightarrow> [] | _ \<Rightarrow> NodeNames x)\<rparr>))"

definition config_fields :: "file_config fields" where
  "config_fields = [
     (''pool_name'', dec_at PoolName (\<lambda>v x. x\<lparr>PoolName := v\<rparr>) dec_string),
     (''block_signature'', dec_at BlockSignature (\<lambda>v x. x\<lparr>BlockSignature := v\<rparr>) dec_string),
     (''blockchains'', dec_chains),
     (''port'', dec_at cfgPort (\<lambda>v x. x\<lparr>cfgPort := v\<rparr>) dec_string),
     (''max_connections'', dec_at MaxConnections (\<lambda>v x. x\<lparr>MaxConnections := v\<rparr>) (dec_int (- (2 ^ 63)) (2 ^ 63))),
     (''connection_timeout'', dec_at ConnectionTimeout (\<lambda>v x. x\<lparr>ConnectionTimeout := v\<rparr>) dec_string),
     (''pool_difficulty'', dec_at PoolDifficulty (\<lambda>v x. x\<lparr>PoolDifficulty := v\<rparr>) (dec_float double)),
     (''merged_blockchain_order'', dec_at BlockChainOrder (\<lambda>v x. x\<lparr>BlockChainOrder := v\<rparr>) (dec_list dec_string [])),
     (''share_flush_interval'', dec_at ShareFlushInterval (\<lambda>v x. x\<lparr>ShareFlushInterval := v\<rparr>) dec_string),
     (''hashrate_window'', dec_at HashrateWindow (\<lambda>v x. x\<lparr>HashrateWindow := v\<rparr>) dec_string),
     (''pool_stats_interval'', dec_at PoolStatsInterval (\<lambda>v x. x\<lparr>PoolStatsInterval := v\<rparr>) dec_string),
     (''persistence'', dec_at Persister (\<lambda>v x. x\<lparr>Persister := v\<rparr>) (dec_struct sql_fields)),
     (''api'', dec_at API (\<lambda>v x. x\<lparr>API := v\<rparr>) (dec_struct [(''port'', dec_at apiPort (\<lambda>v x. x\<lparr>apiPort := v\<rparr>) dec_string)])),
     (''payouts'', dec_at Payouts (\<lambda>v x. x\<lparr>Payouts := v\<rparr>) (dec_struct payouts_fields)),
     (''app_stats_interval'', dec_at AppStatsInterval (\<lambda>v x. x\<lparr>AppStatsInterval := v\<rparr>) dec_string)]"

definition zero_config :: file_config where
  "zero_config = \<lparr>PoolName = [], BlockSignature = [], BlockchainNodes = Map.empty, cfgPort = [], MaxConnections = 0,
     ConnectionTimeout = [], PoolDifficulty = fzero, BlockChainOrder = [], ShareFlushInterval = [], HashrateWindow = [],
     PoolStatsInterval = [], Payouts = \<lparr>Interval = [], Scheme = [], Chains = Map.empty\<rparr>, AppStatsInterval = [], NodeNames = [],
     Persister = \<lparr>Host = [], sqlPort = 0, User = [], sqlPassword = [], Database = [], SSLMode = []\<rparr>, API = \<lparr>apiPort = []\<rparr>\<rparr>"

text \<open>\<open>readFile\<close> gives the error of opening, reading or parsing, or the value in the file.  \<open>log.Fatal\<close> ends
  the program like a panic does.\<close>

definition LoadConfig :: "(string \<Rightarrow> string + json) \<Rightarrow> string \<Rightarrow> file_config res" where
  "LoadConfig readFile fileName = (case readFile fileName of
     Inl e \<Rightarrow> Panic e
   | Inr j \<Rightarrow> (case dec_struct config_fields j zero_config of
       (Some e, c) \<Rightarrow> Panic e
     | (None, c) \<Rightarrow> if NodeNames c = [] then Panic ''You need to configure coin nodes'' else Ok c))"

section \<open>The start of the program\<close>

definition connStr :: "sqlConfig \<Rightarrow> string" where
  "connStr c = ''postgres://'' @ User c @ '':'' @ sqlPassword c @ ''@'' @ Host c @ '':'' @ dec_text (nat (sqlPort c)) @ ''/'' @
     Database c @ ''?sslmode='' @ SSLMode c"

definition MakePersister :: "(string \<Rightarrow> string option) \<Rightarrow> file_config \<Rightarrow> unit res" where
  "MakePersister openDB configuration =
     (case openDB (connStr (Persister configuration)) of Some e \<Rightarrow> Err e | None \<Rightarrow> Ok ())"

text \<open>What the services are started with.\<close>

record services =
  svcConfig :: pool_config
  svcManagers :: "string \<Rightarrow> Manager option"
  hashrateWindow :: int
  statsRecordInterval :: int
  payoutInterval :: int
  appStatsInterval :: int

definition parseCommandLineOptions :: "string list \<Rightarrow> string" where
  "parseCommandLineOptions args = (case args of [] \<Rightarrow> [] | a # as \<Rightarrow> a)"

text \<open>\<open>main\<close> up to the loop it ends in.\<close>

definition main :: "(string \<Rightarrow> string + json) \<Rightarrow> (string \<Rightarrow> string option) \<Rightarrow> string list \<Rightarrow> services res" where
  "main readFile openDB args =
     (let configFileName = (if parseCommandLineOptions args = [] then ''config.json'' else parseCommandLineOptions args) in
      res_bind (LoadConfig readFile configFileName) (\<lambda>loaded.
      let configuration = pool_config.truncate loaded in
      case MakePersister openDB loaded of
        Err e \<Rightarrow> Panic e
      | Panic m \<Rightarrow> Panic m
      | Ok u \<Rightarrow>
          res_bind (makeRPCManagers configuration) (\<lambda>managers.
          res_bind (mustParseDuration (HashrateWindow configuration)) (\<lambda>window.
          res_bind (mustParseDuration (PoolStatsInterval configuration)) (\<lambda>stats.
          res_bind (mustParseDuration (Interval (Payouts configuration))) (\<lambda>payout.
          res_bind (mustParseDuration (AppStatsInterval configuration)) (\<lambda>app.
            Ok \<lparr>svcConfig = configuration, svcManagers = managers, hashrateWindow = window, statsRecordInterval = stats,
              payoutInterval = payout, appStatsInterval = app\<rparr>)))))))"


lemma mustParse_not_Err: "mustParseDuration s \<noteq> Err e"
  by (auto simp: mustParseDuration_def split: res.splits)

lemma makeRPCManagers_not_Err: "makeRPCManagers configuration \<noteq> Err e"
proof -
  have client: "NewRPCClient n url u p t \<noteq> Err e" for n url u p t e
    by (auto simp: NewRPCClient_def Let_def split: prod.splits option.splits res.splits)
  have map: "res_map f xs \<noteq> Err e" if "\<And>x e. f x \<noteq> Err e" for f :: "Config \<Rightarrow> RPCClient res" and xs e
    using that by (induction xs) (auto simp: res_bind_eq_Err)
  have manager: "MakeRPCManager chain ns t \<noteq> Err e" for chain ns t e
    using map [OF client] by (auto simp: MakeRPCManager_def res_bind_eq_Err split: res.splits)
  have "managers_loop configuration ms order \<noteq> Err e" for ms order
    by (induction order arbitrary: ms) (auto simp: res_bind_eq_Err manager)
  then show ?thesis by (simp add: makeRPCManagers_def)
qed

text \<open>C40. The program either starts all its services or ends: it never runs with an error left over.  When it
  starts, the file was read and decoded and names the nodes of at least one chain, the database was
  opened with the connection text of the configuration, there is a manager for every chain of the merge
  order and for no other, each on the first node of its chain and with a client for every node in the
  configured order, and the four intervals are the durations the configuration names.\<close>

theorem main_starts_services:
  "case main readFile openDB args of
     Ok sv \<Rightarrow>
       (\<exists>c. LoadConfig readFile (if args = [] \<or> hd args = [] then ''config.json'' else hd args) = Ok c \<and>
          svcConfig sv = pool_config.truncate c \<and> NodeNames c \<noteq> [] \<and> openDB (connStr (Persister c)) = None) \<and>
       dom (svcManagers sv) = set (BlockChainOrder (svcConfig sv)) \<and>
       (\<forall>chain m. svcManagers sv chain = Some m \<longrightarrow> mChainName m = chain \<and> activeIndex m = 0 \<and>
          map cName (clients m) = map nName (configured_nodes (svcConfig sv) chain)) \<and>
       ParseDuration (HashrateWindow (svcConfig sv)) = Ok (hashrateWindow sv) \<and>
       ParseDuration (PoolStatsInterval (svcConfig sv)) = Ok (statsRecordInterval sv) \<and>
       ParseDuration (Interval (Payouts (svcConfig sv))) = Ok (payoutInterval sv) \<and>
       ParseDuration (AppStatsInterval (svcConfig sv)) = Ok (appStatsInterval sv)
   | Err e \<Rightarrow> False
   | Panic m \<Rightarrow> True"
proof -
  define n where "n = (if args = [] \<or> hd args = [] then ''config.json'' else hd args)"
  have name: "(if parseCommandLineOptions args = [] then ''config.json'' else parseCommandLineOptions args) = n"
    by (cases args) (simp_all add: parseCommandLineOptions_def n_def)
  have parsed: "ParseDuration s = Ok d" if "mustParseDuration s = Ok d" for s d
    using that by (auto simp: mustParseDuration_def split: res.splits)
  have load: "LoadConfig readFile n \<noteq> Err e" "LoadConfig readFile n = Ok c \<Longrightarrow> NodeNames c \<noteq> []" for c e
    by (auto simp: LoadConfig_def split: sum.splits prod.splits option.splits if_splits)
  note run = main_def [of readFile openDB args, unfolded name Let_def]
  show ?thesis
  proof (cases "main readFile openDB args")
    case (Ok sv)
    then obtain c where c: "LoadConfig readFile n = Ok c" "openDB (connStr (Persister c)) = None"
        "svcConfig sv = pool_config.truncate c" "makeRPCManagers (pool_config.truncate c) = Ok (svcManagers sv)"
      and durations: "mustParseDuration (HashrateWindow (svcConfig sv)) = Ok (hashrateWindow sv)"
        "mustParseDuration (PoolStatsInterval (svcConfig sv)) = Ok (statsRecordInterval sv)"
        "mustParseDuration (Interval (Payouts (svcConfig sv))) = Ok (payoutInterval sv)"
        "mustParseDuration (AppStatsInterval (svcConfig sv)) = Ok (appStatsInterval sv)"
      by (auto simp: run outcome_simps MakePersister_def split: res.splits option.splits)
    from makeRPCManagers_covers_order [OF c(4)] load(2) [OF c(1)] c(1-3) durations [THEN parsed] show ?thesis
      unfolding Ok res.case n_def [symmetric] by (intro conjI exI [of _ c]) auto
  next
    case (Err e)
    then show ?thesis
      by (auto simp: run MakePersister_def res_bind_eq_Err load mustParse_not_Err makeRPCManagers_not_Err split: res.splits option.splits)
  qed simp
qed

text \<open>A small configuration file.\<close>

definition sample_disk :: "string \<Rightarrow> string + json" where
  "sample_disk name = (if name = ''config.json'' then Inr (JObj [
     (''pool_name'', JStr ''p''),
     (''merged_blockchain_order'', JArr [JStr ''dogecoin'']),
     (''blockchains'', JObj [(''dogecoin'', JArr [JObj [(''name'', JStr ''d0''), (''rpc_url'', JStr ''http://d''), (''timeout'', JStr ''5s'')]])]),
     (''hashrate_window'', JStr ''1h''), (''pool_stats_interval'', JStr ''5s''), (''app_stats_interval'', JStr ''5s''),
     (''persistence'', JObj [(''host'', JStr ''db''), (''port'', JInt 5432)]),
     (''payouts'', JObj [(''interval'', JStr ''5s''), (''scheme'', JStr ''PPLNS'')])]) else Inl ''no such file'')"

definition sample_loaded :: file_config where
  "sample_loaded = zero_config\<lparr>PoolName := ''p'', BlockChainOrder := [''dogecoin''],
     BlockchainNodes := [''dogecoin'' \<mapsto> [zero_node_config\<lparr>nName := ''d0'', RPC_URL := ''http://d'', nTimeout := ''5s''\<rparr>]],
     HashrateWindow := ''1h'', PoolStatsInterval := ''5s'', AppStatsInterval := ''5s'',
     Payouts := \<lparr>Interval = ''5s'', Scheme = ''PPLNS'', Chains = Map.empty\<rparr>, NodeNames := [''dogecoin''],
     Persister := \<lparr>Host = ''db'', sqlPort = 5432, User = [], sqlPassword = [], Database = [], SSLMode = []\<rparr>\<rparr>"

lemma sample_load: "LoadConfig sample_disk ''config.json'' = Ok sample_loaded"
  by (simp add: LoadConfig_def sample_disk_def sample_loaded_def config_fields_def dec_chains_def node_fields_def payouts_fields_def
      sql_fields_def dec_at_def fold_eq_def lower_char_def zero_config_def zero_node_config_def or_else_def)

lemma sample_main: "\<exists>sv. main sample_disk (\<lambda>s. None) [] = Ok sv"
proof -
  have "\<exists>ms. makeRPCManagers (pool_config.truncate sample_loaded) = Ok ms"
    by (simp add: sample_loaded_def zero_config_def zero_node_config_def makeRPCManagers_def MakeRPCManager_def configured_nodes_def
        node_rpc_config_def NewRPCClient_def parse_1h parse_5s pool_config.defs)
  then show ?thesis
    by (auto simp: main_def parseCommandLineOptions_def sample_load MakePersister_def Let_def)
      (simp add: sample_loaded_def zero_config_def pool_config.defs mustParseDuration_def parse_1h parse_5s)
qed

lemma main_starts_services_witness:
  "\<exists>sv. main sample_disk (\<lambda>s. None) [] = Ok sv \<and> dom (svcManagers sv) = {''dogecoin''} \<and>
     hashrateWindow sv = 3600000000000 \<and> payoutInterval sv = 5000000000"
proof -
  obtain sv where sv: "main sample_disk (\<lambda>s. None) [] = Ok sv" using sample_main by blast
  from main_starts_services [where readFile = sample_disk and openDB = "\<lambda>s. None" and args = "[]", unfolded sv res.case]
  have "svcConfig sv = pool_config.truncate sample_loaded" "dom (svcManagers sv) = set (BlockChainOrder (svcConfig sv))"
      "ParseDuration (HashrateWindow (svcConfig sv)) = Ok (hashrateWindow sv)"
      "ParseDuration (Interval (Payouts (svcConfig sv))) = Ok (payoutInterval sv)"
    by (auto simp: sample_load)
  then show ?thesis using sv
    by (intro exI [of _ sv]) (simp add: sample_loaded_def zero_config_def pool_config.defs parse_1h parse_5s)
qed

section \<open>The background services\<close>

text \<open>
  The payout manager, the statistics and the flush of shares run on one database, each round as a whole
  and in any order; the pool may have moved a manager to another node before a round (\<open>ms\<close>), and the
  nodes live their own life.  A round that panics ends the program and has no successor.  Nothing else
  in the program writes to the database: no code calls \<open>FoundRepository.Insert\<close>.
\<close>

inductive program_step :: "scrypt_fn \<Rightarrow> 'w transport \<Rightarrow> services \<Rightarrow> 'w world \<Rightarrow> 'w world \<Rightarrow> bool" for scrypt http sv where
  payouts: "manager_round scrypt http pageSize ord (svcConfig sv) ms s = (Ok (), s') \<Longrightarrow> program_step scrypt http sv s s'"
| statistics: "stats_round o' (PoolName (svcConfig sv)) (hashrateWindow sv) s = (Ok (), s') \<Longrightarrow> program_step scrypt http sv s s'"
| flush: "Shares_InsertBatch batch s = (r, s') \<Longrightarrow> \<forall>m. r \<noteq> Panic m \<Longrightarrow> program_step scrypt http sv s s'"
| outside: "program_step scrypt http sv s (s\<lparr>nodes := w\<rparr>)"

inductive_cases program_stepE: "program_step scrypt http sv s s'"

lemma settled_kept_stats: "keeps (settled_kept d0) (stats_round o' p w)"
proof -
  have stat: "keeps (settled_kept d0) (InsertMinerWorkerPerformanceStats st)" for st
    unfolding InsertMinerWorkerPerformanceStats_def by (intro keeps_sql tripleI) auto
  have pool: "keeps (settled_kept d0) (InsertPoolStat st)" for st
    unfolding InsertPoolStat_def by (intro keeps_sql tripleI) (auto split: if_splits)
  have insert: "keeps (settled_kept d0) (insert_stats n sts)" for n sts
    by (induction sts arbitrary: n) (auto intro!: act_rules stat)
  have miners: "keeps (settled_kept d0) (miners_loop p t f w n ms)" for p t f w n ms
    by (induction ms arbitrary: n) (auto intro!: act_rules insert simp: Let_def)
  show ?thesis
    unfolding stats_round_def insertManyNewMinerStatsAndOnePoolStat_def makeMinerStats_def makeNewPoolStat_def
      GetWorkerHashAccumulationBetween_def Let_def
    by (intro act_rules pool miners) auto
qed

lemma settled_kept_flush: "keeps (settled_kept d0) (Shares_InsertBatch batch)"
  unfolding Shares_InsertBatch_def by (intro act_rules keeps_silent keeps_sql tripleI) auto

lemma settled_kept_step: "program_step scrypt http sv s s' \<Longrightarrow> blocks_wf s \<Longrightarrow> keys_distinct s \<Longrightarrow> settled_kept s s'"
  by (erule program_stepE)
    (auto dest: manager_round_kept keepsD [OF settled_kept_stats settled_kept_refl] keepsD [OF settled_kept_flush settled_kept_refl]
      intro: settled_kept_refl)



end
