(* ===== verification/Spec2Isabelle.thy ===== *)
theory Spec2Isabelle
  imports Block Target RpcManager PoolExamples StatsProperties DashboardProperties NodeHelper Program
begin

text \<open>
  A merged-mining pool for Bitcoin-like chains, written in Go: miners connect over the Stratum protocol,
  the pool gives them work made of the templates of a primary chain and its auxiliary chains, submits
  what they solve, and shares the rewards of found blocks among them.

  \<^bold>\<open>The program.\<close>  \<open>main.go\<close> reads the configuration (\<open>config/\<close>), opens the database
  (\<open>persistence/persister.go\<close>), makes one manager of node clients per chain (\<open>rpc/\<close>) and starts four
  services that run side by side: the pool server (\<open>pool/\<close>, which builds work with \<open>bitcoin/\<close>), the
  payout manager (\<open>payouts/\<close>), the statistics (\<open>persistence/stats.go\<close>) and the pages for the miners
  (\<open>api/\<close>).  They meet in the database (\<open>persistence/\<close>) and in the managers.

  \<^bold>\<open>How code is modelled.\<close>  A function that may fail returns a \<open>res\<close>: a value, an error or a panic
  (\<open>Prelude\<close>); \<open>log.Fatal\<close> is a panic.  Code that changes state is an action \<open>('s, 'a) act\<close>, a function
  of the state to an outcome and the new state, and keeps the changes made before a failure, as Go
  does (\<open>Effects\<close>).  A Go map is a partial function, or an association list where its keys are ranged
  over; the order of a range is a parameter \<open>ord\<close>, so that what is proved holds for every order.  The
  integers of Go are words or carry their bounds; \<open>float64\<close> and \<open>float32\<close> are rationals rounded to
  the format after every operation, with infinities and NaN (\<open>Float64\<close>).

  \<^bold>\<open>The parts.\<close>
  \<^item> \<open>bitcoin/\<close>.  \<open>Encoding\<close> (hexadecimal text, byte order, CompactSize), \<open>Sha256\<close>, \<open>Chains\<close> (the five
    chains and their addresses), \<open>Merkle\<close>, \<open>Coinbase\<close>, \<open>Block\<close> (work, headers, submission, the
    auxiliary proof of work), \<open>Target\<close>.  What the pool builds is parsed again by independent
    definitions of the wire formats (the locale \<open>wire_format\<close>), so that the lemmas say that a node
    reads back what was meant.  \<open>tree_hash\<close> is the interface of the hash of a Merkle tree,
    \<open>chain_contract\<close> what the builder needs of a chain.
  \<^item> \<open>rpc/\<close>.  \<open>Rpc\<close> (requests, the decoding of replies field by field), \<open>RpcManager\<close> (the fail-over of
    a manager as operations and, with the loop back to the primary node, as the relation \<open>mgr_step\<close>),
    \<open>NodeHelper\<close> (the older client of \<open>bitcoin/rpc.go\<close> and the receipts, which nothing uses).
  \<^item> \<open>persistence/\<close>.  \<open>Database\<close> holds the tables, one record field each, and the way a statement runs:
    every statement advances \<open>tick\<close>, and \<open>faults\<close> may let the statement of any tick fail, before or
    after the server carried it out.  \<open>Balances\<close>, \<open>Shares\<close>, \<open>FoundBlocks\<close> (with the payments) and
    \<open>MinerRepo\<close> (with the statistics of the pool) have one definition per method of a repository;
    \<open>Statistics\<close> is a round of the statistics.
  \<^item> \<open>payouts/\<close>.  \<open>Settings\<close> (the configuration and the managers), \<open>Rewards\<close> (the three schemes behind
    the locale \<open>payout_scheme\<close>), \<open>Unlock\<close>, \<open>Payer\<close> and \<open>PayoutManager\<close> (one round of the manager).
    The state is a database with the nodes beside it (\<open>world\<close>).
  \<^item> \<open>pool/\<close>.  \<open>Stratum\<close> (the state of the server, messages, sessions), \<open>PoolWork\<close> (templates, work,
    broadcast), \<open>PoolServer\<close> (the handlers of requests, connections, the buffer of shares, the relation
    \<open>pool_step\<close> between whole turns), \<open>ShareWeight\<close> (the classification of a share).
  \<^item> \<open>api/\<close>.  \<open>Dashboard\<close>, with \<open>math.Log\<close> written out.
  \<^item> \<open>main.go\<close>, \<open>config/\<close>.  \<open>Program\<close>: the configuration file, the start, and the relation
    \<open>program_step\<close> of the rounds of the background services on one database.

  \<^bold>\<open>What is shown.\<close>
  \<^item> Blocks: the coinbase, the header, the Merkle root, the submission and the auxiliary proof of every
    block built from a well-formed template read back as meant, or the program panics exactly when a
    length is 253, which \<open>varUint\<close> cannot encode.
  \<^item> Money: crediting, rewarding and paying touch only the accounts they should, book what they change,
    and pay in proportion; history is final under any interleaving of the services and any failing
    statements; and where the code departs from this (a failed send after another was sent, two
    balances of one address, a reward that fails once) the departure is the theorem.
  \<^item> Fail-over: at every reachable moment a manager's index names a node, and off the primary node the
    loop back to it is running.
  \<^item> The server: only miners with valid addresses have sessions, extranonces are distinct, accepted
    submissions were checked, work reaches every session; and, as the code is, no share is ever
    recorded, one long line costs a connection for good, and a submission can end the program.
  \<^item> Statistics and pages: a round stores one row per worker with finite rates, reports and the dashboard
    agree with the ledger, the history has the last 24 hours; a miner without shares is shown nothing.

  \<^bold>\<open>Bounds and fuel.\<close>  Loops are recursions on their data.  The paging loops recurse on the shares still
  ahead and terminate because each page moves the bound down.  \<open>fresh_loop\<close>, which looks for an unused
  extranonce, may not end in Go; it is a partial function whose \<open>None\<close> is the loop that does not end, with
  the theorem that it returns exactly when the random stream still holds an unused text.  One loop takes
  a count: \<open>find_loop\<close> makes one attempt per configured node, as in the code.  The page size of the schemes
  is a parameter; the code's constant is one of its values.

  \<^bold>\<open>Parameters.\<close>  Code that is not under \<open>src/\<close>: \<open>scrypt\<close>, the HTTP transport, the parser of JSON
  texts (decoding JSON values into structures is modelled), the file system, \<open>sql.Open\<close>, the
  conversion of floats to decimals by the database driver, random numbers, the connections of the
  miners.  PostgreSQL is modelled as far as the statements of the repositories use it.

  \<^bold>\<open>Not modelled.\<close>  Sockets, deadlines and the subscription to ZeroMQ: the server sees complete lines and
  messages.  The encoding of pages as JSON.  Sleeping between rounds and the printing of memory use.
  Interleavings finer than a turn of a goroutine: a round or the handling of a line is one step, so data
  races between goroutines are outside.  The debugging output of \<open>bitcoin/\<close>.
\<close>

end
